(* ===== verification/Prelude.thy ===== *)
theory Prelude
  imports Main "HOL-Library.Sublist" "HOL-Library.Word" "HOL-Library.AList"
begin

text \<open>
  What every component shares: Go strings as byte lists with the functions of package
  \<open>strings\<close> the controller uses, instants and durations, error values, the
  early-return validation loop, and the generic step-system interface.

  Go strings are byte sequences, so a \<open>string\<close> (a list of 8-bit characters) is one
  exactly. \<open>strings.TrimSpace\<close> is modelled on the UTF-8 bytes of every rune that
  \<open>unicode.IsSpace\<close> accepts. \<open>strings.ToLower\<close> and \<open>strings.EqualFold\<close> are modelled
  on the ASCII range: they leave bytes of non-ASCII runes as they are.
\<close>

section \<open>Hint collections\<close>

named_theorems wf_simps \<open>unfolding of well-formedness predicates\<close>
named_theorems preserve \<open>operations that preserve an invariant\<close>
named_theorems frame \<open>fields an operation does not change\<close>

section \<open>Bytes and strings\<close>

definition byte :: "char \<Rightarrow> nat" where
  "byte c = of_char c"

definition nul :: char where
  "nul = CHR 0x00"

definition in_range :: "char \<Rightarrow> char \<Rightarrow> char \<Rightarrow> bool" where
  "in_range lo hi c \<longleftrightarrow> byte lo \<le> byte c \<and> byte c \<le> byte hi"

definition is_digit :: "char \<Rightarrow> bool" where
  "is_digit c = in_range (CHR ''0'') (CHR ''9'') c"

definition is_lower :: "char \<Rightarrow> bool" where
  "is_lower c = in_range (CHR ''a'') (CHR ''z'') c"

definition is_upper :: "char \<Rightarrow> bool" where
  "is_upper c = in_range (CHR ''A'') (CHR ''Z'') c"

definition is_lower_hex :: "char \<Rightarrow> bool" where
  "is_lower_hex c \<longleftrightarrow> is_digit c \<or> in_range (CHR ''a'') (CHR ''f'') c"

lemmas char_class_defs = byte_def in_range_def is_digit_def is_lower_def is_upper_def
  is_lower_hex_def nul_def

definition lower_char :: "char \<Rightarrow> char" where
  "lower_char c = (if is_upper c then char_of (byte c + 32) else c)"

definition to_lower :: "string \<Rightarrow> string" where
  "to_lower s = map lower_char s"

definition equal_fold :: "string \<Rightarrow> string \<Rightarrow> bool" where
  "equal_fold a b \<longleftrightarrow> to_lower a = to_lower b"

lemma byte_lower_char: "byte (lower_char c) = (if is_upper c then byte c + 32 else byte c)"
  by (auto simp: lower_char_def char_class_defs)

lemma is_upper_lower_char [simp]: "\<not> is_upper (lower_char c)"
  using byte_lower_char [of c] by (auto simp: is_upper_def in_range_def byte_def split: if_splits)

lemma lower_char_idem [simp]: "lower_char (lower_char c) = lower_char c"
  by (simp add: lower_char_def [of "lower_char c"])

lemma to_lower_idem [simp]: "to_lower (to_lower s) = to_lower s"
  by (simp add: to_lower_def)

lemma to_lower_Nil_iff [simp]: "to_lower s = [] \<longleftrightarrow> s = []"
  by (simp add: to_lower_def)

lemma length_to_lower [simp]: "length (to_lower s) = length s"
  by (simp add: to_lower_def)

lemma equal_fold_refl [simp]: "equal_fold a a"
  by (simp add: equal_fold_def)

lemma equal_fold_sym: "equal_fold a b \<Longrightarrow> equal_fold b a"
  by (simp add: equal_fold_def)

lemma equal_fold_trans: "equal_fold a b \<Longrightarrow> equal_fold b c \<Longrightarrow> equal_fold a c"
  by (simp add: equal_fold_def)

section \<open>Space trimming\<close>

text \<open>The UTF-8 encodings of the runes \<open>unicode.IsSpace\<close> accepts.\<close>

definition space_runes :: "string list" where
  "space_runes =
     [[CHR 0x09], [CHR 0x0A], [CHR 0x0B], [CHR 0x0C], [CHR 0x0D], [CHR 0x20],
      [CHR 0xC2, CHR 0x85], [CHR 0xC2, CHR 0xA0], [CHR 0xE1, CHR 0x9A, CHR 0x80],
      [CHR 0xE2, CHR 0x80, CHR 0x80], [CHR 0xE2, CHR 0x80, CHR 0x81],
      [CHR 0xE2, CHR 0x80, CHR 0x82], [CHR 0xE2, CHR 0x80, CHR 0x83],
      [CHR 0xE2, CHR 0x80, CHR 0x84], [CHR 0xE2, CHR 0x80, CHR 0x85],
      [CHR 0xE2, CHR 0x80, CHR 0x86], [CHR 0xE2, CHR 0x80, CHR 0x87],
      [CHR 0xE2, CHR 0x80, CHR 0x88], [CHR 0xE2, CHR 0x80, CHR 0x89],
      [CHR 0xE2, CHR 0x80, CHR 0x8A], [CHR 0xE2, CHR 0x80, CHR 0xA8],
      [CHR 0xE2, CHR 0x80, CHR 0xA9], [CHR 0xE2, CHR 0x80, CHR 0xAF],
      [CHR 0xE2, CHR 0x81, CHR 0x9F], [CHR 0xE3, CHR 0x80, CHR 0x80]]"

fun rune_at :: "string list \<Rightarrow> string \<Rightarrow> nat" where
  "rune_at [] s = 0"
| "rune_at (w # ws) s = (if prefix w s then length w else rune_at ws s)"

lemma rune_at_le: "rune_at ws s \<le> length s"
  by (induction ws) (auto simp: prefix_length_le)

lemma rune_at_pos: "0 < rune_at ws s \<Longrightarrow> \<exists>w \<in> set ws. prefix w s \<and> length w = rune_at ws s"
  by (induction ws) (auto split: if_splits)

function strip :: "string list \<Rightarrow> string \<Rightarrow> string" where
  "strip ws s = (if rune_at ws s = 0 then s else strip ws (drop (rune_at ws s) s))"
  by pat_completeness auto
termination
  by (relation "measure (\<lambda>(ws, s). length s)") (use rune_at_le in \<open>auto simp: le_less_trans\<close>,
      metis diff_less gr0I le_zero_eq rune_at_le)

declare strip.simps [simp del]

definition trim_left :: "string \<Rightarrow> string" where
  "trim_left s = strip space_runes s"

definition trim_right :: "string \<Rightarrow> string" where
  "trim_right s = rev (strip (map rev space_runes) (rev s))"

definition trim_space :: "string \<Rightarrow> string" where
  "trim_space s = trim_right (trim_left s)"

definition blank :: "string \<Rightarrow> bool" where
  "blank s \<longleftrightarrow> trim_space s = []"

text \<open>A visible ASCII byte never starts or ends the encoding of a space rune.\<close>

definition graphic :: "char \<Rightarrow> bool" where
  "graphic c \<longleftrightarrow> 33 \<le> byte c \<and> byte c \<le> 126"

lemma rune_at_heads:
  assumes "\<forall>w \<in> set ws. w \<noteq> [] \<and> \<not> graphic (hd w)" and "graphic c"
  shows "rune_at ws (c # s) = 0"
  using assms by (induction ws) (auto simp: prefix_Cons)

lemma space_runes_heads: "\<forall>w \<in> set space_runes. w \<noteq> [] \<and> \<not> graphic (hd w)"
  by (simp add: space_runes_def graphic_def byte_def)

lemma space_runes_lasts: "\<forall>w \<in> set (map rev space_runes). w \<noteq> [] \<and> \<not> graphic (hd w) \<and> \<not> graphic (last w)"
  by (simp add: space_runes_def graphic_def byte_def)

lemma strip_graphic [simp]: "graphic c \<Longrightarrow> strip space_runes (c # s) = c # s"
  by (subst strip.simps) (simp add: rune_at_heads space_runes_heads)

lemma strip_rev_step:
  assumes "graphic c"
  shows "rune_at (map rev space_runes) (xs @ [c]) \<le> length xs"
proof (rule ccontr)
  let ?n = "rune_at (map rev space_runes) (xs @ [c])"
  assume "\<not> ?n \<le> length xs"
  then have n: "?n = length (xs @ [c])"
    using rune_at_le [of "map rev space_runes" "xs @ [c]"] by simp
  then obtain w where w: "w \<in> set (map rev space_runes)" "prefix w (xs @ [c])" "length w = length (xs @ [c])"
    using rune_at_pos [of "map rev space_runes" "xs @ [c]"] by (metis length_append_singleton zero_less_Suc)
  from w(2) obtain zs where zs: "xs @ [c] = w @ zs" by (auto simp: prefix_def)
  with w(3) have "length zs = 0" by (metis add_cancel_right_right length_append)
  with zs have "w = xs @ [c]" by simp
  with w(1) space_runes_lasts assms show False by (metis last_snoc)
qed

lemma strip_rev_graphic: "graphic c \<Longrightarrow> \<exists>u. strip (map rev space_runes) (xs @ [c]) = u @ [c]"
proof (induction "length xs" arbitrary: xs rule: less_induct)
  case less
  let ?n = "rune_at (map rev space_runes) (xs @ [c])"
  show ?case
  proof (cases "?n = 0")
    case True
    then show ?thesis by (subst strip.simps) auto
  next
    case False
    have n: "?n \<le> length xs" using less.prems by (rule strip_rev_step)
    then have d: "drop ?n (xs @ [c]) = drop ?n xs @ [c]" by simp
    from n False have "length (drop ?n xs) < length xs" by simp
    from less.hyps [OF this less.prems] obtain u
      where "strip (map rev space_runes) (drop ?n xs @ [c]) = u @ [c]" by blast
    with False d show ?thesis by (subst strip.simps) simp
  qed
qed

lemma trim_space_graphic:
  assumes "graphic c"
  shows "\<exists>u. trim_space (c # s) = c # u"
proof -
  obtain u where "strip (map rev space_runes) (rev s @ [c]) = u @ [c]"
    using strip_rev_graphic [OF assms] by blast
  with assms show ?thesis by (simp add: trim_space_def trim_right_def trim_left_def)
qed

lemma blank_graphic [simp]: "graphic c \<Longrightarrow> \<not> blank (c # s)"
  using trim_space_graphic [of c s] by (auto simp: blank_def)

lemma blank_Nil [simp]: "blank []"
  by (simp add: blank_def trim_space_def trim_right_def trim_left_def strip.simps space_runes_def)

lemma not_blank_nonempty: "\<not> blank s \<Longrightarrow> s \<noteq> []"
  by auto

section \<open>Splitting\<close>

text \<open>\<open>strings.Split\<close> with a one-byte separator: never empty, pieces hold no separator.\<close>

fun split_on :: "char \<Rightarrow> string \<Rightarrow> string list" where
  "split_on d [] = [[]]"
| "split_on d (c # s) =
     (if c = d then [] # split_on d s
      else (case split_on d s of [] \<Rightarrow> [[c]] | p # ps \<Rightarrow> (c # p) # ps))"

lemma split_on_nonempty [simp]: "split_on d s \<noteq> []"
  by (induction s) (auto split: list.splits)

lemma split_on_pieces: "p \<in> set (split_on d s) \<Longrightarrow> d \<notin> set p"
proof (induction s arbitrary: p)
  case Nil
  then show ?case by simp
next
  case (Cons c s)
  then show ?case by (cases "split_on d s") (auto split: if_splits)
qed

lemma split_on_no_sep: "d \<notin> set s \<Longrightarrow> split_on d s = [s]"
  by (induction s) auto

section \<open>Decimal output\<close>

text \<open>Decimal output of \<open>%d\<close>.\<close>

function dec_nat :: "nat \<Rightarrow> string" where
  "dec_nat n = (if n < 10 then [char_of (48 + n)] else dec_nat (n div 10) @ [char_of (48 + n mod 10)])"
  by pat_completeness auto
termination
  by (relation "measure id") auto

declare dec_nat.simps [simp del]

definition dec_int :: "int \<Rightarrow> string" where
  "dec_int i = (if i < 0 then ''-'' @ dec_nat (nat (- i)) else dec_nat (nat i))"

section \<open>Instants and durations\<close>

text \<open>
  An instant is the number of nanoseconds since Go's zero time, so \<open>IsZero\<close> is
  equality with 0 and \<open>Before\<close>, \<open>After\<close> and \<open>Equal\<close> are the order on integers.
  \<open>UTC()\<close> changes the location, never the instant. A \<open>time.Duration\<close> counts nanoseconds.
\<close>

type_synonym time = int
type_synonym duration = int

definition is_zero_time :: "time \<Rightarrow> bool" where
  "is_zero_time t \<longleftrightarrow> t = 0"

abbreviation (input) second :: duration where "second \<equiv> 1000000000"
abbreviation (input) minute :: duration where "minute \<equiv> 60000000000"
abbreviation (input) hour :: duration where "hour \<equiv> 3600000000000"

text \<open>\<open>UnixNano\<close> on the years 1678 to 2262, where its result fits an \<open>int64\<close>.\<close>

definition unix_nano :: "time \<Rightarrow> int" where
  "unix_nano t = t - 62135596800 * 1000000000"

text \<open>\<open>time.Unix(0, n)\<close>.\<close>

definition from_unix_nano :: "int \<Rightarrow> time" where
  "from_unix_nano n = n + 62135596800 * 1000000000"

lemma from_unix_nano_inverse [simp]: "from_unix_nano (unix_nano t) = t"
  by (simp add: from_unix_nano_def unix_nano_def)

lemma unix_nano_less_iff [simp]: "unix_nano a < unix_nano b \<longleftrightarrow> a < b"
  by (simp add: unix_nano_def)

lemma unix_nano_le_iff [simp]: "unix_nano a \<le> unix_nano b \<longleftrightarrow> a \<le> b"
  by (simp add: unix_nano_def)

lemma unix_nano_eq_iff [simp]: "unix_nano a = unix_nano b \<longleftrightarrow> a = b"
  by (simp add: unix_nano_def)

section \<open>Errors\<close>

datatype error_category =
  ErrorInvalidInput | ErrorConflict | ErrorNotFound | ErrorUnavailable | ErrorInternal

datatype go_arg = AStr string | AInt int

text \<open>
  An error value: \<open>errors.New\<close>, \<open>fmt.Errorf\<close> with its operands, \<open>fmt.Errorf\<close> that wraps
  another error with \<open>%w\<close>, the service error of the application layer with its
  optional cause, and \<open>errors.Join\<close> of two errors.
\<close>

datatype go_error =
    New string
  | Errorf string "go_arg list"
  | Wrapf string "go_arg list" go_error
  | ServiceErr error_category string "go_error option"
  | Joined go_error go_error

type_synonym 'a result = "go_error + 'a"

text \<open>
  \<open>error\<close> results are options: \<open>None\<close> is \<open>nil\<close>. The loop
  \<open>for _, x := range xs { if err := f(x); err != nil { return err } }\<close>
  returns the first error.
\<close>

fun first_error :: "('a \<Rightarrow> go_error option) \<Rightarrow> 'a list \<Rightarrow> go_error option" where
  "first_error f [] = None"
| "first_error f (x # xs) = (case f x of None \<Rightarrow> first_error f xs | Some e \<Rightarrow> Some e)"

lemma first_error_None_iff [simp]: "first_error f xs = None \<longleftrightarrow> (\<forall>x \<in> set xs. f x = None)"
  by (induction xs) (auto split: option.splits)

lemma first_error_append:
  "first_error f (xs @ ys) = (case first_error f xs of None \<Rightarrow> first_error f ys | Some e \<Rightarrow> Some e)"
  by (induction xs) (simp_all del: first_error_None_iff split: option.split)

text \<open>Two checks in sequence: the second runs only when the first passed.\<close>

definition and_then :: "go_error option \<Rightarrow> go_error option \<Rightarrow> go_error option" where
  "and_then a b = (case a of None \<Rightarrow> b | Some e \<Rightarrow> Some e)"

lemma and_then_None_iff [simp]: "and_then a b = None \<longleftrightarrow> a = None \<and> b = None"
  by (auto simp: and_then_def split: option.splits)

lemma and_then_None_left [simp]: "and_then None b = b"
  by (simp add: and_then_def)

definition wrap :: "string \<Rightarrow> go_arg list \<Rightarrow> go_error option \<Rightarrow> go_error option" where
  "wrap fmt args r = map_option (Wrapf fmt args) r"

lemma wrap_None_iff [simp]: "wrap fmt args r = None \<longleftrightarrow> r = None"
  by (simp add: wrap_def)

definition join_error :: "go_error option \<Rightarrow> go_error \<Rightarrow> go_error option" where
  "join_error r e = Some (case r of None \<Rightarrow> e | Some r' \<Rightarrow> Joined r' e)"

definition ok :: "go_error option \<Rightarrow> bool" where
  "ok r \<longleftrightarrow> r = None"

section \<open>Indexed iteration and first duplicates\<close>

fun enumerate_from :: "nat \<Rightarrow> 'a list \<Rightarrow> (nat \<times> 'a) list" where
  "enumerate_from n [] = []"
| "enumerate_from n (x # xs) = (n, x) # enumerate_from (Suc n) xs"

lemma snd_enumerate_from [simp]: "snd ` set (enumerate_from n xs) = set xs"
  by (induction xs arbitrary: n) auto

lemma ball_enumerate_from: "(\<forall>(i, x) \<in> set (enumerate_from n xs). P x) \<longleftrightarrow> (\<forall>x \<in> set xs. P x)"
  by (induction xs arbitrary: n) auto

section \<open>Maps built by a loop\<close>

text \<open>
  \<open>for _, x := range xs { if p(x) { m[key(x)] = x } }\<close>: the entry of a key is the last
  element with that key.
\<close>

definition index_by :: "('a \<Rightarrow> bool) \<Rightarrow> ('a \<Rightarrow> 'k) \<Rightarrow> 'a list \<Rightarrow> ('k \<times> 'a) list" where
  "index_by P key xs = foldl (\<lambda>m x. if P x then AList.update (key x) x m else m) [] xs"

lemma map_of_index_by: "map_of (index_by P key xs) k = find (\<lambda>x. P x \<and> key x = k) (rev xs)"
  unfolding index_by_def by (induction xs rule: rev_induct) (auto simp: update_conv')

lemma distinct_index_by [simp]: "distinct (map fst (index_by P key xs))"
  unfolding index_by_def by (induction xs rule: rev_induct) (auto simp: distinct_update)

lemma index_by_Some: "map_of (index_by P key xs) k = Some x \<Longrightarrow> x \<in> set xs \<and> P x \<and> key x = k"
proof -
  assume "map_of (index_by P key xs) k = Some x"
  then have "find (\<lambda>x. P x \<and> key x = k) (rev xs) = Some x" by (simp only: map_of_index_by)
  then obtain i where "i < length (rev xs)" "P (rev xs ! i)" "key (rev xs ! i) = k" "x = rev xs ! i"
    by (auto simp: find_Some_iff)
  then show ?thesis by (metis nth_mem set_rev)
qed

lemma index_by_dom: "x \<in> set xs \<Longrightarrow> P x \<Longrightarrow> map_of (index_by P key xs) (key x) \<noteq> None"
  unfolding map_of_index_by by (auto simp: find_None_iff)

lemma index_by_distinct:
  assumes "x \<in> set xs" and "P x" and "distinct (map key xs)"
  shows "map_of (index_by P key xs) (key x) = Some x"
proof -
  from index_by_dom [of x xs P key, OF assms(1,2)] obtain y
    where y: "map_of (index_by P key xs) (key x) = Some y" by blast
  from index_by_Some [OF y] assms(1,3) have "y = x" by (auto simp: distinct_map inj_on_def)
  with y show ?thesis by simp
qed

section \<open>Step systems\<close>

text \<open>
  The reachable states of a step relation, and the interface every component with an
  invariant provides: the invariant holds at the start and each step keeps it.
\<close>

inductive reachable :: "('s \<Rightarrow> bool) \<Rightarrow> ('s \<Rightarrow> 's \<Rightarrow> bool) \<Rightarrow> 's \<Rightarrow> bool"
  for init step where
  reachable_init: "init s \<Longrightarrow> reachable init step s"
| reachable_step: "reachable init step s \<Longrightarrow> step s t \<Longrightarrow> reachable init step t"

inductive path :: "('s \<Rightarrow> 's \<Rightarrow> bool) \<Rightarrow> 's \<Rightarrow> 's list \<Rightarrow> 's \<Rightarrow> bool" for step where
  path_Nil: "path step s [] s"
| path_Cons: "step s t \<Longrightarrow> path step t ts u \<Longrightarrow> path step s (t # ts) u"

inductive_cases path_NilE [elim!]: "path step s [] u"
inductive_cases path_ConsE: "path step s (t # ts) u"

lemma path_append:
  "path step s xs t \<Longrightarrow> path step t ys u \<Longrightarrow> path step s (xs @ ys) u"
  by (induction rule: path.induct) (auto intro: path.intros)

lemma reachable_path: "reachable init step s \<Longrightarrow> path step s ts t \<Longrightarrow> reachable init step t"
proof (rotate_tac, induction rule: path.induct)
  case (path_Nil s)
  then show ?case .
next
  case (path_Cons s t ts u)
  then show ?case by (blast intro: reachable_step)
qed

locale invariant_system =
  fixes init :: "'s \<Rightarrow> bool" and step :: "'s \<Rightarrow> 's \<Rightarrow> bool" and inv :: "'s \<Rightarrow> bool"
  assumes inv_init: "init s \<Longrightarrow> inv s"
    and inv_step: "inv s \<Longrightarrow> step s t \<Longrightarrow> inv t"
begin

lemma reachable_inv: "reachable init step s \<Longrightarrow> inv s"
  by (induction rule: reachable.induct) (auto intro: inv_init inv_step)

lemma path_inv: "path step s ts t \<Longrightarrow> inv s \<Longrightarrow> inv t"
  by (induction rule: path.induct) (auto intro: inv_step)

lemma path_inv_all: "path step s ts t \<Longrightarrow> inv s \<Longrightarrow> x \<in> set ts \<Longrightarrow> inv x"
  by (induction rule: path.induct) (auto intro: inv_step)

end

text \<open>
  A lifecycle whose steps raise a rank: it never returns to an earlier phase and its
  runs are no longer than the rank's range.
\<close>

locale ranked_lifecycle =
  fixes advances :: "'p \<Rightarrow> 'p \<Rightarrow> bool" and rank :: "'p \<Rightarrow> nat" and top :: nat
  assumes advance_rank: "advances p q \<Longrightarrow> rank p < rank q"
    and rank_top: "rank p \<le> top"
begin

lemma path_rank: "path advances p qs q \<Longrightarrow> rank p + length qs \<le> rank q"
  by (induction rule: path.induct) (auto dest: advance_rank)

lemma no_return: "path advances p qs q \<Longrightarrow> p \<in> set qs \<Longrightarrow> False"
proof -
  assume p: "path advances p qs q" and i: "p \<in> set qs"
  have "\<forall>x \<in> set qs. rank p < rank x" using p
    by (induction rule: path.induct) (auto dest!: advance_rank intro: less_trans)
  with i show False by blast
qed

lemma path_bounded: "path advances p qs q \<Longrightarrow> length qs \<le> top"
  using path_rank rank_top by (metis add_leD2 le_trans)

end

end
