(* ===== verification/Contracts.thy ===== *)
theory Contracts
  imports Prelude
begin

text \<open>
  The contracts of \<open>internal/domain/contracts.go\<close>: the coding task, the agent outcome with
  its decision request, and the review outcome with its findings and dispositions, each with
  the validation that guards it. Validation results are \<open>None\<close> for \<open>nil\<close>.
\<close>

section \<open>Coding tasks\<close>

record task_policy =
  pol_HumanApprovalRequired :: bool
  pol_MergeMethod :: string
  pol_MaxRepairAttempts :: int
  pol_AllowScopeExpansion :: bool
  pol_CreateDerivedIssues :: bool

definition DefaultMaxRepairAttempts :: int where
  "DefaultMaxRepairAttempts = 3"

record coding_task =
  task_RunID :: string
  task_IssueID :: string
  task_IssueURL :: string
  task_Title :: string
  task_Description :: string
  task_Repository :: string
  task_BaseBranch :: string
  task_WorkingBranch :: string
  task_Goal :: string
  task_AcceptanceCriteria :: "string list"
  task_OutOfScope :: "string list"
  task_VerifierIDs :: "string list"
  task_Policy :: task_policy
  task_SourceRevision :: string
  task_CreatedAt :: time

fun validVerifierID_from :: "nat \<Rightarrow> string \<Rightarrow> bool" where
  "validVerifierID_from index [] = True"
| "validVerifierID_from index (c # cs) =
     (if is_lower c \<or> is_digit c then validVerifierID_from (Suc index) cs
      else if index > 0 \<and> (c = CHR ''-'' \<or> c = CHR ''_'') then validVerifierID_from (Suc index) cs
      else False)"

definition validVerifierID :: "string \<Rightarrow> bool" where
  "validVerifierID value = (if value = [] then False else validVerifierID_from 0 value)"

definition ValidateVerifierID :: "string \<Rightarrow> go_error option" where
  "ValidateVerifierID value =
     (if \<not> validVerifierID value then Some (Errorf ''invalid verifier ID: %q'' [AStr value])
      else None)"

definition branch_char_ok :: "char \<Rightarrow> bool" where
  "branch_char_ok c \<longleftrightarrow>
     \<not> (byte c < 32 \<or> byte c = 127 \<or> c \<in> set '' ~^:?*['' \<or> c = CHR 0x5C)"

definition branch_component_ok :: "string \<Rightarrow> bool" where
  "branch_component_ok p \<longleftrightarrow> \<not> (p = [] \<or> prefix ''.'' p \<or> suffix ''.lock'' p)"

definition validGitBranch :: "string \<Rightarrow> bool" where
  "validGitBranch value =
     (if value = [] \<or> prefix ''-'' value \<or> prefix ''/'' value \<or> suffix ''/'' value \<or>
         suffix ''.'' value \<or> suffix ''.lock'' value \<or> sublist ''..'' value \<or>
         sublist [CHR ''@'', CHR ''{''] value \<or> sublist ''//'' value
      then False
      else if \<exists>c \<in> set value. \<not> branch_char_ok c then False
      else \<forall>p \<in> set (split_on (CHR ''/'') value). branch_component_ok p)"

definition ValidateGitBranch :: "string \<Rightarrow> go_error option" where
  "ValidateGitBranch value =
     (if \<not> validGitBranch value then Some (New ''unsafe Git branch name'') else None)"

definition blankItem :: "string list \<Rightarrow> bool" where
  "blankItem values \<longleftrightarrow> (\<exists>v \<in> set values. blank v)"

definition task_required_fields :: "coding_task \<Rightarrow> (string \<times> string) list" where
  "task_required_fields t =
     [(''run_id'', task_RunID t), (''issue_id'', task_IssueID t), (''title'', task_Title t),
      (''repository'', task_Repository t), (''base_branch'', task_BaseBranch t),
      (''working_branch'', task_WorkingBranch t), (''goal'', task_Goal t),
      (''source_revision'', task_SourceRevision t)]"

definition missing_task_fields :: "coding_task \<Rightarrow> string list" where
  "missing_task_fields t = map fst (filter (\<lambda>(name, v). blank v) (task_required_fields t))"

definition CodingTask_Validate :: "coding_task \<Rightarrow> go_error option" where
  "CodingTask_Validate t =
     (if missing_task_fields t \<noteq> []
      then Some (Errorf ''missing required task fields: %s'' (map AStr (missing_task_fields t)))
      else if \<not> validGitBranch (task_BaseBranch t)
      then Some (New ''base_branch is not a safe Git branch name'')
      else if \<not> validGitBranch (task_WorkingBranch t)
      then Some (New ''working_branch is not a safe Git branch name'')
      else if task_AcceptanceCriteria t = []
      then Some (New ''acceptance_criteria must not be empty'')
      else if blankItem (task_AcceptanceCriteria t)
      then Some (New ''acceptance_criteria items must not be blank'')
      else if task_VerifierIDs t = []
      then Some (New ''verifier_ids must not be empty'')
      else and_then (first_error ValidateVerifierID (task_VerifierIDs t))
       (if \<not> pol_HumanApprovalRequired (task_Policy t)
        then Some (New ''MVP requires human approval'')
        else if pol_MergeMethod (task_Policy t) \<noteq> ''squash''
        then Some (New ''MVP requires squash merge'')
        else if pol_AllowScopeExpansion (task_Policy t)
        then Some (New ''MVP does not allow silent scope expansion'')
        else if pol_MaxRepairAttempts (task_Policy t) < 0
        then Some (New ''max_repair_attempts must not be negative'')
        else None))"

section \<open>Agent outcomes\<close>

datatype agent_status =
  AgentCompleted | AgentNeedsHumanDecision | AgentBlocked | AgentFailed | AgentOther string

record decision_option =
  opt_ID :: string
  opt_Description :: string

record decision_request =
  req_Question :: string
  req_Context :: string
  req_Options :: "decision_option list"
  req_Recommendation :: string
  req_BlockingReason :: string

record agent_outcome =
  out_Status :: agent_status
  out_Summary :: string
  out_DecisionRequest :: "decision_request option"
  out_DiscoveredIssues :: "string list"
  out_SuggestedChecks :: "string list"
  out_ImplementationSHA :: "string option"

definition require_not_blank :: "string \<times> string \<Rightarrow> go_error option" where
  "require_not_blank nv =
     (if blank (snd nv) then Some (Errorf ''%s must not be blank'' [AStr (fst nv)]) else None)"

text \<open>The option loop, with the set of trimmed IDs seen so far.\<close>

fun check_options :: "string list \<Rightarrow> decision_option list \<Rightarrow> go_error + string list" where
  "check_options seen [] = Inr seen"
| "check_options seen (opt # opts) =
     (let id = trim_space (opt_ID opt) in
      if id = [] \<or> blank (opt_Description opt)
      then Inl (New ''decision option ID and description must not be blank'')
      else if id \<in> set seen
      then Inl (Errorf ''duplicate decision option ID: %s'' [AStr id])
      else check_options (id # seen) opts)"

definition DecisionRequest_Validate :: "decision_request \<Rightarrow> go_error option" where
  "DecisionRequest_Validate r =
     and_then
       (first_error require_not_blank
          [(''question'', req_Question r), (''context'', req_Context r),
           (''recommendation'', req_Recommendation r),
           (''blocking_reason'', req_BlockingReason r)])
       (if length (req_Options r) < 2
        then Some (New ''at least two decision options are required'')
        else case check_options [] (req_Options r) of
          Inl e \<Rightarrow> Some e
        | Inr seen \<Rightarrow>
            (if trim_space (req_Recommendation r) \<notin> set seen
             then Some (New ''recommendation must reference a decision option ID'')
             else None))"

definition AgentOutcome_Validate :: "agent_outcome \<Rightarrow> go_error option" where
  "AgentOutcome_Validate out =
     and_then
       (case out_Status out of
          AgentNeedsHumanDecision \<Rightarrow>
            (case out_DecisionRequest out of
               None \<Rightarrow> Some (New ''needs_human_decision requires decision_request'')
             | Some r \<Rightarrow> wrap ''invalid decision_request: %w'' [] (DecisionRequest_Validate r))
        | AgentOther s \<Rightarrow> Some (Errorf ''unknown agent status: %q'' [AStr s])
        | _ \<Rightarrow>
            (if out_DecisionRequest out \<noteq> None
             then Some (New ''decision_request is only valid for needs_human_decision'')
             else None))
       (if blank (out_Summary out)
        then Some (New ''agent outcome summary must not be empty'') else None)"

section \<open>Review outcomes\<close>

datatype review_verdict = ReviewPass | ReviewFindings | ReviewFailed | ReviewOther string

datatype disposition_status =
    ReviewFindingAddressed | ReviewFindingNotAddressed | ReviewFindingUncertain
  | ReviewFindingOther string

definition ReviewOutcomeSchemaVersion :: int where
  "ReviewOutcomeSchemaVersion = 2"

record review_finding =
  fnd_ID :: string
  fnd_Severity :: string
  fnd_Title :: string
  fnd_Body :: string
  fnd_File :: "string option"
  fnd_Line :: "int option"

record finding_disposition =
  dsp_Source :: string
  dsp_SourceID :: string
  dsp_BodyDigest :: string
  dsp_Status :: disposition_status
  dsp_Summary :: string

record review_outcome =
  rev_SchemaVersion :: int
  rev_Verdict :: review_verdict
  rev_Summary :: string
  rev_ReviewedHeadSHA :: string
  rev_Findings :: "review_finding list"
  rev_Dispositions :: "finding_disposition list"

definition ReviewFinding_Validate :: "review_finding \<Rightarrow> go_error option" where
  "ReviewFinding_Validate f =
     and_then
       (first_error require_not_blank
          [(''id'', fnd_ID f), (''severity'', fnd_Severity f), (''title'', fnd_Title f),
           (''body'', fnd_Body f)])
       (if fnd_Severity f \<notin> {''critical'', ''high'', ''medium'', ''low''}
        then Some (Errorf ''unknown severity: %q'' [AStr (fnd_Severity f)])
        else if (case fnd_File f of None \<Rightarrow> False | Some file \<Rightarrow> blank file)
        then Some (New ''file must be null or non-blank'')
        else (case fnd_Line f of
                None \<Rightarrow> None
              | Some line \<Rightarrow>
                  (if line < 1 then Some (New ''line must be positive'')
                   else if fnd_File f = None then Some (New ''line requires file'')
                   else None)))"

definition require_not_blank_no_nul :: "string \<times> string \<Rightarrow> go_error option" where
  "require_not_blank_no_nul nv =
     (if blank (snd nv) \<or> nul \<in> set (snd nv)
      then Some (Errorf ''%s must not be blank or contain NUL'' [AStr (fst nv)]) else None)"

definition Disposition_Validate :: "finding_disposition \<Rightarrow> go_error option" where
  "Disposition_Validate d =
     and_then
       (first_error require_not_blank_no_nul
          [(''source'', dsp_Source d), (''source_id'', dsp_SourceID d),
           (''body_digest'', dsp_BodyDigest d), (''summary'', dsp_Summary d)])
       (if length (dsp_BodyDigest d) \<noteq> 64
        then Some (New ''body_digest must be a SHA-256 digest'')
        else if \<exists>c \<in> set (dsp_BodyDigest d). \<not> is_lower_hex c
        then Some (New ''body_digest must be lowercase hexadecimal'')
        else (case dsp_Status d of
                ReviewFindingOther s \<Rightarrow> Some (Errorf ''unknown disposition status: %q'' [AStr s])
              | _ \<Rightarrow> None))"

definition disposition_key :: "finding_disposition \<Rightarrow> string" where
  "disposition_key d = dsp_Source d @ [nul] @ dsp_SourceID d @ [nul] @ dsp_BodyDigest d"

fun check_dispositions ::
  "string list \<Rightarrow> (nat \<times> finding_disposition) list \<Rightarrow> go_error option" where
  "check_dispositions seen [] = None"
| "check_dispositions seen ((index, d) # ds) =
     (case Disposition_Validate d of
        Some e \<Rightarrow> Some (Wrapf ''invalid expected finding disposition %d: %w'' [AInt (int index)] e)
      | None \<Rightarrow>
          (if disposition_key d \<in> set seen
           then Some (New ''duplicate expected finding disposition'')
           else check_dispositions (disposition_key d # seen) ds))"

definition ReviewOutcome_Validate :: "review_outcome \<Rightarrow> go_error option" where
  "ReviewOutcome_Validate out =
     (if rev_SchemaVersion out \<noteq> 0 \<and> rev_SchemaVersion out \<noteq> ReviewOutcomeSchemaVersion
      then Some (Errorf ''unsupported review outcome schema version: %d'' [AInt (rev_SchemaVersion out)])
      else if blank (rev_ReviewedHeadSHA out)
      then Some (New ''reviewed_head_sha must not be empty'')
      else if blank (rev_Summary out)
      then Some (New ''review summary must not be empty'')
      else and_then
        (case rev_Verdict out of
           ReviewPass \<Rightarrow>
             (if rev_Findings out \<noteq> [] then Some (New ''pass verdict must not contain findings'')
              else None)
         | ReviewFindings \<Rightarrow>
             (if rev_Findings out = []
              then Some (New ''findings verdict requires at least one finding'')
              else first_error
                     (\<lambda>(index, f). wrap ''invalid finding %d: %w'' [AInt (int index)]
                        (ReviewFinding_Validate f))
                     (enumerate_from 0 (rev_Findings out)))
         | ReviewFailed \<Rightarrow> None
         | ReviewOther v \<Rightarrow> Some (Errorf ''unknown review verdict: %q'' [AStr v]))
        (check_dispositions [] (enumerate_from 0 (rev_Dispositions out))))"

section \<open>Verifier identifiers and branch names\<close>

definition verifier_char :: "char \<Rightarrow> bool" where
  "verifier_char c \<longleftrightarrow> is_lower c \<or> is_digit c \<or> c = CHR ''-'' \<or> c = CHR ''_''"

lemma validVerifierID_from_Suc: "validVerifierID_from (Suc n) cs \<longleftrightarrow> (\<forall>c \<in> set cs. verifier_char c)"
  by (induction cs arbitrary: n) (auto simp: verifier_char_def)

lemma split_on_Cons_sep: "d \<in> set s \<Longrightarrow> \<exists>a b. s = a @ d # b \<and> split_on d s = a # split_on d b"
proof (induction s)
  case Nil
  then show ?case by simp
next
  case (Cons c s)
  show ?case
  proof (cases "c = d")
    case True
    then show ?thesis by (intro exI [of _ "[]"] exI [of _ s]) simp
  next
    case False
    with Cons obtain a b where "s = a @ d # b" "split_on d s = a # split_on d b" by auto
    with False show ?thesis by (intro exI [of _ "c # a"] exI [of _ b]) simp
  qed
qed

lemma split_on_append: "split_on d (a @ d # b) = split_on d a @ split_on d b"
  by (induction a) (auto split: list.splits)

lemma split_on_empty_piece_double: "sublist [d, d] s \<Longrightarrow> [] \<in> set (split_on d s)"
proof -
  assume "sublist [d, d] s"
  then obtain a b where "s = a @ d # (d # b)" by (auto simp: sublist_def)
  then have "split_on d s = split_on d a @ ([] # split_on d b)" by (simp add: split_on_append)
  then show ?thesis by simp
qed

lemma split_on_prefix_sep: "prefix [d] s \<Longrightarrow> [] \<in> set (split_on d s)"
  by (auto simp: prefix_def)

lemma split_on_suffix_sep: "suffix [d] s \<Longrightarrow> [] \<in> set (split_on d s)"
  by (auto simp: suffix_def split_on_append)

lemma last_split_on_suffix:
  "d \<notin> set w \<Longrightarrow> suffix w s \<Longrightarrow> suffix w (last (split_on d s))"
proof (induction "length s" arbitrary: s rule: less_induct)
  case less
  show ?case
  proof (cases "d \<in> set s")
    case False
    with less.prems show ?thesis by (simp add: split_on_no_sep)
  next
    case True
    then obtain a b where ab: "s = a @ d # b" "split_on d s = a # split_on d b"
      using split_on_Cons_sep by blast
    have "suffix w b"
    proof (rule ccontr)
      assume "\<not> suffix w b"
      with less.prems(2) ab(1) have "suffix (d # b) w"
        by (metis suffix_Cons suffix_appendI suffix_order.order_refl suffix_same_cases)
      with less.prems(1) show False by (auto simp: suffix_def)
    qed
    with less.hyps [of b] less.prems(1) ab show ?thesis by simp
  qed
qed

text \<open>The safety check of Git branch names is the short rule it stands for: the checks on
  leading, trailing and doubled slashes and on a trailing \<open>.lock\<close> follow from the check of every
  path component.\<close>

theorem validGitBranch_rule:
  "validGitBranch v \<longleftrightarrow>
     v \<noteq> [] \<and> hd v \<noteq> CHR ''-'' \<and> last v \<noteq> CHR ''.'' \<and>
     \<not> sublist ''..'' v \<and> \<not> sublist [CHR ''@'', CHR ''{''] v \<and>
     (\<forall>c \<in> set v. branch_char_ok c) \<and>
     (\<forall>p \<in> set (split_on (CHR ''/'') v).
        p \<noteq> [] \<and> hd p \<noteq> CHR ''.'' \<and> \<not> suffix ''.lock'' p)"
proof -
  have comp: "branch_component_ok p \<longleftrightarrow> p \<noteq> [] \<and> hd p \<noteq> CHR ''.'' \<and> \<not> suffix ''.lock'' p" for p
    by (cases p) (auto simp: branch_component_ok_def)
  have hd_dash: "v \<noteq> [] \<Longrightarrow> prefix ''-'' v \<longleftrightarrow> hd v = CHR ''-''"
    by (cases v) auto
  have last_dot: "v \<noteq> [] \<Longrightarrow> suffix ''.'' v \<longleftrightarrow> last v = CHR ''.''"
    by (auto simp: suffix_def) (metis append_butlast_last_id)
  have "suffix ''.lock'' v \<Longrightarrow> suffix ''.lock'' (last (split_on (CHR ''/'') v))"
    by (rule last_split_on_suffix) simp_all
  then have lock: "suffix ''.lock'' v \<Longrightarrow> \<exists>p \<in> set (split_on (CHR ''/'') v). suffix ''.lock'' p"
    using last_in_set [OF split_on_nonempty] by blast
  show ?thesis
    unfolding validGitBranch_def comp
    using hd_dash last_dot lock split_on_prefix_sep [of "CHR ''/''" v]
      split_on_suffix_sep [of "CHR ''/''" v] split_on_empty_piece_double [of "CHR ''/''" v]
    by (cases "v = []") auto
qed

theorem validGitBranch_rule_witness:
  "validGitBranch ''agent/IFAN-1'' \<and> \<not> validGitBranch ''a//b'' \<and> \<not> validGitBranch ''main.lock''"
  unfolding validGitBranch_rule by code_simp

text \<open>A verifier identifier passes exactly when it starts with a lowercase letter or digit and
  continues with lowercase letters, digits, hyphens and underscores, so it can never be an
  option, a path or a command.\<close>

theorem validVerifierID_exact:
  "ValidateVerifierID v = None \<longleftrightarrow>
     v \<noteq> [] \<and> (is_lower (hd v) \<or> is_digit (hd v)) \<and> (\<forall>c \<in> set v. verifier_char c)"
  by (cases v)
    (auto simp: ValidateVerifierID_def validVerifierID_def validVerifierID_from_Suc verifier_char_def)

theorem validVerifierID_exact_witness:
  "ValidateVerifierID ''go-test'' = None \<and> ValidateVerifierID ''-rf'' \<noteq> None"
  using validVerifierID_exact [of "''go-test''"] validVerifierID_exact [of "''-rf''"]
  by (simp add: verifier_char_def is_lower_def is_digit_def in_range_def byte_def)

section \<open>Valid decisions and reviews\<close>

lemma check_options_Inr:
  "check_options seen opts = Inr seen' \<longleftrightarrow>
     (\<forall>q \<in> set opts. trim_space (opt_ID q) \<noteq> [] \<and> \<not> blank (opt_Description q)) \<and>
     distinct (map (trim_space \<circ> opt_ID) opts) \<and>
     set (map (trim_space \<circ> opt_ID) opts) \<inter> set seen = {} \<and>
     seen' = rev (map (trim_space \<circ> opt_ID) opts) @ seen"
  by (induction opts arbitrary: seen) (auto simp: Let_def)

lemma DecisionRequest_valid_iff:
  "DecisionRequest_Validate r = None \<longleftrightarrow>
     \<not> blank (req_Question r) \<and> \<not> blank (req_Context r) \<and> \<not> blank (req_Recommendation r) \<and>
     \<not> blank (req_BlockingReason r) \<and> 2 \<le> length (req_Options r) \<and>
     (\<exists>seen. check_options [] (req_Options r) = Inr seen \<and>
        trim_space (req_Recommendation r) \<in> set seen)"
  by (auto simp: DecisionRequest_Validate_def require_not_blank_def split: sum.splits if_splits)

text \<open>A decision request that passes validation offers at least two options under distinct,
  nonblank IDs, and its recommendation names exactly one of them.\<close>

theorem decision_request_recommends_one:
  assumes "DecisionRequest_Validate r = None"
  shows "2 \<le> length (req_Options r) \<and> distinct (map (trim_space \<circ> opt_ID) (req_Options r)) \<and>
    (\<forall>q \<in> set (req_Options r). \<not> blank (opt_ID q) \<and> \<not> blank (opt_Description q)) \<and>
    (\<exists>!i. i < length (req_Options r) \<and>
       trim_space (opt_ID (req_Options r ! i)) = trim_space (req_Recommendation r))"
proof -
  let ?ids = "map (trim_space \<circ> opt_ID) (req_Options r)"
  from assms have d: "distinct ?ids" and rec: "trim_space (req_Recommendation r) \<in> set ?ids"
    and len: "2 \<le> length (req_Options r)"
    and nb: "\<forall>q \<in> set (req_Options r). trim_space (opt_ID q) \<noteq> [] \<and> \<not> blank (opt_Description q)"
    by (auto simp: DecisionRequest_valid_iff check_options_Inr)
  from rec obtain i where i: "i < length ?ids" "?ids ! i = trim_space (req_Recommendation r)"
    by (metis in_set_conv_nth)
  have uniq: "\<exists>!i. i < length ?ids \<and> ?ids ! i = trim_space (req_Recommendation r)"
  proof (rule ex1I [of _ i])
    show "i < length ?ids \<and> ?ids ! i = trim_space (req_Recommendation r)" using i by blast
    show "j = i" if "j < length ?ids \<and> ?ids ! j = trim_space (req_Recommendation r)" for j
      using that i by (metis nth_eq_iff_index_eq [OF d])
  qed
  have "i < length ?ids \<and> ?ids ! i = t \<longleftrightarrow>
      i < length (req_Options r) \<and> trim_space (opt_ID (req_Options r ! i)) = t" for i t
    by auto
  with uniq have "\<exists>!i. i < length (req_Options r) \<and>
       trim_space (opt_ID (req_Options r ! i)) = trim_space (req_Recommendation r)" by (simp only:)
  with d len nb show ?thesis by (simp add: blank_def)
qed

definition sample_request :: decision_request where
  "sample_request =
     \<lparr>req_Question = ''q?'', req_Context = ''c'',
      req_Options = [\<lparr>opt_ID = ''a'', opt_Description = ''first''\<rparr>,
                     \<lparr>opt_ID = ''b'', opt_Description = ''second''\<rparr>],
      req_Recommendation = ''b'', req_BlockingReason = ''why''\<rparr>"

lemma sample_request_valid: "DecisionRequest_Validate sample_request = None"
  by code_simp

theorem decision_request_recommends_one_witness:
  "\<exists>!i. i < length (req_Options sample_request) \<and>
       trim_space (opt_ID (req_Options sample_request ! i)) = trim_space (req_Recommendation sample_request)"
  using decision_request_recommends_one [OF sample_request_valid] by blast

definition disposition_identity :: "finding_disposition \<Rightarrow> string \<times> string \<times> string" where
  "disposition_identity d = (dsp_Source d, dsp_SourceID d, dsp_BodyDigest d)"

lemma append_sep_inject:
  "d \<notin> set a \<Longrightarrow> d \<notin> set a' \<Longrightarrow> a @ d # b = a' @ d # b' \<longleftrightarrow> a = a' \<and> b = b'"
proof (induction a arbitrary: a')
  case Nil
  then show ?case by (cases a') auto
next
  case (Cons x a)
  then show ?case by (cases a') auto
qed

lemma disposition_key_inject:
  assumes "Disposition_Validate d = None" and "Disposition_Validate d' = None"
  shows "disposition_key d = disposition_key d' \<longleftrightarrow> disposition_identity d = disposition_identity d'"
  using assms
  by (auto simp: Disposition_Validate_def disposition_key_def disposition_identity_def
      require_not_blank_no_nul_def append_sep_inject split: if_splits)

lemma check_dispositions_None:
  "check_dispositions seen (enumerate_from n ds) = None \<longleftrightarrow>
     (\<forall>d \<in> set ds. Disposition_Validate d = None) \<and> distinct (map disposition_key ds) \<and>
     set (map disposition_key ds) \<inter> set seen = {}"
  by (induction ds arbitrary: seen n) (auto split: option.splits)

text \<open>A review outcome that passes validation carries findings exactly as its verdict says, and
  no two of its dispositions are about the same source, source ID and body digest: joining the
  three with NUL bytes cannot confuse two dispositions that passed validation.\<close>

theorem review_outcome_consistent:
  assumes "ReviewOutcome_Validate out = None"
  shows "(rev_Verdict out = ReviewPass \<longrightarrow> rev_Findings out = []) \<and>
    (rev_Verdict out = ReviewFindings \<longrightarrow> rev_Findings out \<noteq> [] \<and>
       (\<forall>f \<in> set (rev_Findings out). ReviewFinding_Validate f = None)) \<and>
    (\<forall>d \<in> set (rev_Dispositions out). Disposition_Validate d = None) \<and>
    distinct (map disposition_identity (rev_Dispositions out))"
proof -
  from assms have disp: "check_dispositions [] (enumerate_from 0 (rev_Dispositions out)) = None"
    and verdict: "rev_Verdict out = ReviewPass \<longrightarrow> rev_Findings out = []"
      "rev_Verdict out = ReviewFindings \<longrightarrow> rev_Findings out \<noteq> [] \<and>
         (\<forall>(i, f) \<in> set (enumerate_from 0 (rev_Findings out)). ReviewFinding_Validate f = None)"
    by (auto simp: ReviewOutcome_Validate_def split: if_splits review_verdict.splits)
  from disp have v: "\<forall>d \<in> set (rev_Dispositions out). Disposition_Validate d = None"
    and dk: "distinct (map disposition_key (rev_Dispositions out))"
    by (simp_all add: check_dispositions_None)
  from dk v have "distinct (map disposition_identity (rev_Dispositions out))"
    by (auto simp: distinct_map inj_on_def disposition_key_inject)
  with verdict v show ?thesis by (simp add: ball_enumerate_from)
qed

definition sample_review :: review_outcome where
  "sample_review =
     \<lparr>rev_SchemaVersion = 2, rev_Verdict = ReviewPass, rev_Summary = ''fine'',
      rev_ReviewedHeadSHA = ''abc'', rev_Findings = [],
      rev_Dispositions =
        [\<lparr>dsp_Source = ''s'', dsp_SourceID = ''1'', dsp_BodyDigest = replicate 64 (CHR ''a''),
          dsp_Status = ReviewFindingAddressed, dsp_Summary = ''done''\<rparr>]\<rparr>"

lemma sample_review_valid: "ReviewOutcome_Validate sample_review = None"
  by code_simp

theorem review_outcome_consistent_witness:
  "rev_Findings sample_review = [] \<and> distinct (map disposition_identity (rev_Dispositions sample_review))"
  using review_outcome_consistent [OF sample_review_valid] by (simp add: sample_review_def)

section \<open>Valid tasks\<close>

text \<open>A coding task that passes validation has both branch names safe and every verifier ID
  valid, requires human approval and a squash merge, and allows no scope expansion.\<close>

theorem coding_task_safe:
  assumes "CodingTask_Validate t = None"
  shows "validGitBranch (task_BaseBranch t) \<and> validGitBranch (task_WorkingBranch t) \<and>
    (\<forall>v \<in> set (task_VerifierIDs t). validVerifierID v) \<and> task_VerifierIDs t \<noteq> [] \<and>
    (\<forall>a \<in> set (task_AcceptanceCriteria t). \<not> blank a) \<and> \<not> blank (task_RunID t) \<and>
    pol_HumanApprovalRequired (task_Policy t) \<and> pol_MergeMethod (task_Policy t) = ''squash'' \<and>
    \<not> pol_AllowScopeExpansion (task_Policy t) \<and> 0 \<le> pol_MaxRepairAttempts (task_Policy t)"
proof -
  from assms have "missing_task_fields t = []"
    by (auto simp: CodingTask_Validate_def split: if_splits)
  then have "\<not> blank (task_RunID t)"
    by (auto simp: missing_task_fields_def task_required_fields_def split: if_splits)
  with assms show ?thesis
    by (auto simp: CodingTask_Validate_def blankItem_def ValidateVerifierID_def split: if_splits)
qed

definition sample_task :: coding_task where
  "sample_task =
     \<lparr>task_RunID = ''r1'', task_IssueID = ''IFAN-1'', task_IssueURL = [], task_Title = ''t'',
      task_Description = ''d'', task_Repository = ''o/r'', task_BaseBranch = ''main'',
      task_WorkingBranch = ''agent/ifan-1'', task_Goal = ''g'', task_AcceptanceCriteria = [''a''],
      task_OutOfScope = [], task_VerifierIDs = [''unit''],
      task_Policy = \<lparr>pol_HumanApprovalRequired = True, pol_MergeMethod = ''squash'',
        pol_MaxRepairAttempts = DefaultMaxRepairAttempts, pol_AllowScopeExpansion = False,
        pol_CreateDerivedIssues = False\<rparr>,
      task_SourceRevision = ''rev'', task_CreatedAt = 1\<rparr>"

lemma sample_task_valid: "CodingTask_Validate sample_task = None"
  by code_simp

theorem coding_task_safe_witness:
  "validGitBranch ''agent/ifan-1'' \<and> validVerifierID ''unit''"
  using coding_task_safe [OF sample_task_valid] by (simp add: sample_task_def)

end
