(* ===== verification/Sha256.thy ===== *)
theory Sha256
  imports Prelude
begin

text \<open>
  \<open>crypto/sha256\<close> and \<open>encoding/hex\<close> as the controller uses them:
  \<open>sha256_hex s\<close> is \<open>hex.EncodeToString(sum[:])\<close> of \<open>sha256.Sum256([]byte(s))\<close>.
  The digest is defined in full (FIPS 180-4) on 32-bit words, so it computes; the components use
  only that it is 64 lowercase hexadecimal characters.
\<close>

unbundle bit_operations_syntax

type_synonym u32 = "32 word"

definition round_constants :: "u32 list" where
  "round_constants =
     [1116352408, 1899447441, 3049323471, 3921009573, 961987163, 1508970993,
      2453635748, 2870763221, 3624381080, 310598401, 607225278, 1426881987,
      1925078388, 2162078206, 2614888103, 3248222580, 3835390401, 4022224774,
      264347078, 604807628, 770255983, 1249150122, 1555081692, 1996064986,
      2554220882, 2821834349, 2952996808, 3210313671, 3336571891, 3584528711,
      113926993, 338241895, 666307205, 773529912, 1294757372, 1396182291,
      1695183700, 1986661051, 2177026350, 2456956037, 2730485921, 2820302411,
      3259730800, 3345764771, 3516065817, 3600352804, 4094571909, 275423344,
      430227734, 506948616, 659060556, 883997877, 958139571, 1322822218,
      1537002063, 1747873779, 1955562222, 2024104815, 2227730452, 2361852424,
      2428436474, 2756734187, 3204031479, 3329325298]"

definition initial_hash :: "u32 list" where
  "initial_hash =
     [1779033703, 3144134277, 1013904242, 2773480762, 1359893119, 2600822924,
      528734635, 1541459225]"

definition ch :: "u32 \<Rightarrow> u32 \<Rightarrow> u32 \<Rightarrow> u32" where
  "ch x y z = (x AND y) XOR (NOT x AND z)"

definition maj :: "u32 \<Rightarrow> u32 \<Rightarrow> u32 \<Rightarrow> u32" where
  "maj x y z = (x AND y) XOR (x AND z) XOR (y AND z)"

definition big_sigma0 :: "u32 \<Rightarrow> u32" where
  "big_sigma0 x = word_rotr 2 x XOR word_rotr 13 x XOR word_rotr 22 x"

definition big_sigma1 :: "u32 \<Rightarrow> u32" where
  "big_sigma1 x = word_rotr 6 x XOR word_rotr 11 x XOR word_rotr 25 x"

definition small_sigma0 :: "u32 \<Rightarrow> u32" where
  "small_sigma0 x = word_rotr 7 x XOR word_rotr 18 x XOR drop_bit 3 x"

definition small_sigma1 :: "u32 \<Rightarrow> u32" where
  "small_sigma1 x = word_rotr 17 x XOR word_rotr 19 x XOR drop_bit 10 x"

text \<open>The message schedule, latest word first.\<close>

fun expand :: "nat \<Rightarrow> u32 list \<Rightarrow> u32 list" where
  "expand 0 ws = ws"
| "expand (Suc n) ws =
     expand n ((small_sigma1 (ws ! 1) + ws ! 6 + small_sigma0 (ws ! 14) + ws ! 15) # ws)"

fun sha_round :: "u32 list \<Rightarrow> u32 \<times> u32 \<Rightarrow> u32 list" where
  "sha_round [a, b, c, d, e, f, g, h] (k, w) =
     (let t1 = h + big_sigma1 e + ch e f g + k + w;
          t2 = big_sigma0 a + maj a b c
      in [t1 + t2, a, b, c, d + t1, e, f, g])"
| "sha_round s _ = s"

definition compress :: "u32 list \<Rightarrow> u32 list \<Rightarrow> u32 list" where
  "compress hs block =
     map2 (+) hs (foldl sha_round hs (zip round_constants (rev (expand 48 (rev block)))))"

definition word_of_bytes :: "nat list \<Rightarrow> u32" where
  "word_of_bytes bs = foldl (\<lambda>w b. w * 256 + of_nat b) 0 bs"

fun chunks :: "nat \<Rightarrow> nat \<Rightarrow> 'a list \<Rightarrow> 'a list list" where
  "chunks 0 k xs = []"
| "chunks (Suc n) k xs = take k xs # chunks n k (drop k xs)"

definition big_endian64 :: "64 word \<Rightarrow> nat list" where
  "big_endian64 n = map (\<lambda>i. unat (drop_bit (8 * i) n AND 255)) (rev [0..<8])"

definition pad :: "nat list \<Rightarrow> nat list" where
  "pad m =
     (let l = length m in m @ [128] @ replicate ((119 - l mod 64) mod 64) 0 @ big_endian64 (8 * of_nat l))"

definition sha256_words :: "string \<Rightarrow> u32 list" where
  "sha256_words s =
     (let p = pad (map byte s) in
      foldl compress initial_hash
        (map (\<lambda>b. map word_of_bytes (chunks 16 4 b)) (chunks (length p div 64) 64 p)))"

definition hex_digit :: "nat \<Rightarrow> char" where
  "hex_digit n = char_of (if n < 10 then 48 + n else 87 + n)"

definition hex_word :: "u32 \<Rightarrow> string" where
  "hex_word w = map (\<lambda>i. hex_digit (unat (drop_bit (4 * i) w AND 15))) (rev [0..<8])"

definition sha256_hex :: "string \<Rightarrow> string" where
  "sha256_hex s = concat (map hex_word (sha256_words s))"

section \<open>Shape of a digest\<close>

lemma length_compress: "length hs = 8 \<Longrightarrow> length (compress hs b) = 8"
proof -
  have "length (foldl sha_round hs xs) = 8" if "length hs = 8" for hs xs using that
  proof (induction xs arbitrary: hs)
    case Nil
    then show ?case by simp
  next
    case (Cons x xs)
    have "length (sha_round hs x) = 8" using Cons.prems
      by (cases "(hs, x)" rule: sha_round.cases) (auto simp: Let_def)
    then show ?case using Cons.IH by simp
  qed
  then show "length hs = 8 \<Longrightarrow> length (compress hs b) = 8" by (simp add: compress_def)
qed

lemma length_foldl_compress: "length hs = 8 \<Longrightarrow> length (foldl compress hs bs) = 8"
  by (induction bs arbitrary: hs) (auto simp: length_compress)

lemma length_sha256_words [simp]: "length (sha256_words s) = 8"
  by (simp add: sha256_words_def Let_def length_foldl_compress initial_hash_def)

lemma length_hex_word [simp]: "length (hex_word w) = 8"
  by (simp add: hex_word_def)

lemma length_sha256_hex [simp]: "length (sha256_hex s) = 64"
proof -
  have "length (concat (map hex_word ws)) = 8 * length ws" for ws
    by (induction ws) auto
  then show ?thesis by (simp add: sha256_hex_def)
qed

lemma is_lower_hex_digit: "n < 16 \<Longrightarrow> is_lower_hex (hex_digit n)"
  by (auto simp: hex_digit_def char_class_defs)

lemma sha256_hex_lower [simp]: "\<forall>c \<in> set (sha256_hex s). is_lower_hex c"
proof -
  have "unat (w AND 15 :: u32) < 16" for w
  proof -
    have "w AND 15 \<le> (15 :: u32)" by (rule word_and_le1)
    then have "unat (w AND 15) \<le> unat (15 :: u32)" by (rule word_le_nat_alt [THEN iffD1])
    then show ?thesis by simp
  qed
  then show ?thesis by (auto simp: sha256_hex_def hex_word_def intro: is_lower_hex_digit)
qed

lemma sha256_hex_nonempty [simp]: "sha256_hex s \<noteq> []"
  using length_sha256_hex [of s] by (metis length_0_conv zero_neq_numeral)

end
