(* ===== verification/Run_State.thy ===== *)
theory Run_State
  imports Prelude
begin

text \<open>
  The run state machine of \<open>internal/domain/state.go\<close>: the 24 persisted states, the table of
  allowed transitions, and the guards for manual intervention. A persisted state is a string;
  \<open>StateOther\<close> stands for any other string the database could hold.
\<close>

section \<open>States\<close>

datatype state =
    StateReceived | StateAdmitting | StateRejected | StateProvisioning | StateExecuting
  | StateAwaitingHumanDecision | StateVerifying | StateFreshReview | StateApprovalReady
  | StatePushingBranch | StateBranchPushed | StateOpeningPR | StateRepairing | StatePROpen
  | StateReconcilingReviews | StateReplyingReviewFeedback | StateAwaitingHumanApproval
  | StateMerging | StateAwaitingGitHubMergeability | StateAwaitingLinearCompletion
  | StateCleaning | StateCompleted | StateFailed | StateManualIntervention
  | StateOther string

fun state_string :: "state \<Rightarrow> string" where
  "state_string StateReceived = ''received''"
| "state_string StateAdmitting = ''admitting''"
| "state_string StateRejected = ''rejected''"
| "state_string StateProvisioning = ''provisioning''"
| "state_string StateExecuting = ''executing''"
| "state_string StateAwaitingHumanDecision = ''awaiting_human_decision''"
| "state_string StateVerifying = ''verifying''"
| "state_string StateFreshReview = ''fresh_review''"
| "state_string StateApprovalReady = ''approval_ready''"
| "state_string StatePushingBranch = ''pushing_branch''"
| "state_string StateBranchPushed = ''branch_pushed''"
| "state_string StateOpeningPR = ''opening_pr''"
| "state_string StateRepairing = ''repairing''"
| "state_string StatePROpen = ''pr_open''"
| "state_string StateReconcilingReviews = ''reconciling_reviews''"
| "state_string StateReplyingReviewFeedback = ''replying_review_feedback''"
| "state_string StateAwaitingHumanApproval = ''awaiting_human_approval''"
| "state_string StateMerging = ''merging''"
| "state_string StateAwaitingGitHubMergeability = ''awaiting_github_mergeability''"
| "state_string StateAwaitingLinearCompletion = ''awaiting_linear_completion''"
| "state_string StateCleaning = ''cleaning''"
| "state_string StateCompleted = ''completed''"
| "state_string StateFailed = ''failed''"
| "state_string StateManualIntervention = ''manual_intervention''"
| "state_string (StateOther s) = s"

definition known_states :: "state list" where
  "known_states =
     [StateReceived, StateAdmitting, StateRejected, StateProvisioning, StateExecuting,
      StateAwaitingHumanDecision, StateVerifying, StateFreshReview, StateApprovalReady,
      StatePushingBranch, StateBranchPushed, StateOpeningPR, StateRepairing, StatePROpen,
      StateReconcilingReviews, StateReplyingReviewFeedback, StateAwaitingHumanApproval,
      StateMerging, StateAwaitingGitHubMergeability, StateAwaitingLinearCompletion,
      StateCleaning, StateCompleted, StateFailed, StateManualIntervention]"

text \<open>\<open>domain.State(s)\<close> on a string read from the database.\<close>

definition state_of_string :: "string \<Rightarrow> state" where
  "state_of_string s =
     (case find (\<lambda>st. state_string st = s) known_states of Some st \<Rightarrow> st | None \<Rightarrow> StateOther s)"

fun is_known :: "state \<Rightarrow> bool" where
  "is_known (StateOther s) = False"
| "is_known _ = True"

lemma is_known_iff: "is_known st \<longleftrightarrow> st \<in> set known_states"
  by (cases st) (auto simp: known_states_def)

lemma distinct_state_strings: "distinct (map state_string known_states)"
  by (simp add: known_states_def)

lemma state_roundtrip: "is_known st \<Longrightarrow> state_of_string (state_string st) = st"
  by (cases st) (simp_all add: state_of_string_def known_states_def)

lemma state_string_of_string: "state_string (state_of_string s) = s"
proof (cases "find (\<lambda>st. state_string st = s) known_states")
  case None
  then show ?thesis by (simp add: state_of_string_def)
next
  case (Some st)
  then have "state_string st = s" by (auto simp: find_Some_iff)
  with Some show ?thesis by (simp add: state_of_string_def)
qed

section \<open>Transitions\<close>

fun allowed_transitions :: "state \<Rightarrow> state list" where
  "allowed_transitions StateReceived = [StateAdmitting]"
| "allowed_transitions StateAdmitting = [StateRejected, StateProvisioning, StateFailed]"
| "allowed_transitions StateProvisioning = [StateExecuting, StateFailed]"
| "allowed_transitions StateExecuting =
     [StateAwaitingHumanDecision, StateVerifying, StateFailed, StateManualIntervention]"
| "allowed_transitions StateAwaitingHumanDecision = [StateExecuting, StateFailed]"
| "allowed_transitions StateVerifying =
     [StateFreshReview, StateRepairing, StateFailed, StateManualIntervention]"
| "allowed_transitions StateFreshReview =
     [StateApprovalReady, StateRepairing, StateFailed, StateManualIntervention]"
| "allowed_transitions StateApprovalReady =
     [StatePushingBranch, StateFailed, StateManualIntervention]"
| "allowed_transitions StatePushingBranch =
     [StateBranchPushed, StateFailed, StateManualIntervention]"
| "allowed_transitions StateBranchPushed =
     [StateOpeningPR, StateFailed, StateManualIntervention]"
| "allowed_transitions StateOpeningPR = [StatePROpen, StateFailed, StateManualIntervention]"
| "allowed_transitions StateRepairing =
     [StateExecuting, StateVerifying, StateFailed, StateManualIntervention]"
| "allowed_transitions StatePROpen =
     [StateReconcilingReviews, StateFailed, StateManualIntervention]"
| "allowed_transitions StateReconcilingReviews =
     [StateAwaitingHumanApproval, StateReplyingReviewFeedback, StateRepairing, StateFailed,
      StateManualIntervention]"
| "allowed_transitions StateReplyingReviewFeedback =
     [StateAwaitingHumanApproval, StateFailed, StateManualIntervention]"
| "allowed_transitions StateAwaitingHumanApproval =
     [StateMerging, StateRepairing, StateReconcilingReviews, StateReplyingReviewFeedback,
      StateFailed, StateManualIntervention]"
| "allowed_transitions StateMerging =
     [StateAwaitingGitHubMergeability, StateAwaitingLinearCompletion, StateFailed,
      StateManualIntervention]"
| "allowed_transitions StateAwaitingGitHubMergeability =
     [StateReconcilingReviews, StateMerging, StateAwaitingHumanApproval, StateRepairing,
      StateFailed, StateManualIntervention]"
| "allowed_transitions StateAwaitingLinearCompletion =
     [StateCleaning, StateFailed, StateManualIntervention]"
| "allowed_transitions StateCleaning = [StateCompleted, StateFailed, StateManualIntervention]"
| "allowed_transitions StateManualIntervention =
     [StateApprovalReady, StateAwaitingLinearCompletion]"
| "allowed_transitions _ = []"

definition CanTransition :: "state \<Rightarrow> state \<Rightarrow> bool" where
  "CanTransition src dst \<longleftrightarrow> dst \<in> set (allowed_transitions src)"

definition ValidateTransition :: "state \<Rightarrow> state \<Rightarrow> go_error option" where
  "ValidateTransition src dst =
     (if \<not> CanTransition src dst
      then Some (Errorf ''invalid state transition: %s -> %s''
                   [AStr (state_string src), AStr (state_string dst)])
      else None)"

fun CanRequireManualIntervention :: "state \<Rightarrow> bool" where
  "CanRequireManualIntervention src =
     (case src of
        StateReceived \<Rightarrow> True | StateAdmitting \<Rightarrow> True | StateProvisioning \<Rightarrow> True
      | StateExecuting \<Rightarrow> True | StateAwaitingHumanDecision \<Rightarrow> True | StateVerifying \<Rightarrow> True
      | StateFreshReview \<Rightarrow> True | StateApprovalReady \<Rightarrow> True | StatePushingBranch \<Rightarrow> True
      | StateBranchPushed \<Rightarrow> True | StateOpeningPR \<Rightarrow> True | StateRepairing \<Rightarrow> True
      | StatePROpen \<Rightarrow> True | StateReconcilingReviews \<Rightarrow> True
      | StateReplyingReviewFeedback \<Rightarrow> True | StateAwaitingHumanApproval \<Rightarrow> True
      | StateMerging \<Rightarrow> True | StateAwaitingGitHubMergeability \<Rightarrow> True
      | StateAwaitingLinearCompletion \<Rightarrow> True | StateCleaning \<Rightarrow> True
      | _ \<Rightarrow> False)"

fun CanRequireRepairPolicyIntervention :: "state \<Rightarrow> bool" where
  "CanRequireRepairPolicyIntervention src =
     (case src of
        StateRepairing \<Rightarrow> True | StateExecuting \<Rightarrow> True | StateVerifying \<Rightarrow> True
      | StateFreshReview \<Rightarrow> True | _ \<Rightarrow> False)"

section \<open>Facts about the table\<close>

definition terminal :: "state \<Rightarrow> bool" where
  "terminal st \<longleftrightarrow> st \<in> {StateRejected, StateCompleted, StateFailed}"

lemma terminal_no_transition: "terminal src \<Longrightarrow> \<not> CanTransition src dst"
  by (auto simp: terminal_def CanTransition_def)

lemma known_stuck_iff: "is_known src \<Longrightarrow> allowed_transitions src = [] \<longleftrightarrow> terminal src"
  by (cases src) (auto simp: terminal_def)

lemma transition_known: "CanTransition src dst \<Longrightarrow> is_known src \<and> is_known dst"
  by (cases src) (auto simp: CanTransition_def)

lemma ValidateTransition_None_iff [simp]: "ValidateTransition src dst = None \<longleftrightarrow> CanTransition src dst"
  by (simp add: ValidateTransition_def)

lemma no_transition_to_received: "\<not> CanTransition src StateReceived"
  by (cases src) (auto simp: CanTransition_def)

text \<open>Predecessors of the gated states.\<close>

lemma into_merging:
  "CanTransition src StateMerging \<Longrightarrow>
     src = StateAwaitingHumanApproval \<or> src = StateAwaitingGitHubMergeability"
  by (cases src) (auto simp: CanTransition_def)

lemma into_mergeability: "CanTransition src StateAwaitingGitHubMergeability \<Longrightarrow> src = StateMerging"
  by (cases src) (auto simp: CanTransition_def)

lemma into_linear_completion:
  "CanTransition src StateAwaitingLinearCompletion \<Longrightarrow> src = StateMerging \<or> src = StateManualIntervention"
  by (cases src) (auto simp: CanTransition_def)

lemma into_cleaning: "CanTransition src StateCleaning \<Longrightarrow> src = StateAwaitingLinearCompletion"
  by (cases src) (auto simp: CanTransition_def)

lemma into_completed: "CanTransition src StateCompleted \<Longrightarrow> src = StateCleaning"
  by (cases src) (auto simp: CanTransition_def)

lemma into_approval_ready:
  "CanTransition src StateApprovalReady \<Longrightarrow> src = StateFreshReview \<or> src = StateManualIntervention"
  by (cases src) (auto simp: CanTransition_def)

lemma into_fresh_review: "CanTransition src StateFreshReview \<Longrightarrow> src = StateVerifying"
  by (cases src) (auto simp: CanTransition_def)

section \<open>Persisted edges\<close>

text \<open>The states a graceful abandonment accepts (\<open>application/linear_todo_admission.go\<close>).\<close>

fun GracefulAbandonState :: "state \<Rightarrow> bool" where
  "GracefulAbandonState st =
     (case st of
        StateReceived \<Rightarrow> True | StateAdmitting \<Rightarrow> True | StateProvisioning \<Rightarrow> True
      | StateExecuting \<Rightarrow> True | StateVerifying \<Rightarrow> True | StateFreshReview \<Rightarrow> True
      | StateRepairing \<Rightarrow> True | StateApprovalReady \<Rightarrow> True | StatePushingBranch \<Rightarrow> True
      | StateBranchPushed \<Rightarrow> True | StateOpeningPR \<Rightarrow> True | StatePROpen \<Rightarrow> True
      | StateReconcilingReviews \<Rightarrow> True | StateReplyingReviewFeedback \<Rightarrow> True
      | StateManualIntervention \<Rightarrow> True | StateFailed \<Rightarrow> True
      | _ \<Rightarrow> False)"

text \<open>
  The state changes the store can persist: a transition of the table; a halt for manual
  intervention, which the drift operations write from whatever state the run is in; and the
  abandonment of an automatic run.
\<close>

inductive persisted_edge :: "state \<Rightarrow> state \<Rightarrow> bool" where
  edge_table: "CanTransition s t \<Longrightarrow> persisted_edge s t"
| edge_intervention: "persisted_edge s StateManualIntervention"
| edge_abandon: "GracefulAbandonState s \<Longrightarrow> persisted_edge s StateFailed"

section \<open>Histories\<close>

text \<open>
  A history is the list of states a run has been in, latest first. The gates below are
  invariants of every history that starts in \<open>received\<close> and follows persisted edges.
\<close>

fun history_step :: "state list \<Rightarrow> state list \<Rightarrow> bool" where
  "history_step (s # h) (t # s' # h') \<longleftrightarrow> s' = s \<and> h' = h \<and> persisted_edge s t"
| "history_step _ _ \<longleftrightarrow> False"

definition history_init :: "state list \<Rightarrow> bool" where
  "history_init h \<longleftrightarrow> h = [StateReceived]"

abbreviation history :: "state list \<Rightarrow> bool" where
  "history h \<equiv> reachable history_init history_step h"

lemma history_step_iff:
  "history_step h g \<longleftrightarrow> (\<exists>s t h'. h = s # h' \<and> g = t # s # h' \<and> persisted_edge s t)"
  by (induction h g rule: history_step.induct) auto

text \<open>
  The code of the candidate can change only in \<open>executing\<close> and \<open>repairing\<close>. What a
  run must have been through since the last change of its code:
\<close>

definition changes_code :: "state \<Rightarrow> bool" where
  "changes_code s \<longleftrightarrow> s = StateExecuting \<or> s = StateRepairing"

definition since_change :: "state list \<Rightarrow> state set" where
  "since_change h = set (takeWhile (\<lambda>s. \<not> changes_code s) h)"

definition reviewed :: "state set \<Rightarrow> bool" where
  "reviewed seen \<longleftrightarrow> StateFreshReview \<in> seen \<and> StateVerifying \<in> seen \<or> StateManualIntervention \<in> seen"

definition approved :: "state set \<Rightarrow> bool" where
  "approved seen \<longleftrightarrow> StateAwaitingHumanApproval \<in> seen \<and> reviewed seen"

fun gate_evidence :: "state \<Rightarrow> state set \<Rightarrow> bool" where
  "gate_evidence StateFreshReview seen = (StateVerifying \<in> seen)"
| "gate_evidence StateApprovalReady seen = reviewed seen"
| "gate_evidence StatePushingBranch seen = reviewed seen"
| "gate_evidence StateBranchPushed seen = reviewed seen"
| "gate_evidence StateOpeningPR seen = reviewed seen"
| "gate_evidence StatePROpen seen = reviewed seen"
| "gate_evidence StateReconcilingReviews seen = reviewed seen"
| "gate_evidence StateReplyingReviewFeedback seen = reviewed seen"
| "gate_evidence StateAwaitingHumanApproval seen = reviewed seen"
| "gate_evidence StateMerging seen = approved seen"
| "gate_evidence StateAwaitingGitHubMergeability seen = approved seen"
| "gate_evidence StateAwaitingLinearCompletion seen =
     (approved seen \<and> StateMerging \<in> seen \<or> StateManualIntervention \<in> seen)"
| "gate_evidence StateCleaning seen =
     (StateAwaitingLinearCompletion \<in> seen \<and>
      (approved seen \<and> StateMerging \<in> seen \<or> StateManualIntervention \<in> seen))"
| "gate_evidence StateCompleted seen =
     (StateCleaning \<in> seen \<and> StateAwaitingLinearCompletion \<in> seen \<and>
      (approved seen \<and> StateMerging \<in> seen \<or> StateManualIntervention \<in> seen))"
| "gate_evidence _ seen = True"

lemma since_change_Cons:
  "since_change (s # h) = (if changes_code s then {} else insert s (since_change h))"
  by (auto simp: since_change_def)

fun history_inv :: "state list \<Rightarrow> bool" where
  "history_inv [] = False"
| "history_inv (s # h) = (gate_evidence s (since_change h) \<and>
     (h = [] \<or> history_inv h \<and> persisted_edge (hd h) s) \<and> (h = [] \<longrightarrow> s = StateReceived))"

lemma gate_evidence_table:
  "gate_evidence s (since_change h) \<Longrightarrow> CanTransition s t \<Longrightarrow>
     gate_evidence t (since_change (s # h))"
  by (cases s) (auto simp: CanTransition_def since_change_Cons changes_code_def approved_def reviewed_def)

lemma gate_evidence_step:
  "gate_evidence s (since_change h) \<Longrightarrow> persisted_edge s t \<Longrightarrow>
     gate_evidence t (since_change (s # h))"
  by (cases rule: persisted_edge.cases, assumption)
    (use gate_evidence_table in \<open>auto simp: since_change_Cons\<close>)

interpretation hist: invariant_system history_init history_step history_inv
proof unfold_locales
  fix h assume "history_init h"
  then show "history_inv h" by (simp add: history_init_def)
next
  fix h g assume inv: "history_inv h" and st: "history_step h g"
  from st obtain s t h' where "h = s # h'" "g = t # s # h'" "persisted_edge s t"
    by (auto simp: history_step_iff)
  with inv show "history_inv g" using gate_evidence_step [of s h' t] by simp
qed

lemma history_inv_suffix: "history_inv (xs @ s # h) \<Longrightarrow> history_inv (s # h)"
  by (induction xs) auto

lemma history_evidence: "history (xs @ s # h) \<Longrightarrow> gate_evidence s (since_change h)"
  using history_inv_suffix [OF hist.reachable_inv] by fastforce

lemma since_change_subset: "since_change h \<subseteq> set h"
  by (auto simp: since_change_def dest: set_takeWhileD)

lemma history_pred: "history (xs @ t # s # h) \<Longrightarrow> persisted_edge s t"
  using history_inv_suffix [OF hist.reachable_inv] by fastforce

text \<open>A chain of allowed steps, read backwards, is a history.\<close>

fun chain :: "state list \<Rightarrow> bool" where
  "chain [] = False"
| "chain [s] = (s = StateReceived)"
| "chain (t # s # h) = (persisted_edge s t \<and> chain (s # h))"

lemma chain_history: "chain h \<Longrightarrow> history h"
proof (induction h rule: chain.induct)
  case 1
  then show ?case by simp
next
  case (2 s)
  then show ?case by (simp add: history_init_def reachable_init)
next
  case (3 t s h)
  then show ?case by (auto intro: reachable_step simp: history_step_iff)
qed

section \<open>Properties\<close>


definition sample_history :: "state list" where
  "sample_history =
     [StateMerging, StateAwaitingHumanApproval, StateReconcilingReviews, StatePROpen,
      StateOpeningPR, StateBranchPushed, StatePushingBranch, StateApprovalReady,
      StateFreshReview, StateVerifying, StateExecuting, StateProvisioning, StateAdmitting,
      StateReceived]"

lemma sample_history: "history sample_history"
  by (rule chain_history) (simp add: sample_history_def CanTransition_def edge_table)


section \<open>Progress\<close>

text \<open>Every non-terminal known state has a path to a terminal one.\<close>

definition route_home :: "state \<Rightarrow> state list" where
  "route_home s =
     (case s of StateReceived \<Rightarrow> [StateAdmitting, StateFailed]
      | StateManualIntervention \<Rightarrow> [StateApprovalReady, StateFailed]
      | _ \<Rightarrow> [StateFailed])"

lemma route_home_path:
  "is_known s \<Longrightarrow> \<not> terminal s \<Longrightarrow> path CanTransition s (route_home s) StateFailed"
  by (cases s)
    (auto simp: route_home_def terminal_def CanTransition_def intro!: path.intros)

lemma main_route:
  "path CanTransition StateReceived
     [StateAdmitting, StateProvisioning, StateExecuting, StateVerifying, StateFreshReview,
      StateApprovalReady, StatePushingBranch, StateBranchPushed, StateOpeningPR, StatePROpen,
      StateReconcilingReviews, StateAwaitingHumanApproval, StateMerging,
      StateAwaitingLinearCompletion, StateCleaning, StateCompleted] StateCompleted"
  by (auto simp: CanTransition_def intro!: path.intros)


text \<open>A run is completed only through owned cleanup after the observed Linear completion, and
  either a merge of approved and reviewed code or a manual intervention lies between the last
  change of the code and completion.\<close>

theorem completion_evidence:
  assumes "history (later @ StateCompleted # h)"
  shows "StateCleaning \<in> since_change h \<and> StateAwaitingLinearCompletion \<in> since_change h \<and>
    (StateMerging \<in> since_change h \<and> StateAwaitingHumanApproval \<in> since_change h \<or>
     StateManualIntervention \<in> since_change h)"
  using history_evidence [OF assms] by (auto simp: approved_def)

theorem completion_evidence_witness:
  "StateCleaning \<in> since_change
     ([StateCleaning, StateAwaitingLinearCompletion] @ sample_history)"
proof -
  have "history ([] @ StateCompleted # [StateCleaning, StateAwaitingLinearCompletion] @ sample_history)"
    by (rule chain_history) (simp add: sample_history_def CanTransition_def edge_table)
  from completion_evidence [OF this] show ?thesis by simp
qed



text \<open>A known state has no outgoing transition exactly when it is rejected, completed or
  failed, and every other known state has a path through the table to a terminal one.\<close>

theorem terminal_states_exact:
  "is_known s \<Longrightarrow>
     ((\<nexists>t. CanTransition s t) \<longleftrightarrow> s \<in> {StateRejected, StateCompleted, StateFailed}) \<and>
     (s \<notin> {StateRejected, StateCompleted, StateFailed} \<longrightarrow>
        (\<exists>ts. path CanTransition s ts StateFailed))"
  using known_stuck_iff [of s] route_home_path [of s]
  by (auto simp: terminal_def CanTransition_def)

theorem terminal_states_exact_witness:
  "(\<nexists>t. CanTransition StateFailed t) \<and> (\<exists>ts. path CanTransition StateReceived ts StateFailed)"
  using terminal_states_exact [of StateFailed] terminal_states_exact [of StateReceived] by simp

end
