(* ===== verification/Store_Base.thy ===== *)
theory Store_Base
  imports Run_State
begin

text \<open>
  The database of \<open>internal/adapters/sqlite\<close>. A table is the list of its rows, newest first; a
  statement reads and rewrites that list the way its WHERE clause says. An operation takes the
  store and returns its result with the new store; a transaction that returns an error or ends
  without commit leaves the store as it was. Statements fail only on the constraints written
  here (keys, unique indexes, foreign keys): disk and connection errors are not modelled.
  Columns that no modelled operation reads are left out. The activity log, which no modelled
  operation reads, is left out as well.
\<close>

section \<open>SQL on lists of rows\<close>

definition select_where :: "('r \<Rightarrow> bool) \<Rightarrow> 'r list \<Rightarrow> 'r option" where
  "select_where P rows = find P rows"

definition count_where :: "('r \<Rightarrow> bool) \<Rightarrow> 'r list \<Rightarrow> nat" where
  "count_where P rows = length (filter P rows)"

definition update_where :: "('r \<Rightarrow> bool) \<Rightarrow> ('r \<Rightarrow> 'r) \<Rightarrow> 'r list \<Rightarrow> 'r list" where
  "update_where P f rows = map (\<lambda>r. if P r then f r else r) rows"

definition delete_where :: "('r \<Rightarrow> bool) \<Rightarrow> 'r list \<Rightarrow> 'r list" where
  "delete_where P rows = filter (\<lambda>r. \<not> P r) rows"

text \<open>\<open>SELECT COALESCE(MAX(c),0)+1\<close>.\<close>

definition next_number :: "int list \<Rightarrow> int" where
  "next_number xs = (case xs of [] \<Rightarrow> 0 | x # xs' \<Rightarrow> foldr max xs' x) + 1"

lemma select_where_Some: "select_where P rows = Some r \<Longrightarrow> r \<in> set rows \<and> P r"
  by (auto simp: select_where_def find_Some_iff)

lemma select_where_None: "select_where P rows = None \<longleftrightarrow> (\<forall>r \<in> set rows. \<not> P r)"
  by (auto simp: select_where_def find_None_iff)

lemma count_where_0 [simp]: "count_where P rows = 0 \<longleftrightarrow> (\<forall>r \<in> set rows. \<not> P r)"
  by (simp add: count_where_def filter_empty_conv)

lemma count_where_pos: "0 < count_where P rows \<longleftrightarrow> (\<exists>r \<in> set rows. P r)"
  by (induction rows) (auto simp: count_where_def)

lemma set_update_where: "set (update_where P f rows) = (\<lambda>r. if P r then f r else r) ` set rows"
  by (simp add: update_where_def)

lemma length_update_where [simp]: "length (update_where P f rows) = length rows"
  by (simp add: update_where_def)

lemma map_update_where:
  "(\<And>r. P r \<Longrightarrow> g (f r) = g r) \<Longrightarrow> map g (update_where P f rows) = map g rows"
  by (simp add: update_where_def)

lemma set_delete_where [simp]: "set (delete_where P rows) = {r \<in> set rows. \<not> P r}"
  by (simp add: delete_where_def)

lemma length_delete_where: "length (delete_where P rows) \<le> length rows"
  by (simp add: delete_where_def)

lemma distinct_delete_where: "distinct (map g rows) \<Longrightarrow> distinct (map g (delete_where P rows))"
  by (simp add: delete_where_def distinct_map_filter)

lemma foldr_max_ge: "x \<in> set xs \<Longrightarrow> (x :: int) \<le> foldr max xs y"
  by (induction xs) auto

lemma foldr_max_base: "(y :: int) \<le> foldr max xs y"
  by (induction xs) auto

lemma next_number_greater: "x \<in> set xs \<Longrightarrow> x < next_number xs"
proof (cases xs)
  case Nil
  then show "x \<in> set xs \<Longrightarrow> x < next_number xs" by simp
next
  case (Cons z zs)
  then show "x \<in> set xs \<Longrightarrow> x < next_number xs"
    using foldr_max_ge [of x zs z] foldr_max_base [of z zs] by (auto simp: next_number_def)
qed

text \<open>Rows with a unique key.\<close>

lemma unique_row:
  "distinct (map g rows) \<Longrightarrow> a \<in> set rows \<Longrightarrow> b \<in> set rows \<Longrightarrow> g a = g b \<Longrightarrow> a = b"
  by (auto simp: distinct_map inj_on_def)

lemma count_where_unique:
  assumes "distinct (map g rows)" and "\<And>x. P x \<Longrightarrow> g x = k"
  shows "count_where P rows \<le> 1"
  using assms(1)
proof (induction rows)
  case Nil
  then show ?case by (simp add: count_where_def)
next
  case (Cons a rows)
  show ?case
  proof (cases "P a")
    case True
    with Cons.prems assms(2) have "\<forall>r \<in> set rows. \<not> P r" by (metis distinct.simps(2) image_eqI list.simps(9) set_map)
    then have "filter P rows = []" by (simp add: filter_empty_conv)
    with True show ?thesis by (simp add: count_where_def)
  next
    case False
    with Cons show ?thesis by (simp add: count_where_def)
  qed
qed

lemma select_unique:
  assumes "distinct (map g rows)" and "r \<in> set rows"
  shows "select_where (\<lambda>x. g x = g r) rows = Some r"
proof -
  from assms(2) have "select_where (\<lambda>x. g x = g r) rows \<noteq> None" by (auto simp: select_where_None)
  then obtain q where q: "select_where (\<lambda>x. g x = g r) rows = Some q" by blast
  with select_where_Some [OF q] unique_row [OF assms(1) _ assms(2)] show ?thesis by auto
qed

section \<open>Rows\<close>

record run_row =
  run_ID :: string
  run_IssueID :: string
  run_IdempotencyKey :: string
  run_SourceRevision :: string
  run_RawIssueHash :: string
  run_TaskHash :: string
  run_Repository :: string
  run_RepositoryConfigJSON :: string
  run_ProfileID :: string
  run_ProfileSnapshotVersion :: int
  run_ProfileDigest :: string
  run_ProfileSnapshotJSON :: string
  run_RegistryVersion :: int
  run_RegistryDigest :: string
  run_RepositoryBindingDigest :: string
  run_BaseBranch :: string
  run_WorkingBranch :: string
  run_BaseSHA :: string
  run_WorktreePath :: string
  run_State :: state
  run_CandidateHead :: string
  run_ImplementationSession :: string
  run_LastError :: string
  run_LeaseOwner :: string
  run_LeaseExpiresUnix :: int
  run_CreatedAt :: time
  run_UpdatedAt :: time

record transition_row =
  tr_RunID :: string
  tr_Sequence :: int
  tr_From :: state
  tr_To :: state
  tr_Reason :: string
  tr_Evidence :: string
  tr_Head :: string
  tr_CreatedAt :: time

record attempt_row =
  att_ID :: int
  att_RunID :: string
  att_Number :: int
  att_Kind :: string
  att_Status :: string
  att_SessionID :: string
  att_RequestedModel :: string
  att_StartedAt :: time
  att_FinishedAt :: time
  att_ExitCode :: int
  att_OutcomePath :: string
  att_OutcomeHash :: string
  att_ArtifactDir :: string
  att_ErrorCategory :: string
  att_ProcessControlKey :: string

record verification_row =
  ver_ID :: int
  ver_RunID :: string
  ver_AttemptID :: int
  ver_VerifierID :: string
  ver_Phase :: string
  ver_VerifiedHead :: string
  ver_ProcessOutcome :: string
  ver_FailureCategory :: string
  ver_ExitCode :: int
  ver_CreatedAt :: time

record side_effect_row =
  se_ID :: int
  se_RunID :: string
  se_Kind :: string
  se_IdempotencyKey :: string
  se_IntentJSON :: string
  se_Status :: string
  se_ResultJSON :: string
  se_StdoutPath :: string
  se_StderrPath :: string
  se_Attempt :: int
  se_CreatedAt :: time
  se_ClaimedAt :: time
  se_ObservedAt :: time

record resource_row =
  res_Kind :: string
  res_Name :: string
  res_RunID :: string
  res_CreationEvidence :: string
  res_Status :: string

record slot_row =
  slot_Binding :: string
  slot_RunID :: string
  slot_Version :: int
  slot_AcquiredAt :: time

record permit_row =
  hp_RunID :: string
  hp_OwnerNonce :: string
  hp_Version :: int
  hp_AcquiredAt :: time
  hp_UpdatedAt :: time

record scheduling_row =
  rs_RunID :: string
  rs_RunnableSince :: time
  rs_SupervisorState :: string
  rs_Quarantined :: bool
  rs_ReasonCode :: string
  rs_UpdatedAt :: time

record capacity_row =
  cap_Configured :: int
  cap_Effective :: int
  cap_Identity :: string
  cap_Version :: int

record attention_row =
  an_EventKey :: string
  an_RunID :: string
  an_EventType :: string
  an_ControllerState :: state

text \<open>The retry schedules, with the duplicate of the eligibility time the table keeps as a number.\<close>

datatype retry_status = RetryScheduled | RetryAttention | RetrySuperseded | RetryStatusOther string

datatype failure_class =
    RetryFailureProcessStart | RetryFailureUnavailable | RetryFailureAuthority
  | RetryFailureIntegrity | RetryFailureManual | RetryFailureTerminal | RetryFailurePersistence
  | RetryFailureOther string

record retry_row =
  sch_RunID :: string
  sch_Phase :: string
  sch_ControllerState :: state
  sch_AttemptCount :: int
  sch_MaxAttempts :: int
  sch_InitialDelay :: duration
  sch_MaximumDelay :: duration
  sch_FailureClass :: failure_class
  sch_FailureEvidenceRef :: string
  sch_ReasonCode :: string
  sch_Status :: retry_status
  sch_NextEligibleAt :: time
  sch_NextEligibleUnix :: int
  sch_AttentionAt :: time
  sch_CreatedAt :: time
  sch_UpdatedAt :: time

section \<open>The store\<close>

text \<open>
  \<open>st_admitted\<close> holds the run IDs of the admission journal; \<open>st_supervisor\<close> is the in-memory
  supervisor owner of the store handle.
\<close>

record store =
  st_runs :: "run_row list"
  st_transitions :: "transition_row list"
  st_attempts :: "attempt_row list"
  st_verifications :: "verification_row list"
  st_side_effects :: "side_effect_row list"
  st_resources :: "resource_row list"
  st_slots :: "slot_row list"
  st_permits :: "permit_row list"
  st_scheduling :: "scheduling_row list"
  st_capacity :: "capacity_row option"
  st_attention :: "attention_row list"
  st_retry :: "retry_row list"
  st_admitted :: "string list"
  st_supervisor :: string

definition empty_store :: store where
  "empty_store =
     \<lparr>st_runs = [], st_transitions = [], st_attempts = [], st_verifications = [],
      st_side_effects = [], st_resources = [], st_slots = [], st_permits = [], st_scheduling = [],
      st_capacity = Some \<lparr>cap_Configured = 2, cap_Effective = 2, cap_Identity = ''schema-v29-default'',
        cap_Version = 1\<rparr>,
      st_attention = [], st_retry = [], st_admitted = [], st_supervisor = []\<rparr>"

definition find_run :: "store \<Rightarrow> string \<Rightarrow> run_row option" where
  "find_run s runID = select_where (\<lambda>r. run_ID r = runID) (st_runs s)"

definition no_rows :: go_error where
  "no_rows = New ''sql: no rows in result set''"

definition run_not_found :: go_error where
  "run_not_found = New ''run not found''"

text \<open>
  An UPDATE of \<open>current_state\<close> with the trigger \<open>release_terminal_scheduling_authority\<close>: a run
  that enters a terminal state loses its permit and its repository slot.
\<close>

definition release_terminal :: "string list \<Rightarrow> time \<Rightarrow> store \<Rightarrow> store" where
  "release_terminal ids now s =
     s\<lparr>st_permits := delete_where (\<lambda>p. hp_RunID p \<in> set ids) (st_permits s),
       st_slots := delete_where (\<lambda>x. slot_RunID x \<in> set ids) (st_slots s),
       st_scheduling := update_where (\<lambda>x. rs_RunID x \<in> set ids)
         (\<lambda>x. x\<lparr>rs_SupervisorState := ''terminal'', rs_Quarantined := False, rs_ReasonCode := [],
            rs_UpdatedAt := now\<rparr>) (st_scheduling s)\<rparr>"

definition update_run_state ::
  "(run_row \<Rightarrow> bool) \<Rightarrow> state \<Rightarrow> (run_row \<Rightarrow> run_row) \<Rightarrow> time \<Rightarrow> store \<Rightarrow> store" where
  "update_run_state P next f now s =
     (let hit = map run_ID (filter P (st_runs s));
          s' = s\<lparr>st_runs := update_where P (\<lambda>r. (f r)\<lparr>run_State := next, run_UpdatedAt := now\<rparr>) (st_runs s)\<rparr>
      in if terminal next then release_terminal hit now s' else s')"

text \<open>An UPDATE of other columns of one run, and \<open>execOne\<close>.\<close>

definition update_runs :: "(run_row \<Rightarrow> bool) \<Rightarrow> (run_row \<Rightarrow> run_row) \<Rightarrow> store \<Rightarrow> store" where
  "update_runs P f s = s\<lparr>st_runs := update_where P f (st_runs s)\<rparr>"

definition exec_one_run ::
  "(run_row \<Rightarrow> bool) \<Rightarrow> (run_row \<Rightarrow> run_row) \<Rightarrow> store \<Rightarrow> go_error option \<times> store" where
  "exec_one_run P f s =
     (if count_where P (st_runs s) \<noteq> 1 then (Some no_rows, update_runs P f s)
      else (None, update_runs P f s))"

definition append_transition ::
  "string \<Rightarrow> int \<Rightarrow> state \<Rightarrow> state \<Rightarrow> string \<Rightarrow> string \<Rightarrow> string \<Rightarrow> time \<Rightarrow> store \<Rightarrow> store" where
  "append_transition runID sequence src dst reason evidence head now s =
     s\<lparr>st_transitions := \<lparr>tr_RunID = runID, tr_Sequence = sequence, tr_From = src, tr_To = dst,
         tr_Reason = reason, tr_Evidence = evidence, tr_Head = head, tr_CreatedAt = now\<rparr>
         # st_transitions s\<rparr>"

definition next_sequence :: "store \<Rightarrow> string \<Rightarrow> int" where
  "next_sequence s runID = next_number (map tr_Sequence (filter (\<lambda>t. tr_RunID t = runID) (st_transitions s)))"

end
