(* ===== verification/Scheduling.thy ===== *)
theory Scheduling
  imports Store_Base "HOL-Library.List_Lexorder" "HOL-Library.Char_ord"
begin

text \<open>
  Scheduling authorities: \<open>internal/application/scheduling.go\<close> and
  \<open>internal/adapters/sqlite/scheduling.go\<close>. Repository slots admit one active run per
  repository, heavy permits bound the local work in progress by the effective capacity.
  \<open>(x, true, nil)\<close> is \<open>Inr (Some x)\<close>, \<open>(_, false, nil)\<close> is \<open>Inr None\<close>. The UUID check of a
  third-party package is an argument \<open>uuid_ok\<close> of the validations that use it. Instants are compared
  as integers, which is how the numeric columns compare them.
\<close>

section \<open>Typed values (application/scheduling.go)\<close>

definition is_alnum :: "char \<Rightarrow> bool" where
  "is_alnum c \<longleftrightarrow> is_digit c \<or> is_lower c \<or> is_upper c"

text \<open>The patterns of \<open>operator\_attention.go\<close>.\<close>

definition operatorAttentionScope :: "string \<Rightarrow> bool" where
  "operatorAttentionScope s \<longleftrightarrow> 1 \<le> length s \<and> length s \<le> 128 \<and>
     (\<forall>c \<in> set s. is_alnum c \<or> c = CHR ''_'' \<or> c = CHR ''-'')"

definition profile_tail_char :: "char \<Rightarrow> bool" where
  "profile_tail_char c \<longleftrightarrow> is_alnum c \<or> c \<in> set ''._-''"

definition operatorAttentionProfileID :: "string \<Rightarrow> bool" where
  "operatorAttentionProfileID s \<longleftrightarrow> s \<noteq> [] \<and> length s \<le> 160 \<and> is_alnum (hd s) \<and>
     (\<forall>c \<in> set (tl s). profile_tail_char c)"

definition repository_part :: "string \<Rightarrow> bool" where
  "repository_part s \<longleftrightarrow> s \<noteq> [] \<and> length s \<le> 100 \<and> is_alnum (hd s) \<and>
     (\<forall>c \<in> set (tl s). profile_tail_char c)"

definition operatorAttentionRepository :: "string \<Rightarrow> bool" where
  "operatorAttentionRepository s \<longleftrightarrow>
     (case split_on (CHR ''/'') s of [a, b] \<Rightarrow> repository_part a \<and> repository_part b | _ \<Rightarrow> False)"

definition validOperatorAttentionDigest :: "string \<Rightarrow> bool" where
  "validOperatorAttentionDigest v \<longleftrightarrow> length v = 64 \<and> to_lower v = v \<and>
     (\<forall>c \<in> set v. is_lower_hex c \<or> in_range (CHR ''A'') (CHR ''F'') c)"

record repository_eligibility =
  elig_Status :: string
  elig_ReasonCode :: string

definition RepositoryEligibility_Validate :: "repository_eligibility \<Rightarrow> go_error option" where
  "RepositoryEligibility_Validate e =
     (if elig_Status e = ''eligible''
      then (if elig_ReasonCode e \<noteq> [] then Some (New ''eligible repository has a reason code'') else None)
      else if elig_Status e = ''repository_disabled''
      then (if \<not> operatorAttentionScope (elig_ReasonCode e)
            then Some (New ''disabled repository reason code is required'') else None)
      else Some (New ''repository eligibility status is invalid''))"

definition MaxHeavyCapacity :: int where
  "MaxHeavyCapacity = 32"

fun HeavyWorkRequired :: "state \<Rightarrow> bool" where
  "HeavyWorkRequired st =
     (case st of
        StateReceived \<Rightarrow> True | StateAdmitting \<Rightarrow> True | StateProvisioning \<Rightarrow> True
      | StateExecuting \<Rightarrow> True | StateVerifying \<Rightarrow> True | StateFreshReview \<Rightarrow> True
      | StateRepairing \<Rightarrow> True | _ \<Rightarrow> False)"

fun TerminalRunState :: "state \<Rightarrow> bool" where
  "TerminalRunState st =
     (case st of StateRejected \<Rightarrow> True | StateFailed \<Rightarrow> True | StateCompleted \<Rightarrow> True | _ \<Rightarrow> False)"

declare HeavyWorkRequired.simps [simp del]

lemma TerminalRunState_terminal: "TerminalRunState st \<longleftrightarrow> terminal st"
  by (cases st) (auto simp: terminal_def)

lemma heavy_not_terminal: "HeavyWorkRequired st \<Longrightarrow> \<not> terminal st"
  by (cases st) (auto simp: terminal_def HeavyWorkRequired.simps)

record queue_candidate =
  qc_IssueUUID :: string
  qc_TeamKey :: string
  qc_IssueSequence :: int
  qc_Priority :: int
  qc_RepositoryProfileID :: string
  qc_RepositoryBindingDigest :: string
  qc_Classification :: string
  qc_ReasonCode :: string

record queue_snapshot =
  qs_Digest :: string
  qs_ObservedAt :: time
  qs_EffectiveCapacityIdentity :: string
  qs_Candidates :: "queue_candidate list"

definition validSchedulingProfileID :: "string \<Rightarrow> bool" where
  "validSchedulingProfileID v \<longleftrightarrow>
     operatorAttentionProfileID v \<or>
     prefix ''repository-profile:'' v \<and>
     operatorAttentionRepository (drop (length ''repository-profile:'') v)"

definition validQueueCandidateClassification :: "string \<Rightarrow> bool" where
  "validQueueCandidateClassification v \<longleftrightarrow> v \<in> set
     [''selected'', ''waiting'', ''blocked_by_active_repository'', ''repository_disabled'',
      ''repository_ineligible'', ''invalid'', ''source_drift'', ''ambiguous'']"

definition queue_candidate_ok :: "(string \<Rightarrow> bool) \<Rightarrow> queue_candidate \<Rightarrow> bool" where
  "queue_candidate_ok uuid_ok c \<longleftrightarrow>
     uuid_ok (qc_IssueUUID c) \<and> qc_TeamKey c = ''IFAN'' \<and> qc_IssueSequence c \<ge> 1 \<and>
     0 \<le> qc_Priority c \<and> qc_Priority c \<le> 4 \<and>
     validQueueCandidateClassification (qc_Classification c) \<and>
     operatorAttentionScope (qc_ReasonCode c) \<and>
     (qc_RepositoryProfileID c = [] \<or> validSchedulingProfileID (qc_RepositoryProfileID c)) \<and>
     (qc_RepositoryBindingDigest c = [] \<or> validOperatorAttentionDigest (qc_RepositoryBindingDigest c))"

definition QueueSnapshot_Validate :: "(string \<Rightarrow> bool) \<Rightarrow> queue_snapshot \<Rightarrow> go_error option" where
  "QueueSnapshot_Validate uuid_ok s =
     (if \<not> validOperatorAttentionDigest (qs_Digest s) \<or> is_zero_time (qs_ObservedAt s) \<or>
         \<not> operatorAttentionProfileID (qs_EffectiveCapacityIdentity s) \<or> length (qs_Candidates s) > 100
      then Some (New ''queue snapshot authority is invalid'')
      else if \<exists>c \<in> set (qs_Candidates s). \<not> queue_candidate_ok uuid_ok c
      then Some (New ''queue candidate projection is invalid'')
      else None)"

record scheduling_decision =
  sd_DecisionID :: string
  sd_SnapshotDigest :: string
  sd_ObservedAt :: time
  sd_CapacityIdentity :: string
  sd_IssueUUID :: string
  sd_IssueSequence :: int
  sd_Priority :: int
  sd_RepositoryProfileID :: string
  sd_RunID :: string
  sd_RepositoryBindingDigest :: string
  sd_Classification :: string
  sd_ReasonCode :: string
  sd_RepositorySlotVersion :: int
  sd_HeavyPermitVersion :: int
  sd_AdmissionLeaseVersion :: int

definition SchedulingDecision_Validate ::
  "(string \<Rightarrow> bool) \<Rightarrow> scheduling_decision \<Rightarrow> go_error option" where
  "SchedulingDecision_Validate uuid_ok d =
     (if \<not> validOperatorAttentionDigest (sd_DecisionID d) \<or>
         \<not> validOperatorAttentionDigest (sd_SnapshotDigest d) \<or> is_zero_time (sd_ObservedAt d) \<or>
         \<not> operatorAttentionProfileID (sd_CapacityIdentity d) \<or> \<not> uuid_ok (sd_IssueUUID d) \<or>
         sd_IssueSequence d < 1 \<or> sd_Priority d < 0 \<or> sd_Priority d > 4 \<or>
         \<not> validSchedulingProfileID (sd_RepositoryProfileID d) \<or>
         \<not> validQueueCandidateClassification (sd_Classification d) \<or>
         \<not> operatorAttentionScope (sd_ReasonCode d) \<or> sd_RepositorySlotVersion d < 0 \<or>
         sd_HeavyPermitVersion d < 0 \<or> sd_AdmissionLeaseVersion d < 0
      then Some (New ''scheduling decision evidence is invalid'')
      else if sd_RepositoryBindingDigest d \<noteq> [] \<and>
         \<not> validOperatorAttentionDigest (sd_RepositoryBindingDigest d)
      then Some (New ''scheduling decision repository binding is invalid'')
      else None)"

record reservation =
  rv_OwnerNonce :: string
  rv_CapacityIdentity :: string
  rv_Capacity :: int
  rv_RunnableSince :: time
  rv_DecisionID :: string
  rv_IssueSequence :: int
  rv_Priority :: int
  rv_RepositoryProfileID :: string

definition zero_reservation :: reservation where
  "zero_reservation = \<lparr>rv_OwnerNonce = [], rv_CapacityIdentity = [], rv_Capacity = 0,
     rv_RunnableSince = 0, rv_DecisionID = [], rv_IssueSequence = 0, rv_Priority = 0,
     rv_RepositoryProfileID = []\<rparr>"

definition Reservation_Enabled :: "reservation \<Rightarrow> bool" where
  "Reservation_Enabled r \<longleftrightarrow>
     rv_OwnerNonce r \<noteq> [] \<or> rv_CapacityIdentity r \<noteq> [] \<or> rv_Capacity r \<noteq> 0 \<or>
     \<not> is_zero_time (rv_RunnableSince r) \<or> rv_DecisionID r \<noteq> [] \<or> rv_IssueSequence r \<noteq> 0 \<or>
     rv_Priority r \<noteq> 0 \<or> rv_RepositoryProfileID r \<noteq> []"

definition Reservation_Validate :: "reservation \<Rightarrow> go_error option" where
  "Reservation_Validate r =
     (if \<not> Reservation_Enabled r then None
      else if blank (rv_OwnerNonce r) \<or> \<not> operatorAttentionProfileID (rv_CapacityIdentity r) \<or>
         rv_Capacity r < 1 \<or> rv_Capacity r > MaxHeavyCapacity \<or> is_zero_time (rv_RunnableSince r) \<or>
         \<not> validOperatorAttentionDigest (rv_DecisionID r) \<or> rv_IssueSequence r < 1 \<or>
         rv_Priority r < 0 \<or> rv_Priority r > 4 \<or> \<not> validSchedulingProfileID (rv_RepositoryProfileID r)
      then Some (New ''scheduling reservation authority is invalid'')
      else None)"

section \<open>Supervisor and capacity (adapters/sqlite/scheduling.go)\<close>

definition BindWorkerSupervisor :: "string \<Rightarrow> store \<Rightarrow> go_error option \<times> store" where
  "BindWorkerSupervisor owner s =
     (if blank owner then (Some (New ''worker supervisor owner is required''), s)
      else if st_supervisor s \<noteq> [] \<and> st_supervisor s \<noteq> owner
      then (Some (New ''worker supervisor owner is already bound''), s)
      else (None, s\<lparr>st_supervisor := owner\<rparr>))"

definition authorizedSupervisorOwner :: "store \<Rightarrow> string \<Rightarrow> bool" where
  "authorizedSupervisorOwner s owner \<longleftrightarrow> st_supervisor s = owner \<and> owner \<noteq> []"

definition defaultHeavyPermitOwner :: "store \<Rightarrow> string \<Rightarrow> string" where
  "defaultHeavyPermitOwner s runID =
     (if st_supervisor s \<noteq> [] then st_supervisor s else ''manual:'' @ runID)"

definition HasSchedulingAuthority :: "store \<Rightarrow> string \<Rightarrow> bool result" where
  "HasSchedulingAuthority s runID =
     (if blank runID then Inl (New ''scheduling run ID is required'')
      else case select_where (\<lambda>x. rs_RunID x = runID) (st_scheduling s) of
        None \<Rightarrow>
          (if runID \<in> set (st_admitted s)
           then Inl (New ''automatic run is missing scheduling authority'')
           else Inr False)
      | Some row \<Rightarrow>
          (if rs_Quarantined row
           then Inl (New ''quarantined run cannot cross the scheduling authority boundary'')
           else Inr True))"

record capacity_projection =
  cp_Configured :: int
  cp_Effective :: int
  cp_InUse :: int
  cp_Available :: int
  cp_Draining :: bool
  cp_WaitingRunnable :: int
  cp_Identity :: string
  cp_Version :: int
  cp_ObservedAt :: time

definition Capacity :: "store \<Rightarrow> time \<Rightarrow> capacity_projection result" where
  "Capacity s now =
     (if is_zero_time now then Inl (New ''capacity observation time is required'')
      else case st_capacity s of
        None \<Rightarrow> Inl no_rows
      | Some c \<Rightarrow>
          (let inUse = int (length (st_permits s)) in
           Inr \<lparr>cp_Configured = cap_Configured c, cp_Effective = cap_Effective c, cp_InUse = inUse,
             cp_Available = (if cap_Effective c - inUse < 0 then 0 else cap_Effective c - inUse),
             cp_Draining = (inUse > cap_Effective c),
             cp_WaitingRunnable = int (count_where
               (\<lambda>x. rs_SupervisorState x = ''waiting'' \<and> \<not> rs_Quarantined x) (st_scheduling s)),
             cp_Identity = cap_Identity c, cp_Version = cap_Version c, cp_ObservedAt = now\<rparr>))"

definition ConfigureHeavyCapacity ::
  "int \<Rightarrow> string \<Rightarrow> time \<Rightarrow> store \<Rightarrow> capacity_projection result \<times> store" where
  "ConfigureHeavyCapacity capacity identity now s =
     (if capacity < 1 \<or> capacity > MaxHeavyCapacity \<or> blank identity \<or> is_zero_time now
      then (Inl (New ''heavy capacity configuration is invalid''), s)
      else case st_capacity s of
        None \<Rightarrow> (Inl (New ''heavy capacity authority is missing''), s)
      | Some c \<Rightarrow>
          (let s' = (if cap_Configured c \<noteq> capacity \<or> cap_Effective c \<noteq> capacity \<or>
                        cap_Identity c \<noteq> identity
                     then s\<lparr>st_capacity := Some \<lparr>cap_Configured = capacity, cap_Effective = capacity,
                            cap_Identity = identity, cap_Version = cap_Version c + 1\<rparr>\<rparr>
                     else s)
           in (Capacity s' now, s')))"

section \<open>Heavy permits\<close>

text \<open>\<open>ORDER BY runnable\_since\_unix\_ns, run\_id LIMIT 1\<close>.\<close>

definition runs_before :: "scheduling_row \<Rightarrow> scheduling_row \<Rightarrow> bool" where
  "runs_before a b \<longleftrightarrow> rs_RunnableSince a < rs_RunnableSince b \<or>
     rs_RunnableSince a = rs_RunnableSince b \<and> rs_RunID a < rs_RunID b"

fun earliest :: "scheduling_row list \<Rightarrow> scheduling_row option" where
  "earliest [] = None"
| "earliest (x # xs) =
     (case earliest xs of None \<Rightarrow> Some x | Some y \<Rightarrow> (if runs_before y x then Some y else Some x))"

definition waiting_now :: "store \<Rightarrow> time \<Rightarrow> scheduling_row list" where
  "waiting_now s now = filter (\<lambda>x. rs_SupervisorState x = ''waiting'' \<and> \<not> rs_Quarantined x \<and>
     rs_RunnableSince x \<le> now) (st_scheduling s)"

definition started_attempts :: "store \<Rightarrow> string \<Rightarrow> nat" where
  "started_attempts s runID =
     count_where (\<lambda>a. att_RunID a = runID \<and> att_Status a = ''started'') (st_attempts s)"

definition live_attempts :: "store \<Rightarrow> string \<Rightarrow> nat" where
  "live_attempts s runID =
     count_where (\<lambda>a. att_RunID a = runID \<and> att_Status a = ''started'' \<and> att_ProcessControlKey a \<noteq> [])
       (st_attempts s)"

definition ErrHeavyPermitProcessReconciliationRequired :: go_error where
  "ErrHeavyPermitProcessReconciliationRequired =
     New ''heavy permit ownership requires process reconciliation''"

text \<open>The branch of a run that already holds a permit: reuse it, or adopt it under the fence.\<close>

definition adopt_permit ::
  "run_row \<Rightarrow> permit_row \<Rightarrow> string \<Rightarrow> time \<Rightarrow> store \<Rightarrow> permit_row option result \<times> store" where
  "adopt_permit run existing owner now s =
     (if hp_OwnerNonce existing = owner then (Inr (Some existing), s)
      else if \<not> authorizedSupervisorOwner s owner
      then (Inl (New ''heavy permit owner mismatch requires exclusive supervisor fencing''), s)
      else if run_LeaseExpiresUnix run > unix_nano now then (Inr None, s)
      else if started_attempts s (run_ID run) \<noteq> 0
      then (Inl ErrHeavyPermitProcessReconciliationRequired, s)
      else (let hit = (\<lambda>p. hp_RunID p = run_ID run \<and> hp_OwnerNonce p = hp_OwnerNonce existing \<and>
                        hp_Version p = hp_Version existing);
                upd = (\<lambda>p. p\<lparr>hp_OwnerNonce := owner, hp_Version := hp_Version p + 1,
                        hp_UpdatedAt := now\<rparr>)
            in if count_where hit (st_permits s) \<noteq> 1
               then (Inl (New ''heavy permit adoption compare-and-swap lost''), s)
               else (Inr (Some (existing\<lparr>hp_OwnerNonce := owner,
                        hp_Version := hp_Version existing + 1, hp_UpdatedAt := now\<rparr>)),
                     s\<lparr>st_permits := update_where hit upd (st_permits s)\<rparr>)))"

text \<open>The branch of a run without a permit: grant one within the capacity, in order.\<close>

definition grant_permit ::
  "run_row \<Rightarrow> string \<Rightarrow> time \<Rightarrow> store \<Rightarrow> permit_row option result \<times> store" where
  "grant_permit run owner now s =
     (if started_attempts s (run_ID run) \<noteq> 0
      then (if run_LeaseExpiresUnix run > unix_nano now then (Inr None, s)
            else if \<not> authorizedSupervisorOwner s owner
            then (Inl (New ''started heavy work requires exclusive supervisor fencing''), s)
            else (Inl ErrHeavyPermitProcessReconciliationRequired, s))
      else case st_capacity s of
        None \<Rightarrow> (Inl no_rows, s)
      | Some c \<Rightarrow>
          (if int (length (st_permits s)) \<ge> cap_Effective c then (Inr None, s)
           else if (case earliest (waiting_now s now) of None \<Rightarrow> False | Some x \<Rightarrow> rs_RunID x \<noteq> run_ID run)
           then (Inr None, s)
           else (let permit = \<lparr>hp_RunID = run_ID run, hp_OwnerNonce = owner,
                       hp_Version = next_number (map hp_Version (st_permits s)),
                       hp_AcquiredAt = now, hp_UpdatedAt = now\<rparr>
                 in (Inr (Some permit),
                     s\<lparr>st_permits := permit # st_permits s,
                       st_scheduling := update_where
                         (\<lambda>x. rs_RunID x = run_ID run \<and> \<not> rs_Quarantined x)
                         (\<lambda>x. x\<lparr>rs_SupervisorState := ''running'', rs_UpdatedAt := now\<rparr>)
                         (st_scheduling s)\<rparr>))))"

definition AcquireHeavyPermit ::
  "string \<Rightarrow> string \<Rightarrow> time \<Rightarrow> store \<Rightarrow> permit_row option result \<times> store" where
  "AcquireHeavyPermit runID owner now s =
     (if blank runID \<or> blank owner \<or> is_zero_time now
      then (Inl (New ''heavy permit request is invalid''), s)
      else case find_run s runID of
        None \<Rightarrow> (Inl no_rows, s)
      | Some run \<Rightarrow>
          (if \<not> HeavyWorkRequired (run_State run) then (Inr None, s)
           else (case select_where (\<lambda>x. slot_Binding x = run_RepositoryBindingDigest run) (st_slots s) of
              None \<Rightarrow> (Inl (New ''repository slot authority is unavailable''), s)
            | Some slot \<Rightarrow>
                (if slot_RunID slot \<noteq> runID
                 then (Inl (New ''repository slot authority is unavailable''), s)
                 else (case select_where (\<lambda>p. hp_RunID p = runID) (st_permits s) of
                    Some existing \<Rightarrow> adopt_permit run existing owner now s
                  | None \<Rightarrow> grant_permit run owner now s)))))"

definition validPermitReleaseReason :: "string \<Rightarrow> bool" where
  "validPermitReleaseReason reason \<longleftrightarrow> reason \<in> set
     [''external_wait'', ''human_wait'', ''manual_intervention'', ''retry_delay'', ''terminal'',
      ''shutdown_after_process_exit'']"

definition release_state :: "string \<Rightarrow> string" where
  "release_state reason =
     (if reason = ''terminal'' then ''terminal''
      else if reason = ''human_wait'' \<or> reason = ''manual_intervention'' then ''human_wait''
      else ''external_wait'')"

definition ReleaseHeavyPermit ::
  "permit_row \<Rightarrow> string \<Rightarrow> time \<Rightarrow> store \<Rightarrow> bool result \<times> store" where
  "ReleaseHeavyPermit permit reason now s =
     (if hp_RunID permit = [] \<or> hp_OwnerNonce permit = [] \<or> hp_Version permit < 1 \<or>
         is_zero_time now \<or> \<not> validPermitReleaseReason reason
      then (Inl (New ''heavy permit release authority is invalid''), s)
      else if live_attempts s (hp_RunID permit) \<noteq> 0
      then (Inl (New ''heavy permit cannot be released while a launched child may be alive''), s)
      else (let hit = (\<lambda>p. hp_RunID p = hp_RunID permit \<and> hp_OwnerNonce p = hp_OwnerNonce permit \<and>
                        hp_Version p = hp_Version permit);
                s1 = s\<lparr>st_permits := delete_where hit (st_permits s)\<rparr>
            in if count_where hit (st_permits s) = 1
               then (Inr True, s1\<lparr>st_scheduling := update_where (\<lambda>x. rs_RunID x = hp_RunID permit)
                      (\<lambda>x. x\<lparr>rs_SupervisorState := release_state reason, rs_UpdatedAt := now\<rparr>)
                      (st_scheduling s1)\<rparr>)
               else (Inr False, s1)))"

definition DeferSchedulingRun ::
  "string \<Rightarrow> time \<Rightarrow> time \<Rightarrow> store \<Rightarrow> bool result \<times> store" where
  "DeferSchedulingRun runID runnableAt now s =
     (if blank runID \<or> is_zero_time runnableAt \<or> is_zero_time now \<or> runnableAt < now
      then (Inl (New ''deferred scheduling authority is invalid''), s)
      else (let hit = (\<lambda>x. rs_RunID x = runID \<and> \<not> rs_Quarantined x \<and>
                  (\<exists>r \<in> set (st_runs s). run_ID r = runID \<and> \<not> terminal (run_State r)))
            in (Inr (count_where hit (st_scheduling s) = 1),
                s\<lparr>st_scheduling := update_where hit
                  (\<lambda>x. x\<lparr>rs_RunnableSince := runnableAt, rs_SupervisorState := ''external_wait'',
                     rs_UpdatedAt := now\<rparr>) (st_scheduling s)\<rparr>)))"

section \<open>Reservation at admission\<close>

definition quarantined_binding :: "store \<Rightarrow> string \<Rightarrow> nat" where
  "quarantined_binding s binding =
     count_where (\<lambda>x. rs_Quarantined x \<and>
       (\<exists>r \<in> set (st_runs s). run_ID r = rs_RunID x \<and> run_RepositoryBindingDigest r = binding \<and>
          \<not> terminal (run_State r))) (st_scheduling s)"

definition reservation_row :: "run_row \<Rightarrow> time \<Rightarrow> time \<Rightarrow> scheduling_row" where
  "reservation_row run since now =
     \<lparr>rs_RunID = run_ID run, rs_RunnableSince = since, rs_SupervisorState = ''running'',
      rs_Quarantined = False, rs_ReasonCode = [], rs_UpdatedAt = now\<rparr>"

definition insert_reservation ::
  "run_row \<Rightarrow> string \<Rightarrow> time \<Rightarrow> time \<Rightarrow> store \<Rightarrow> (slot_row \<times> permit_row) option result \<times> store" where
  "insert_reservation run owner since now s =
     (let slot = \<lparr>slot_Binding = run_RepositoryBindingDigest run, slot_RunID = run_ID run,
            slot_Version = next_number (map slot_Version (st_slots s)), slot_AcquiredAt = now\<rparr>;
          permit = \<lparr>hp_RunID = run_ID run, hp_OwnerNonce = owner,
            hp_Version = next_number (map hp_Version (st_permits s)), hp_AcquiredAt = now,
            hp_UpdatedAt = now\<rparr>
      in if count_where (\<lambda>p. hp_RunID p = run_ID run) (st_permits s) \<noteq> 0
         then (Inl (Wrapf ''reserve heavy permit: %w'' [] (New ''UNIQUE constraint failed'')), s)
         else if count_where (\<lambda>x. rs_RunID x = run_ID run) (st_scheduling s) \<noteq> 0
         then (Inl (Wrapf ''reserve run scheduling: %w'' [] (New ''UNIQUE constraint failed'')), s)
         else (Inr (Some (slot, permit)),
               s\<lparr>st_slots := slot # st_slots s, st_permits := permit # st_permits s,
                 st_scheduling := reservation_row run since now # st_scheduling s\<rparr>))"

definition reservation_owner :: "run_row \<Rightarrow> reservation \<Rightarrow> string \<Rightarrow> string" where
  "reservation_owner run rv defaultOwner =
     (if rv_OwnerNonce rv \<noteq> [] then rv_OwnerNonce rv
      else if defaultOwner \<noteq> [] then defaultOwner else ''manual:'' @ run_ID run)"

definition reserveSchedulingAuthoritiesTx ::
  "run_row \<Rightarrow> reservation \<Rightarrow> string \<Rightarrow> time \<Rightarrow> store \<Rightarrow> (slot_row \<times> permit_row) option result \<times> store" where
  "reserveSchedulingAuthoritiesTx run rv defaultOwner now s =
     (case Reservation_Validate rv of
        Some e \<Rightarrow> (Inl e, s)
      | None \<Rightarrow>
     (if blank (run_RepositoryBindingDigest run)
      then (Inl (New ''repository binding digest is required''), s)
      else case st_capacity s of
        None \<Rightarrow> (Inl no_rows, s)
      | Some c \<Rightarrow>
     (if Reservation_Enabled rv \<and>
         (rv_Capacity rv \<noteq> cap_Effective c \<or> rv_CapacityIdentity rv \<noteq> cap_Identity c)
      then (Inl (New ''effective heavy capacity authority changed''), s)
      else if quarantined_binding s (run_RepositoryBindingDigest run) \<noteq> 0 then (Inr None, s)
      else if count_where (\<lambda>x. slot_Binding x = run_RepositoryBindingDigest run \<or>
                slot_RunID x = run_ID run) (st_slots s) \<noteq> 0 then (Inr None, s)
      else if int (length (st_permits s)) \<ge> cap_Effective c \<or> waiting_now s now \<noteq> []
      then (Inr None, s)
      else insert_reservation run (reservation_owner run rv defaultOwner)
             (if is_zero_time (rv_RunnableSince rv) then now else rv_RunnableSince rv) now s)))"

section \<open>Reconciliation\<close>

record scheduling_run =
  sr_RunID :: string
  sr_Binding :: string
  sr_State :: state
  sr_RunnableSince :: time
  sr_SupervisorState :: string
  sr_Waiting :: bool
  sr_HasPermit :: bool
  sr_Quarantined :: bool

definition upsert_scheduling :: "scheduling_row \<Rightarrow> (scheduling_row \<Rightarrow> scheduling_row) \<Rightarrow> store \<Rightarrow> store" where
  "upsert_scheduling row f s =
     (if count_where (\<lambda>x. rs_RunID x = rs_RunID row) (st_scheduling s) = 0
      then s\<lparr>st_scheduling := row # st_scheduling s\<rparr>
      else s\<lparr>st_scheduling := update_where (\<lambda>x. rs_RunID x = rs_RunID row) f (st_scheduling s)\<rparr>)"

definition latest_transition_to :: "store \<Rightarrow> string \<Rightarrow> state \<Rightarrow> int option" where
  "latest_transition_to s runID st =
     (case filter (\<lambda>t. tr_RunID t = runID \<and> tr_To t = st) (st_transitions s) of
        [] \<Rightarrow> None
      | t # ts \<Rightarrow> Some (foldr max (map tr_Sequence ts) (tr_Sequence t)))"

definition attention_event_key :: "string \<Rightarrow> string \<Rightarrow> int \<Rightarrow> string" where
  "attention_event_key runID event n = ''automation:'' @ runID @ '':'' @ event @ '':'' @ dec_int n"

definition reconcile_wait_state :: "store \<Rightarrow> run_row \<Rightarrow> string" where
  "reconcile_wait_state s run =
     (if run_State run = StateAwaitingHumanDecision \<or> run_State run = StateManualIntervention
      then (let expected = (if run_State run = StateManualIntervention
                            then ''manual_intervention_attention'' else ''human_decision_attention'') in
        case latest_transition_to s (run_ID run) (run_State run) of
          None \<Rightarrow> ''external_wait''
        | Some n \<Rightarrow>
            (if count_where (\<lambda>a. an_EventKey a = attention_event_key (run_ID run) expected n \<and>
                  an_RunID a = run_ID run \<and> an_EventType a = expected \<and>
                  an_ControllerState a = run_State run) (st_attention s) = 0
             then ''external_wait'' else ''human_wait''))
      else ''external_wait'')"

definition reconcile_since :: "store \<Rightarrow> run_row \<Rightarrow> time \<Rightarrow> time" where
  "reconcile_since s run now =
     (let persisted = (case select_where (\<lambda>x. rs_RunID x = run_ID run) (st_scheduling s) of
            Some x \<Rightarrow> rs_RunnableSince x | None \<Rightarrow> run_CreatedAt run);
          since = (if is_zero_time persisted then now else persisted)
      in if run_LeaseExpiresUnix run > unix_nano now then from_unix_nano (run_LeaseExpiresUnix run)
         else since)"

text \<open>A run whose repository has another active run is quarantined.\<close>

definition quarantine_run :: "run_row \<Rightarrow> time \<Rightarrow> store \<Rightarrow> store" where
  "quarantine_run run now s =
     upsert_scheduling
       \<lparr>rs_RunID = run_ID run, rs_RunnableSince = run_CreatedAt run, rs_SupervisorState = ''quarantined'',
        rs_Quarantined = True, rs_ReasonCode = ''duplicate_nonterminal_repository'', rs_UpdatedAt = now\<rparr>
       (\<lambda>x. x\<lparr>rs_SupervisorState := ''quarantined'', rs_Quarantined := True,
          rs_ReasonCode := ''duplicate_nonterminal_repository'', rs_UpdatedAt := now\<rparr>) s"

text \<open>The slot of the run's repository: taken over when free, an error when another run holds it.\<close>

definition reconcile_slot :: "run_row \<Rightarrow> store \<Rightarrow> store result" where
  "reconcile_slot run s =
     (case select_where (\<lambda>x. slot_Binding x = run_RepositoryBindingDigest run) (st_slots s) of
        None \<Rightarrow>
          (if count_where (\<lambda>x. slot_RunID x = run_ID run) (st_slots s) \<noteq> 0
           then Inl (New ''UNIQUE constraint failed'')
           else Inr (s\<lparr>st_slots := \<lparr>slot_Binding = run_RepositoryBindingDigest run,
             slot_RunID = run_ID run, slot_Version = 1, slot_AcquiredAt = run_CreatedAt run\<rparr>
             # st_slots s\<rparr>))
      | Some slot \<Rightarrow>
          (if slot_RunID slot \<noteq> run_ID run
           then Inl (New ''repository slot authority conflicts with active run'') else Inr s))"

definition record_supervisor :: "run_row \<Rightarrow> time \<Rightarrow> string \<Rightarrow> time \<Rightarrow> store \<Rightarrow> store" where
  "record_supervisor run since mode now s =
     upsert_scheduling
       \<lparr>rs_RunID = run_ID run, rs_RunnableSince = since, rs_SupervisorState = mode,
        rs_Quarantined = False, rs_ReasonCode = [], rs_UpdatedAt = now\<rparr>
       (\<lambda>x. x\<lparr>rs_RunnableSince := since, rs_SupervisorState := mode, rs_Quarantined := False,
          rs_ReasonCode := [], rs_UpdatedAt := now\<rparr>) s"

definition reconcile_run ::
  "(string \<Rightarrow> nat) \<Rightarrow> time \<Rightarrow> run_row \<Rightarrow> store \<Rightarrow> (store \<times> scheduling_run) result" where
  "reconcile_run counts now run s =
     (if counts (run_RepositoryBindingDigest run) > 1
      then Inr (quarantine_run run now s,
             \<lparr>sr_RunID = run_ID run, sr_Binding = run_RepositoryBindingDigest run,
              sr_State = run_State run, sr_RunnableSince = 0, sr_SupervisorState = ''quarantined'',
              sr_Waiting = False, sr_HasPermit = False, sr_Quarantined = True\<rparr>)
      else case reconcile_slot run s of
        Inl e \<Rightarrow> Inl e
      | Inr s1 \<Rightarrow>
          (let permits = count_where (\<lambda>p. hp_RunID p = run_ID run) (st_permits s1);
               since = reconcile_since s1 run now;
               heavy = HeavyWorkRequired (run_State run)
           in if \<not> heavy \<and> permits \<noteq> 0 \<and> live_attempts s1 (run_ID run) \<noteq> 0
              then Inl (New ''heavy permit process ownership is ambiguous'')
              else (let s2 = (if \<not> heavy \<and> permits \<noteq> 0
                              then s1\<lparr>st_permits := delete_where (\<lambda>p. hp_RunID p = run_ID run) (st_permits s1)\<rparr>
                              else s1);
                        held = (if heavy then permits else 0);
                        waiting = (heavy \<and> permits = 0 \<and> \<not> since > now);
                        mode = (if heavy
                               then (if permits \<noteq> 0 then ''running''
                                     else if since > now then ''external_wait'' else ''waiting'')
                               else reconcile_wait_state s2 run)
                    in Inr (record_supervisor run since mode now s2,
                            \<lparr>sr_RunID = run_ID run, sr_Binding = run_RepositoryBindingDigest run,
                             sr_State = run_State run, sr_RunnableSince = since, sr_SupervisorState = mode,
                             sr_Waiting = waiting, sr_HasPermit = (held = 1), sr_Quarantined = False\<rparr>))))"

fun reconcile_runs ::
  "(string \<Rightarrow> nat) \<Rightarrow> time \<Rightarrow> run_row list \<Rightarrow> store \<Rightarrow> (store \<times> scheduling_run list) result" where
  "reconcile_runs counts now [] s = Inr (s, [])"
| "reconcile_runs counts now (run # runs) s =
     (case reconcile_run counts now run s of
        Inl e \<Rightarrow> Inl e
      | Inr (s1, x) \<Rightarrow>
          (case reconcile_runs counts now runs s1 of
             Inl e \<Rightarrow> Inl e
           | Inr (s2, xs) \<Rightarrow> Inr (s2, x # xs)))"

definition terminal_run_ids :: "store \<Rightarrow> string list" where
  "terminal_run_ids s = map run_ID (filter (\<lambda>r. terminal (run_State r)) (st_runs s))"

definition drop_terminal_authorities :: "store \<Rightarrow> store" where
  "drop_terminal_authorities s =
     s\<lparr>st_permits := delete_where (\<lambda>p. hp_RunID p \<in> set (terminal_run_ids s)) (st_permits s),
       st_slots := delete_where (\<lambda>x. slot_RunID x \<in> set (terminal_run_ids s)) (st_slots s)\<rparr>"

text \<open>
  \<open>ord\<close> is the order \<open>ORDER BY created_at,run_id\<close> gives the active runs: \<open>created_at\<close> is text
  there, which does not order like the instants it encodes.
\<close>

definition ReconcileSchedulingAuthorities ::
  "(run_row list \<Rightarrow> run_row list) \<Rightarrow> time \<Rightarrow> store \<Rightarrow> scheduling_run list result \<times> store" where
  "ReconcileSchedulingAuthorities ord now s =
     (if is_zero_time now then (Inl (New ''scheduling reconciliation time is required''), s)
      else (let s0 = drop_terminal_authorities s;
                active = ord (filter (\<lambda>r. \<not> terminal (run_State r)) (st_runs s0));
                counts = (\<lambda>b. count_where (\<lambda>r. run_RepositoryBindingDigest r = b) active)
            in if \<exists>r \<in> set active. blank (run_RepositoryBindingDigest r)
               then (Inl (New ''nonterminal run has no repository binding authority''), s)
               else (case reconcile_runs counts now active s0 of
                  Inl e \<Rightarrow> (Inl e, s)
                | Inr (s', result) \<Rightarrow> (Inr result, s'))))"

section \<open>The scheduling invariant\<close>

definition run_view :: "store \<Rightarrow> (string \<times> string \<times> state) list" where
  "run_view s = map (\<lambda>r. (run_ID r, run_RepositoryBindingDigest r, run_State r)) (st_runs s)"

definition slot_ok :: "store \<Rightarrow> slot_row \<Rightarrow> bool" where
  "slot_ok s x \<longleftrightarrow> (\<exists>st. (slot_RunID x, slot_Binding x, st) \<in> set (run_view s) \<and> \<not> terminal st)"

text \<open>
  One slot per repository and per run, held by an active run of that repository; one permit and
  one scheduling row per run; a permit only for a run that holds its repository's slot.
\<close>

definition sched_inv :: "store \<Rightarrow> bool" where
  "sched_inv s \<longleftrightarrow>
     distinct (map fst (run_view s)) \<and>
     distinct (map slot_Binding (st_slots s)) \<and> distinct (map slot_RunID (st_slots s)) \<and>
     distinct (map hp_RunID (st_permits s)) \<and> distinct (map rs_RunID (st_scheduling s)) \<and>
     (\<forall>x \<in> set (st_slots s). slot_ok s x) \<and>
     (\<forall>p \<in> set (st_permits s). hp_RunID p \<in> slot_RunID ` set (st_slots s))"

lemma sched_invI:
  assumes "distinct (map fst (run_view s))"
    and "distinct (map slot_Binding (st_slots s))" "distinct (map slot_RunID (st_slots s))"
    and "distinct (map hp_RunID (st_permits s))" "distinct (map rs_RunID (st_scheduling s))"
    and "\<And>x. x \<in> set (st_slots s) \<Longrightarrow> slot_ok s x"
    and "\<And>p. p \<in> set (st_permits s) \<Longrightarrow> hp_RunID p \<in> slot_RunID ` set (st_slots s)"
  shows "sched_inv s"
  using assms by (simp add: sched_inv_def)

lemma sched_invD:
  assumes "sched_inv s"
  shows "distinct (map fst (run_view s))"
    and "distinct (map slot_Binding (st_slots s))" "distinct (map slot_RunID (st_slots s))"
    and "distinct (map hp_RunID (st_permits s))" "distinct (map rs_RunID (st_scheduling s))"
    and "\<And>x. x \<in> set (st_slots s) \<Longrightarrow> slot_ok s x"
    and "\<And>p. p \<in> set (st_permits s) \<Longrightarrow> hp_RunID p \<in> slot_RunID ` set (st_slots s)"
  using assms by (simp_all add: sched_inv_def)

lemma run_view_ids: "distinct (map fst (run_view s)) \<Longrightarrow> distinct (map run_ID (st_runs s))"
  by (simp add: run_view_def comp_def)

lemma slot_ok_cong: "run_view s = run_view t \<Longrightarrow> slot_ok s = slot_ok t"
  by (simp add: slot_ok_def fun_eq_iff)

text \<open>What only touches other tables, the supervisor or the capacity keeps the invariant.\<close>

lemma sched_inv_cong:
  assumes "sched_inv s" and "run_view t = run_view s" and "st_slots t = st_slots s"
    and "map hp_RunID (st_permits t) = map hp_RunID (st_permits s)"
    and "map rs_RunID (st_scheduling t) = map rs_RunID (st_scheduling s)"
  shows "sched_inv t"
proof (rule sched_invI)
  note inv = sched_invD [OF assms(1)]
  have p: "hp_RunID ` set (st_permits t) = hp_RunID ` set (st_permits s)"
    using assms(4) by (metis set_map)
  show "slot_ok t x" if "x \<in> set (st_slots t)" for x
    using that inv(6) [of x] assms(2,3) slot_ok_cong [of t s] by simp
  show "hp_RunID q \<in> slot_RunID ` set (st_slots t)" if "q \<in> set (st_permits t)" for q
  proof -
    from that p have "hp_RunID q \<in> hp_RunID ` set (st_permits s)" by blast
    with inv(7) assms(3) show ?thesis by auto
  qed
qed (use sched_invD [OF assms(1)] assms(2-5) in simp_all)

lemma BindWorkerSupervisor_inv [preserve]: "sched_inv s \<Longrightarrow> sched_inv (snd (BindWorkerSupervisor owner s))"
  by (auto simp: BindWorkerSupervisor_def run_view_def intro: sched_inv_cong)

lemma ConfigureHeavyCapacity_inv [preserve]:
  "sched_inv s \<Longrightarrow> sched_inv (snd (ConfigureHeavyCapacity c ident now s))"
  by (auto simp: ConfigureHeavyCapacity_def run_view_def Let_def intro: sched_inv_cong
      split: option.splits)

lemma DeferSchedulingRun_inv [preserve]:
  "sched_inv s \<Longrightarrow> sched_inv (snd (DeferSchedulingRun runID at now s))"
  by (auto simp: DeferSchedulingRun_def run_view_def Let_def map_update_where intro: sched_inv_cong)

text \<open>Removing permits keeps the invariant.\<close>

lemma sched_inv_fewer_permits:
  assumes "sched_inv s" and "run_view t = run_view s" and "st_slots t = st_slots s"
    and "st_permits t = delete_where P (st_permits s)"
    and "map rs_RunID (st_scheduling t) = map rs_RunID (st_scheduling s)"
  shows "sched_inv t"
  using sched_invD [OF assms(1)] assms(2-5) slot_ok_cong [OF assms(2)]
  by (intro sched_invI) (auto simp: distinct_delete_where)

lemma ReleaseHeavyPermit_inv [preserve]:
  "sched_inv s \<Longrightarrow> sched_inv (snd (ReleaseHeavyPermit p reason now s))"
  unfolding ReleaseHeavyPermit_def Let_def
  by (auto simp: map_update_where run_view_def intro: sched_inv_fewer_permits)

lemma adopt_permit_inv: "sched_inv s \<Longrightarrow> sched_inv (snd (adopt_permit run e owner now s))"
  unfolding adopt_permit_def Let_def
  by (auto simp: map_update_where run_view_def intro: sched_inv_cong)

lemma grant_permit_inv:
  assumes inv: "sched_inv s" and slot: "run_ID run \<in> slot_RunID ` set (st_slots s)"
    and none: "run_ID run \<notin> hp_RunID ` set (st_permits s)"
  shows "sched_inv (snd (grant_permit run owner now s))"
proof -
  have view: "slot_ok (s\<lparr>st_permits := b, st_scheduling := c\<rparr>) = slot_ok s"
    "run_view (s\<lparr>st_permits := b, st_scheduling := c\<rparr>) = run_view s" for b c
    by (simp_all add: slot_ok_def run_view_def fun_eq_iff)
  show ?thesis
    unfolding grant_permit_def Let_def
    using sched_invD [OF inv] slot none
    by (simp add: map_update_where view inv sched_inv_def split: option.split)
qed

lemma find_run_Some: "find_run s runID = Some run \<Longrightarrow> run \<in> set (st_runs s) \<and> run_ID run = runID"
  unfolding find_run_def by (drule select_where_Some) simp

lemma AcquireHeavyPermit_inv [preserve]:
  assumes "sched_inv s"
  shows "sched_inv (snd (AcquireHeavyPermit runID owner now s))"
proof -
  have g: "sched_inv (snd (grant_permit run owner now s))"
    if "find_run s runID = Some run" "select_where (\<lambda>x. slot_Binding x = b) (st_slots s) = Some slot"
      "slot_RunID slot = runID" "select_where (\<lambda>p. hp_RunID p = runID) (st_permits s) = None"
    for run b slot
    using that by (intro grant_permit_inv [OF assms])
      (auto simp: select_where_None dest!: find_run_Some select_where_Some)
  show ?thesis
    using g adopt_permit_inv [OF assms] assms
    by (simp add: AcquireHeavyPermit_def split: option.split)
qed

section \<open>Admission reserves a slot and a permit\<close>

definition reserved_store ::
  "run_row \<Rightarrow> slot_row \<Rightarrow> permit_row \<Rightarrow> scheduling_row \<Rightarrow> store \<Rightarrow> store \<Rightarrow> bool" where
  "reserved_store run slot permit row s s' \<longleftrightarrow>
     slot_Binding slot = run_RepositoryBindingDigest run \<and> slot_RunID slot = run_ID run \<and>
     hp_RunID permit = run_ID run \<and> rs_RunID row = run_ID run \<and>
     s' = s\<lparr>st_slots := slot # st_slots s, st_permits := permit # st_permits s,
            st_scheduling := row # st_scheduling s\<rparr> \<and>
     (\<forall>x \<in> set (st_slots s). slot_Binding x \<noteq> run_RepositoryBindingDigest run \<and>
        slot_RunID x \<noteq> run_ID run) \<and>
     (\<forall>p \<in> set (st_permits s). hp_RunID p \<noteq> run_ID run) \<and>
     (\<forall>x \<in> set (st_scheduling s). rs_RunID x \<noteq> run_ID run) \<and>
     (\<exists>c. st_capacity s = Some c \<and> int (length (st_permits s)) < cap_Effective c)"

lemma insert_reservation_cases:
  "(snd (insert_reservation run o' since now s) = s \<and>
    (\<forall>x. fst (insert_reservation run o' since now s) \<noteq> Inr (Some x))) \<or>
   (\<exists>slot permit row. fst (insert_reservation run o' since now s) = Inr (Some (slot, permit)) \<and>
     slot_Binding slot = run_RepositoryBindingDigest run \<and> slot_RunID slot = run_ID run \<and>
     hp_RunID permit = run_ID run \<and> rs_RunID row = run_ID run \<and>
     snd (insert_reservation run o' since now s) =
       s\<lparr>st_slots := slot # st_slots s, st_permits := permit # st_permits s,
         st_scheduling := row # st_scheduling s\<rparr> \<and>
     (\<forall>p \<in> set (st_permits s). hp_RunID p \<noteq> run_ID run) \<and>
     (\<forall>x \<in> set (st_scheduling s). rs_RunID x \<noteq> run_ID run))"
proof -
  have row: "rs_RunID (reservation_row run since now) = run_ID run"
    by (simp add: reservation_row_def)
  show ?thesis
    unfolding insert_reservation_def Let_def using row by simp blast
qed

lemma reserve_cases:
  "(snd (reserveSchedulingAuthoritiesTx run rv o' now s) = s \<and>
    (\<forall>x. fst (reserveSchedulingAuthoritiesTx run rv o' now s) \<noteq> Inr (Some x))) \<or>
   (\<exists>slot permit row. fst (reserveSchedulingAuthoritiesTx run rv o' now s) = Inr (Some (slot, permit)) \<and>
     reserved_store run slot permit row s (snd (reserveSchedulingAuthoritiesTx run rv o' now s)))"
    (is "?A \<or> ?B")
proof (cases "?A")
  case False
  let ?since = "if is_zero_time (rv_RunnableSince rv) then now else rv_RunnableSince rv"
  let ?ins = "insert_reservation run (reservation_owner run rv o') ?since now s"
  from False obtain c where c: "st_capacity s = Some c" "int (length (st_permits s)) < cap_Effective c"
    and free: "\<forall>x \<in> set (st_slots s). slot_Binding x \<noteq> run_RepositoryBindingDigest run \<and>
        slot_RunID x \<noteq> run_ID run"
    and res: "reserveSchedulingAuthoritiesTx run rv o' now s = ?ins"
    by (auto simp: reserveSchedulingAuthoritiesTx_def split: option.splits if_split_asm)
  have "(\<exists>x. fst ?ins = Inr (Some x)) \<or> snd ?ins \<noteq> s" using False res by auto
  then have "?B" unfolding res reserved_store_def
    using insert_reservation_cases [of run "reservation_owner run rv o'" ?since now s] c free by blast
  then show ?thesis ..
qed blast

lemma reserve_inv:
  assumes inv: "sched_inv s" and run: "run \<in> set (st_runs s)" "\<not> terminal (run_State run)"
  shows "sched_inv (snd (reserveSchedulingAuthoritiesTx run rv o' now s))"
  using reserve_cases [of run rv o' now s]
proof (elim disjE exE conjE)
  fix slot permit row
  let ?s' = "snd (reserveSchedulingAuthoritiesTx run rv o' now s)"
  assume r: "reserved_store run slot permit row s ?s'"
  have "slot_ok s slot"
    using run r unfolding slot_ok_def run_view_def reserved_store_def by force
  moreover have "slot_ok ?s' = slot_ok s" "run_view ?s' = run_view s"
    using r unfolding reserved_store_def by (simp_all add: slot_ok_def run_view_def fun_eq_iff)
  ultimately show ?thesis
    using sched_invD [OF inv] r unfolding reserved_store_def by (intro sched_invI) auto
qed (simp add: inv)

section \<open>Reconciliation keeps the invariant and restores the authorities\<close>

lemma upsert_fields [simp]:
  "st_runs (upsert_scheduling row f s) = st_runs s"
  "st_slots (upsert_scheduling row f s) = st_slots s"
  "st_permits (upsert_scheduling row f s) = st_permits s"
  "st_attempts (upsert_scheduling row f s) = st_attempts s"
  "run_view (upsert_scheduling row f s) = run_view s"
  by (simp_all add: upsert_scheduling_def run_view_def)

lemma upsert_ids:
  assumes "distinct (map rs_RunID (st_scheduling s))" and "\<And>x. rs_RunID (f x) = rs_RunID x"
  shows "distinct (map rs_RunID (st_scheduling (upsert_scheduling row f s)))"
  using assms by (auto simp: upsert_scheduling_def map_update_where)

text \<open>How one run's row changes, and that no other row does.\<close>

lemma upsert_lookup:
  assumes "x \<in> set (st_scheduling (upsert_scheduling row f s))" and "rs_RunID x \<noteq> rs_RunID row"
    and "\<And>x. rs_RunID (f x) = rs_RunID x"
  shows "x \<in> set (st_scheduling s)"
  using assms by (auto simp: upsert_scheduling_def set_update_where split: if_splits)

lemma sched_inv_upsert:
  assumes "sched_inv s" and "\<And>x. rs_RunID (f x) = rs_RunID x"
  shows "sched_inv (upsert_scheduling row f s)"
  using sched_invD [OF assms(1)] upsert_ids [OF _ assms(2)]
  by (intro sched_invI) (simp_all add: slot_ok_def)

lemma reconcile_slot_Inr:
  assumes "sched_inv s" and run: "run \<in> set (st_runs s)" "\<not> terminal (run_State run)"
    and res: "reconcile_slot run s = Inr s1"
  shows "sched_inv s1 \<and> st_runs s1 = st_runs s \<and> st_permits s1 = st_permits s \<and>
    st_attempts s1 = st_attempts s \<and> st_scheduling s1 = st_scheduling s \<and>
    (\<exists>x \<in> set (st_slots s1). slot_RunID x = run_ID run \<and> slot_Binding x = run_RepositoryBindingDigest run) \<and>
    set (st_slots s) \<subseteq> set (st_slots s1)"
proof (cases "select_where (\<lambda>x. slot_Binding x = run_RepositoryBindingDigest run) (st_slots s)")
  case None
  note inv = sched_invD [OF assms(1)]
  from None res have s1: "s1 = s\<lparr>st_slots := \<lparr>slot_Binding = run_RepositoryBindingDigest run,
      slot_RunID = run_ID run, slot_Version = 1, slot_AcquiredAt = run_CreatedAt run\<rparr> # st_slots s\<rparr>"
    and free: "\<forall>x \<in> set (st_slots s). slot_RunID x \<noteq> run_ID run"
    by (auto simp: reconcile_slot_def split: if_splits)
  from None have nb: "\<forall>x \<in> set (st_slots s). slot_Binding x \<noteq> run_RepositoryBindingDigest run"
    by (simp add: select_where_None)
  have view: "run_view s1 = run_view s" "slot_ok s1 = slot_ok s"
    unfolding s1 by (simp_all add: run_view_def slot_ok_def fun_eq_iff)
  have "slot_ok s \<lparr>slot_Binding = run_RepositoryBindingDigest run, slot_RunID = run_ID run,
      slot_Version = 1, slot_AcquiredAt = run_CreatedAt run\<rparr>"
    using run unfolding slot_ok_def run_view_def by force
  with inv free nb view have "sched_inv s1"
    by (intro sched_invI) (auto simp: s1)
  then show ?thesis by (simp add: s1) auto
next
  case (Some slot)
  with res have "s1 = s" "slot_RunID slot = run_ID run"
    by (auto simp: reconcile_slot_def split: if_splits)
  with Some assms(1) show ?thesis by (auto dest: select_where_Some)
qed

definition permit_of :: "store \<Rightarrow> string \<Rightarrow> bool" where
  "permit_of s runID \<longleftrightarrow> (\<exists>p \<in> set (st_permits s). hp_RunID p = runID)"

definition holds_slot :: "store \<Rightarrow> run_row \<Rightarrow> bool" where
  "holds_slot s run \<longleftrightarrow> (\<exists>x \<in> set (st_slots s). slot_RunID x = run_ID run \<and>
     slot_Binding x = run_RepositoryBindingDigest run)"

text \<open>What one step of the loop guarantees for its run and leaves alone for the others.\<close>

definition settled :: "(string \<Rightarrow> nat) \<Rightarrow> store \<Rightarrow> run_row \<Rightarrow> bool" where
  "settled counts s run \<longleftrightarrow>
     (if counts (run_RepositoryBindingDigest run) > 1
      then (\<exists>x \<in> set (st_scheduling s). rs_RunID x = run_ID run \<and> rs_Quarantined x)
      else holds_slot s run \<and> (\<not> HeavyWorkRequired (run_State run) \<longrightarrow> \<not> permit_of s (run_ID run)))"

definition step_frame :: "store \<Rightarrow> run_row \<Rightarrow> store \<Rightarrow> bool" where
  "step_frame s run s' \<longleftrightarrow>
     st_runs s' = st_runs s \<and> set (st_slots s) \<subseteq> set (st_slots s') \<and>
     set (st_permits s') \<subseteq> set (st_permits s) \<and>
     (\<forall>x \<in> set (st_scheduling s). rs_RunID x \<noteq> run_ID run \<longrightarrow> x \<in> set (st_scheduling s'))"

lemma upsert_row:
  assumes "\<And>x. rs_RunID (f x) = rs_RunID x" and "Q row" and "\<And>y. Q (f y)"
  shows "\<exists>x \<in> set (st_scheduling (upsert_scheduling row f s)). rs_RunID x = rs_RunID row \<and> Q x"
proof (cases "count_where (\<lambda>x. rs_RunID x = rs_RunID row) (st_scheduling s) = 0")
  case True
  with assms(2) show ?thesis by (simp add: upsert_scheduling_def)
next
  case False
  then obtain y where y: "y \<in> set (st_scheduling s)" "rs_RunID y = rs_RunID row" by auto
  with False have "f y \<in> set (st_scheduling (upsert_scheduling row f s))"
    by (simp add: upsert_scheduling_def set_update_where) (metis (mono_tags, lifting) IntI image_eqI mem_Collect_eq)
  with y assms(1,3) show ?thesis by metis
qed

lemma upsert_others:
  "x \<in> set (st_scheduling s) \<Longrightarrow> rs_RunID x \<noteq> rs_RunID row \<Longrightarrow>
     x \<in> set (st_scheduling (upsert_scheduling row f s))"
  by (auto simp: upsert_scheduling_def set_update_where image_iff intro!: bexI [of _ x])

lemma reconcile_run_quarantine:
  assumes "sched_inv s"
  shows "sched_inv (quarantine_run run now s) \<and> step_frame s run (quarantine_run run now s) \<and>
    (\<exists>x \<in> set (st_scheduling (quarantine_run run now s)). rs_RunID x = run_ID run \<and> rs_Quarantined x)"
proof -
  let ?row = "\<lparr>rs_RunID = run_ID run, rs_RunnableSince = run_CreatedAt run,
        rs_SupervisorState = ''quarantined'', rs_Quarantined = True,
        rs_ReasonCode = ''duplicate_nonterminal_repository'', rs_UpdatedAt = now\<rparr>"
  let ?f = "\<lambda>x. x\<lparr>rs_SupervisorState := ''quarantined'', rs_Quarantined := True,
          rs_ReasonCode := ''duplicate_nonterminal_repository'', rs_UpdatedAt := now\<rparr>"
  have "\<exists>x \<in> set (st_scheduling (upsert_scheduling ?row ?f s)). rs_RunID x = run_ID run \<and> rs_Quarantined x"
    using upsert_row [of ?f rs_Quarantined ?row s] by simp
  moreover have "sched_inv (upsert_scheduling ?row ?f s)" by (rule sched_inv_upsert [OF assms]) simp
  ultimately show ?thesis
    by (auto simp: quarantine_run_def step_frame_def intro: upsert_others)
qed

lemma reconcile_run_Inr:
  assumes inv: "sched_inv s" and run: "run \<in> set (st_runs s)" "\<not> terminal (run_State run)"
    and res: "reconcile_run counts now run s = Inr (s', x)"
  shows "sched_inv s' \<and> step_frame s run s' \<and> settled counts s' run"
proof (cases "counts (run_RepositoryBindingDigest run) > 1")
  case True
  with res have "s' = quarantine_run run now s" by (simp add: reconcile_run_def)
  with True reconcile_run_quarantine [OF inv] show ?thesis by (simp add: settled_def)
next
  case False
  with res obtain s1 where s1: "reconcile_slot run s = Inr s1"
    by (cases "reconcile_slot run s") (auto simp: reconcile_run_def)
  note sl = reconcile_slot_Inr [OF inv run s1]
  let ?heavy = "HeavyWorkRequired (run_State run)"
  let ?drop = "\<not> ?heavy \<and> count_where (\<lambda>p. hp_RunID p = run_ID run) (st_permits s1) \<noteq> 0"
  define s2 where "s2 = (if ?drop
    then s1\<lparr>st_permits := delete_where (\<lambda>p. hp_RunID p = run_ID run) (st_permits s1)\<rparr> else s1)"
  from res False s1 have "\<exists>since mode. s' = record_supervisor run since mode now s2"
    unfolding s2_def reconcile_run_def Let_def by (auto split: if_split_asm)
  then obtain row f where s': "s' = upsert_scheduling row f s2"
    and row: "rs_RunID row = run_ID run" and f: "\<And>x. rs_RunID (f x) = rs_RunID x"
    by (auto simp: record_supervisor_def)
  have "sched_inv s2"
  proof (cases ?drop)
    case True
    then show ?thesis unfolding s2_def
      by (auto simp: run_view_def intro!: sched_inv_fewer_permits [OF sl [THEN conjunct1]])
  next
    case False
    then have "s2 = s1" unfolding s2_def by (rule if_not_P)
    then show ?thesis using sl by simp
  qed
  then have "sched_inv s'" unfolding s' by (rule sched_inv_upsert [OF _ f])
  moreover have "step_frame s run s'"
    using sl unfolding s' step_frame_def by (auto simp: s2_def row intro: upsert_others)
  moreover have "settled counts s' run"
    using False sl by (auto simp: settled_def s' holds_slot_def permit_of_def s2_def)
  ultimately show ?thesis by blast
qed

lemma settled_frame:
  assumes "settled counts s r" and "step_frame s run s'" and "run_ID r \<noteq> run_ID run"
  shows "settled counts s' r"
  using assms unfolding settled_def step_frame_def holds_slot_def permit_of_def
  by (metis (no_types, lifting) subsetD)

lemma reconcile_runs_Inr:
  assumes "sched_inv s" and "set runs \<subseteq> {r \<in> set (st_runs s). \<not> terminal (run_State r)}"
    and "distinct (map run_ID runs)" and "reconcile_runs counts now runs s = Inr (s', xs)"
  shows "sched_inv s' \<and> st_runs s' = st_runs s \<and> set (st_permits s') \<subseteq> set (st_permits s) \<and>
    (\<forall>r \<in> set runs. settled counts s' r) \<and>
    (\<forall>r. run_ID r \<notin> run_ID ` set runs \<and> settled counts s r \<longrightarrow> settled counts s' r)"
  using assms
proof (induction runs arbitrary: s xs)
  case Nil
  then show ?case by simp
next
  case (Cons r rs)
  from Cons.prems(4) obtain s1 x ys where r: "reconcile_run counts now r s = Inr (s1, x)"
    and rs: "reconcile_runs counts now rs s1 = Inr (s', ys)"
    by (auto split: sum.splits)
  from Cons.prems(2) have "r \<in> set (st_runs s)" "\<not> terminal (run_State r)" by auto
  note one = reconcile_run_Inr [OF Cons.prems(1) this r]
  then have st: "st_runs s1 = st_runs s" "set (st_permits s1) \<subseteq> set (st_permits s)"
    by (auto simp: step_frame_def)
  have ih: "sched_inv s' \<and> st_runs s' = st_runs s1 \<and> set (st_permits s') \<subseteq> set (st_permits s1) \<and>
    (\<forall>r \<in> set rs. settled counts s' r) \<and>
    (\<forall>r. run_ID r \<notin> run_ID ` set rs \<and> settled counts s1 r \<longrightarrow> settled counts s' r)"
    using Cons.prems st one rs by (intro Cons.IH) auto
  from Cons.prems(3) have "run_ID r \<notin> run_ID ` set rs" by simp
  with one ih have "settled counts s' r" by blast
  moreover have "settled counts s' q" if "run_ID q \<notin> run_ID ` set (r # rs)" "settled counts s q" for q
    using that ih settled_frame [of counts s q r s1] one by auto
  ultimately show ?case using ih st by auto
qed

section \<open>Properties of permits\<close>

lemma runs_before_asym: "runs_before a b \<Longrightarrow> \<not> runs_before b a"
  by (auto simp: runs_before_def)

lemma runs_before_trans: "runs_before a b \<Longrightarrow> runs_before b c \<Longrightarrow> runs_before a c"
  by (auto simp: runs_before_def)

lemma runs_before_total: "rs_RunID a \<noteq> rs_RunID b \<Longrightarrow> runs_before a b \<or> runs_before b a"
  by (auto simp: runs_before_def)

lemma earliest_None [simp]: "earliest xs = None \<longleftrightarrow> xs = []"
  by (cases xs) (auto split: option.splits)

lemma earliest_first:
  assumes "earliest xs = Some m" and "distinct (map rs_RunID xs)"
  shows "m \<in> set xs \<and> (\<forall>x \<in> set xs. x \<noteq> m \<longrightarrow> runs_before m x)"
  using assms
proof (induction xs arbitrary: m)
  case Nil
  then show ?case by simp
next
  case (Cons a xs)
  show ?case
  proof (cases "earliest xs")
    case None
    with Cons.prems show ?thesis by simp
  next
    case (Some y)
    with Cons have y: "y \<in> set xs" "\<forall>x \<in> set xs. x \<noteq> y \<longrightarrow> runs_before y x" by auto
    with Cons.prems(2) have "rs_RunID a \<noteq> rs_RunID y" by auto
    from runs_before_total [OF this] Some y Cons.prems(1) show ?thesis
      by (auto split: if_splits dest: runs_before_asym intro: runs_before_trans)
  qed
qed

lemma distinct_waiting_now:
  "distinct (map rs_RunID (st_scheduling s)) \<Longrightarrow> distinct (map rs_RunID (waiting_now s now))"
  by (simp add: waiting_now_def distinct_map_filter)

text \<open>The three ways to obtain a permit.\<close>

definition reused_permit :: "string \<Rightarrow> string \<Rightarrow> permit_row \<Rightarrow> store \<Rightarrow> store \<Rightarrow> bool" where
  "reused_permit runID owner p s s' \<longleftrightarrow> p \<in> set (st_permits s) \<and> hp_OwnerNonce p = owner \<and> s' = s"

definition adopted_permit :: "run_row \<Rightarrow> string \<Rightarrow> time \<Rightarrow> permit_row \<Rightarrow> store \<Rightarrow> store \<Rightarrow> bool" where
  "adopted_permit run owner now p s s' \<longleftrightarrow>
     st_supervisor s = owner \<and> run_LeaseExpiresUnix run \<le> unix_nano now \<and>
     started_attempts s (run_ID run) = 0 \<and>
     (\<exists>e \<in> set (st_permits s). hp_RunID e = run_ID run \<and> hp_OwnerNonce e \<noteq> owner \<and>
        hp_Version p = hp_Version e + 1 \<and> p \<in> set (st_permits s') \<and> e \<notin> set (st_permits s')) \<and>
     length (st_permits s') = length (st_permits s)"

definition granted_permit :: "run_row \<Rightarrow> time \<Rightarrow> permit_row \<Rightarrow> store \<Rightarrow> store \<Rightarrow> bool" where
  "granted_permit run now p s s' \<longleftrightarrow>
     st_permits s' = p # st_permits s \<and> \<not> permit_of s (run_ID run) \<and>
     (\<exists>c. st_capacity s = Some c \<and> int (length (st_permits s')) \<le> cap_Effective c) \<and>
     started_attempts s (run_ID run) = 0 \<and>
     (\<forall>q \<in> set (st_permits s). hp_Version q < hp_Version p) \<and>
     (\<forall>x \<in> set (waiting_now s now). rs_RunID x = run_ID run \<or>
        (\<exists>y \<in> set (waiting_now s now). rs_RunID y = run_ID run \<and> runs_before y x))"

lemma grant_permit_Some:
  assumes inv: "sched_inv s" and none: "select_where (\<lambda>p. hp_RunID p = run_ID run) (st_permits s) = None"
    and res: "grant_permit run owner now s = (Inr (Some p), s')"
  shows "granted_permit run now p s s' \<and> hp_OwnerNonce p = owner"
proof -
  from res obtain c where c: "st_capacity s = Some c" "int (length (st_permits s)) < cap_Effective c"
    and st: "started_attempts s (run_ID run) = 0"
    and first: "\<not> (case earliest (waiting_now s now) of None \<Rightarrow> False | Some x \<Rightarrow> rs_RunID x \<noteq> run_ID run)"
    and p: "p = \<lparr>hp_RunID = run_ID run, hp_OwnerNonce = owner,
      hp_Version = next_number (map hp_Version (st_permits s)), hp_AcquiredAt = now, hp_UpdatedAt = now\<rparr>"
    and s': "st_permits s' = p # st_permits s"
    unfolding grant_permit_def Let_def by (auto split: if_split_asm option.split_asm)
  have "rs_RunID x = run_ID run \<or>
      (\<exists>y \<in> set (waiting_now s now). rs_RunID y = run_ID run \<and> runs_before y x)"
    if x: "x \<in> set (waiting_now s now)" for x
  proof -
    from x obtain m where m: "earliest (waiting_now s now) = Some m"
      by (metis earliest_None list.set_cases list.simps(3) option.exhaust)
    note first_m = earliest_first [OF m distinct_waiting_now [OF sched_invD(5) [OF inv]]]
    from first m have "rs_RunID m = run_ID run" by simp
    with first_m x show ?thesis by (cases "x = m") auto
  qed
  moreover have "\<forall>q \<in> set (st_permits s). hp_Version q < hp_Version p"
    unfolding p by (auto intro: next_number_greater)
  ultimately show ?thesis
    using c st s' none unfolding granted_permit_def
    by (auto simp: permit_of_def select_where_None p)
qed

lemma adopt_permit_Some:
  assumes inv: "sched_inv s" and e: "e \<in> set (st_permits s)" "hp_RunID e = run_ID run"
    and res: "adopt_permit run e owner now s = (Inr (Some p), s')"
  shows "reused_permit (run_ID run) owner p s s' \<or> adopted_permit run owner now p s s'"
proof (cases "hp_OwnerNonce e = owner")
  case True
  with res e show ?thesis by (simp add: adopt_permit_def reused_permit_def)
next
  case False
  let ?hit = "\<lambda>q. hp_RunID q = run_ID run \<and> hp_OwnerNonce q = hp_OwnerNonce e \<and> hp_Version q = hp_Version e"
  let ?upd = "\<lambda>q. q\<lparr>hp_OwnerNonce := owner, hp_Version := hp_Version q + 1, hp_UpdatedAt := now\<rparr>"
  from res False have g: "st_supervisor s = owner" "run_LeaseExpiresUnix run \<le> unix_nano now"
      "started_attempts s (run_ID run) = 0"
    and p: "p = ?upd e" and s': "s' = s\<lparr>st_permits := update_where ?hit ?upd (st_permits s)\<rparr>"
    unfolding adopt_permit_def Let_def
    by (auto simp: authorizedSupervisorOwner_def split: if_split_asm)
  have "p \<in> set (st_permits s')" unfolding s' p using e by (auto simp: set_update_where)
  moreover have "e \<notin> set (st_permits s')"
  proof
    assume "e \<in> set (st_permits s')"
    then obtain q where "q \<in> set (st_permits s)" "e = (if ?hit q then ?upd q else q)"
      by (auto simp: s' set_update_where)
    then have "hp_OwnerNonce e = owner \<or> e = q \<and> \<not> ?hit q" by (metis permit_row.select_convs(2)
        permit_row.surjective permit_row.update_convs(2) permit_row.update_convs(3) permit_row.update_convs(5))
    with False e(2) show False by auto
  qed
  moreover have "hp_Version p = hp_Version e + 1" by (simp add: p)
  ultimately show ?thesis using g False e s' unfolding adopted_permit_def by auto
qed

text \<open>C36: A heavy permit is obtained in one of three ways only: the owner's own permit is reused; the
  supervisor that holds the process fence takes over a permit whose run's lease has expired and
  that has no started attempt, raising its version; or a new permit is granted, which stays within
  the effective capacity and is not given past an eligible run that has waited longer.\<close>

theorem heavy_permit_acquisition:
  assumes "sched_inv s" and "AcquireHeavyPermit runID owner now s = (Inr (Some p), s')"
  shows "\<exists>run \<in> set (st_runs s). run_ID run = runID \<and> HeavyWorkRequired (run_State run) \<and>
    (reused_permit runID owner p s s' \<or> adopted_permit run owner now p s s' \<or>
     granted_permit run now p s s' \<and> hp_OwnerNonce p = owner)"
proof -
  from assms(2) obtain run where run: "find_run s runID = Some run" "HeavyWorkRequired (run_State run)"
    and res: "(case select_where (\<lambda>p. hp_RunID p = runID) (st_permits s) of
        Some existing \<Rightarrow> adopt_permit run existing owner now s
      | None \<Rightarrow> grant_permit run owner now s) = (Inr (Some p), s')"
    unfolding AcquireHeavyPermit_def by (auto split: if_split_asm option.split_asm)
  from find_run_Some [OF run(1)] have r: "run \<in> set (st_runs s)" "run_ID run = runID" by auto
  show ?thesis
  proof (cases "select_where (\<lambda>p. hp_RunID p = runID) (st_permits s)")
    case None
    with grant_permit_Some [OF assms(1)] res r run show ?thesis by auto
  next
    case (Some e)
    with res have "adopt_permit run e owner now s = (Inr (Some p), s')" by simp
    from adopt_permit_Some [OF assms(1) _ _ this] select_where_Some [OF Some] r(2)
    have "reused_permit runID owner p s s' \<or> adopted_permit run owner now p s s'" by auto
    with r run show ?thesis by blast
  qed
qed



section \<open>Witnesses\<close>

definition sample_run :: run_row where
  "sample_run =
     \<lparr>run_ID = ''r1'', run_IssueID = ''i1'', run_IdempotencyKey = ''k1'', run_SourceRevision = ''v1'',
      run_RawIssueHash = [], run_TaskHash = ''t1'', run_Repository = ''o/r'',
      run_RepositoryConfigJSON = ''{}'', run_ProfileID = [], run_ProfileSnapshotVersion = 0,
      run_ProfileDigest = [], run_ProfileSnapshotJSON = [], run_RegistryVersion = 0,
      run_RegistryDigest = [], run_RepositoryBindingDigest = ''b1'', run_BaseBranch = ''main'', run_WorkingBranch = ''work'', run_BaseSHA = [],
      run_WorktreePath = [], run_State = StateExecuting, run_CandidateHead = [],
      run_ImplementationSession = [], run_LastError = [], run_LeaseOwner = [],
      run_LeaseExpiresUnix = 0, run_CreatedAt = 5, run_UpdatedAt = 5\<rparr>"

definition sample_store :: store where
  "sample_store = empty_store
     \<lparr>st_runs := [sample_run],
      st_slots := [\<lparr>slot_Binding = ''b1'', slot_RunID = ''r1'', slot_Version = 1, slot_AcquiredAt = 5\<rparr>],
      st_scheduling := [\<lparr>rs_RunID = ''r1'', rs_RunnableSince = 5, rs_SupervisorState = ''waiting'',
        rs_Quarantined = False, rs_ReasonCode = [], rs_UpdatedAt = 5\<rparr>],
      st_supervisor := ''sup''\<rparr>"

lemma sample_store_inv: "sched_inv sample_store"
  by (simp add: sched_inv_def sample_store_def sample_run_def empty_store_def run_view_def slot_ok_def
      terminal_def)

definition sample_permit :: permit_row where
  "sample_permit = \<lparr>hp_RunID = ''r1'', hp_OwnerNonce = ''sup'', hp_Version = 1, hp_AcquiredAt = 9,
     hp_UpdatedAt = 9\<rparr>"

lemma sample_acquire:
  "fst (AcquireHeavyPermit ''r1'' ''sup'' 9 sample_store) = Inr (Some sample_permit)"
  by (simp add: AcquireHeavyPermit_def find_run_def select_where_def sample_store_def sample_run_def
      empty_store_def HeavyWorkRequired.simps grant_permit_def started_attempts_def count_where_def
      waiting_now_def next_number_def sample_permit_def is_zero_time_def graphic_def byte_def Let_def)

theorem heavy_permit_acquisition_witness:
  "HeavyWorkRequired StateExecuting \<and>
   (\<exists>run. run_ID run = ''r1'' \<and> run \<in> set (st_runs sample_store))"
proof -
  have "AcquireHeavyPermit ''r1'' ''sup'' 9 sample_store =
      (Inr (Some sample_permit), snd (AcquireHeavyPermit ''r1'' ''sup'' 9 sample_store))"
    using sample_acquire by (metis prod.collapse)
  from heavy_permit_acquisition [OF sample_store_inv this] show ?thesis
    by (auto simp: sample_store_def empty_store_def sample_run_def)
qed

definition sample_running :: store where
  "sample_running = sample_store\<lparr>st_permits := [sample_permit]\<rparr>"

lemma sample_running_inv: "sched_inv sample_running"
  by (simp add: sched_inv_def sample_running_def sample_permit_def sample_store_def sample_run_def
      empty_store_def run_view_def slot_ok_def terminal_def)



end
