(* ===== verification/Authorization.thy ===== *)
theory Authorization
  imports Sha256 Store_Base Scheduling "HOL-Library.Char_ord" "HOL-Library.List_Lexorder" "HOL-Library.Product_Lexorder"
begin

text \<open>
  Who may act on what: \<open>domain/authorization.go\<close> and \<open>application/authorization.go\<close>, with
  \<open>Requester.authorize\<close> of \<open>application/services.go\<close>. A service of the application layer turns a
  requester and a stored authority into a closed set of scopes; the store asks that set whether it
  allows a run, a repository or the target of an operation. The authorization service holds the
  configured operator; \<open>None\<close> stands for a nil service. \<open>encode\<close> is \<open>encoding/json\<close> on a scope
  set and \<open>decode\<close> is its decoder on the repository configuration frozen into a run.
\<close>

section \<open>Identities\<close>

record user_identity =
  ui_Login :: string
  ui_DatabaseID :: int
  ui_NodeID :: string
  ui_ActorType :: string

definition UserIdentity_Validate :: "user_identity \<Rightarrow> go_error option" where
  "UserIdentity_Validate i =
     (if blank (ui_Login i) \<or> ui_DatabaseID i < 1 \<or> blank (ui_NodeID i) \<or> ui_ActorType i \<noteq> ''User''
      then Some (New ''GitHub User identity is incomplete'')
      else if nul \<in> set (ui_Login i) \<or> nul \<in> set (ui_NodeID i)
      then Some (New ''GitHub User identity is invalid'')
      else None)"

definition UserIdentity_Equal :: "user_identity \<Rightarrow> user_identity \<Rightarrow> bool" where
  "UserIdentity_Equal i j \<longleftrightarrow>
     UserIdentity_Validate i = None \<and> UserIdentity_Validate j = None \<and>
     ui_DatabaseID i = ui_DatabaseID j \<and> ui_NodeID i = ui_NodeID j \<and>
     equal_fold (ui_Login i) (ui_Login j) \<and> ui_ActorType i = ui_ActorType j"

record requester =
  rq_ID :: string
  rq_Kind :: string
  rq_DatabaseID :: int
  rq_NodeID :: string
  rq_ActorType :: string

record trusted_actor =
  ta_DatabaseID :: int
  ta_NodeID :: string
  ta_Login :: string
  ta_Type :: string

definition requester_authorize ::
  "requester \<Rightarrow> string list \<Rightarrow> trusted_actor list \<Rightarrow> go_error option" where
  "requester_authorize r allowed trusted =
     (if rq_ID r = [] \<or> rq_Kind r \<noteq> ''github_login''
      then Some (ServiceErr ErrorInvalidInput ''requester identity is required'' None)
      else if \<not> (\<exists>login \<in> set allowed. equal_fold login (rq_ID r))
      then Some (ServiceErr ErrorConflict ''requester is not authorized for the repository'' None)
      else if trusted \<noteq> [] \<and>
         \<not> (\<exists>a \<in> set trusted. ta_DatabaseID a = rq_DatabaseID r \<and> ta_NodeID a = rq_NodeID r \<and>
              equal_fold (ta_Login a) (rq_ID r) \<and> ta_Type a = rq_ActorType r)
      then Some (ServiceErr ErrorConflict ''requester is not authorized for the repository'' None)
      else None)"

definition githubUserIdentity :: "requester \<Rightarrow> user_identity result" where
  "githubUserIdentity r =
     (let identity = \<lparr>ui_Login = rq_ID r, ui_DatabaseID = rq_DatabaseID r, ui_NodeID = rq_NodeID r,
            ui_ActorType = rq_ActorType r\<rparr>
      in if rq_Kind r \<noteq> ''github_login'' \<or> UserIdentity_Validate identity \<noteq> None
         then Inl (ServiceErr ErrorInvalidInput ''complete GitHub User requester identity is required'' None)
         else Inr identity)"

section \<open>Digests\<close>

definition digestText :: "string \<Rightarrow> string" where
  "digestText value = sha256_hex value"

definition hex_bytes :: "string \<Rightarrow> string" where
  "hex_bytes s = concat (map (\<lambda>c. [hex_digit (byte c div 16), hex_digit (byte c mod 16)]) s)"

definition identityDigest :: "user_identity \<Rightarrow> string" where
  "identityDigest i =
     digestText (to_lower (ui_Login i) @ [nul] @ hex_bytes (ui_NodeID i) @ [nul] @ ui_ActorType i @
       [nul] @ dec_int (ui_DatabaseID i))"

definition LegacyRunAuthorityDigest :: "string \<Rightarrow> string" where
  "LegacyRunAuthorityDigest repository =
     digestText (''legacy-run-authority'' @ [nul] @ to_lower repository)"

definition validAuthorityDigest :: "string \<Rightarrow> bool" where
  "validAuthorityDigest value \<longleftrightarrow>
     length value = 64 \<and> (\<forall>c \<in> set value. is_lower_hex c \<or> in_range (CHR ''A'') (CHR ''F'') c)"

section \<open>Scopes\<close>

datatype scope_kind = ScopeController | ScopeRepository | ScopeRun | ScopeOnboarding | ScopeOther string

fun scope_kind_string :: "scope_kind \<Rightarrow> string" where
  "scope_kind_string ScopeController = ''controller''"
| "scope_kind_string ScopeRepository = ''repository''"
| "scope_kind_string ScopeRun = ''run''"
| "scope_kind_string ScopeOnboarding = ''onboarding''"
| "scope_kind_string (ScopeOther k) = k"

record authority_scope =
  as_Kind :: scope_kind
  as_ID :: string
  as_AuthorityDigest :: string
  as_TargetBindingDigest :: string

definition Scope_Validate :: "authority_scope \<Rightarrow> go_error option" where
  "Scope_Validate x =
     (if as_Kind x \<notin> {ScopeController, ScopeRepository, ScopeRun, ScopeOnboarding}
      then Some (New ''authority scope kind is invalid'')
      else if blank (as_ID x) \<or> nul \<in> set (as_ID x) \<or> \<not> validAuthorityDigest (as_AuthorityDigest x)
      then Some (New ''authority scope is incomplete'')
      else if as_Kind x = ScopeRun \<and>
         (blank (as_TargetBindingDigest x) \<or> nul \<in> set (as_TargetBindingDigest x))
      then Some (New ''run authority scope target is incomplete'')
      else None)"

record scope_set =
  ss_Requester :: user_identity
  ss_Scopes :: "authority_scope list"
  ss_Digest :: string

definition scope_order :: "authority_scope \<Rightarrow> string \<times> string \<times> string" where
  "scope_order x = (scope_kind_string (as_Kind x), as_ID x, as_AuthorityDigest x)"

text \<open>\<open>slices.SortFunc\<close> leaves the order of scopes that compare equal open; here they keep theirs.\<close>

definition newAuthorizedScopeSet ::
  "(user_identity \<Rightarrow> authority_scope list \<Rightarrow> string) \<Rightarrow> user_identity \<Rightarrow> authority_scope list \<Rightarrow>
     scope_set result" where
  "newAuthorizedScopeSet encode who scopes =
     (if UserIdentity_Validate who \<noteq> None \<or> scopes = []
      then Inl (New ''authorized scope requester is invalid'')
      else case first_error Scope_Validate scopes of
        Some e \<Rightarrow> Inl e
      | None \<Rightarrow>
          (let sorted = remdups_adj (sort_key scope_order scopes)
           in Inr \<lparr>ss_Requester = who, ss_Scopes = sorted, ss_Digest = digestText (encode who sorted)\<rparr>))"

section \<open>Questions to a scope set\<close>

definition Empty :: "scope_set \<Rightarrow> bool" where
  "Empty s \<longleftrightarrow> ss_Scopes s = [] \<or> \<not> validAuthorityDigest (ss_Digest s)"

definition HasController :: "scope_set \<Rightarrow> bool" where
  "HasController s \<longleftrightarrow> (\<exists>x \<in> set (ss_Scopes s). as_Kind x = ScopeController)"

definition scopeValues :: "authority_scope list \<Rightarrow> scope_kind \<Rightarrow> (authority_scope \<Rightarrow> string) \<Rightarrow> string list" where
  "scopeValues scopes kind v = remdups_adj (sort (map v (filter (\<lambda>x. as_Kind x = kind) scopes)))"

definition RepositoryBindingDigests :: "scope_set \<Rightarrow> string list" where
  "RepositoryBindingDigests s = scopeValues (ss_Scopes s) ScopeRepository as_AuthorityDigest"

definition RunPredicates :: "scope_set \<Rightarrow> (string \<times> string) list" where
  "RunPredicates s =
     map (\<lambda>x. (as_ID x, as_TargetBindingDigest x)) (filter (\<lambda>x. as_Kind x = ScopeRun) (ss_Scopes s))"

definition AllowsRepositoryBinding :: "scope_set \<Rightarrow> string \<Rightarrow> bool" where
  "AllowsRepositoryBinding s digest \<longleftrightarrow> digest \<in> set (RepositoryBindingDigests s)"

definition AllowsRun :: "scope_set \<Rightarrow> string \<Rightarrow> string \<Rightarrow> bool" where
  "AllowsRun s runID digest \<longleftrightarrow>
     (if AllowsRepositoryBinding s digest then True else (runID, digest) \<in> set (RunPredicates s))"

record operation_target =
  ot_Scope :: scope_kind
  ot_TargetID :: string
  ot_TargetBindingDigest :: string

definition ConfigurationTargetID :: string where
  "ConfigurationTargetID = ''controller-configuration''"

definition IntegrityTargetID :: string where
  "IntegrityTargetID = ''controller-integrity''"

definition ControllerOperationTarget :: "scope_set \<Rightarrow> operation_target option" where
  "ControllerOperationTarget s =
     map_option (\<lambda>x. \<lparr>ot_Scope = ScopeController, ot_TargetID = ConfigurationTargetID,
         ot_TargetBindingDigest = as_AuthorityDigest x\<rparr>)
       (find (\<lambda>x. as_Kind x = ScopeController) (ss_Scopes s))"

definition AllowsOperationTarget :: "scope_set \<Rightarrow> operation_target \<Rightarrow> bool" where
  "AllowsOperationTarget s t =
     (if Empty s \<or> blank (ot_TargetID t) \<or> \<not> validAuthorityDigest (ot_TargetBindingDigest t) then False
      else if ot_Scope t = ScopeRun then AllowsRun s (ot_TargetID t) (ot_TargetBindingDigest t)
      else if ot_Scope t = ScopeController \<and> ot_TargetID t = ConfigurationTargetID then HasController s
      else if ot_Scope t = ScopeController \<and> ot_TargetID t = IntegrityTargetID then HasController s
      else \<exists>x \<in> set (ss_Scopes s). as_Kind x = ot_Scope t \<and> as_ID x = ot_TargetID t \<and>
             as_AuthorityDigest x = ot_TargetBindingDigest t)"

section \<open>Stored authorities\<close>

record repository_authority =
  ra_Repository :: string
  ra_ProfileID :: string
  ra_BindingDigest :: string
  ra_AllowedLogins :: "string list"
  ra_TrustedOperators :: "user_identity list"
  ra_Enabled :: bool

definition RepositoryAuthority_Validate :: "repository_authority \<Rightarrow> go_error option" where
  "RepositoryAuthority_Validate a =
     (if blank (ra_Repository a) \<or> blank (ra_ProfileID a) \<or> \<not> validAuthorityDigest (ra_BindingDigest a) \<or>
         ra_AllowedLogins a = [] \<or> ra_TrustedOperators a = []
      then Some (New ''repository authority is incomplete'')
      else first_error (\<lambda>operator.
          if UserIdentity_Validate operator \<noteq> None \<or>
             \<not> (\<exists>login \<in> set (ra_AllowedLogins a). equal_fold login (ui_Login operator))
          then Some (New ''repository authority contains an invalid operator'') else None)
        (ra_TrustedOperators a))"

record run_authority =
  rn_RunID :: string
  rn_Repository :: string
  rn_BindingDigest :: string
  rn_PersistenceBindingValue :: string
  rn_AllowedLogins :: "string list"
  rn_TrustedOperators :: "user_identity list"

definition RunAuthority_Validate :: "run_authority \<Rightarrow> go_error option" where
  "RunAuthority_Validate a =
     (if blank (rn_RunID a) \<or> blank (rn_Repository a) \<or> \<not> validAuthorityDigest (rn_BindingDigest a) \<or>
         rn_AllowedLogins a = [] \<or> rn_TrustedOperators a = []
      then Some (New ''frozen run authority is incomplete'')
      else first_error (\<lambda>operator.
          if UserIdentity_Validate operator \<noteq> None
          then Some (New ''frozen run authority contains an invalid operator'') else None)
        (rn_TrustedOperators a))"

definition targetBindingValue :: "run_authority \<Rightarrow> string" where
  "targetBindingValue a =
     (if rn_PersistenceBindingValue a \<noteq> [] then rn_PersistenceBindingValue a else rn_BindingDigest a)"

record onboarding_authority =
  oa_OnboardingID :: string
  oa_BoundRepository :: "repository_authority option"

definition OnboardingAuthority_Validate :: "onboarding_authority \<Rightarrow> go_error option" where
  "OnboardingAuthority_Validate a =
     (if blank (oa_OnboardingID a) \<or> nul \<in> set (oa_OnboardingID a)
      then Some (New ''onboarding authority is incomplete'')
      else case oa_BoundRepository a of None \<Rightarrow> None | Some b \<Rightarrow> RepositoryAuthority_Validate b)"

definition repositoryAllows :: "repository_authority \<Rightarrow> user_identity \<Rightarrow> bool" where
  "repositoryAllows a who \<longleftrightarrow>
     (\<exists>login \<in> set (ra_AllowedLogins a). equal_fold login (ui_Login who)) \<and>
     (\<exists>operator \<in> set (ra_TrustedOperators a). UserIdentity_Equal operator who)"

definition runAuthorityAllows :: "run_authority \<Rightarrow> user_identity \<Rightarrow> bool" where
  "runAuthorityAllows a who \<longleftrightarrow>
     (\<exists>login \<in> set (rn_AllowedLogins a). equal_fold login (ui_Login who)) \<and>
     (\<exists>operator \<in> set (rn_TrustedOperators a). UserIdentity_Equal operator who)"

section \<open>The authorization service\<close>

type_synonym authorization_service = "user_identity option"
type_synonym scope_encoder = "user_identity \<Rightarrow> authority_scope list \<Rightarrow> string"

record configured_requester =
  cr_identity :: user_identity

definition NewAuthorizationService :: "user_identity \<Rightarrow> authorization_service result" where
  "NewAuthorizationService operator =
     (case UserIdentity_Validate operator of Some e \<Rightarrow> Inl e | None \<Rightarrow> Inr (Some operator))"

definition is_operator :: "authorization_service \<Rightarrow> user_identity \<Rightarrow> bool" where
  "is_operator svc who \<longleftrightarrow> (case svc of None \<Rightarrow> False | Some operator \<Rightarrow> UserIdentity_Equal operator who)"

definition ResolveConfiguredRequester ::
  "authorization_service \<Rightarrow> requester \<Rightarrow> configured_requester result" where
  "ResolveConfiguredRequester svc r =
     (if svc = None
      then Inl (ServiceErr ErrorInternal ''configured operator authority is unavailable'' None)
      else case githubUserIdentity r of
        Inl e \<Rightarrow> Inl e
      | Inr identity \<Rightarrow>
          (if \<not> is_operator svc identity
           then Inl (ServiceErr ErrorConflict ''requester is not authorized for the controller'' None)
           else Inr \<lparr>cr_identity = identity\<rparr>))"

definition controller_scope :: "user_identity \<Rightarrow> authority_scope" where
  "controller_scope operator =
     \<lparr>as_Kind = ScopeController, as_ID = ''local-controller'',
      as_AuthorityDigest = identityDigest operator, as_TargetBindingDigest = []\<rparr>"

definition ControllerScopes ::
  "scope_encoder \<Rightarrow> authorization_service \<Rightarrow> configured_requester \<Rightarrow> scope_set result" where
  "ControllerScopes encode svc who =
     (case svc of
        Some operator \<Rightarrow>
          (if \<not> UserIdentity_Equal operator (cr_identity who)
           then Inl (ServiceErr ErrorConflict ''requester is not authorized for the controller'' None)
           else newAuthorizedScopeSet encode (cr_identity who) [controller_scope operator])
      | None \<Rightarrow> Inl (ServiceErr ErrorConflict ''requester is not authorized for the controller'' None))"

record read_authority =
  rd_readerDigest :: string
  rd_requester :: user_identity

definition ReadAuthority_Valid :: "read_authority \<Rightarrow> bool" where
  "ReadAuthority_Valid a \<longleftrightarrow>
     validAuthorityDigest (rd_readerDigest a) \<and> UserIdentity_Validate (rd_requester a) = None"

definition MatchesRequester :: "read_authority \<Rightarrow> user_identity \<Rightarrow> bool" where
  "MatchesRequester a who \<longleftrightarrow> ReadAuthority_Valid a \<and> UserIdentity_Equal (rd_requester a) who"

definition ControllerReadCollectionAuthority ::
  "authorization_service \<Rightarrow> configured_requester \<Rightarrow> read_authority result" where
  "ControllerReadCollectionAuthority svc who =
     (case svc of
        Some operator \<Rightarrow>
          (if \<not> UserIdentity_Equal operator (cr_identity who)
           then Inl (ServiceErr ErrorConflict ''requester is not authorized for controller collections'' None)
           else Inr \<lparr>rd_readerDigest =
                  digestText (''controller-read-collections:v1'' @ [nul] @ identityDigest operator),
                rd_requester = operator\<rparr>)
      | None \<Rightarrow> Inl (ServiceErr ErrorConflict ''requester is not authorized for controller collections'' None))"

definition run_scope :: "run_authority \<Rightarrow> authority_scope" where
  "run_scope a =
     \<lparr>as_Kind = ScopeRun, as_ID = rn_RunID a, as_AuthorityDigest = rn_BindingDigest a,
      as_TargetBindingDigest = targetBindingValue a\<rparr>"

definition ControllerRunScopes ::
  "scope_encoder \<Rightarrow> authorization_service \<Rightarrow> configured_requester \<Rightarrow> run_authority list \<Rightarrow>
     scope_set result" where
  "ControllerRunScopes encode svc who authorities =
     (case svc of
        Some operator \<Rightarrow>
          (if \<not> UserIdentity_Equal operator (cr_identity who)
           then Inl (ServiceErr ErrorConflict ''requester is not authorized for the controller'' None)
           else newAuthorizedScopeSet encode (cr_identity who)
             (controller_scope operator # map run_scope (filter (\<lambda>a. RunAuthority_Validate a = None \<and>
                runAuthorityAllows a (cr_identity who)) authorities)))
      | None \<Rightarrow> Inl (ServiceErr ErrorConflict ''requester is not authorized for the controller'' None))"

definition RunScopes ::
  "scope_encoder \<Rightarrow> authorization_service \<Rightarrow> configured_requester \<Rightarrow> run_authority \<Rightarrow> scope_set result" where
  "RunScopes encode svc who a =
     (if \<not> is_operator svc (cr_identity who)
      then Inl (ServiceErr ErrorConflict ''requester is not authorized for the run'' None)
      else if RunAuthority_Validate a \<noteq> None
      then Inl (ServiceErr ErrorConflict ''frozen run authority is invalid'' (RunAuthority_Validate a))
      else if \<not> runAuthorityAllows a (cr_identity who)
      then Inl (ServiceErr ErrorConflict ''requester is not authorized for the run'' None)
      else newAuthorizedScopeSet encode (cr_identity who) [run_scope a])"

definition RepositoryScopes ::
  "scope_encoder \<Rightarrow> authorization_service \<Rightarrow> configured_requester \<Rightarrow> repository_authority \<Rightarrow>
     scope_set result" where
  "RepositoryScopes encode svc who a =
     (if \<not> is_operator svc (cr_identity who)
      then Inl (ServiceErr ErrorConflict ''requester is not authorized for the repository'' None)
      else if RepositoryAuthority_Validate a \<noteq> None
      then Inl (ServiceErr ErrorConflict ''repository authority is invalid'' (RepositoryAuthority_Validate a))
      else if \<not> repositoryAllows a (cr_identity who)
      then Inl (ServiceErr ErrorConflict ''requester is not authorized for the repository'' None)
      else newAuthorizedScopeSet encode (cr_identity who)
        [\<lparr>as_Kind = ScopeRepository, as_ID = ra_Repository a, as_AuthorityDigest = ra_BindingDigest a,
          as_TargetBindingDigest = []\<rparr>])"

definition OnboardingScopes ::
  "scope_encoder \<Rightarrow> authorization_service \<Rightarrow> configured_requester \<Rightarrow> onboarding_authority \<Rightarrow>
     scope_set result" where
  "OnboardingScopes encode svc who a =
     (if \<not> is_operator svc (cr_identity who)
      then Inl (ServiceErr ErrorConflict ''requester is not authorized for onboarding'' None)
      else if OnboardingAuthority_Validate a \<noteq> None
      then Inl (ServiceErr ErrorConflict ''onboarding authority is invalid'' (OnboardingAuthority_Validate a))
      else case oa_BoundRepository a of
        None \<Rightarrow> newAuthorizedScopeSet encode (cr_identity who)
          [\<lparr>as_Kind = ScopeOnboarding, as_ID = oa_OnboardingID a,
            as_AuthorityDigest = identityDigest (cr_identity who), as_TargetBindingDigest = []\<rparr>]
      | Some b \<Rightarrow>
          (if \<not> repositoryAllows b (cr_identity who)
           then Inl (ServiceErr ErrorConflict ''requester is not authorized for onboarding'' None)
           else newAuthorizedScopeSet encode (cr_identity who)
             [\<lparr>as_Kind = ScopeOnboarding, as_ID = oa_OnboardingID a,
               as_AuthorityDigest = ra_BindingDigest b, as_TargetBindingDigest = []\<rparr>]))"

section \<open>Authority frozen into a run\<close>

text \<open>The fields of \<open>LocalRepository\<close> that authorization reads.\<close>

record frozen_operators =
  fo_AllowedOperatorLogins :: "string list"
  fo_TrustedOperatorActors :: "trusted_actor list"

type_synonym frozen_decoder = "string \<Rightarrow> go_error + frozen_operators"

definition frozen_digest :: "run_row \<Rightarrow> string" where
  "frozen_digest run =
     (if \<not> validAuthorityDigest (run_RepositoryBindingDigest run)
      then LegacyRunAuthorityDigest (run_Repository run) else run_RepositoryBindingDigest run)"

definition frozen_target :: "run_row \<Rightarrow> string" where
  "frozen_target run =
     (if run_RepositoryBindingDigest run = [] then frozen_digest run else run_RepositoryBindingDigest run)"

text \<open>A requester without a full identity passes only where no trusted operator is listed.\<close>

definition requester_identity :: "requester \<Rightarrow> bool \<Rightarrow> user_identity result" where
  "requester_identity r trusted_listed =
     (case githubUserIdentity r of
        Inr identity \<Rightarrow> Inr identity
      | Inl e \<Rightarrow>
          (if trusted_listed then Inl e
           else Inr \<lparr>ui_Login = rq_ID r, ui_DatabaseID = 1, ui_NodeID = ''legacy:'' @ rq_ID r,
                  ui_ActorType = ''User''\<rparr>))"

definition FrozenRunScopes ::
  "scope_encoder \<Rightarrow> frozen_decoder \<Rightarrow> requester \<Rightarrow> run_row \<Rightarrow> scope_set result" where
  "FrozenRunScopes encode decode r run =
     (case decode (run_RepositoryConfigJSON run) of
        Inl e \<Rightarrow> Inl (ServiceErr ErrorConflict ''persisted repository authority is invalid'' (Some e))
      | Inr frozen \<Rightarrow>
     (case requester_authorize r (fo_AllowedOperatorLogins frozen) (fo_TrustedOperatorActors frozen) of
        Some e \<Rightarrow> Inl e
      | None \<Rightarrow>
     (case requester_identity r (fo_TrustedOperatorActors frozen \<noteq> []) of
        Inl e \<Rightarrow> Inl e
      | Inr identity \<Rightarrow> newAuthorizedScopeSet encode identity
          [\<lparr>as_Kind = ScopeRun, as_ID = run_ID run, as_AuthorityDigest = frozen_digest run,
            as_TargetBindingDigest = frozen_target run\<rparr>])))"

definition authorizePersistedRequester ::
  "scope_encoder \<Rightarrow> frozen_decoder \<Rightarrow> run_row \<Rightarrow> requester \<Rightarrow> go_error option" where
  "authorizePersistedRequester encode decode run r =
     (case FrozenRunScopes encode decode r run of Inl e \<Rightarrow> Some e | Inr _ \<Rightarrow> None)"

definition actor_user :: "trusted_actor \<Rightarrow> user_identity" where
  "actor_user a =
     \<lparr>ui_Login = ta_Login a, ui_DatabaseID = ta_DatabaseID a, ui_NodeID = ta_NodeID a, ui_ActorType = ta_Type a\<rparr>"

definition user_actor :: "user_identity \<Rightarrow> trusted_actor" where
  "user_actor i =
     \<lparr>ta_DatabaseID = ui_DatabaseID i, ta_NodeID = ui_NodeID i, ta_Login = ui_Login i, ta_Type = ui_ActorType i\<rparr>"

definition frozenRunScopeAuthority :: "frozen_decoder \<Rightarrow> run_row \<Rightarrow> run_authority result" where
  "frozenRunScopeAuthority decode run =
     (case decode (run_RepositoryConfigJSON run) of
        Inl e \<Rightarrow> Inl (ServiceErr ErrorConflict ''persisted repository authority is invalid'' (Some e))
      | Inr frozen \<Rightarrow>
          Inr \<lparr>rn_RunID = run_ID run, rn_Repository = run_Repository run,
            rn_BindingDigest = frozen_digest run, rn_PersistenceBindingValue = frozen_target run,
            rn_AllowedLogins = fo_AllowedOperatorLogins frozen,
            rn_TrustedOperators = map actor_user (fo_TrustedOperatorActors frozen)\<rparr>)"

definition ConfiguredFrozenRunScopes ::
  "scope_encoder \<Rightarrow> frozen_decoder \<Rightarrow> authorization_service \<Rightarrow> configured_requester \<Rightarrow> run_row \<Rightarrow>
     scope_set result" where
  "ConfiguredFrozenRunScopes encode decode svc who run =
     (case frozenRunScopeAuthority decode run of
        Inl e \<Rightarrow> Inl e
      | Inr a \<Rightarrow> RunScopes encode svc who a)"

definition cliRequesterRunScopes ::
  "scope_encoder \<Rightarrow> requester \<Rightarrow> run_authority \<Rightarrow> scope_set result" where
  "cliRequesterRunScopes encode r a =
     (if blank (rn_RunID a) \<or> blank (rn_Repository a) \<or> \<not> validAuthorityDigest (rn_BindingDigest a) \<or>
         rn_AllowedLogins a = []
      then Inl (ServiceErr ErrorConflict ''frozen run authority is invalid'' None)
      else let trusted = map user_actor (rn_TrustedOperators a) in
        (case requester_authorize r (rn_AllowedLogins a) trusted of
           Some e \<Rightarrow> Inl e
         | None \<Rightarrow>
        (case requester_identity r (trusted \<noteq> []) of
           Inl e \<Rightarrow> Inl e
         | Inr identity \<Rightarrow> newAuthorizedScopeSet encode identity [run_scope a])))"

section \<open>What a scope set holds\<close>

lemma scope_set_scopes:
  assumes "newAuthorizedScopeSet encode who scopes = Inr s"
  shows "set (ss_Scopes s) = set scopes" and "ss_Requester s = who"
    and "validAuthorityDigest (ss_Digest s)" and "ss_Scopes s \<noteq> []"
proof -
  from assms have s: "s = \<lparr>ss_Requester = who, ss_Scopes = remdups_adj (sort_key scope_order scopes),
      ss_Digest = digestText (encode who (remdups_adj (sort_key scope_order scopes)))\<rparr>" and "scopes \<noteq> []"
    by (auto simp: newAuthorizedScopeSet_def Let_def split: if_splits option.splits)
  then show "set (ss_Scopes s) = set scopes" "ss_Requester s = who" by simp_all
  from s show "validAuthorityDigest (ss_Digest s)"
    by (simp add: validAuthorityDigest_def digestText_def)
  from s \<open>scopes \<noteq> []\<close> show "ss_Scopes s \<noteq> []" by (metis remdups_adj_Nil_iff scope_set.select_convs(2) set_empty set_sort)
qed

lemma scope_set_granted:
  "(\<exists>s. newAuthorizedScopeSet encode who scopes = Inr s) \<longleftrightarrow>
     UserIdentity_Validate who = None \<and> scopes \<noteq> [] \<and> (\<forall>x \<in> set scopes. Scope_Validate x = None)"
  by (cases "first_error Scope_Validate scopes")
    (simp_all add: newAuthorizedScopeSet_def Let_def first_error_None_iff [symmetric] del: first_error_None_iff)

lemma allows_repository: "AllowsRepositoryBinding s d \<longleftrightarrow>
   (\<exists>x \<in> set (ss_Scopes s). as_Kind x = ScopeRepository \<and> as_AuthorityDigest x = d)"
  by (auto simp: AllowsRepositoryBinding_def RepositoryBindingDigests_def scopeValues_def)

lemma allows_run: "AllowsRun s runID d \<longleftrightarrow>
   (\<exists>x \<in> set (ss_Scopes s). as_Kind x = ScopeRepository \<and> as_AuthorityDigest x = d \<or>
      as_Kind x = ScopeRun \<and> as_ID x = runID \<and> as_TargetBindingDigest x = d)"
  by (auto simp: AllowsRun_def allows_repository RunPredicates_def)

lemma identity_digest_valid [simp]:
  "validAuthorityDigest (identityDigest i)" "validAuthorityDigest (digestText x)"
  "validAuthorityDigest (LegacyRunAuthorityDigest r)"
  by (simp_all add: validAuthorityDigest_def identityDigest_def digestText_def LegacyRunAuthorityDigest_def)

lemma graphic_words: "\<not> blank ''local-controller''" "nul \<notin> set ''local-controller''"
  by (rule blank_graphic) (simp_all add: graphic_def nul_def char_class_defs)

lemma controller_scope_valid [simp]: "Scope_Validate (controller_scope i) = None"
  using graphic_words by (simp add: Scope_Validate_def controller_scope_def)

lemma equal_valid: "UserIdentity_Equal i j \<Longrightarrow> UserIdentity_Validate i = None \<and> UserIdentity_Validate j = None"
  by (simp add: UserIdentity_Equal_def)

lemma is_operator_Some: "is_operator svc who \<Longrightarrow> \<exists>operator. svc = Some operator \<and> UserIdentity_Equal operator who"
  by (auto simp: is_operator_def split: option.splits)

section \<open>The collection of runs a requester may see\<close>

definition run_granted :: "configured_requester \<Rightarrow> run_authority \<Rightarrow> bool" where
  "run_granted who a \<longleftrightarrow> RunAuthority_Validate a = None \<and> runAuthorityAllows a (cr_identity who)"

definition scope_target_ok :: "run_authority \<Rightarrow> bool" where
  "scope_target_ok a \<longleftrightarrow> nul \<notin> set (rn_RunID a) \<and> \<not> blank (targetBindingValue a) \<and> nul \<notin> set (targetBindingValue a)"

lemma scope_target_valid: "run_granted who a \<Longrightarrow> Scope_Validate (run_scope a) = None \<longleftrightarrow> scope_target_ok a"
  by (auto simp: run_granted_def RunAuthority_Validate_def Scope_Validate_def run_scope_def scope_target_ok_def
      split: if_splits)

lemma ControllerRunScopes_set:
  assumes "UserIdentity_Equal operator (cr_identity who)"
  shows "ControllerRunScopes encode (Some operator) who authorities = newAuthorizedScopeSet encode (cr_identity who)
    (controller_scope operator # map run_scope (filter (run_granted who) authorities))"
  using assms by (simp add: ControllerRunScopes_def run_granted_def [abs_def])

lemma ControllerRunScopes_denied: "\<not> is_operator svc (cr_identity who) \<Longrightarrow>
    ControllerRunScopes encode svc who authorities =
      Inl (ServiceErr ErrorConflict ''requester is not authorized for the controller'' None)"
  by (auto simp: ControllerRunScopes_def is_operator_def split: option.split)

lemma controller_runs_total:
  "(\<exists>s. ControllerRunScopes encode svc who authorities = Inr s) \<longleftrightarrow>
     is_operator svc (cr_identity who) \<and> (\<forall>a \<in> set authorities. run_granted who a \<longrightarrow> scope_target_ok a)"
proof (cases "is_operator svc (cr_identity who)")
  case False
  then show ?thesis by (simp add: ControllerRunScopes_denied)
next
  case True
  from is_operator_Some [OF True] obtain operator
    where op: "svc = Some operator" "UserIdentity_Equal operator (cr_identity who)" by blast
  have "(\<exists>s. ControllerRunScopes encode svc who authorities = Inr s) \<longleftrightarrow>
      (\<forall>a \<in> set authorities. run_granted who a \<longrightarrow> Scope_Validate (run_scope a) = None)"
    unfolding op(1) ControllerRunScopes_set [OF op(2)] scope_set_granted
    using equal_valid [OF op(2)] by auto
  with True scope_target_valid show ?thesis by blast
qed

text \<open>C3: The controller's view of runs shows exactly the runs whose valid frozen authority lists the
  requester. It fails as a whole when one of them has an ID or a target binding that a scope may not
  carry, although its frozen authority is valid.\<close>

theorem controller_runs_exact:
  "((\<exists>s. ControllerRunScopes encode svc who authorities = Inr s) \<longleftrightarrow>
      is_operator svc (cr_identity who) \<and>
      (\<forall>a \<in> set authorities. run_granted who a \<longrightarrow>
         nul \<notin> set (rn_RunID a) \<and> \<not> blank (targetBindingValue a) \<and> nul \<notin> set (targetBindingValue a))) \<and>
   (\<forall>s runID digest. ControllerRunScopes encode svc who authorities = Inr s \<longrightarrow>
      (AllowsRun s runID digest \<longleftrightarrow>
         (\<exists>a \<in> set authorities. run_granted who a \<and> rn_RunID a = runID \<and> targetBindingValue a = digest)))"
proof (rule conjI)
  show "(\<exists>s. ControllerRunScopes encode svc who authorities = Inr s) \<longleftrightarrow>
      is_operator svc (cr_identity who) \<and>
      (\<forall>a \<in> set authorities. run_granted who a \<longrightarrow>
         nul \<notin> set (rn_RunID a) \<and> \<not> blank (targetBindingValue a) \<and> nul \<notin> set (targetBindingValue a))"
    unfolding controller_runs_total scope_target_ok_def ..
  have "AllowsRun s runID digest \<longleftrightarrow>
      (\<exists>a \<in> set authorities. run_granted who a \<and> rn_RunID a = runID \<and> targetBindingValue a = digest)"
    if s: "ControllerRunScopes encode svc who authorities = Inr s" for s runID digest
  proof -
    from s have "is_operator svc (cr_identity who)" by (metis ControllerRunScopes_denied sum.distinct(1))
    then obtain operator where op: "svc = Some operator" "UserIdentity_Equal operator (cr_identity who)"
      using is_operator_Some by blast
    show ?thesis
      using scope_set_scopes(1) [OF s [unfolded op(1) ControllerRunScopes_set [OF op(2)]]]
      by (auto simp: allows_run controller_scope_def run_scope_def)
  qed
  then show "\<forall>s runID digest. ControllerRunScopes encode svc who authorities = Inr s \<longrightarrow>
      (AllowsRun s runID digest \<longleftrightarrow>
         (\<exists>a \<in> set authorities. run_granted who a \<and> rn_RunID a = runID \<and> targetBindingValue a = digest))"
    by blast
qed

section \<open>The scopes of one run\<close>

lemma frozen_digest_valid [simp]: "validAuthorityDigest (frozen_digest run)"
  by (simp add: frozen_digest_def)

lemma frozen_target_nonempty: "frozen_target run \<noteq> []"
proof -
  have "frozen_digest run \<noteq> []"
    using frozen_digest_valid [of run] by (auto simp: validAuthorityDigest_def simp del: frozen_digest_valid)
  then show ?thesis by (simp add: frozen_target_def)
qed

definition frozen_scope :: "run_row \<Rightarrow> authority_scope" where
  "frozen_scope run =
     \<lparr>as_Kind = ScopeRun, as_ID = run_ID run, as_AuthorityDigest = frozen_digest run,
      as_TargetBindingDigest = frozen_target run\<rparr>"

lemma requester_authorize_None: "requester_authorize r allowed trusted = None \<longleftrightarrow>
    rq_ID r \<noteq> [] \<and> rq_Kind r = ''github_login'' \<and> (\<exists>login \<in> set allowed. equal_fold login (rq_ID r)) \<and>
    (trusted \<noteq> [] \<longrightarrow> (\<exists>a \<in> set trusted. ta_DatabaseID a = rq_DatabaseID r \<and> ta_NodeID a = rq_NodeID r \<and>
       equal_fold (ta_Login a) (rq_ID r) \<and> ta_Type a = rq_ActorType r))"
  by (auto simp: requester_authorize_def)

lemma FrozenRunScopes_Inr: "FrozenRunScopes encode decode r run = Inr s \<longleftrightarrow>
    (\<exists>frozen identity. decode (run_RepositoryConfigJSON run) = Inr frozen \<and>
       requester_authorize r (fo_AllowedOperatorLogins frozen) (fo_TrustedOperatorActors frozen) = None \<and>
       requester_identity r (fo_TrustedOperatorActors frozen \<noteq> []) = Inr identity \<and>
       newAuthorizedScopeSet encode identity [frozen_scope run] = Inr s)"
  by (simp add: FrozenRunScopes_def frozen_scope_def split: sum.split option.split)

text \<open>C2: A requester obtains the scopes of a run only under the login list frozen into it and, where
  trusted operators are listed, as one of them with a complete GitHub identity. The scopes then allow
  that run under its own binding and nothing else: no other run, no repository, no controller operation.\<close>

theorem frozen_grant_exact:
  assumes "FrozenRunScopes encode decode r run = Inr s"
  shows "rq_Kind r = ''github_login'' \<and>
    (\<exists>frozen. decode (run_RepositoryConfigJSON run) = Inr frozen \<and>
       (\<exists>login \<in> set (fo_AllowedOperatorLogins frozen). equal_fold login (rq_ID r)) \<and>
       (fo_TrustedOperatorActors frozen \<noteq> [] \<longrightarrow> (\<exists>identity. githubUserIdentity r = Inr identity) \<and>
          (\<exists>a \<in> set (fo_TrustedOperatorActors frozen). ta_DatabaseID a = rq_DatabaseID r \<and>
             ta_NodeID a = rq_NodeID r \<and> equal_fold (ta_Login a) (rq_ID r) \<and> ta_Type a = rq_ActorType r))) \<and>
    (\<forall>runID digest. AllowsRun s runID digest \<longleftrightarrow> runID = run_ID run \<and> digest = frozen_target run) \<and>
    (\<forall>digest. \<not> AllowsRepositoryBinding s digest) \<and>
    (\<forall>t. AllowsOperationTarget s t \<longrightarrow> ot_Scope t = ScopeRun \<and> ot_TargetID t = run_ID run \<and>
       ot_TargetBindingDigest t = frozen_target run)"
proof -
  from assms obtain frozen identity where f: "decode (run_RepositoryConfigJSON run) = Inr frozen"
    and a: "requester_authorize r (fo_AllowedOperatorLogins frozen) (fo_TrustedOperatorActors frozen) = None"
    and i: "requester_identity r (fo_TrustedOperatorActors frozen \<noteq> []) = Inr identity"
    and s: "newAuthorizedScopeSet encode identity [frozen_scope run] = Inr s"
    unfolding FrozenRunScopes_Inr by blast
  from scope_set_scopes(1) [OF s] have scopes: "set (ss_Scopes s) = {frozen_scope run}" by simp
  have grant: "\<forall>runID digest. AllowsRun s runID digest \<longleftrightarrow> runID = run_ID run \<and> digest = frozen_target run"
    "\<forall>digest. \<not> AllowsRepositoryBinding s digest" "\<not> HasController s"
    by (auto simp: allows_run allows_repository HasController_def scopes frozen_scope_def)
  have target: "\<forall>t. AllowsOperationTarget s t \<longrightarrow> ot_Scope t = ScopeRun \<and> ot_TargetID t = run_ID run \<and>
       ot_TargetBindingDigest t = frozen_target run"
    using grant by (auto simp: AllowsOperationTarget_def scopes frozen_scope_def split: if_splits)
  have "fo_TrustedOperatorActors frozen \<noteq> [] \<longrightarrow> (\<exists>identity. githubUserIdentity r = Inr identity)"
    using i by (auto simp: requester_identity_def split: sum.splits if_splits)
  with f a grant target show ?thesis unfolding requester_authorize_None by auto
qed

text \<open>For the configured operator, the scopes derived from the frozen authority of a run and the
  scopes derived from the requester itself are the same set whenever that authority is complete: the
  two paths to a run never disagree.\<close>

theorem frozen_run_paths_agree:
  assumes "ResolveConfiguredRequester svc r = Inr who"
  shows "ConfiguredFrozenRunScopes encode decode svc who run = Inr s \<longleftrightarrow>
    FrozenRunScopes encode decode r run = Inr s \<and>
    (\<forall>a. frozenRunScopeAuthority decode run = Inr a \<longrightarrow> RunAuthority_Validate a = None)"
proof -
  obtain identity where id: "githubUserIdentity r = Inr identity" "is_operator svc identity"
    and who: "who = \<lparr>cr_identity = identity\<rparr>"
    using assms by (auto simp: ResolveConfiguredRequester_def split: if_splits sum.splits)
  then have r: "rq_Kind r = ''github_login''" "UserIdentity_Validate identity = None"
    "identity = \<lparr>ui_Login = rq_ID r, ui_DatabaseID = rq_DatabaseID r, ui_NodeID = rq_NodeID r,
       ui_ActorType = rq_ActorType r\<rparr>"
    by (auto simp: githubUserIdentity_def Let_def split: if_splits)
  then have "rq_ID r \<noteq> []" by (auto simp: UserIdentity_Validate_def split: if_splits)
  show ?thesis
  proof (cases "decode (run_RepositoryConfigJSON run)")
    case (Inl e)
    then show ?thesis by (simp add: ConfiguredFrozenRunScopes_def frozenRunScopeAuthority_def FrozenRunScopes_def)
  next
    case (Inr frozen)
    let ?a = "\<lparr>rn_RunID = run_ID run, rn_Repository = run_Repository run,
            rn_BindingDigest = frozen_digest run, rn_PersistenceBindingValue = frozen_target run,
            rn_AllowedLogins = fo_AllowedOperatorLogins frozen,
            rn_TrustedOperators = map actor_user (fo_TrustedOperatorActors frozen)\<rparr>"
    have a: "frozenRunScopeAuthority decode run = Inr ?a" using Inr by (simp add: frozenRunScopeAuthority_def)
    have scope: "run_scope ?a = frozen_scope run"
      using frozen_target_nonempty by (simp add: run_scope_def frozen_scope_def targetBindingValue_def)
    have allow: "runAuthorityAllows ?a identity \<longleftrightarrow>
        requester_authorize r (fo_AllowedOperatorLogins frozen) (fo_TrustedOperatorActors frozen) = None"
      if "RunAuthority_Validate ?a = None"
      using that r \<open>rq_ID r \<noteq> []\<close> unfolding requester_authorize_None
      by (auto simp: runAuthorityAllows_def RunAuthority_Validate_def UserIdentity_Equal_def actor_user_def split: if_splits)
    have "ConfiguredFrozenRunScopes encode decode svc who run = Inr s \<longleftrightarrow>
        RunAuthority_Validate ?a = None \<and> runAuthorityAllows ?a identity \<and>
        newAuthorizedScopeSet encode identity [frozen_scope run] = Inr s"
      using id(2) who scope by (simp add: ConfiguredFrozenRunScopes_def a RunScopes_def)
    moreover have "FrozenRunScopes encode decode r run = Inr s \<longleftrightarrow>
        requester_authorize r (fo_AllowedOperatorLogins frozen) (fo_TrustedOperatorActors frozen) = None \<and>
        newAuthorizedScopeSet encode identity [frozen_scope run] = Inr s"
      using id(1) unfolding FrozenRunScopes_Inr by (simp add: Inr requester_identity_def)
    ultimately show ?thesis using allow a by auto
  qed
qed


definition sample_operator :: requester where
  "sample_operator = \<lparr>rq_ID = ''ifan'', rq_Kind = ''github_login'', rq_DatabaseID = 7, rq_NodeID = ''U_7'',
     rq_ActorType = ''User''\<rparr>"

definition sample_frozen :: frozen_operators where
  "sample_frozen = \<lparr>fo_AllowedOperatorLogins = [''Ifan''], fo_TrustedOperatorActors =
     [\<lparr>ta_DatabaseID = 7, ta_NodeID = ''U_7'', ta_Login = ''ifan'', ta_Type = ''User''\<rparr>]\<rparr>"

definition sample_frozen_run :: run_row where
  "sample_frozen_run = \<lparr>run_ID = ''run-1'', run_IssueID = ''i'', run_IdempotencyKey = ''k'',
     run_SourceRevision = ''r'', run_RawIssueHash = [], run_TaskHash = [], run_Repository = ''o/r'',
     run_RepositoryConfigJSON = ''{}'', run_ProfileID = [], run_ProfileSnapshotVersion = 0,
     run_ProfileDigest = [], run_ProfileSnapshotJSON = [], run_RegistryVersion = 0, run_RegistryDigest = [],
     run_RepositoryBindingDigest = replicate 64 (CHR ''b''), run_BaseBranch = ''main'', run_WorkingBranch = ''work'', run_BaseSHA = [], run_WorktreePath = [],
     run_State = StateExecuting, run_CandidateHead = [], run_ImplementationSession = [],
     run_LastError = [], run_LeaseOwner = [], run_LeaseExpiresUnix = 0, run_CreatedAt = 1, run_UpdatedAt = 1\<rparr>"

lemma sample_fold: "equal_fold ''Ifan'' ''ifan''" "equal_fold ''IFAN'' ''ifan''"
  by code_simp+

lemma sample_identity: "githubUserIdentity sample_operator =
    Inr \<lparr>ui_Login = ''ifan'', ui_DatabaseID = 7, ui_NodeID = ''U_7'', ui_ActorType = ''User''\<rparr>"
  by (simp add: githubUserIdentity_def sample_operator_def UserIdentity_Validate_def graphic_def byte_def
      nul_def)

lemma sample_granted:
  "\<exists>s. FrozenRunScopes (\<lambda>_ _. []) (\<lambda>_. Inr sample_frozen) sample_operator sample_frozen_run = Inr s"
proof -
  have b: "validAuthorityDigest (run_RepositoryBindingDigest sample_frozen_run)"
    "\<not> blank (frozen_target sample_frozen_run)" "nul \<notin> set (frozen_target sample_frozen_run)"
    by (simp_all add: sample_frozen_run_def validAuthorityDigest_def frozen_target_def frozen_digest_def
        char_class_defs graphic_def numeral_eq_Suc)
  have a: "requester_authorize sample_operator (fo_AllowedOperatorLogins sample_frozen)
      (fo_TrustedOperatorActors sample_frozen) = None"
    unfolding requester_authorize_None
    by (simp add: sample_operator_def sample_frozen_def sample_fold)
  have v: "UserIdentity_Validate \<lparr>ui_Login = ''ifan'', ui_DatabaseID = 7, ui_NodeID = ''U_7'',
      ui_ActorType = ''User''\<rparr> = None"
    by (simp add: UserIdentity_Validate_def graphic_def byte_def nul_def)
  have "Scope_Validate (frozen_scope sample_frozen_run) = None"
    using b by (simp add: Scope_Validate_def frozen_scope_def) (simp add: sample_frozen_run_def graphic_def byte_def nul_def)
  with a v scope_set_granted show ?thesis
    by (auto simp: FrozenRunScopes_Inr requester_identity_def sample_identity)
qed

theorem frozen_grant_exact_witness:
  "\<exists>s. AllowsRun s ''run-1'' (replicate 64 (CHR ''b'')) \<and> \<not> AllowsRun s ''run-2'' (replicate 64 (CHR ''b''))"
proof -
  obtain s where s: "FrozenRunScopes (\<lambda>_ _. []) (\<lambda>_. Inr sample_frozen) sample_operator sample_frozen_run = Inr s"
    using sample_granted by blast
  have "frozen_target sample_frozen_run = replicate 64 (CHR ''b'')" "run_ID sample_frozen_run = ''run-1''"
    by (simp_all add: sample_frozen_run_def frozen_target_def frozen_digest_def validAuthorityDigest_def
        char_class_defs numeral_eq_Suc)
  with frozen_grant_exact [OF s] show ?thesis by (intro exI [of _ s]) simp
qed

lemma sample_resolved: "ResolveConfiguredRequester (Some \<lparr>ui_Login = ''IFAN'', ui_DatabaseID = 7, ui_NodeID = ''U_7'',
     ui_ActorType = ''User''\<rparr>) sample_operator =
   Inr \<lparr>cr_identity = \<lparr>ui_Login = ''ifan'', ui_DatabaseID = 7, ui_NodeID = ''U_7'', ui_ActorType = ''User''\<rparr>\<rparr>"
  by (simp add: ResolveConfiguredRequester_def sample_identity is_operator_def UserIdentity_Equal_def
      UserIdentity_Validate_def sample_fold byte_def nul_def graphic_def)

theorem frozen_run_paths_agree_witness:
  "\<exists>s. ConfiguredFrozenRunScopes (\<lambda>_ _. []) (\<lambda>_. Inr sample_frozen)
      (Some \<lparr>ui_Login = ''IFAN'', ui_DatabaseID = 7, ui_NodeID = ''U_7'', ui_ActorType = ''User''\<rparr>)
      \<lparr>cr_identity = \<lparr>ui_Login = ''ifan'', ui_DatabaseID = 7, ui_NodeID = ''U_7'', ui_ActorType = ''User''\<rparr>\<rparr>
      sample_frozen_run = Inr s"
proof -
  obtain s where s: "FrozenRunScopes (\<lambda>_ _. []) (\<lambda>_. Inr sample_frozen) sample_operator sample_frozen_run = Inr s"
    using sample_granted by blast
  have "RunAuthority_Validate a = None"
    if "frozenRunScopeAuthority (\<lambda>_. Inr sample_frozen) sample_frozen_run = Inr a" for a
    using that frozen_digest_valid [of sample_frozen_run]
    by (auto simp: frozenRunScopeAuthority_def RunAuthority_Validate_def sample_frozen_def actor_user_def
        UserIdentity_Validate_def graphic_def byte_def nul_def)
      (simp_all add: sample_frozen_run_def graphic_def byte_def)
  with s frozen_run_paths_agree [OF sample_resolved] show ?thesis by blast
qed

definition sample_user :: user_identity where
  "sample_user = \<lparr>ui_Login = ''ifan'', ui_DatabaseID = 7, ui_NodeID = ''U_7'', ui_ActorType = ''User''\<rparr>"

definition sample_authority :: "string \<Rightarrow> run_authority" where
  "sample_authority binding = \<lparr>rn_RunID = ''run-1'', rn_Repository = ''o/r'',
     rn_BindingDigest = replicate 64 (CHR ''b''), rn_PersistenceBindingValue = binding,
     rn_AllowedLogins = [''ifan''], rn_TrustedOperators = [sample_user]\<rparr>"

lemma sample_user_ok: "UserIdentity_Equal sample_user sample_user" "UserIdentity_Validate sample_user = None"
  by (simp_all add: UserIdentity_Equal_def UserIdentity_Validate_def sample_user_def graphic_def byte_def nul_def)

lemma sample_authority_granted: "run_granted \<lparr>cr_identity = sample_user\<rparr> (sample_authority binding)"
proof -
  have "validAuthorityDigest (replicate 64 (CHR ''b''))"
    by (simp add: validAuthorityDigest_def char_class_defs)
  then show ?thesis
    using sample_user_ok by (simp add: run_granted_def RunAuthority_Validate_def runAuthorityAllows_def
        sample_authority_def graphic_def byte_def) (simp add: sample_user_def)
qed

theorem controller_runs_exact_witness:
  "(\<exists>s. ControllerRunScopes (\<lambda>_ _. []) (Some sample_user) \<lparr>cr_identity = sample_user\<rparr> [sample_authority []] = Inr s \<and>
      AllowsRun s ''run-1'' (replicate 64 (CHR ''b'')) \<and> \<not> AllowsRun s ''run-2'' (replicate 64 (CHR ''b''))) \<and>
   \<not> (\<exists>s. ControllerRunScopes (\<lambda>_ _. []) (Some sample_user) \<lparr>cr_identity = sample_user\<rparr>
         [sample_authority [], sample_authority '' ''] = Inr s)"
proof -
  have op: "is_operator (Some sample_user) sample_user" using sample_user_ok by (simp add: is_operator_def)
  have t: "targetBindingValue (sample_authority []) = replicate 64 (CHR ''b'')"
    "targetBindingValue (sample_authority '' '') = '' ''" "rn_RunID (sample_authority b) = ''run-1''" for b
    by (simp_all add: targetBindingValue_def sample_authority_def)
  have b: "\<not> blank (replicate 64 (CHR ''b''))" "nul \<notin> set (replicate 64 (CHR ''b''))" "nul \<notin> set ''run-1''"
    by (simp_all add: numeral_eq_Suc graphic_def byte_def nul_def)
  have bl: "blank '' ''" by (simp add: blank_def) code_simp
  let ?who = "\<lparr>cr_identity = sample_user\<rparr>"
  note exact = controller_runs_exact [of "\<lambda>_ _. []" "Some sample_user" ?who]
  have ok1: "\<forall>a \<in> set [sample_authority []]. run_granted ?who a \<longrightarrow>
      nul \<notin> set (rn_RunID a) \<and> \<not> blank (targetBindingValue a) \<and> nul \<notin> set (targetBindingValue a)"
    using b by (simp only: t list.set ball_simps) simp
  with op exact obtain s where
    s: "ControllerRunScopes (\<lambda>_ _. []) (Some sample_user) ?who [sample_authority []] = Inr s" by fastforce
  have runs: "AllowsRun s runID digest \<longleftrightarrow> (\<exists>a \<in> set [sample_authority []]. run_granted ?who a \<and>
      rn_RunID a = runID \<and> targetBindingValue a = digest)" for runID digest
    using exact [THEN conjunct2] s by blast
  have "AllowsRun s ''run-1'' (replicate 64 (CHR ''b''))" "\<not> AllowsRun s ''run-2'' (replicate 64 (CHR ''b''))"
    unfolding runs by (simp_all add: t sample_authority_granted)
  moreover have "\<not> (\<exists>s. ControllerRunScopes (\<lambda>_ _. []) (Some sample_user) ?who
         [sample_authority [], sample_authority '' ''] = Inr s)"
    using exact [THEN conjunct1] bl sample_authority_granted [of "'' ''"] t(2) by (metis list.set_intros)
  ultimately show ?thesis using s by blast
qed

end
