(* ===== verification/Run_Store.thy ===== *)
theory Run_Store
  imports Scheduling Sha256
begin

text \<open>
  Runs, their transition trail, leases, attempts and owned resources in
  \<open>internal/adapters/sqlite/store.go\<close>. Every operation that moves a run goes through
  \<open>compare_and_transition\<close>: read the next sequence number, update the run under a compare, append
  the transition. Rows of tables outside the model that an operation writes in the same
  transaction, and the checks it makes on them, are an argument of type \<open>go_error option\<close>.
  The clock readings of one operation are one argument \<open>now\<close>.
\<close>

section \<open>Creation\<close>

text \<open>The fields of \<open>LocalRepository\<close> that the ownership comparison reads; \<open>decode\<close> stands for the
  JSON decoder on the frozen configuration.\<close>

record local_ownership =
  lo_OriginPath :: string
  lo_SourcePath :: string
  lo_RunRoot :: string
  lo_WorktreeRoot :: string

definition ensureRepositoryBindingDigest :: "run_row \<Rightarrow> run_row" where
  "ensureRepositoryBindingDigest run =
     (if run_RepositoryBindingDigest run \<noteq> [] \<or> blank (run_Repository run) then run
      else run\<lparr>run_RepositoryBindingDigest :=
             sha256_hex (''legacy-repository-binding:'' @ to_lower (trim_space (run_Repository run)))\<rparr>)"

definition localOwnershipConflict ::
  "(string \<Rightarrow> local_ownership option) \<Rightarrow> string \<Rightarrow> string \<Rightarrow> bool" where
  "localOwnershipConflict decode existingJSON currentJSON =
     (case (decode existingJSON, decode currentJSON) of
        (Some existing, Some current) \<Rightarrow>
          lo_OriginPath existing \<noteq> lo_OriginPath current \<or>
          lo_SourcePath existing \<noteq> lo_SourcePath current \<or>
          lo_RunRoot existing \<noteq> lo_RunRoot current \<or>
          lo_WorktreeRoot existing \<noteq> lo_WorktreeRoot current
      | _ \<Rightarrow> existingJSON \<noteq> currentJSON)"

text \<open>The constraints of table \<open>runs\<close>: the primary key, the idempotency key, and the unique index on
  the issue of active runs.\<close>

definition active_issue :: "store \<Rightarrow> string \<Rightarrow> nat" where
  "active_issue s issue =
     count_where (\<lambda>r. run_IssueID r = issue \<and> \<not> terminal (run_State r)) (st_runs s)"

definition run_constraint_fails :: "store \<Rightarrow> run_row \<Rightarrow> bool" where
  "run_constraint_fails s run \<longleftrightarrow>
     count_where (\<lambda>r. run_ID r = run_ID run) (st_runs s) \<noteq> 0 \<or>
     count_where (\<lambda>r. run_IdempotencyKey r = run_IdempotencyKey run) (st_runs s) \<noteq> 0 \<or>
     active_issue s (run_IssueID run) \<noteq> 0"

definition inserted_run :: "run_row \<Rightarrow> time \<Rightarrow> run_row" where
  "inserted_run run now =
     run\<lparr>run_BaseSHA := [], run_State := StateReceived, run_CandidateHead := [],
         run_ImplementationSession := [], run_LastError := [], run_LeaseOwner := [],
         run_LeaseExpiresUnix := 0, run_CreatedAt := now, run_UpdatedAt := now\<rparr>"

definition profile_conflict :: "run_row \<Rightarrow> run_row \<Rightarrow> bool" where
  "profile_conflict existing run \<longleftrightarrow>
     run_ProfileID existing \<noteq> run_ProfileID run \<or>
     run_ProfileSnapshotVersion existing \<noteq> run_ProfileSnapshotVersion run \<or>
     run_ProfileDigest existing \<noteq> run_ProfileDigest run \<or>
     run_ProfileSnapshotJSON existing \<noteq> run_ProfileSnapshotJSON run"

definition legacy_conflict :: "run_row \<Rightarrow> run_row \<Rightarrow> bool" where
  "legacy_conflict existing run \<longleftrightarrow>
     run_ProfileSnapshotVersion existing = 0 \<and> run_ProfileSnapshotVersion run = 0 \<and>
     (run_RegistryVersion existing \<noteq> run_RegistryVersion run \<or>
      run_RegistryDigest existing \<noteq> run_RegistryDigest run \<or>
      run_RepositoryBindingDigest existing \<noteq> run_RepositoryBindingDigest run)"

definition replay_run ::
  "(string \<Rightarrow> local_ownership option) \<Rightarrow> store \<Rightarrow> run_row \<Rightarrow> (run_row \<times> bool) result" where
  "replay_run decode s run =
     (case select_where (\<lambda>r. run_IdempotencyKey r = run_IdempotencyKey run) (st_runs s) of
        None \<Rightarrow> Inl (Wrapf ''create run: %w'' [] (New ''UNIQUE constraint failed''))
      | Some existing \<Rightarrow>
          (if run_TaskHash existing \<noteq> run_TaskHash run \<or>
              run_SourceRevision existing \<noteq> run_SourceRevision run
           then Inl (New ''idempotency key conflicts with a different task snapshot'')
           else if run_Repository existing \<noteq> run_Repository run \<or> profile_conflict existing run \<or>
              legacy_conflict existing run \<or>
              localOwnershipConflict decode (run_RepositoryConfigJSON existing) (run_RepositoryConfigJSON run)
           then Inl (New ''idempotency key conflicts with a different repository authority binding'')
           else Inr (existing, False)))"

definition ErrRepositoryAdmissionConflict :: go_error where
  "ErrRepositoryAdmissionConflict = New ''repository admission authority conflicts''"

definition insert_run :: "run_row \<Rightarrow> time \<Rightarrow> store \<Rightarrow> store" where
  "insert_run run now s =
     append_transition (run_ID run) 1 (StateOther []) StateReceived ''run created'' ''task snapshot'' []
       now (s\<lparr>st_runs := inserted_run run now # st_runs s\<rparr>)"

definition CreateRun ::
  "(string \<Rightarrow> local_ownership option) \<Rightarrow> go_error option \<Rightarrow> bool \<Rightarrow> run_row \<Rightarrow> time \<Rightarrow> store \<Rightarrow>
     (run_row \<times> bool) result \<times> store" where
  "CreateRun decode configuration_authority repository_authority input now s =
     (let explicit = \<not> blank (run_RepositoryBindingDigest input);
          run = ensureRepositoryBindingDigest input
      in case configuration_authority of
        Some e \<Rightarrow> (Inl e, s)
      | None \<Rightarrow>
     (if \<not> repository_authority then (Inl ErrRepositoryAdmissionConflict, s)
      else if run_constraint_fails s run then (replay_run decode s run, s)
      else let s1 = insert_run run now s in
        if \<not> explicit then (Inr (inserted_run run now, True), s1)
        else (case reserveSchedulingAuthoritiesTx run zero_reservation
                (defaultHeavyPermitOwner s (run_ID run)) now s1 of
            (Inl e, _) \<Rightarrow> (Inl e, s)
          | (Inr None, _) \<Rightarrow> (Inl (New ''repository slot or heavy capacity is unavailable''), s)
          | (Inr (Some _), s2) \<Rightarrow> (Inr (inserted_run run now, True), s2))))"

section \<open>State changes\<close>

definition transition_lost :: "(run_row \<Rightarrow> bool) \<Rightarrow> store \<Rightarrow> bool" where
  "transition_lost P s \<longleftrightarrow> count_where P (st_runs s) \<noteq> 1"

text \<open>The unique index on the issue of active runs, when an UPDATE makes an ended run active.\<close>

definition index_conflict :: "string \<Rightarrow> (run_row \<Rightarrow> bool) \<Rightarrow> state \<Rightarrow> store \<Rightarrow> bool" where
  "index_conflict runID P dst s \<longleftrightarrow>
     \<not> terminal dst \<and> (\<exists>r \<in> set (st_runs s). P r \<and>
       (\<exists>q \<in> set (st_runs s). run_ID q \<noteq> runID \<and> run_IssueID q = run_IssueID r \<and> \<not> terminal (run_State q)))"

definition compare_and_transition ::
  "go_error \<Rightarrow> string \<Rightarrow> (run_row \<Rightarrow> bool) \<Rightarrow> state \<Rightarrow> state \<Rightarrow> (run_row \<Rightarrow> run_row) \<Rightarrow> string \<Rightarrow> string \<Rightarrow>
     string \<Rightarrow> time \<Rightarrow> store \<Rightarrow> go_error option \<times> store" where
  "compare_and_transition lost runID P src dst f reason evidence head now s =
     (let n = next_sequence s runID in
      if index_conflict runID P dst s then (Some (New ''UNIQUE constraint failed''), s)
      else if transition_lost P s then (Some lost, s)
      else (None, append_transition runID n src dst reason evidence head now
                    (update_run_state P dst f now s)))"

definition set_error :: "string \<Rightarrow> run_row \<Rightarrow> run_row" where
  "set_error e r = r\<lparr>run_LastError := e\<rparr>"

definition Transition ::
  "string \<Rightarrow> state \<Rightarrow> state \<Rightarrow> string \<Rightarrow> string \<Rightarrow> string \<Rightarrow> time \<Rightarrow> store \<Rightarrow> go_error option \<times> store" where
  "Transition runID expected dst reason evidence head now s =
     (case ValidateTransition expected dst of
        Some e \<Rightarrow> (Some e, s)
      | None \<Rightarrow>
     (case find_run s runID of
        None \<Rightarrow> (Some no_rows, s)
      | Some run \<Rightarrow>
     (if run_State run = dst then (None, s)
      else if run_State run \<noteq> expected
      then (Some (Errorf ''state compare failed: current=%s expected=%s''
              [AStr (state_string (run_State run)), AStr (state_string expected)]), s)
      else compare_and_transition (New ''state compare update lost'') runID
             (\<lambda>r. run_ID r = runID \<and> run_State r = expected) expected dst (set_error [])
             reason evidence head now s)))"

definition MarkLinearSourceDrift ::
  "string \<Rightarrow> state \<Rightarrow> string \<Rightarrow> string \<Rightarrow> time \<Rightarrow> store \<Rightarrow> bool result \<times> store" where
  "MarkLinearSourceDrift runID expectedState expectedSourceRevision evidence now s =
     (if \<not> CanRequireManualIntervention expectedState \<or> blank expectedSourceRevision \<or> blank evidence
      then (Inl (New ''invalid Linear source drift authority''), s)
      else case find_run s runID of
        None \<Rightarrow> (Inl no_rows, s)
      | Some run \<Rightarrow>
     (if run_State run \<noteq> expectedState \<or> run_SourceRevision run \<noteq> expectedSourceRevision
      then (Inr False, s)
      else let P = (\<lambda>r. run_ID r = runID \<and> run_State r = expectedState \<and>
                   run_SourceRevision r = expectedSourceRevision) in
        (case compare_and_transition no_rows runID P expectedState StateManualIntervention
                (set_error ''Linear source drift requires a human decision'')
                ''Linear source drift requires a human decision'' evidence [] now s of
            (None, s') \<Rightarrow> (Inr True, s')
          | (Some e, _) \<Rightarrow> (if transition_lost P s then (Inr False, s) else (Inl e, s)))))"

definition BeginRepair ::
  "string \<Rightarrow> string \<Rightarrow> string \<Rightarrow> time \<Rightarrow> store \<Rightarrow> go_error option \<times> store" where
  "BeginRepair runID oldHead evidence now s =
     (if blank oldHead then (Some (New ''repair base head must not be blank''), s)
      else if blank evidence then (Some (New ''repair evidence must not be blank''), s)
      else case find_run s runID of
        None \<Rightarrow> (Some no_rows, s)
      | Some run \<Rightarrow>
     (if run_State run \<noteq> StateRepairing \<or> run_CandidateHead run \<noteq> oldHead
      then (Some (New ''repair state or candidate compare failed''), s)
      else compare_and_transition (New ''repair compare update lost'') runID
             (\<lambda>r. run_ID r = runID \<and> run_State r = StateRepairing \<and> run_CandidateHead r = oldHead)
             StateRepairing StateExecuting (\<lambda>r. r\<lparr>run_CandidateHead := []\<rparr>)
             ''begin normalized GitHub finding repair'' evidence oldHead now s))"

text \<open>The remaining writers of \<open>current_state\<close>. \<open>checks\<close> is what the operation finds in the tables of
  evidence before it moves the run.\<close>

definition PersistFreshReviewFindings ::
  "go_error option \<Rightarrow> go_error option \<Rightarrow> go_error option \<Rightarrow> string \<Rightarrow> string \<Rightarrow> string \<Rightarrow> time \<Rightarrow> store \<Rightarrow>
     bool result \<times> store" where
  "PersistFreshReviewFindings valid replay_checks checks runID reviewedHead reference now s =
     (case valid of Some e \<Rightarrow> (Inl e, s) | None \<Rightarrow>
     (case find_run s runID of
        None \<Rightarrow> (Inl run_not_found, s)
      | Some run \<Rightarrow>
     (if run_CandidateHead run \<noteq> reviewedHead
      then (Inl (New ''fresh review repair candidate head authority changed''), s)
      else if run_State run = StateRepairing
      then (case replay_checks of Some e \<Rightarrow> (Inl e, s) | None \<Rightarrow> (Inr False, s))
      else if run_State run \<noteq> StateFreshReview
      then (Inl (Errorf ''fresh review repair requires fresh_review state, got %s''
              [AStr (state_string (run_State run))]), s)
      else (case checks of Some e \<Rightarrow> (Inl e, s) | None \<Rightarrow>
      (if count_where (\<lambda>t. tr_RunID t = runID \<and> tr_From t = StateFreshReview \<and>
             tr_To t = StateRepairing \<and> tr_Head t = reviewedHead \<and> tr_Evidence t = reference)
            (st_transitions s) \<noteq> 0
       then (Inl (New ''fresh review repair transition exists while run is not repairing''), s)
       else (case compare_and_transition
                (New ''fresh review repair state compare update lost'') runID
                (\<lambda>r. run_ID r = runID \<and> run_State r = StateFreshReview \<and> run_CandidateHead r = reviewedHead)
                StateFreshReview StateRepairing (set_error [])
                ''fresh structured review findings persisted'' reference reviewedHead now s of
            (None, s') \<Rightarrow> (Inr True, s') | (Some e, s') \<Rightarrow> (Inl e, s')))))))"

definition lease_held :: "run_row \<Rightarrow> string \<Rightarrow> time \<Rightarrow> bool" where
  "lease_held run owner now \<longleftrightarrow> run_LeaseOwner run = owner \<and> run_LeaseExpiresUnix run > unix_nano now"

definition TransitionReviewReplyRun ::
  "string \<Rightarrow> string \<Rightarrow> state \<Rightarrow> state \<Rightarrow> string \<Rightarrow> string \<Rightarrow> string \<Rightarrow> time \<Rightarrow> store \<Rightarrow> go_error option \<times> store" where
  "TransitionReviewReplyRun runID owner expected dst reason evidence head now s =
     (case ValidateTransition expected dst of
        Some e \<Rightarrow> (Some e, s)
      | None \<Rightarrow>
     (case find_run s runID of
        None \<Rightarrow> (Some no_rows, s)
      | Some run \<Rightarrow>
     (if run_State run = dst \<and> lease_held run owner now then (None, s)
      else if run_State run \<noteq> expected \<or> \<not> lease_held run owner now
      then (Some (New ''review reply run authority changed''), s)
      else compare_and_transition (New ''review reply state compare update lost'') runID
             (\<lambda>r. run_ID r = runID \<and> run_State r = expected \<and> lease_held r owner now)
             expected dst (set_error []) reason evidence head now s)))"

text \<open>The guard and the state change that the reconciliation operations share.\<close>

definition reconcile_guard :: "run_row \<Rightarrow> state \<Rightarrow> string \<Rightarrow> string \<Rightarrow> time \<Rightarrow> bool" where
  "reconcile_guard run expectedState idempotencyKey leaseOwner now \<longleftrightarrow>
     run_State run = expectedState \<and> run_IdempotencyKey run = idempotencyKey \<and>
     lease_held run leaseOwner now"

definition SaveGitHubReconciliation ::
  "go_error option \<Rightarrow> string \<Rightarrow> string \<Rightarrow> state \<Rightarrow> state \<Rightarrow> string \<Rightarrow> string \<Rightarrow> string \<Rightarrow> string \<Rightarrow> time \<Rightarrow>
     store \<Rightarrow> go_error option \<times> store" where
  "SaveGitHubReconciliation checks runID leaseOwner expectedState dst idempotencyKey reason evidence
       head now s =
     (case find_run s runID of
        None \<Rightarrow> (Some no_rows, s)
      | Some run \<Rightarrow>
     (if \<not> reconcile_guard run expectedState idempotencyKey leaseOwner now
      then (Some (New ''GitHub reconciliation run authority changed''), s)
      else case checks of Some e \<Rightarrow> (Some e, s) | None \<Rightarrow>
      (if dst = expectedState then (None, s)
       else case ValidateTransition expectedState dst of
         Some e \<Rightarrow> (Some e, s)
       | None \<Rightarrow> compare_and_transition (New ''atomic GitHub reconciliation state update mismatch'') runID
           (\<lambda>r. run_ID r = runID \<and> reconcile_guard r expectedState idempotencyKey leaseOwner now)
           expectedState dst (\<lambda>r. r) reason evidence head now s)))"

definition SaveGitHubManualPRTargetDrift ::
  "go_error option \<Rightarrow> string \<Rightarrow> string \<Rightarrow> state \<Rightarrow> string \<Rightarrow> string \<Rightarrow> string \<Rightarrow> string \<Rightarrow> time \<Rightarrow>
     store \<Rightarrow> go_error option \<times> store" where
  "SaveGitHubManualPRTargetDrift checks runID leaseOwner expectedState idempotencyKey evidence head
       reason now s =
     (if expectedState \<noteq> StateAwaitingGitHubMergeability \<or> blank reason
      then (Some (New ''manual GitHub target-drift evidence is incomplete''), s)
      else case checks of Some e \<Rightarrow> (Some e, s) | None \<Rightarrow>
      (case find_run s runID of
        None \<Rightarrow> (Some no_rows, s)
      | Some run \<Rightarrow>
     (if \<not> reconcile_guard run expectedState idempotencyKey leaseOwner now
      then (Some (New ''GitHub reconciliation run authority changed''), s)
      else compare_and_transition (New ''atomic GitHub target-drift state update mismatch'') runID
           (\<lambda>r. run_ID r = runID \<and> reconcile_guard r expectedState idempotencyKey leaseOwner now)
           expectedState StateManualIntervention (set_error reason) reason evidence head now s)))"

definition RequireManualInterventionForTrustedFeedbackDrift ::
  "go_error option \<Rightarrow> string \<Rightarrow> string \<Rightarrow> state \<Rightarrow> string \<Rightarrow> string \<Rightarrow> time \<Rightarrow>
     store \<Rightarrow> go_error option \<times> store" where
  "RequireManualInterventionForTrustedFeedbackDrift checks runID leaseOwner expectedState
       idempotencyKey observedDigest now s =
     (if blank runID \<or> blank observedDigest
      then (Some (New ''trusted feedback drift identity is incomplete''), s)
      else case find_run s runID of
        None \<Rightarrow> (Some no_rows, s)
      | Some run \<Rightarrow>
     (if \<not> reconcile_guard run expectedState idempotencyKey leaseOwner now
      then (Some (New ''trusted feedback drift run authority changed''), s)
      else case checks of Some e \<Rightarrow> (Some e, s) | None \<Rightarrow>
        compare_and_transition (New ''trusted feedback drift state update lost'') runID
           (\<lambda>r. run_ID r = runID \<and> reconcile_guard r expectedState idempotencyKey leaseOwner now)
           expectedState StateManualIntervention (\<lambda>r. r) ''trusted_review_feedback_drift''
           (''trusted_feedback_conflict:'' @ observedDigest) [] now s))"

text \<open>The terminal write of an operator abandonment, with its effect on the retry schedules.\<close>

definition abandon_retry :: "string \<Rightarrow> time \<Rightarrow> store \<Rightarrow> store" where
  "abandon_retry runID now s =
     s\<lparr>st_retry := update_where (\<lambda>x. sch_RunID x = runID \<and> sch_Status x = RetryScheduled)
        (\<lambda>x. x\<lparr>sch_FailureClass := RetryFailureManual, sch_FailureEvidenceRef := [],
           sch_ReasonCode := ''manual_state'', sch_Status := RetryAttention, sch_NextEligibleAt := 0,
           sch_NextEligibleUnix := 0, sch_AttentionAt := now, sch_UpdatedAt := now\<rparr>) (st_retry s)\<rparr>"

record abandon_request =
  ab_RequesterID :: string
  ab_RequesterKind :: string
  ab_RunID :: string
  ab_Repository :: string
  ab_RawIssueHash :: string
  ab_TaskHash :: string
  ab_ProfileDigest :: string
  ab_RepositoryConfigDigest :: string
  ab_ExpectedState :: state
  ab_IdempotencyKey :: string
  ab_LeaseOwner :: string

definition Abandonment_Validate :: "abandon_request \<Rightarrow> go_error option" where
  "Abandonment_Validate a =
     (if ab_RequesterID a = [] \<or> ab_RequesterKind a \<noteq> ''github_login'' \<or> blank (ab_RunID a) \<or>
         blank (ab_Repository a) \<or> blank (ab_RawIssueHash a) \<or> blank (ab_TaskHash a) \<or>
         blank (ab_ProfileDigest a) \<or> blank (ab_RepositoryConfigDigest a) \<or>
         blank (ab_LeaseOwner a) \<or> blank (ab_IdempotencyKey a)
      then Some (New ''automatic admission abandonment authority is incomplete'')
      else if \<not> GracefulAbandonState (ab_ExpectedState a)
      then Some (New ''automatic admission abandonment state is not eligible'')
      else None)"

definition abandon_authority :: "abandon_request \<Rightarrow> run_row \<Rightarrow> bool" where
  "abandon_authority q run \<longleftrightarrow>
     run_Repository run = ab_Repository q \<and> run_RawIssueHash run = ab_RawIssueHash q \<and>
     run_TaskHash run = ab_TaskHash q \<and> run_ProfileDigest run = ab_ProfileDigest q"

text \<open>\<open>authority\<close> is the outcome of the checks on the configuration digest and the requester.\<close>

definition validateAutomaticAdmissionAbandonmentAuthorityTx ::
  "go_error option \<Rightarrow> abandon_request \<Rightarrow> run_row \<Rightarrow> time \<Rightarrow> go_error option" where
  "validateAutomaticAdmissionAbandonmentAuthorityTx authority q run now =
     (if \<not> abandon_authority q run
      then Some (New ''automatic admission abandonment persisted authority changed'')
      else if \<not> lease_held run (ab_LeaseOwner q) now \<or> run_LeaseExpiresUnix run \<le> 0
      then Some (New ''automatic admission abandonment run lease was lost'')
      else authority)"

text \<open>\<open>ORDER BY sequence DESC LIMIT 1\<close>.\<close>

definition last_transition :: "store \<Rightarrow> string \<Rightarrow> transition_row option" where
  "last_transition s runID =
     select_where (\<lambda>t. tr_RunID t = runID \<and> tr_Sequence t + 1 = next_sequence s runID) (st_transitions s)"

definition verifyAbandonmentTransitionTx :: "store \<Rightarrow> abandon_request \<Rightarrow> go_error option" where
  "verifyAbandonmentTransitionTx s q =
     (case last_transition s (ab_RunID q) of
        None \<Rightarrow> Some (New ''automatic admission abandonment idempotency evidence is unavailable'')
      | Some t \<Rightarrow>
          (if tr_To t \<noteq> StateFailed \<or> tr_Reason t \<noteq> ''operator abandoned automatic run'' \<or>
              tr_Evidence t \<noteq> ''operator_abandon:'' @ ab_IdempotencyKey q
           then Some (New ''automatic admission abandonment is not idempotently replayable'')
           else if ab_ExpectedState q \<noteq> StateFailed \<and> tr_From t \<noteq> ab_ExpectedState q
           then Some (New ''automatic admission abandonment idempotency state does not match'')
           else None))"

definition abandon_target :: "abandon_request \<Rightarrow> state \<Rightarrow> time \<Rightarrow> run_row \<Rightarrow> bool" where
  "abandon_target q st now r \<longleftrightarrow>
     run_ID r = ab_RunID q \<and> run_State r = st \<and> run_IdempotencyKey r = ab_IdempotencyKey q \<and>
     abandon_authority q r \<and> lease_held r (ab_LeaseOwner q) now"

text \<open>The replay of a run that has failed already, and the first abandonment. \<open>journal\<close> and
  \<open>delivery\<close> are the checks on the admission journal and on delivery evidence.\<close>

definition replay_abandonment ::
  "go_error option \<Rightarrow> go_error option \<Rightarrow> abandon_request \<Rightarrow> time \<Rightarrow> store \<Rightarrow> go_error option" where
  "replay_abandonment journal delivery q now s =
     first_error (\<lambda>x. x) [journal, verifyAbandonmentTransitionTx s q, delivery,
       (if count_where (abandon_target q StateFailed now) (st_runs s) \<noteq> 1
        then Some (New ''automatic admission abandonment run lease compare lost'') else None)]"

definition abandon_run ::
  "abandon_request \<Rightarrow> run_row \<Rightarrow> time \<Rightarrow> store \<Rightarrow> (run_row \<times> bool) result \<times> store" where
  "abandon_run q run now s =
     (case compare_and_transition
         (New ''automatic admission abandonment state compare update lost'') (ab_RunID q)
         (abandon_target q (ab_ExpectedState q) now) (ab_ExpectedState q) StateFailed
         (set_error ''operator abandoned automatic run'') ''operator abandoned automatic run''
         (''operator_abandon:'' @ ab_IdempotencyKey q) (run_CandidateHead run) now s of
        (None, s') \<Rightarrow>
          (Inr (run\<lparr>run_State := StateFailed, run_LastError := ''operator abandoned automatic run'',
                  run_UpdatedAt := now\<rparr>, False), abandon_retry (ab_RunID q) now s')
      | (Some e, s') \<Rightarrow> (Inl e, s'))"

definition AbandonAutomaticAdmission ::
  "go_error option \<Rightarrow> go_error option \<Rightarrow> go_error option \<Rightarrow> abandon_request \<Rightarrow> time \<Rightarrow> store \<Rightarrow>
     (run_row \<times> bool) result \<times> store" where
  "AbandonAutomaticAdmission authority journal delivery q now s =
     (case Abandonment_Validate q of
        Some e \<Rightarrow> (Inl e, s)
      | None \<Rightarrow>
     (case find_run s (ab_RunID q) of
        None \<Rightarrow> (Inl run_not_found, s)
      | Some run \<Rightarrow>
     (case validateAutomaticAdmissionAbandonmentAuthorityTx authority q run now of
        Some e \<Rightarrow> (Inl e, s)
      | None \<Rightarrow>
     (if run_IdempotencyKey run \<noteq> ab_IdempotencyKey q
      then (Inl (New ''automatic admission abandonment idempotency authority changed''), s)
      else if run_State run = StateFailed
      then (case replay_abandonment journal delivery q now s of
          Some e \<Rightarrow> (Inl e, s) | None \<Rightarrow> (Inr (run, True), s))
      else if ab_ExpectedState q = StateFailed \<or> run_State run \<noteq> ab_ExpectedState q
      then (Inl (New ''automatic admission abandonment state compare failed''), s)
      else if \<not> GracefulAbandonState (ab_ExpectedState q)
      then (Inl (New ''automatic admission abandonment state is not eligible''), s)
      else (case first_error (\<lambda>x. x) [journal, delivery] of
          Some e \<Rightarrow> (Inl e, s) | None \<Rightarrow> abandon_run q run now s)))))"

section \<open>Fields of a run\<close>

definition touch :: "time \<Rightarrow> (run_row \<Rightarrow> run_row) \<Rightarrow> run_row \<Rightarrow> run_row" where
  "touch now f r = (f r)\<lparr>run_UpdatedAt := now\<rparr>"

definition SetWorkspace ::
  "string \<Rightarrow> string \<Rightarrow> string \<Rightarrow> time \<Rightarrow> store \<Rightarrow> go_error option \<times> store" where
  "SetWorkspace runID baseSHA worktree now =
     exec_one_run (\<lambda>r. run_ID r = runID)
       (touch now (\<lambda>r. r\<lparr>run_BaseSHA := baseSHA, run_WorktreePath := worktree\<rparr>))"

definition SetImplementationSession ::
  "string \<Rightarrow> string \<Rightarrow> time \<Rightarrow> store \<Rightarrow> go_error option \<times> store" where
  "SetImplementationSession runID session now =
     exec_one_run (\<lambda>r. run_ID r = runID) (touch now (\<lambda>r. r\<lparr>run_ImplementationSession := session\<rparr>))"

definition SetCandidateHead :: "string \<Rightarrow> string \<Rightarrow> time \<Rightarrow> store \<Rightarrow> go_error option \<times> store" where
  "SetCandidateHead runID head now =
     exec_one_run (\<lambda>r. run_ID r = runID) (touch now (\<lambda>r. r\<lparr>run_CandidateHead := head\<rparr>))"

definition SetLastError :: "string \<Rightarrow> string \<Rightarrow> time \<Rightarrow> store \<Rightarrow> go_error option \<times> store" where
  "SetLastError runID msg now =
     exec_one_run (\<lambda>r. run_ID r = runID) (touch now (set_error msg))"

section \<open>Run leases\<close>

definition update_lease ::
  "(run_row \<Rightarrow> bool) \<Rightarrow> (run_row \<Rightarrow> run_row) \<Rightarrow> time \<Rightarrow> store \<Rightarrow> nat \<times> store" where
  "update_lease P f now s = (count_where P (st_runs s), update_runs P (touch now f) s)"

definition AcquireLease ::
  "string \<Rightarrow> string \<Rightarrow> time \<Rightarrow> time \<Rightarrow> store \<Rightarrow> bool result \<times> store" where
  "AcquireLease runID owner expires now s =
     (if blank owner then (Inl (New ''lease owner must not be blank''), s)
      else let (n, s') = update_lease
             (\<lambda>r. run_ID r = runID \<and> (run_LeaseOwner r = [] \<or> run_LeaseExpiresUnix r \<le> unix_nano now \<or>
                run_LeaseOwner r = owner))
             (\<lambda>r. r\<lparr>run_LeaseOwner := owner, run_LeaseExpiresUnix := unix_nano expires\<rparr>) now s
           in (Inr (n = 1), s'))"

definition RenewLease ::
  "string \<Rightarrow> string \<Rightarrow> time \<Rightarrow> time \<Rightarrow> store \<Rightarrow> bool result \<times> store" where
  "RenewLease runID owner expires now s =
     (let (n, s') = update_lease
        (\<lambda>r. run_ID r = runID \<and> run_LeaseOwner r = owner \<and> run_LeaseExpiresUnix r > unix_nano now)
        (\<lambda>r. r\<lparr>run_LeaseExpiresUnix := unix_nano expires\<rparr>) now s
      in (Inr (n = 1), s'))"

definition ReleaseLease :: "string \<Rightarrow> string \<Rightarrow> time \<Rightarrow> store \<Rightarrow> go_error option \<times> store" where
  "ReleaseLease runID owner now s =
     (let (n, s') = update_lease (\<lambda>r. run_ID r = runID \<and> run_LeaseOwner r = owner)
        (\<lambda>r. r\<lparr>run_LeaseOwner := [], run_LeaseExpiresUnix := 0\<rparr>) now s
      in (if n = 0 then Some (New ''lease release owner mismatch'') else None, s'))"

section \<open>Attempts\<close>

text \<open>\<open>key\<close> is the hexadecimal text of the 32 random bytes; row identifiers grow.\<close>

definition next_id :: "int list \<Rightarrow> int" where
  "next_id ids = next_number ids"

definition attempt_constraint_fails :: "store \<Rightarrow> string \<Rightarrow> string \<Rightarrow> string \<Rightarrow> bool" where
  "attempt_constraint_fails s runID kind dir \<longleftrightarrow>
     kind \<notin> {''implementation'', ''resume'', ''review''} \<or> find_run s runID = None \<or>
     count_where (\<lambda>a. att_ArtifactDir a = dir) (st_attempts s) \<noteq> 0"

definition BeginAttempt ::
  "string \<Rightarrow> string \<Rightarrow> string \<Rightarrow> string \<Rightarrow> string \<Rightarrow> time \<Rightarrow> store \<Rightarrow> attempt_row result \<times> store" where
  "BeginAttempt runID kind requestedModel artifactDir key now s =
     (if blank requestedModel then (Inl (New ''attempt requested model must not be blank''), s)
      else if attempt_constraint_fails s runID kind artifactDir
      then (Inl (New ''constraint failed''), s)
      else let a = \<lparr>att_ID = next_id (map att_ID (st_attempts s)), att_RunID = runID,
             att_Number = next_number (map att_Number (filter (\<lambda>a. att_RunID a = runID) (st_attempts s))),
             att_Kind = kind, att_Status = ''prepared'', att_SessionID = [],
             att_RequestedModel = requestedModel, att_StartedAt = now, att_FinishedAt = 0,
             att_ExitCode = 0, att_OutcomePath = [], att_OutcomeHash = [],
             att_ArtifactDir = artifactDir, att_ErrorCategory = [], att_ProcessControlKey = key\<rparr>
           in (Inr a, s\<lparr>st_attempts := a # st_attempts s\<rparr>))"

definition CommitAttemptProcessLaunch :: "int \<Rightarrow> store \<Rightarrow> bool \<times> store" where
  "CommitAttemptProcessLaunch attemptID s =
     (let P = (\<lambda>a. att_ID a = attemptID \<and> att_Status a = ''prepared'') in
      (count_where P (st_attempts s) = 1,
       s\<lparr>st_attempts := update_where P (\<lambda>a. a\<lparr>att_Status := ''started''\<rparr>) (st_attempts s)\<rparr>))"

definition finish_attempt :: "attempt_row \<Rightarrow> attempt_row \<Rightarrow> attempt_row" where
  "finish_attempt q a =
     a\<lparr>att_Status := att_Status q, att_SessionID := att_SessionID q,
       att_FinishedAt := att_FinishedAt q, att_ExitCode := att_ExitCode q,
       att_OutcomePath := att_OutcomePath q, att_OutcomeHash := att_OutcomeHash q,
       att_ErrorCategory := att_ErrorCategory q\<rparr>"

definition FinishAttempt :: "attempt_row \<Rightarrow> store \<Rightarrow> go_error option \<times> store" where
  "FinishAttempt q s =
     (let P = (\<lambda>a. att_ID a = att_ID q) in
      (if count_where P (st_attempts s) \<noteq> 1 then Some no_rows else None,
       s\<lparr>st_attempts := update_where P (finish_attempt q) (st_attempts s)\<rparr>))"

section \<open>Verifications and owned resources\<close>

definition validVerificationProcessEvidence :: "string \<Rightarrow> string \<Rightarrow> int \<Rightarrow> bool" where
  "validVerificationProcessEvidence outcome category exitCode \<longleftrightarrow>
     (if outcome = ''not_started'' \<or> outcome = ''interrupted'' then exitCode = -1 \<and> category \<noteq> []
      else if outcome = ''exited'' then category = []
      else False)"

definition SaveVerification :: "verification_row \<Rightarrow> time \<Rightarrow> store \<Rightarrow> go_error option \<times> store" where
  "SaveVerification q now s =
     (if \<not> validVerificationProcessEvidence (ver_ProcessOutcome q) (ver_FailureCategory q) (ver_ExitCode q)
      then (Some (New ''invalid verifier process evidence''), s)
      else if find_run s (ver_RunID q) = None then (Some (New ''FOREIGN KEY constraint failed''), s)
      else (None, s\<lparr>st_verifications :=
        q\<lparr>ver_ID := next_id (map ver_ID (st_verifications s)), ver_CreatedAt := now\<rparr>
          # st_verifications s\<rparr>))"

definition AddOwnedResource :: "resource_row \<Rightarrow> store \<Rightarrow> go_error option \<times> store" where
  "AddOwnedResource q s =
     (case select_where (\<lambda>x. res_Kind x = res_Kind q \<and> res_Name x = res_Name q) (st_resources s) of
        None \<Rightarrow>
          (if find_run s (res_RunID q) = None then (Some (New ''FOREIGN KEY constraint failed''), s)
           else (None, s\<lparr>st_resources := q # st_resources s\<rparr>))
      | Some owner \<Rightarrow>
          (if res_RunID owner \<noteq> res_RunID q
           then (Some (Errorf ''resource %s %s is owned by active run %s''
                   [AStr (res_Kind q), AStr (res_Name q), AStr (res_RunID owner)]), s)
           else (None, s\<lparr>st_resources := update_where
                  (\<lambda>x. res_Kind x = res_Kind q \<and> res_Name x = res_Name q \<and> res_RunID x = res_RunID q)
                  (\<lambda>x. x\<lparr>res_CreationEvidence := res_CreationEvidence q, res_Status := res_Status q\<rparr>)
                  (st_resources s)\<rparr>)))"

end
