(* ===== verification/Retry.thy ===== *)
theory Retry
  imports Run_Store "HOL-Library.Signed_Division"
begin

text \<open>
  Automatic retries: \<open>internal/application/retry_schedule.go\<close> (the policy and its delays, what a
  valid schedule is, how failures are classified) and \<open>internal/adapters/sqlite/retry_schedule.go\<close>
  (the compare-and-swap that records a failure and the deletion after a success). A schedule in
  the store is a row of \<open>automatic_retry_schedules\<close>; reading one validates it.
\<close>

section \<open>The policy\<close>

record retry_policy =
  rp_MaxAttempts :: int
  rp_InitialDelay :: duration
  rp_MaximumDelay :: duration

definition DefaultAutomaticRetryPolicy :: retry_policy where
  "DefaultAutomaticRetryPolicy =
     \<lparr>rp_MaxAttempts = 3, rp_InitialDelay = second, rp_MaximumDelay = 30 * second\<rparr>"

definition normalized :: "retry_policy \<Rightarrow> retry_policy" where
  "normalized p =
     (if rp_MaxAttempts p = 0 \<and> rp_InitialDelay p = 0 \<and> rp_MaximumDelay p = 0
      then DefaultAutomaticRetryPolicy else p)"

definition RetryPolicy_validate :: "retry_policy \<Rightarrow> go_error option" where
  "RetryPolicy_validate q =
     (let p = normalized q in
      if rp_MaxAttempts p < 1 \<or> rp_MaxAttempts p > 10 \<or> rp_InitialDelay p \<le> 0 \<or>
         rp_MaximumDelay p < rp_InitialDelay p \<or> rp_MaximumDelay p > 24 * hour
      then Some (New ''automatic retry policy is invalid'') else None)"

definition normalizedAndValidated :: "retry_policy \<Rightarrow> retry_policy result" where
  "normalizedAndValidated q =
     (let p = normalized q in
      case RetryPolicy_validate p of Some e \<Rightarrow> Inl e | None \<Rightarrow> Inr p)"

definition ValidateAutomaticRetryPolicy :: "retry_policy \<Rightarrow> go_error option" where
  "ValidateAutomaticRetryPolicy p =
     (case normalizedAndValidated p of Inl e \<Rightarrow> Some e | Inr _ \<Rightarrow> None)"

text \<open>\<open>AutomaticRetryDelay\<close> with the arithmetic of \<open>int64\<close>: \<open>/\<close> truncates, \<open>*=\<close> wraps.\<close>

definition wrap64 :: "int \<Rightarrow> int" where
  "wrap64 n = signed_take_bit 63 n"

function retry_delay_loop :: "duration \<Rightarrow> int \<Rightarrow> int \<Rightarrow> duration \<Rightarrow> duration" where
  "retry_delay_loop maximum attempt index delay =
     (if index < attempt \<and> delay < maximum
      then if delay > maximum sdiv 2 then maximum
           else retry_delay_loop maximum attempt (index + 1) (wrap64 (delay * 2))
      else if delay > maximum then maximum else delay)"
  by pat_completeness auto
termination
  by (relation "measure (\<lambda>(_, attempt, index, _). nat (attempt - index))") auto

declare retry_delay_loop.simps [simp del]

definition AutomaticRetryDelay :: "retry_policy \<Rightarrow> int \<Rightarrow> duration" where
  "AutomaticRetryDelay policy attempt =
     (let p = normalized policy in
      retry_delay_loop (rp_MaximumDelay p) attempt 1 (rp_InitialDelay p))"

section \<open>Classes, reasons and states\<close>

fun validRetryFailureClass :: "failure_class \<Rightarrow> bool" where
  "validRetryFailureClass c = (case c of RetryFailureOther _ \<Rightarrow> False | _ \<Rightarrow> True)"

definition validRetryReasonCode :: "string \<Rightarrow> bool" where
  "validRetryReasonCode v \<longleftrightarrow> v \<in> set [''process_start'', ''unavailable'', ''authority_conflict'',
     ''integrity_failure'', ''manual_state'', ''terminal_failure'', ''persistence_conflict'',
     ''retry_budget_exhausted'', ''operator_retry'']"

fun validRetryControllerState :: "state \<Rightarrow> bool" where
  "validRetryControllerState st =
     (case st of
        StateReceived \<Rightarrow> True | StateAdmitting \<Rightarrow> True | StateProvisioning \<Rightarrow> True
      | StateExecuting \<Rightarrow> True | StateAwaitingHumanDecision \<Rightarrow> True | StateVerifying \<Rightarrow> True
      | StateFreshReview \<Rightarrow> True | StateApprovalReady \<Rightarrow> True | StatePushingBranch \<Rightarrow> True
      | StateBranchPushed \<Rightarrow> True | StateOpeningPR \<Rightarrow> True | StateRepairing \<Rightarrow> True
      | StatePROpen \<Rightarrow> True | StateReconcilingReviews \<Rightarrow> True
      | StateReplyingReviewFeedback \<Rightarrow> True | StateAwaitingHumanApproval \<Rightarrow> True
      | StateMerging \<Rightarrow> True | StateAwaitingGitHubMergeability \<Rightarrow> True
      | StateAwaitingLinearCompletion \<Rightarrow> True | StateCleaning \<Rightarrow> True | StateCompleted \<Rightarrow> True
      | StateFailed \<Rightarrow> True | StateRejected \<Rightarrow> True | StateManualIntervention \<Rightarrow> True
      | _ \<Rightarrow> False)"

definition ValidateRetryControllerState :: "state \<Rightarrow> go_error option" where
  "ValidateRetryControllerState st =
     (if validRetryControllerState st then None
      else Some (New ''automatic retry controller state is invalid''))"

fun automaticRetryStateStop :: "state \<Rightarrow> (failure_class \<times> string) option" where
  "automaticRetryStateStop st =
     (case st of
        StateFailed \<Rightarrow> Some (RetryFailureTerminal, ''terminal_failure'')
      | StateRejected \<Rightarrow> Some (RetryFailureTerminal, ''terminal_failure'')
      | StateAwaitingHumanDecision \<Rightarrow> Some (RetryFailureManual, ''manual_state'')
      | StateAwaitingHumanApproval \<Rightarrow> Some (RetryFailureManual, ''manual_state'')
      | StateManualIntervention \<Rightarrow> Some (RetryFailureManual, ''manual_state'')
      | _ \<Rightarrow> None)"

definition retryFailureIsRetryable :: "failure_class \<Rightarrow> bool" where
  "retryFailureIsRetryable c \<longleftrightarrow> c = RetryFailureProcessStart \<or> c = RetryFailureUnavailable"

fun retryReasonForClass :: "failure_class \<Rightarrow> string" where
  "retryReasonForClass c =
     (case c of
        RetryFailureProcessStart \<Rightarrow> ''process_start''
      | RetryFailureUnavailable \<Rightarrow> ''unavailable''
      | RetryFailureAuthority \<Rightarrow> ''authority_conflict''
      | RetryFailureIntegrity \<Rightarrow> ''integrity_failure''
      | RetryFailureManual \<Rightarrow> ''manual_state''
      | RetryFailurePersistence \<Rightarrow> ''persistence_conflict''
      | _ \<Rightarrow> ''terminal_failure'')"

definition AutomaticRetryPhaseForRun :: "run_row \<Rightarrow> string" where
  "AutomaticRetryPhaseForRun run = ''state_'' @ state_string (run_State run)"

text \<open>An error as \<open>errors.As\<close> sees it: the category of the first service error of its chain and the
  class of the first error that carries evidence.\<close>

record classified_error =
  ce_Service :: "error_category option"
  ce_Evidence :: "failure_class option"

definition ClassifyAutomaticRetryFailure :: "classified_error option \<Rightarrow> failure_class \<times> string" where
  "ClassifyAutomaticRetryFailure err =
     (case err of None \<Rightarrow> (RetryFailureTerminal, ''terminal_failure'')
      | Some e \<Rightarrow>
     (case ce_Service e of
        Some ErrorUnavailable \<Rightarrow> (RetryFailureUnavailable, ''unavailable'')
      | Some ErrorConflict \<Rightarrow> (RetryFailureAuthority, ''authority_conflict'')
      | Some ErrorInvalidInput \<Rightarrow> (RetryFailureAuthority, ''authority_conflict'')
      | Some ErrorNotFound \<Rightarrow> (RetryFailureAuthority, ''authority_conflict'')
      | _ \<Rightarrow>
     (case ce_Evidence e of
        Some c \<Rightarrow> (if validRetryFailureClass c then (c, retryReasonForClass c)
                   else (RetryFailureTerminal, ''terminal_failure''))
      | None \<Rightarrow> (RetryFailureTerminal, ''terminal_failure''))))"

section \<open>Valid requests and schedules\<close>

text \<open>\<open>^[A-Za-z0-9_-]{1,128}$\<close>.\<close>

definition validateRetryKey :: "string \<Rightarrow> bool" where
  "validateRetryKey v \<longleftrightarrow> 1 \<le> length v \<and> length v \<le> 128 \<and>
     (\<forall>c \<in> set v. is_alnum c \<or> c = CHR ''_'' \<or> c = CHR ''-'')"

definition validRetryProcessEvidenceRef :: "string \<Rightarrow> bool" where
  "validRetryProcessEvidenceRef v \<longleftrightarrow>
     (case split_on (CHR '':'') v of
        [kind, digits] \<Rightarrow> (kind = ''attempt'' \<or> kind = ''verification'') \<and> digits \<noteq> [] \<and>
          (\<forall>c \<in> set digits. is_digit c)
      | _ \<Rightarrow> False)"

record retry_request =
  rq_RunID :: string
  rq_Phase :: string
  rq_ControllerState :: state
  rq_ExpectedAttempt :: int
  rq_FailureClass :: failure_class
  rq_FailureEvidenceRef :: string
  rq_ReasonCode :: string
  rq_Now :: time
  rq_Policy :: retry_policy

definition evidence_matches :: "failure_class \<Rightarrow> string \<Rightarrow> bool" where
  "evidence_matches c ref \<longleftrightarrow>
     (if c = RetryFailureProcessStart then validRetryProcessEvidenceRef ref else ref = [])"

definition RetryFailureRequest_validate :: "retry_request \<Rightarrow> go_error option" where
  "RetryFailureRequest_validate r =
     (if \<not> validateRetryKey (rq_RunID r) \<or> \<not> validateRetryKey (rq_Phase r) \<or>
         rq_ExpectedAttempt r < 0 \<or> is_zero_time (rq_Now r) \<or>
         \<not> validRetryControllerState (rq_ControllerState r) \<or>
         \<not> validRetryFailureClass (rq_FailureClass r)
      then Some (New ''automatic retry failure request is invalid'')
      else if \<not> validRetryReasonCode (rq_ReasonCode r) \<or> rq_ReasonCode r = ''retry_budget_exhausted'' \<or>
         retryReasonForClass (rq_FailureClass r) \<noteq> rq_ReasonCode r
      then Some (New ''automatic retry reason code is invalid'')
      else if \<not> evidence_matches (rq_FailureClass r) (rq_FailureEvidenceRef r)
      then Some (New (if rq_FailureClass r = RetryFailureProcessStart
                      then ''process-start retry failure evidence reference is invalid''
                      else ''retry failure evidence reference does not match the failure class''))
      else (case normalizedAndValidated (rq_Policy r) of Inl e \<Rightarrow> Some e | Inr _ \<Rightarrow> None))"

definition schedule_fields_ok :: "retry_row \<Rightarrow> bool" where
  "schedule_fields_ok s \<longleftrightarrow>
     validateRetryKey (sch_RunID s) \<and> validateRetryKey (sch_Phase s) \<and>
     validRetryControllerState (sch_ControllerState s) \<and> sch_AttemptCount s \<ge> 1 \<and>
     sch_MaxAttempts s \<ge> 1 \<and> sch_MaxAttempts s \<le> 10 \<and> sch_InitialDelay s > 0 \<and>
     sch_MaximumDelay s \<ge> sch_InitialDelay s \<and> sch_MaximumDelay s \<le> 24 * hour \<and>
     validRetryFailureClass (sch_FailureClass s) \<and> validRetryReasonCode (sch_ReasonCode s) \<and>
     sch_Status s \<in> {RetryScheduled, RetryAttention, RetrySuperseded} \<and>
     \<not> is_zero_time (sch_CreatedAt s) \<and> \<not> is_zero_time (sch_UpdatedAt s) \<and>
     sch_UpdatedAt s \<ge> sch_CreatedAt s"

definition schedule_reason_check :: "retry_row \<Rightarrow> go_error option" where
  "schedule_reason_check s =
     (if sch_ReasonCode s = ''retry_budget_exhausted''
      then (if sch_Status s \<noteq> RetryAttention \<or> sch_AttemptCount s \<le> sch_MaxAttempts s \<or>
               \<not> retryFailureIsRetryable (sch_FailureClass s)
            then Some (New ''automatic retry budget evidence is inconsistent'') else None)
      else if sch_ReasonCode s = ''operator_retry''
      then (if sch_Status s \<noteq> RetryScheduled \<or> sch_AttemptCount s \<le> sch_MaxAttempts s \<or>
               \<not> retryFailureIsRetryable (sch_FailureClass s)
            then Some (New ''operator retry schedule evidence is inconsistent'') else None)
      else if retryReasonForClass (sch_FailureClass s) \<noteq> sch_ReasonCode s
      then Some (New ''automatic retry schedule classification is inconsistent'')
      else None)"

definition RetrySchedule_validate :: "retry_row \<Rightarrow> go_error option" where
  "RetrySchedule_validate s =
     (if \<not> schedule_fields_ok s then Some (New ''automatic retry schedule is invalid'')
      else if sch_Status s = RetrySuperseded
      then (if \<not> is_zero_time (sch_NextEligibleAt s) \<or> is_zero_time (sch_AttentionAt s)
            then Some (New ''superseded retry evidence is incomplete'') else None)
      else case schedule_reason_check s of Some e \<Rightarrow> Some e | None \<Rightarrow>
     (if \<not> evidence_matches (sch_FailureClass s) (sch_FailureEvidenceRef s)
      then Some (New (if sch_FailureClass s = RetryFailureProcessStart
                      then ''process-start retry evidence reference is invalid''
                      else ''retry evidence reference does not match the failure class''))
      else if sch_Status s = RetryScheduled \<and>
         ((sch_AttemptCount s > sch_MaxAttempts s \<and> sch_ReasonCode s \<noteq> ''operator_retry'') \<or>
          \<not> sch_NextEligibleAt s > sch_UpdatedAt s \<or> \<not> is_zero_time (sch_AttentionAt s))
      then Some (New ''scheduled retry evidence is incomplete'')
      else if sch_Status s = RetryAttention \<and>
         (is_zero_time (sch_AttentionAt s) \<or> \<not> is_zero_time (sch_NextEligibleAt s) \<or>
          (sch_AttemptCount s > sch_MaxAttempts s \<and>
             (sch_ReasonCode s \<noteq> ''retry_budget_exhausted'' \<or>
              \<not> retryFailureIsRetryable (sch_FailureClass s))))
      then Some (New ''retry attention evidence is incomplete'')
      else None))"

section \<open>Reading schedules\<close>

definition retryUnixNano :: "time \<Rightarrow> int" where
  "retryUnixNano t = (if is_zero_time t then 0 else unix_nano t)"

definition validRetryScheduleKey :: "string \<Rightarrow> bool" where
  "validRetryScheduleKey v \<longleftrightarrow> \<not> blank v \<and> nul \<notin> set v \<and> CHR 0x0D \<notin> set v \<and> CHR 0x0A \<notin> set v \<and>
     length v \<le> 128 \<and> CHR ''/'' \<notin> set v"

definition scanRetrySchedule :: "retry_row \<Rightarrow> retry_row result" where
  "scanRetrySchedule row =
     (if sch_Status row = RetryScheduled \<and>
         sch_NextEligibleUnix row \<noteq> retryUnixNano (sch_NextEligibleAt row)
      then Inl (New ''automatic retry schedule time authority is corrupt'')
      else if sch_Status row = RetryAttention \<and>
         (sch_NextEligibleUnix row \<noteq> 0 \<or> \<not> is_zero_time (sch_NextEligibleAt row))
      then Inl (New ''automatic retry attention time authority is corrupt'')
      else if RetrySchedule_validate row \<noteq> None
      then Inl (New ''automatic retry schedule is corrupt'')
      else Inr row)"

definition schedule_key :: "string \<Rightarrow> string \<Rightarrow> retry_row \<Rightarrow> bool" where
  "schedule_key runID phase row \<longleftrightarrow> sch_RunID row = runID \<and> sch_Phase row = phase"

definition retryScheduleTx :: "store \<Rightarrow> string \<Rightarrow> string \<Rightarrow> retry_row option result" where
  "retryScheduleTx s runID phase =
     (case select_where (schedule_key runID phase) (st_retry s) of
        None \<Rightarrow> Inr None
      | Some row \<Rightarrow> (case scanRetrySchedule row of Inl e \<Rightarrow> Inl e | Inr sch \<Rightarrow> Inr (Some sch)))"

definition GetRetrySchedule :: "store \<Rightarrow> string \<Rightarrow> string \<Rightarrow> retry_row option result" where
  "GetRetrySchedule s runID phase =
     (if \<not> validRetryScheduleKey runID \<or> \<not> validRetryScheduleKey phase
      then Inl (New ''automatic retry schedule key is invalid'')
      else retryScheduleTx s runID phase)"

text \<open>The rows in the order of the key; the first corrupt one fails the whole listing.\<close>

fun scan_schedules :: "retry_row list \<Rightarrow> retry_row list result" where
  "scan_schedules [] = Inr []"
| "scan_schedules (row # rows) =
     (case scanRetrySchedule row of
        Inl e \<Rightarrow> Inl e
      | Inr sch \<Rightarrow> (case scan_schedules rows of Inl e \<Rightarrow> Inl e | Inr schs \<Rightarrow> Inr (sch # schs)))"

definition ListRetrySchedules ::
  "(retry_row list \<Rightarrow> retry_row list) \<Rightarrow> store \<Rightarrow> retry_row list result" where
  "ListRetrySchedules ord s = scan_schedules (ord (st_retry s))"

definition listRetrySchedulesForRun ::
  "(retry_row list \<Rightarrow> retry_row list) \<Rightarrow> store \<Rightarrow> string \<Rightarrow> retry_row list result" where
  "listRetrySchedulesForRun ord s runID =
     (if \<not> validRetryScheduleKey runID
      then Inl (New ''automatic retry schedule run ID is invalid'')
      else scan_schedules (ord (filter (\<lambda>x. sch_RunID x = runID) (st_retry s))))"

section \<open>Evidence of a process that did not start\<close>

definition digit_value :: "char \<Rightarrow> int" where
  "digit_value c = int (byte c) - 48"

definition digits_value :: "string \<Rightarrow> int" where
  "digits_value ds = foldl (\<lambda>n c. n * 10 + digit_value c) 0 ds"

text \<open>\<open>strconv.ParseInt\<close> with base 10 and 64 bits.\<close>

definition ParseInt :: "string \<Rightarrow> int option" where
  "ParseInt v =
     (let negative = (v \<noteq> [] \<and> hd v = CHR ''-'');
          ds = (if v \<noteq> [] \<and> (hd v = CHR ''-'' \<or> hd v = CHR ''+'') then tl v else v);
          n = (if negative then - digits_value ds else digits_value ds)
      in if ds = [] \<or> (\<exists>c \<in> set ds. \<not> is_digit c) \<or> n < - (2 ^ 63) \<or> n > 2 ^ 63 - 1 then None
         else Some n)"

text \<open>\<open>strings.Cut\<close> at the first separator.\<close>

fun cut_at :: "char \<Rightarrow> string \<Rightarrow> (string \<times> string) option" where
  "cut_at d [] = None"
| "cut_at d (c # s) =
     (if c = d then Some ([], s) else map_option (\<lambda>(a, b). (c # a, b)) (cut_at d s))"

definition persisted_failure :: "store \<Rightarrow> string \<Rightarrow> string \<Rightarrow> int \<Rightarrow> time option result" where
  "persisted_failure s runID kind n =
     (if kind = ''attempt''
      then Inr (map_option att_FinishedAt (select_where (\<lambda>a. att_RunID a = runID \<and> att_ID a = n \<and>
             att_Status a = ''failed'' \<and> att_ErrorCategory a = ''process_start'' \<and>
             att_FinishedAt a \<noteq> 0) (st_attempts s)))
      else if kind = ''verification''
      then Inr (map_option ver_CreatedAt (select_where (\<lambda>v. ver_RunID v = runID \<and> ver_ID v = n \<and>
             ver_ProcessOutcome v = ''not_started'' \<and> ver_FailureCategory v = ''process_start'')
             (st_verifications s)))
      else Inl (New ''process-start retry evidence reference is invalid''))"

definition validateProcessStartEvidenceRefTx ::
  "store \<Rightarrow> string \<Rightarrow> string \<Rightarrow> time \<Rightarrow> time \<Rightarrow> go_error option" where
  "validateProcessStartEvidenceRefTx s runID ref after at =
     (case cut_at (CHR '':'') ref of
        None \<Rightarrow> Some (New ''process-start retry evidence reference is invalid'')
      | Some (kind, rawID) \<Rightarrow>
     (case ParseInt rawID of
        None \<Rightarrow> Some (New ''process-start retry evidence reference is invalid'')
      | Some n \<Rightarrow>
     (if n < 1 then Some (New ''process-start retry evidence reference is invalid'')
      else (case persisted_failure s runID kind n of
          Inl e \<Rightarrow> Some e
        | Inr None \<Rightarrow> Some (New ''process-start retry lacks exact persisted failure evidence'')
        | Inr (Some t) \<Rightarrow>
            (if is_zero_time t \<or> t > at \<or> (\<not> is_zero_time after \<and> \<not> t > after)
             then Some (New ''process-start retry evidence time is invalid'') else None)))))"

section \<open>Recording a failure\<close>

text \<open>What the failure becomes: \<open>authority_conflict\<close> when the run has left the expected state.\<close>

definition retry_class :: "retry_request \<Rightarrow> state \<Rightarrow> failure_class" where
  "retry_class q st = (if st \<noteq> rq_ControllerState q then RetryFailureAuthority else rq_FailureClass q)"

definition retry_reason :: "retry_request \<Rightarrow> state \<Rightarrow> string" where
  "retry_reason q st = (if st \<noteq> rq_ControllerState q then ''authority_conflict'' else rq_ReasonCode q)"

definition policy_of :: "retry_request \<Rightarrow> retry_row option \<Rightarrow> retry_policy" where
  "policy_of q current =
     (case current of
        None \<Rightarrow> (let p = rq_Policy q in
          if rp_MaxAttempts p = 0 \<and> rp_InitialDelay p = 0 \<and> rp_MaximumDelay p = 0
          then DefaultAutomaticRetryPolicy else p)
      | Some c \<Rightarrow> \<lparr>rp_MaxAttempts = sch_MaxAttempts c, rp_InitialDelay = sch_InitialDelay c,
                   rp_MaximumDelay = sch_MaximumDelay c\<rparr>)"

definition next_schedule :: "retry_request \<Rightarrow> state \<Rightarrow> retry_row option \<Rightarrow> retry_row" where
  "next_schedule q st current =
     (let changed = (st \<noteq> rq_ControllerState q);
          c = retry_class q st;
          p = policy_of q current;
          attempt = rq_ExpectedAttempt q + 1;
          retry = (\<not> changed \<and> retryFailureIsRetryable c \<and> attempt \<le> rp_MaxAttempts p);
          eligible = (if retry then rq_Now q + AutomaticRetryDelay p attempt else 0)
      in \<lparr>sch_RunID = rq_RunID q, sch_Phase = rq_Phase q,
          sch_ControllerState = (if changed then st else rq_ControllerState q),
          sch_AttemptCount = attempt, sch_MaxAttempts = rp_MaxAttempts p,
          sch_InitialDelay = rp_InitialDelay p, sch_MaximumDelay = rp_MaximumDelay p,
          sch_FailureClass = c,
          sch_FailureEvidenceRef =
            (if c = RetryFailureProcessStart then rq_FailureEvidenceRef q else []),
          sch_ReasonCode =
            (if \<not> changed \<and> retryFailureIsRetryable c \<and> attempt > rp_MaxAttempts p
             then ''retry_budget_exhausted'' else retry_reason q st),
          sch_Status = (if retry then RetryScheduled else RetryAttention),
          sch_NextEligibleAt = eligible, sch_NextEligibleUnix = retryUnixNano eligible,
          sch_AttentionAt = (if retry then 0 else rq_Now q),
          sch_CreatedAt = (case current of None \<Rightarrow> rq_Now q | Some x \<Rightarrow> sch_CreatedAt x),
          sch_UpdatedAt = rq_Now q\<rparr>)"

definition retry_checks :: "retry_request \<Rightarrow> state \<Rightarrow> retry_row option \<Rightarrow> store \<Rightarrow> go_error option" where
  "retry_checks q st current s =
     first_error (\<lambda>x. x)
       [(if current = None \<and> rq_ExpectedAttempt q \<noteq> 0
         then Some (New ''automatic retry schedule compare authority is invalid'') else None),
        (if st \<noteq> rq_ControllerState q then ValidateRetryControllerState st else None),
        (if current \<noteq> None \<and> ValidateAutomaticRetryPolicy (policy_of q current) \<noteq> None
         then Some (New ''automatic retry schedule policy is corrupt'') else None),
        (if retry_class q st = RetryFailureProcessStart
         then validateProcessStartEvidenceRefTx s (rq_RunID q) (rq_FailureEvidenceRef q)
                (case current of None \<Rightarrow> 0 | Some c \<Rightarrow> sch_UpdatedAt c) (rq_Now q)
         else None)]"

text \<open>The columns the UPDATE writes.\<close>

definition reschedule :: "retry_row \<Rightarrow> retry_row \<Rightarrow> retry_row" where
  "reschedule new row =
     row\<lparr>sch_ControllerState := sch_ControllerState new, sch_AttemptCount := sch_AttemptCount new,
         sch_FailureClass := sch_FailureClass new,
         sch_FailureEvidenceRef := sch_FailureEvidenceRef new, sch_ReasonCode := sch_ReasonCode new,
         sch_Status := sch_Status new, sch_NextEligibleAt := sch_NextEligibleAt new,
         sch_NextEligibleUnix := sch_NextEligibleUnix new, sch_AttentionAt := sch_AttentionAt new,
         sch_UpdatedAt := sch_UpdatedAt new\<rparr>"

definition ApplyRetryFailure :: "retry_request \<Rightarrow> store \<Rightarrow> (retry_row \<times> bool) result \<times> store" where
  "ApplyRetryFailure q s =
     (case RetryFailureRequest_validate q of
        Some e \<Rightarrow> (Inl e, s)
      | None \<Rightarrow>
     (case find_run s (rq_RunID q) of
        None \<Rightarrow> (Inl run_not_found, s)
      | Some run \<Rightarrow>
     (case retryScheduleTx s (rq_RunID q) (rq_Phase q) of
        Inl e \<Rightarrow> (Inl e, s)
      | Inr current \<Rightarrow>
     (case current of
        Some c \<Rightarrow>
          (if sch_Status c = RetryAttention \<or> sch_AttemptCount c \<noteq> rq_ExpectedAttempt q
           then (Inr (c, False), s)
           else (case retry_checks q (run_State run) current s of
               Some e \<Rightarrow> (Inl e, s)
             | None \<Rightarrow>
                 (let new = next_schedule q (run_State run) current;
                      hit = (\<lambda>x. schedule_key (rq_RunID q) (rq_Phase q) x \<and>
                        sch_Status x = RetryScheduled \<and> sch_AttemptCount x = rq_ExpectedAttempt q)
                  in if count_where hit (st_retry s) \<noteq> 1 then (Inr (c, False), s)
                     else (Inr (new, True),
                           s\<lparr>st_retry := update_where hit (reschedule new) (st_retry s)\<rparr>))))
      | None \<Rightarrow>
          (case retry_checks q (run_State run) current s of
             Some e \<Rightarrow> (Inl e, s)
           | None \<Rightarrow>
               (let new = next_schedule q (run_State run) current
                in (Inr (new, True), s\<lparr>st_retry := new # st_retry s\<rparr>)))))))"

definition ClearRetrySchedule :: "string \<Rightarrow> string \<Rightarrow> int \<Rightarrow> store \<Rightarrow> bool result \<times> store" where
  "ClearRetrySchedule runID phase expectedAttempt s =
     (if \<not> validRetryScheduleKey runID \<or> \<not> validRetryScheduleKey phase \<or> expectedAttempt < 1
      then (Inl (New ''automatic retry schedule clear authority is invalid''), s)
      else let hit = (\<lambda>x. schedule_key runID phase x \<and> sch_Status x = RetryScheduled \<and>
                  sch_AttemptCount x = expectedAttempt);
               s' = s\<lparr>st_retry := delete_where hit (st_retry s)\<rparr>
           in if count_where hit (st_retry s) = 1 then (Inr True, s')
              else (case select_where (schedule_key runID phase) (st_retry s') of
                  None \<Rightarrow> (Inr True, s')
                | Some x \<Rightarrow> (Inr (sch_Status x \<noteq> RetryAttention), s')))"

section \<open>Delays\<close>

text \<open>Below 2 ^ 63 nothing wraps.\<close>

lemma wrap64_id: "- (2 ^ 63) \<le> n \<Longrightarrow> n < 2 ^ 63 \<Longrightarrow> wrap64 n = n"
  by (simp add: wrap64_def signed_take_bit_int_eq_self)

lemma sdiv_2: "0 \<le> m \<Longrightarrow> m sdiv 2 = m div (2 :: int)"
  by (cases "m = 0") (simp_all add: signed_divide_int_def sgn_if)

lemma retry_delay_loop_eq:
  assumes "0 < delay" and "delay \<le> maximum" and "maximum < 2 ^ 62"
  shows "retry_delay_loop maximum attempt index delay = min maximum (delay * 2 ^ nat (attempt - index))"
  using assms(1,2)
proof (induction "nat (attempt - index)" arbitrary: index delay)
  case 0
  then show ?case by (subst retry_delay_loop.simps) simp
next
  case (Suc n)
  then have less: "index < attempt" and e: "nat (attempt - index) = Suc (nat (attempt - (index + 1)))" by linarith+
  have grow: "delay * 2 \<le> delay * 2 ^ nat (attempt - index)"
    using Suc.prems(1) by (simp add: e)
  show ?case
  proof (cases "delay < maximum \<and> delay \<le> maximum div 2")
    case True
    then have le: "delay * 2 \<le> maximum" by linarith
    with assms(3) Suc.prems(1) have w: "wrap64 (delay * 2) = delay * 2" by (intro wrap64_id) simp_all
    have "retry_delay_loop maximum attempt index delay = retry_delay_loop maximum attempt (index + 1) (delay * 2)"
      using True less Suc.prems assms(3) by (subst retry_delay_loop.simps) (simp add: w sdiv_2)
    also have "\<dots> = min maximum (delay * 2 * 2 ^ nat (attempt - (index + 1)))"
      using Suc.hyps(2) Suc.prems(1) le by (intro Suc.hyps(1)) linarith+
    finally show ?thesis by (simp add: e)
  next
    case False
    then have "maximum \<le> delay * 2" using Suc.prems by linarith
    then have "min maximum (delay * 2 ^ nat (attempt - index)) = maximum" using grow by linarith
    then show ?thesis
      using False less Suc.prems assms(3) by (subst retry_delay_loop.simps) (auto simp: sdiv_2)
  qed
qed

lemma policy_bounds:
  assumes "ValidateAutomaticRetryPolicy p = None"
  shows "1 \<le> rp_MaxAttempts (normalized p)" "rp_MaxAttempts (normalized p) \<le> 10"
    "0 < rp_InitialDelay (normalized p)" "rp_InitialDelay (normalized p) \<le> rp_MaximumDelay (normalized p)"
    "rp_MaximumDelay (normalized p) \<le> 24 * hour"
  using assms
  by (simp_all add: ValidateAutomaticRetryPolicy_def normalizedAndValidated_def RetryPolicy_validate_def
      normalized_def DefaultAutomaticRetryPolicy_def Let_def split: if_splits)

text \<open>C30: The delay before retry n of a valid policy is its initial delay doubled n - 1 times and
  capped at its maximum: the 64-bit loop neither wraps nor overshoots, so the delay is positive,
  at most a day and never shorter than the one before.\<close>

theorem retry_delay_exact:
  assumes "ValidateAutomaticRetryPolicy p = None"
  shows "AutomaticRetryDelay p n =
      min (rp_MaximumDelay (normalized p)) (rp_InitialDelay (normalized p) * 2 ^ nat (n - 1)) \<and>
    0 < AutomaticRetryDelay p n \<and> AutomaticRetryDelay p n \<le> 24 * hour \<and>
    AutomaticRetryDelay p n \<le> AutomaticRetryDelay p (n + 1)"
proof -
  note b = policy_bounds [OF assms]
  have eq: "AutomaticRetryDelay p n =
      min (rp_MaximumDelay (normalized p)) (rp_InitialDelay (normalized p) * 2 ^ nat (n - 1))" for n
    unfolding AutomaticRetryDelay_def Let_def using b by (intro retry_delay_loop_eq) simp_all
  have "(2 :: int) ^ nat (n - 1) \<le> 2 ^ nat n" by (intro power_increasing) simp_all
  then have "rp_InitialDelay (normalized p) * 2 ^ nat (n - 1) \<le> rp_InitialDelay (normalized p) * 2 ^ nat n"
    using b by (intro mult_left_mono) simp_all
  moreover have "0 < rp_InitialDelay (normalized p) * 2 ^ nat (n - 1)" using b(3) by simp
  moreover have "nat (n + 1 - 1) = nat n" by simp
  ultimately show ?thesis unfolding eq using b(3,4,5) by (intro conjI; (simp only:)?; linarith)
qed

theorem retry_delay_exact_witness:
  "AutomaticRetryDelay DefaultAutomaticRetryPolicy 5 = 16 * second \<and>
   AutomaticRetryDelay DefaultAutomaticRetryPolicy 9 = 30 * second"
  using retry_delay_exact [of DefaultAutomaticRetryPolicy 5] retry_delay_exact [of DefaultAutomaticRetryPolicy 9]
  by (simp add: ValidateAutomaticRetryPolicy_def normalizedAndValidated_def RetryPolicy_validate_def
      normalized_def DefaultAutomaticRetryPolicy_def)


section \<open>What a recorded failure leaves in the table\<close>

lemma delay_pos: "ValidateAutomaticRetryPolicy p = None \<Longrightarrow> 0 < AutomaticRetryDelay p n"
  unfolding AutomaticRetryDelay_def Let_def
  using policy_bounds [of p] by (subst retry_delay_loop_eq) simp_all

lemma normalized_idem [simp]: "normalized (normalized p) = normalized p"
  by (simp add: normalized_def DefaultAutomaticRetryPolicy_def)

lemma policy_of_None: "policy_of q None = normalized (rq_Policy q)"
  by (simp add: policy_of_def normalized_def Let_def)

lemma normalized_valid: "ValidateAutomaticRetryPolicy (normalized p) = ValidateAutomaticRetryPolicy p"
  by (simp add: ValidateAutomaticRetryPolicy_def normalizedAndValidated_def Let_def)

lemma request_valid:
  assumes "RetryFailureRequest_validate q = None"
  shows "validateRetryKey (rq_RunID q)" "validateRetryKey (rq_Phase q)" "0 \<le> rq_ExpectedAttempt q"
    "rq_Now q \<noteq> 0" "validRetryControllerState (rq_ControllerState q)"
    "validRetryFailureClass (rq_FailureClass q)" "validRetryReasonCode (rq_ReasonCode q)"
    "rq_ReasonCode q \<noteq> ''retry_budget_exhausted''" "retryReasonForClass (rq_FailureClass q) = rq_ReasonCode q"
    "evidence_matches (rq_FailureClass q) (rq_FailureEvidenceRef q)"
    "ValidateAutomaticRetryPolicy (rq_Policy q) = None"
  using assms
  by (simp_all add: RetryFailureRequest_validate_def is_zero_time_def ValidateAutomaticRetryPolicy_def
      split: if_splits sum.splits)

lemma schedule_valid_fields:
  "RetrySchedule_validate c = None \<Longrightarrow> schedule_fields_ok c"
  by (simp add: RetrySchedule_validate_def split: if_splits)

lemma row_policy_valid:
  assumes "schedule_fields_ok c"
  shows "normalized (policy_of q (Some c)) = policy_of q (Some c)"
    "ValidateAutomaticRetryPolicy (policy_of q (Some c)) = None"
  using assms
  by (simp_all add: schedule_fields_ok_def policy_of_def normalized_def ValidateAutomaticRetryPolicy_def
      normalizedAndValidated_def RetryPolicy_validate_def Let_def)


lemma reason_codes:
  "validRetryReasonCode ''authority_conflict''" "validRetryReasonCode ''retry_budget_exhausted''"
  "retryReasonForClass c \<noteq> ''retry_budget_exhausted''" "retryReasonForClass c \<noteq> ''operator_retry''"
  by (simp_all add: validRetryReasonCode_def split: failure_class.splits)

text \<open>The row a recorded failure leads to can be read back exactly when the budget is not exceeded by
  a failure that may not be retried, and the clock has not gone back behind its creation.\<close>

definition readable :: "retry_request \<Rightarrow> state \<Rightarrow> retry_row option \<Rightarrow> bool" where
  "readable q st current \<longleftrightarrow>
     (case current of None \<Rightarrow> True
      | Some c \<Rightarrow> sch_CreatedAt c \<le> rq_Now q \<and>
          (rq_ExpectedAttempt q < sch_MaxAttempts c \<or>
           st = rq_ControllerState q \<and> retryFailureIsRetryable (rq_FailureClass q)))"

lemma next_schedule_fields:
  assumes "RetryFailureRequest_validate q = None" and "validRetryControllerState st"
    and "\<And>c. current = Some c \<Longrightarrow> schedule_fields_ok c"
  shows "schedule_fields_ok (next_schedule q st current) \<longleftrightarrow>
    (case current of None \<Rightarrow> True | Some c \<Rightarrow> sch_CreatedAt c \<le> rq_Now q)"
proof -
  note v = request_valid [OF assms(1)]
  have p: "1 \<le> rp_MaxAttempts (policy_of q current)" "rp_MaxAttempts (policy_of q current) \<le> 10"
    "0 < rp_InitialDelay (policy_of q current)"
    "rp_InitialDelay (policy_of q current) \<le> rp_MaximumDelay (policy_of q current)"
    "rp_MaximumDelay (policy_of q current) \<le> 24 * hour"
    using policy_bounds [OF v(11)] assms(3) row_policy_valid
    by (cases current; simp add: policy_of_None; simp add: policy_of_def schedule_fields_ok_def)+
  show ?thesis
    using v p assms(2,3) reason_codes
    by (cases current)
      (auto simp: schedule_fields_ok_def next_schedule_def retry_class_def retry_reason_def Let_def is_zero_time_def)
qed


lemma next_schedule_valid:
  assumes q: "RetryFailureRequest_validate q = None" and st: "validRetryControllerState st"
    and c: "\<And>c. current = Some c \<Longrightarrow> schedule_fields_ok c"
    and new: "current = None \<Longrightarrow> rq_ExpectedAttempt q = 0"
  shows "scanRetrySchedule (next_schedule q st current) =
    (if readable q st current then Inr (next_schedule q st current)
     else Inl (New ''automatic retry schedule is corrupt''))"
proof -
  let ?n = "next_schedule q st current" and ?p = "policy_of q current"
  note v = request_valid [OF q]
  have delay: "0 < AutomaticRetryDelay ?p k" for k
    using v(11) c row_policy_valid(2) by (cases current) (auto simp: policy_of_None normalized_valid intro: delay_pos)
  have mx: "1 \<le> rp_MaxAttempts ?p"
    using policy_bounds(1) [OF v(11)] c
    by (cases current; simp add: policy_of_None; simp add: policy_of_def schedule_fields_ok_def)
  have room: "rq_ExpectedAttempt q + 1 > rp_MaxAttempts ?p \<longleftrightarrow>
      (\<exists>c. current = Some c \<and> \<not> rq_ExpectedAttempt q < sch_MaxAttempts c)"
    using new mx by (cases current; simp add: policy_of_None; simp add: policy_of_def; linarith)
  note unfolded = next_schedule_def [of q st current] retry_class_def retry_reason_def Let_def
  have sched: "sch_Status ?n \<noteq> RetrySuperseded"
    "sch_Status ?n = RetryScheduled \<Longrightarrow> sch_NextEligibleUnix ?n = retryUnixNano (sch_NextEligibleAt ?n)"
    "sch_Status ?n = RetryAttention \<Longrightarrow> sch_NextEligibleUnix ?n = 0 \<and> sch_NextEligibleAt ?n = 0 \<and> sch_AttentionAt ?n \<noteq> 0"
    "sch_Status ?n = RetryScheduled \<Longrightarrow> sch_NextEligibleAt ?n > sch_UpdatedAt ?n \<and> sch_AttentionAt ?n = 0 \<and>
       sch_AttemptCount ?n \<le> sch_MaxAttempts ?n"
    using delay v(4) by (auto simp: unfolded retryUnixNano_def is_zero_time_def split: if_splits)
  have ev: "evidence_matches (sch_FailureClass ?n) (sch_FailureEvidenceRef ?n)"
    using v(10) by (auto simp: unfolded evidence_matches_def)
  have reason: "schedule_reason_check ?n = None"
    using v(7-9) reason_codes by (auto simp: unfolded schedule_reason_check_def)
  have over: "sch_Status ?n = RetryAttention \<and> sch_AttemptCount ?n > sch_MaxAttempts ?n \<and>
      (sch_ReasonCode ?n \<noteq> ''retry_budget_exhausted'' \<or> \<not> retryFailureIsRetryable (sch_FailureClass ?n)) \<longleftrightarrow>
    rq_ExpectedAttempt q + 1 > rp_MaxAttempts ?p \<and>
      \<not> (st = rq_ControllerState q \<and> retryFailureIsRetryable (rq_FailureClass q))"
    using v(8) by (auto simp: unfolded retryFailureIsRetryable_def)
  have "scanRetrySchedule ?n = (if schedule_fields_ok ?n \<and>
      \<not> (rq_ExpectedAttempt q + 1 > rp_MaxAttempts ?p \<and>
         \<not> (st = rq_ControllerState q \<and> retryFailureIsRetryable (rq_FailureClass q)))
      then Inr ?n else Inl (New ''automatic retry schedule is corrupt''))"
    using sched ev reason over unfolding scanRetrySchedule_def RetrySchedule_validate_def
    by (auto simp: is_zero_time_def)
  moreover have "schedule_fields_ok ?n \<longleftrightarrow> (case current of None \<Rightarrow> True | Some c \<Rightarrow> sch_CreatedAt c \<le> rq_Now q)"
    by (rule next_schedule_fields [OF q st c])
  ultimately show ?thesis unfolding room readable_def by (cases current) auto
qed


section \<open>The table\<close>

definition row_key :: "retry_row \<Rightarrow> string \<times> string" where
  "row_key x = (sch_RunID x, sch_Phase x)"

definition retry_keys :: "store \<Rightarrow> bool" where
  "retry_keys s \<longleftrightarrow> distinct (map row_key (st_retry s))"

lemma schedule_key_row: "schedule_key i ph x \<longleftrightarrow> row_key x = (i, ph)"
  by (simp add: schedule_key_def row_key_def)

lemma select_schedule:
  "retry_keys s \<Longrightarrow> x \<in> set (st_retry s) \<Longrightarrow> row_key x = (i, ph) \<Longrightarrow>
     select_where (schedule_key i ph) (st_retry s) = Some x"
  unfolding retry_keys_def using select_unique [of row_key "st_retry s" x]
  by (simp add: schedule_key_row [abs_def])

lemma scan_Inr: "scanRetrySchedule row = Inr x \<Longrightarrow> x = row \<and> RetrySchedule_validate row = None"
  by (simp add: scanRetrySchedule_def split: if_splits)

lemma scan_valid: "scanRetrySchedule row = Inr row \<Longrightarrow> schedule_fields_ok row"
  using scan_Inr schedule_valid_fields by blast

lemma retryScheduleTx_cases:
  "retryScheduleTx s i ph = Inr current \<longleftrightarrow>
     (case select_where (schedule_key i ph) (st_retry s) of
        None \<Rightarrow> current = None | Some row \<Rightarrow> scanRetrySchedule row = Inr row \<and> current = Some row)"
  by (auto simp: retryScheduleTx_def scanRetrySchedule_def split: option.split)

lemma validateRetryKey_schedule: "validateRetryKey v \<Longrightarrow> validRetryScheduleKey v"
proof -
  assume v: "validateRetryKey v"
  then obtain c w where w: "v = c # w" by (cases v) (auto simp: validateRetryKey_def)
  have g: "graphic d" if "is_alnum d \<or> d = CHR ''_'' \<or> d = CHR ''-''" for d
    using that by (auto simp: is_alnum_def is_digit_def is_lower_def is_upper_def in_range_def graphic_def byte_def)
  have no: "d \<notin> set v" if "\<not> (is_alnum d \<or> d = CHR ''_'' \<or> d = CHR ''-'')" for d
    using v that by (auto simp: validateRetryKey_def)
  have "nul \<notin> set v" "CHR 0x0D \<notin> set v" "CHR 0x0A \<notin> set v" "CHR ''/'' \<notin> set v"
    by (rule no; simp add: is_alnum_def is_digit_def is_lower_def is_upper_def in_range_def byte_def nul_def)+
  with v g [of c] w show ?thesis by (auto simp: validRetryScheduleKey_def validateRetryKey_def)
qed

text \<open>When a failure is recorded, and what the row of its key is then.\<close>

lemma ApplyRetryFailure_applied:
  assumes keys: "retry_keys s" and res: "ApplyRetryFailure q s = (Inr (r, True), s')"
  obtains run current where "RetryFailureRequest_validate q = None" "find_run s (rq_RunID q) = Some run"
    "retryScheduleTx s (rq_RunID q) (rq_Phase q) = Inr current" "retry_checks q (run_State run) current s = None"
    "r = next_schedule q (run_State run) current"
    "\<forall>c. current = Some c \<longrightarrow> sch_Status c = RetryScheduled \<and> sch_AttemptCount c = rq_ExpectedAttempt q"
    "retry_keys s'" "select_where (schedule_key (rq_RunID q) (rq_Phase q)) (st_retry s') = Some r"
    "st_runs s' = st_runs s"
proof -
  from res obtain run current where a: "RetryFailureRequest_validate q = None"
    "find_run s (rq_RunID q) = Some run" "retryScheduleTx s (rq_RunID q) (rq_Phase q) = Inr current"
    unfolding ApplyRetryFailure_def by (auto split: option.splits sum.splits)
  let ?n = "next_schedule q (run_State run) current"
  have key: "row_key ?n = (rq_RunID q, rq_Phase q)" by (simp add: row_key_def next_schedule_def Let_def)
  show thesis
  proof (cases current)
    case None
    with res a have b: "retry_checks q (run_State run) current s = None" "r = ?n"
      "s' = s\<lparr>st_retry := ?n # st_retry s\<rparr>"
      unfolding ApplyRetryFailure_def by (auto simp: Let_def split: option.splits)
    from a(3) None have "\<forall>x \<in> set (st_retry s). row_key x \<noteq> (rq_RunID q, rq_Phase q)"
      by (auto simp: retryScheduleTx_cases select_where_None schedule_key_row split: option.splits)
    then have k: "retry_keys s'" using keys b(3) key by (auto simp: retry_keys_def)
    then have "select_where (schedule_key (rq_RunID q) (rq_Phase q)) (st_retry s') = Some r"
      using b key by (intro select_schedule) simp_all
    with a b k None show thesis by (intro that [of run current]) simp_all
  next
    case (Some c)
    let ?hit = "\<lambda>x. schedule_key (rq_RunID q) (rq_Phase q) x \<and> sch_Status x = RetryScheduled \<and>
      sch_AttemptCount x = rq_ExpectedAttempt q"
    from res a Some have b: "retry_checks q (run_State run) current s = None" "r = ?n"
      "count_where ?hit (st_retry s) = 1" "s' = s\<lparr>st_retry := update_where ?hit (reschedule ?n) (st_retry s)\<rparr>"
      unfolding ApplyRetryFailure_def by (auto simp: Let_def split: option.splits if_splits)
    from a(3) Some have c: "c \<in> set (st_retry s)" "row_key c = (rq_RunID q, rq_Phase q)"
      "scanRetrySchedule c = Inr c"
      by (auto simp: retryScheduleTx_cases schedule_key_row split: option.splits dest: select_where_Some)
    from b(3) obtain x where x: "x \<in> set (st_retry s)" "?hit x"
      using count_where_pos [of ?hit "st_retry s"] by auto
    then have "x = c" using keys c(1,2) unique_row [of row_key "st_retry s" x c]
      by (simp add: retry_keys_def schedule_key_row)
    with x have hit: "?hit c" by simp
    have same: "reschedule ?n c = ?n"
      using Some c(2) by (simp add: reschedule_def next_schedule_def policy_of_def row_key_def Let_def)
    have upd: "row_key (reschedule ?n x) = row_key x" for x by (simp add: reschedule_def row_key_def)
    have k: "retry_keys s'" using keys b(4) upd by (simp add: retry_keys_def map_update_where)
    have "?n \<in> set (st_retry s')"
      using b(4) c(1) hit same by (auto simp: set_update_where image_iff intro!: bexI [of _ c])
    then have "select_where (schedule_key (rq_RunID q) (rq_Phase q)) (st_retry s') = Some r"
      using k key b(2) by (intro select_schedule) simp_all
    with a b k Some hit show thesis by (intro that [of run current]) simp_all
  qed
qed


section \<open>Properties\<close>

lemma retry_checks_state:
  "retry_checks q st current s = None \<Longrightarrow> RetryFailureRequest_validate q = None \<Longrightarrow> validRetryControllerState st"
  using request_valid(5) [of q]
  by (auto simp: retry_checks_def ValidateRetryControllerState_def split: if_splits)

lemma next_schedule_status:
  "sch_AttemptCount (next_schedule q st current) = rq_ExpectedAttempt q + 1"
  "sch_MaxAttempts (next_schedule q st current) = rp_MaxAttempts (policy_of q current)"
  "sch_Status (next_schedule q st current) =
     (if st = rq_ControllerState q \<and> retryFailureIsRetryable (rq_FailureClass q) \<and>
         rq_ExpectedAttempt q + 1 \<le> rp_MaxAttempts (policy_of q current)
      then RetryScheduled else RetryAttention)"
  by (auto simp: next_schedule_def retry_class_def Let_def)

text \<open>C31: Recording a failure counts one attempt and schedules another automatic retry exactly when
  the run is still in the expected state, the failure may be retried and the frozen budget is not
  exceeded; otherwise the schedule stops for attention. The new row can be read back exactly when
  \<open>readable\<close> holds: a failure that may not be retried and that exceeds the budget, or a clock that
  went back behind the creation of the row, leaves a row that every later read rejects as corrupt.\<close>

theorem retry_failure_recorded:
  assumes "retry_keys s" and "ApplyRetryFailure q s = (Inr (r, True), s')"
  shows "\<exists>run current. find_run s (rq_RunID q) = Some run \<and>
    GetRetrySchedule s (rq_RunID q) (rq_Phase q) = Inr current \<and>
    sch_AttemptCount r = rq_ExpectedAttempt q + 1 \<and>
    sch_Status r = (if run_State run = rq_ControllerState q \<and> retryFailureIsRetryable (rq_FailureClass q) \<and>
      sch_AttemptCount r \<le> sch_MaxAttempts r then RetryScheduled else RetryAttention) \<and>
    GetRetrySchedule s' (rq_RunID q) (rq_Phase q) =
      (if readable q (run_State run) current then Inr (Some r)
       else Inl (New ''automatic retry schedule is corrupt''))"
proof -
  from ApplyRetryFailure_applied [OF assms] obtain run current where
    a: "RetryFailureRequest_validate q = None" "find_run s (rq_RunID q) = Some run"
      "retryScheduleTx s (rq_RunID q) (rq_Phase q) = Inr current"
      "retry_checks q (run_State run) current s = None" "r = next_schedule q (run_State run) current"
      "select_where (schedule_key (rq_RunID q) (rq_Phase q)) (st_retry s') = Some r" by metis
  note v = request_valid [OF a(1)]
  have keys: "validRetryScheduleKey (rq_RunID q)" "validRetryScheduleKey (rq_Phase q)"
    using v(1,2) by (simp_all add: validateRetryKey_schedule)
  have fields: "schedule_fields_ok c" if "current = Some c" for c
    using a(3) that by (auto simp: retryScheduleTx_cases split: option.splits dest: scan_valid)
  have first: "rq_ExpectedAttempt q = 0" if "current = None"
    using a(4) that by (simp add: retry_checks_def split: if_splits)
  have "scanRetrySchedule r = (if readable q (run_State run) current then Inr r
      else Inl (New ''automatic retry schedule is corrupt''))"
    unfolding a(5) using retry_checks_state [OF a(4,1)] fields first by (intro next_schedule_valid [OF a(1)])
  then have "GetRetrySchedule s' (rq_RunID q) (rq_Phase q) =
      (if readable q (run_State run) current then Inr (Some r)
       else Inl (New ''automatic retry schedule is corrupt''))"
    using keys a(6) by (simp add: GetRetrySchedule_def retryScheduleTx_def)
  moreover have "GetRetrySchedule s (rq_RunID q) (rq_Phase q) = Inr current"
    using keys a(3) by (simp add: GetRetrySchedule_def)
  ultimately show ?thesis using a(2) unfolding a(5) next_schedule_status by blast
qed

text \<open>Three unavailable services, then a failure that may not be retried: the fourth row is corrupt.\<close>

definition sample_request_retry :: retry_request where
  "sample_request_retry =
     \<lparr>rq_RunID = ''r1'', rq_Phase = ''state_executing'', rq_ControllerState = StateExecuting,
      rq_ExpectedAttempt = 3, rq_FailureClass = RetryFailureTerminal, rq_FailureEvidenceRef = [],
      rq_ReasonCode = ''terminal_failure'', rq_Now = 90 * second,
      rq_Policy = \<lparr>rp_MaxAttempts = 0, rp_InitialDelay = 0, rp_MaximumDelay = 0\<rparr>\<rparr>"

definition sample_schedule :: retry_row where
  "sample_schedule =
     \<lparr>sch_RunID = ''r1'', sch_Phase = ''state_executing'', sch_ControllerState = StateExecuting,
      sch_AttemptCount = 3, sch_MaxAttempts = 3, sch_InitialDelay = second,
      sch_MaximumDelay = 30 * second, sch_FailureClass = RetryFailureUnavailable,
      sch_FailureEvidenceRef = [], sch_ReasonCode = ''unavailable'', sch_Status = RetryScheduled,
      sch_NextEligibleAt = 64 * second, sch_NextEligibleUnix = unix_nano (64 * second), sch_AttentionAt = 0,
      sch_CreatedAt = 50 * second, sch_UpdatedAt = 60 * second\<rparr>"

definition sample_retrying :: store where
  "sample_retrying = sample_store\<lparr>st_retry := [sample_schedule]\<rparr>"

lemma sample_retry_applied:
  "case fst (ApplyRetryFailure sample_request_retry sample_retrying) of
     Inr (r, applied) \<Rightarrow> applied \<and> sch_AttemptCount r = 4 | Inl _ \<Rightarrow> False"
  by code_simp

theorem retry_failure_recorded_witness:
  "GetRetrySchedule (snd (ApplyRetryFailure sample_request_retry sample_retrying)) ''r1'' ''state_executing'' =
     Inl (New ''automatic retry schedule is corrupt'')"
proof -
  let ?out = "ApplyRetryFailure sample_request_retry sample_retrying"
  from sample_retry_applied obtain r where "fst ?out = Inr (r, True)" by (auto split: sum.splits)
  then have "?out = (Inr (r, True), snd ?out)" by (metis prod.collapse)
  from retry_failure_recorded [OF _ this]
  show ?thesis
    by (auto simp: retry_keys_def sample_retrying_def sample_schedule_def sample_store_def sample_run_def
        empty_store_def find_run_def select_where_def sample_request_retry_def GetRetrySchedule_def
        retryScheduleTx_def schedule_key_def scanRetrySchedule_def readable_def
        retryFailureIsRetryable_def split: if_splits option.splits)
qed

section \<open>The budget\<close>

text \<open>How often a sequence of failures schedules a retry of one run and phase.\<close>

definition schedules_retry :: "string \<Rightarrow> string \<Rightarrow> retry_request \<Rightarrow> store \<Rightarrow> bool" where
  "schedules_retry i ph q s \<longleftrightarrow> rq_RunID q = i \<and> rq_Phase q = ph \<and>
     (case fst (ApplyRetryFailure q s) of
        Inr (r, applied) \<Rightarrow> applied \<and> sch_Status r = RetryScheduled
      | Inl _ \<Rightarrow> False)"

fun scheduled_retries :: "string \<Rightarrow> string \<Rightarrow> retry_request list \<Rightarrow> store \<Rightarrow> nat" where
  "scheduled_retries i ph [] s = 0"
| "scheduled_retries i ph (q # qs) s =
     (if schedules_retry i ph q s then 1 else 0) + scheduled_retries i ph qs (snd (ApplyRetryFailure q s))"

definition retry_budget :: "string \<Rightarrow> string \<Rightarrow> int \<Rightarrow> store \<Rightarrow> nat" where
  "retry_budget i ph m s =
     (case select_where (schedule_key i ph) (st_retry s) of
        None \<Rightarrow> nat m
      | Some x \<Rightarrow> if sch_Status x = RetryScheduled then nat (sch_MaxAttempts x - sch_AttemptCount x) else 0)"

lemma ApplyRetryFailure_same:
  "snd (ApplyRetryFailure q s) = s \<or> (\<exists>r. fst (ApplyRetryFailure q s) = Inr (r, True))"
  unfolding ApplyRetryFailure_def Let_def by (simp split: option.split sum.split)

lemma find_update_other:
  "(\<And>x. P x \<Longrightarrow> \<not> Q x) \<Longrightarrow> (\<And>x. Q x \<Longrightarrow> \<not> P (f x)) \<Longrightarrow> find P (update_where Q f rows) = find P rows"
  by (induction rows) (auto simp: update_where_def)

lemma ApplyRetryFailure_other_key:
  assumes "(rq_RunID q, rq_Phase q) \<noteq> (i, ph)"
  shows "select_where (schedule_key i ph) (st_retry (snd (ApplyRetryFailure q s))) =
    select_where (schedule_key i ph) (st_retry s)"
proof -
  let ?hit = "\<lambda>x. schedule_key (rq_RunID q) (rq_Phase q) x \<and> sch_Status x = RetryScheduled \<and>
    sch_AttemptCount x = rq_ExpectedAttempt q"
  have "select_where (schedule_key i ph) (update_where ?hit (reschedule n) (st_retry s)) =
      select_where (schedule_key i ph) (st_retry s)" for n
    unfolding select_where_def using assms
    by (intro find_update_other) (auto simp: schedule_key_def reschedule_def)
  moreover have "\<not> schedule_key i ph (next_schedule q st c)" for st c
    using assms by (auto simp: schedule_key_def next_schedule_def Let_def)
  ultimately show ?thesis
    unfolding ApplyRetryFailure_def
    by (auto simp: Let_def select_where_def split: option.split sum.split)
qed

lemma ApplyRetryFailure_keys: "retry_keys s \<Longrightarrow> retry_keys (snd (ApplyRetryFailure q s))"
proof (cases "\<exists>r. fst (ApplyRetryFailure q s) = Inr (r, True)")
  case True
  assume k: "retry_keys s"
  from True obtain r where "ApplyRetryFailure q s = (Inr (r, True), snd (ApplyRetryFailure q s))"
    by (metis prod.collapse)
  from ApplyRetryFailure_applied [OF k this] show ?thesis by metis
qed (use ApplyRetryFailure_same [of q s] in auto)

lemma retry_budget_step:
  assumes keys: "retry_keys s" and m: "rp_MaxAttempts (normalized (rq_Policy q)) \<le> m"
  shows "retry_budget i ph m (snd (ApplyRetryFailure q s)) + (if schedules_retry i ph q s then 1 else 0) \<le>
    retry_budget i ph m s"
proof (cases "(rq_RunID q, rq_Phase q) = (i, ph) \<and> (\<exists>r. fst (ApplyRetryFailure q s) = Inr (r, True))")
  case False
  then have "\<not> schedules_retry i ph q s" by (auto simp: schedules_retry_def split: sum.splits)
  moreover have "retry_budget i ph m (snd (ApplyRetryFailure q s)) = retry_budget i ph m s"
    using False ApplyRetryFailure_other_key [of q i ph s] ApplyRetryFailure_same [of q s]
    by (auto simp: retry_budget_def)
  ultimately show ?thesis by simp
next
  case True
  then have ids: "rq_RunID q = i" "rq_Phase q = ph" by simp_all
  from True obtain r where r: "fst (ApplyRetryFailure q s) = Inr (r, True)" by blast
  then have e: "ApplyRetryFailure q s = (Inr (r, True), snd (ApplyRetryFailure q s))" by (metis prod.collapse)
  from ApplyRetryFailure_applied [OF keys e, unfolded ids] obtain run :: run_row and current where
    a: "RetryFailureRequest_validate q = None" "retryScheduleTx s i ph = Inr current"
      "retry_checks q (run_State run) current s = None" "r = next_schedule q (run_State run) current"
      "\<forall>c. current = Some c \<longrightarrow> sch_Status c = RetryScheduled \<and> sch_AttemptCount c = rq_ExpectedAttempt q"
      "select_where (schedule_key i ph) (st_retry (snd (ApplyRetryFailure q s))) = Some r"
    by metis
  have now: "retry_budget i ph m (snd (ApplyRetryFailure q s)) + (if schedules_retry i ph q s then 1 else 0) \<le>
      (if sch_Status r = RetryScheduled then nat (sch_MaxAttempts r - sch_AttemptCount r) + 1 else 0)"
    using a(6) r by (auto simp: retry_budget_def schedules_retry_def)
  show ?thesis
  proof (cases "sch_Status r = RetryScheduled")
    case False
    with now show ?thesis by simp
  next
    case sched: True
    then have le: "rq_ExpectedAttempt q + 1 \<le> rp_MaxAttempts (policy_of q current)"
      unfolding a(4) next_schedule_status by (simp split: if_splits)
    show ?thesis
    proof (cases current)
      case None
      then have "retry_budget i ph m s = nat m" "rq_ExpectedAttempt q = 0"
        "rp_MaxAttempts (policy_of q current) \<le> m"
        using a(2,3) m by (auto simp: retryScheduleTx_cases retry_budget_def retry_checks_def policy_of_None split: option.splits if_splits)
      with now sched le show ?thesis unfolding a(4) next_schedule_status by auto
    next
      case (Some c)
      then have "select_where (schedule_key i ph) (st_retry s) = Some c"
        using a(2) by (auto simp: retryScheduleTx_cases split: option.splits)
      then have "retry_budget i ph m s = nat (rp_MaxAttempts (policy_of q current) - rq_ExpectedAttempt q)"
        using a(5) Some by (simp add: retry_budget_def policy_of_def)
      with now sched le show ?thesis unfolding a(4) next_schedule_status by auto
    qed
  qed
qed

text \<open>C32: The automatic budget is finite whoever records the failures and in whatever order: until the
  schedule of a run and phase is cleared or an operator retries, at most as many retries are
  scheduled as the largest budget any of the requests names.\<close>

theorem automatic_retries_bounded:
  assumes "retry_keys s" and "select_where (schedule_key i ph) (st_retry s) = None"
    and "\<forall>q \<in> set qs. rp_MaxAttempts (normalized (rq_Policy q)) \<le> m"
  shows "scheduled_retries i ph qs s \<le> nat m"
proof -
  have "scheduled_retries i ph qs s \<le> retry_budget i ph m s" using assms(1,3)
  proof (induction qs arbitrary: s)
    case (Cons q qs)
    then have "scheduled_retries i ph qs (snd (ApplyRetryFailure q s)) \<le> retry_budget i ph m (snd (ApplyRetryFailure q s))"
      by (simp add: ApplyRetryFailure_keys)
    with retry_budget_step [of s q m i ph] Cons.prems show ?case by simp
  qed simp
  with assms(2) show ?thesis by (simp add: retry_budget_def)
qed

definition sample_failures :: "retry_request list" where
  "sample_failures = map (\<lambda>n. sample_request_retry\<lparr>rq_ExpectedAttempt := n,
     rq_FailureClass := RetryFailureUnavailable, rq_ReasonCode := ''unavailable''\<rparr>) [0, 1, 1, 2, 3, 4]"

theorem automatic_retries_bounded_witness:
  "scheduled_retries ''r1'' ''state_executing'' sample_failures sample_store = 3 \<and>
   scheduled_retries ''r1'' ''state_executing'' (sample_failures @ sample_failures) sample_store \<le> 3"
proof -
  have "scheduled_retries ''r1'' ''state_executing'' sample_failures sample_store = 3" by code_simp
  moreover have "scheduled_retries ''r1'' ''state_executing'' (sample_failures @ sample_failures) sample_store \<le> nat 3"
    by (rule automatic_retries_bounded)
      (auto simp: retry_keys_def sample_store_def empty_store_def select_where_def sample_failures_def
        sample_request_retry_def normalized_def DefaultAutomaticRetryPolicy_def)
  ultimately show ?thesis by simp
qed

text \<open>Abandoning a run whose operator retry is scheduled leaves such an unreadable row as well.\<close>

lemma abandon_retry_unreadable:
  "GetRetrySchedule (abandon_retry ''r1'' (90 * second) (sample_store\<lparr>st_retry := [sample_schedule\<lparr>
       sch_AttemptCount := 4, sch_ReasonCode := ''operator_retry''\<rparr>]\<rparr>)) ''r1'' ''state_executing'' =
     Inl (New ''automatic retry schedule is corrupt'') \<and>
   GetRetrySchedule (sample_store\<lparr>st_retry := [sample_schedule\<lparr>
       sch_AttemptCount := 4, sch_ReasonCode := ''operator_retry''\<rparr>]\<rparr>) ''r1'' ''state_executing'' =
     Inr (Some (sample_schedule\<lparr>sch_AttemptCount := 4, sch_ReasonCode := ''operator_retry''\<rparr>))"
  by code_simp

end
