(* ===== verification/Attention.thy ===== *)
theory Attention
  imports Retry
begin

text \<open>
  Operator attention: the sanitized events of \<open>application/operator_attention.go\<close>. An event is built
  from typed input, replays of the same evidence give the same event key, and the actions an event
  offers are a function of its sanitized type, state, reason and failure class. \<open>json\<close> is
  \<open>encoding/json\<close> on the fields that the payload digest covers, \<open>profile_of\<close> its decoder on the two
  fields of a frozen repository configuration that name the profile.
\<close>

section \<open>Event types, reasons and actions\<close>

datatype attention_action =
    ActionRetry | ActionAbandon | ActionDecide | ActionRecoverCIWait | ActionRecoverOwnedPush
  | ActionAcceptExternalMerge | ActionOther string

record attention_event =
  ae_SchemaVersion :: int
  ae_EventKey :: string
  ae_EventType :: string
  ae_RunID :: string
  ae_LinearIdentifier :: string
  ae_ProfileID :: string
  ae_ProfileName :: string
  ae_ControllerState :: string
  ae_Severity :: string
  ae_ReasonCode :: string
  ae_RetryFailureClass :: failure_class
  ae_AllowedActions :: "attention_action list option"
  ae_EvidenceDigest :: string
  ae_OccurredAt :: time
  ae_ObservedAt :: time
  ae_PayloadDigest :: string

definition SourceCheckoutSkipped :: string where
  "SourceCheckoutSkipped = ''source_checkout_skipped_attention''"
definition CandidatePriorityTie :: string where "CandidatePriorityTie = ''candidate_priority_tie''"
definition CandidateScan :: string where "CandidateScan = ''candidate_scan_incomplete''"
definition SchedulerLease :: string where "SchedulerLease = ''scheduler_lease_attention''"
definition AdmissionAuthority :: string where "AdmissionAuthority = ''admission_authority_conflict''"
definition AttentionRetry :: string where "AttentionRetry = ''automatic_retry_attention''"
definition CleanupResidue :: string where "CleanupResidue = ''cleanup_residue_attention''"
definition ManualIntervention :: string where "ManualIntervention = ''manual_intervention_attention''"
definition HumanDecision :: string where "HumanDecision = ''human_decision_attention''"
definition CISlow :: string where "CISlow = ''ci_wait_slow''"
definition CIWaitRecovery :: string where "CIWaitRecovery = ''ci_wait_recovery''"
definition unknown_attention :: string where "unknown_attention = ''unknown''"

lemmas event_types = SourceCheckoutSkipped_def CandidatePriorityTie_def CandidateScan_def
  SchedulerLease_def AdmissionAuthority_def AttentionRetry_def CleanupResidue_def
  ManualIntervention_def HumanDecision_def CISlow_def CIWaitRecovery_def unknown_attention_def

definition sanitizedOperatorAttentionEventType :: "string \<Rightarrow> string" where
  "sanitizedOperatorAttentionEventType v =
     (if v \<in> {SourceCheckoutSkipped, CandidatePriorityTie, CandidateScan, SchedulerLease, AdmissionAuthority,
          AttentionRetry, CleanupResidue, ManualIntervention, HumanDecision, CISlow, CIWaitRecovery}
      then v else unknown_attention)"

definition manual_reasons :: "string list" where
  "manual_reasons =
     [''manual_intervention'', ''owned_push_recovery'', ''external_merge_recovery'',
      ''trusted_review_topology_unsupported'', ''trusted_review_topology_split_review'',
      ''trusted_review_feedback_drift'', ''trusted_review_feedback_conflict'']"

definition retry_reasons :: "string list" where
  "retry_reasons =
     [''process_start'', ''unavailable'', ''authority_conflict'', ''integrity_failure'', ''manual_state'',
      ''terminal_failure'', ''persistence_conflict'', ''retry_budget_exhausted'']"

definition allowed_reasons :: "string \<Rightarrow> string list" where
  "allowed_reasons eventType =
     (if eventType = SourceCheckoutSkipped
      then [''dirty_source'', ''wrong_branch'', ''detached_head'', ''source_diverged'', ''state_drift'']
      else if eventType = CandidatePriorityTie then [''top_priority_tie'']
      else if eventType = CandidateScan then [''truncated'', ''incomplete_authority'']
      else if eventType = SchedulerLease then [''lease_conflict'', ''lease_lost'']
      else if eventType = AdmissionAuthority
      then [''admission_authority_conflict'', ''mutation_authority_conflict'']
      else if eventType = AttentionRetry then retry_reasons
      else if eventType = CleanupResidue then [''cleanup_residue'']
      else if eventType = ManualIntervention then manual_reasons
      else if eventType = HumanDecision then [''human_decision_required'']
      else if eventType = CISlow then [''ci_wait_slow'']
      else if eventType = CIWaitRecovery then [''legacy_ci_topology_drift'']
      else [])"

definition sanitizedOperatorAttentionReason :: "string \<Rightarrow> string \<Rightarrow> string" where
  "sanitizedOperatorAttentionReason eventType v =
     (if v \<in> set (allowed_reasons eventType) then v else unknown_attention)"

definition isManualInterventionReason :: "string \<Rightarrow> bool" where
  "isManualInterventionReason reason \<longleftrightarrow> reason \<in> set manual_reasons"

fun knownOperatorAttentionState :: "state \<Rightarrow> bool" where
  "knownOperatorAttentionState st = (case st of StateOther _ \<Rightarrow> False | _ \<Rightarrow> True)"

text \<open>The dynamic type of the state argument: a \<open>domain.State\<close>, a \<open>string\<close>, or anything else.\<close>

datatype state_arg = AsState state | AsText string | AsOther

fun sanitizedOperatorAttentionState :: "state_arg \<Rightarrow> string" where
  "sanitizedOperatorAttentionState (AsState st) =
     (if knownOperatorAttentionState st then state_string st else unknown_attention)"
| "sanitizedOperatorAttentionState (AsText t) =
     (if t = ''scan'' \<or> t = ''scheduler'' then t
      else if knownOperatorAttentionState (state_of_string t) then t else unknown_attention)"
| "sanitizedOperatorAttentionState AsOther = unknown_attention"

definition sanitizedOperatorAttentionSeverity :: "string \<Rightarrow> string" where
  "sanitizedOperatorAttentionSeverity v =
     (if v \<in> {''info'', ''warning'', ''error''} then v else ''warning'')"

fun operatorRetryableState :: "state \<Rightarrow> bool" where
  "operatorRetryableState st =
     (case st of
        StateReceived \<Rightarrow> True | StateAdmitting \<Rightarrow> True | StateProvisioning \<Rightarrow> True
      | StateExecuting \<Rightarrow> True | StateVerifying \<Rightarrow> True | StateFreshReview \<Rightarrow> True
      | StateRepairing \<Rightarrow> True | StateApprovalReady \<Rightarrow> True | _ \<Rightarrow> False)"

definition retry_offered :: "state \<Rightarrow> failure_class \<Rightarrow> bool" where
  "retry_offered st c \<longleftrightarrow>
     c = RetryFailureProcessStart \<and> operatorRetryableState st \<or>
     c = RetryFailureUnavailable \<and> (st = StateReceived \<or> st = StateAdmitting)"

definition allowedOperatorAttentionActionsFor ::
  "string \<Rightarrow> string \<Rightarrow> string \<Rightarrow> failure_class \<Rightarrow> attention_action list" where
  "allowedOperatorAttentionActionsFor eventType st reason c =
     (if eventType = AttentionRetry \<and> reason \<noteq> unknown_attention \<and>
         knownOperatorAttentionState (state_of_string st)
      then (let actions = (if GracefulAbandonState (state_of_string st) then [ActionAbandon] else [])
            in if retry_offered (state_of_string st) c \<and> reason = ''retry_budget_exhausted''
               then ActionRetry # actions else actions)
      else if eventType = ManualIntervention \<and> st = state_string StateManualIntervention \<and>
         isManualInterventionReason reason
      then ActionAbandon #
           (if reason = ''owned_push_recovery'' then [ActionRecoverOwnedPush] else []) @
           (if reason = ''external_merge_recovery'' then [ActionAcceptExternalMerge] else [])
      else if eventType = HumanDecision \<and> st = state_string StateAwaitingHumanDecision \<and>
         reason = ''human_decision_required'' then [ActionDecide]
      else if eventType = CISlow \<and> st = state_string StateReconcilingReviews \<and> reason = ''ci_wait_slow''
      then [ActionAbandon]
      else if eventType = CIWaitRecovery \<and>
         (st = state_string StatePROpen \<or> st = state_string StateReconcilingReviews) \<and>
         reason = ''legacy_ci_topology_drift'' then [ActionRecoverCIWait]
      else [])"

definition allowedOperatorAttentionActions :: "string \<Rightarrow> string \<Rightarrow> string \<Rightarrow> attention_action list" where
  "allowedOperatorAttentionActions eventType st reason =
     allowedOperatorAttentionActionsFor eventType st reason (RetryFailureOther [])"

section \<open>Patterns\<close>

definition operatorAttentionIdentifier :: "string \<Rightarrow> bool" where
  "operatorAttentionIdentifier s \<longleftrightarrow>
     (case cut_at (CHR ''-'') s of
        None \<Rightarrow> False
      | Some (a, b) \<Rightarrow>
          a \<noteq> [] \<and> is_upper (hd a) \<and> (\<forall>c \<in> set a. is_upper c \<or> is_digit c) \<and>
          b \<noteq> [] \<and> length b \<le> 10 \<and> hd b \<noteq> CHR ''0'' \<and> (\<forall>c \<in> set b. is_digit c))"

definition legacyOperatorAttentionProfileField :: "string \<Rightarrow> bool" where
  "legacyOperatorAttentionProfileField s \<longleftrightarrow> 1 \<le> length s \<and> length s \<le> 160 \<and>
     (\<forall>c \<in> set s. is_alnum c \<or> c \<in> set ''._:/-'')"

record attention_profile =
  ap_ID :: string
  ap_Name :: string

definition forbidden_words :: "string list" where
  "forbidden_words =
     [''authorization'', ''bearer'', ''credential'', ''secret'', ''token'', ''password'', ''passwd'',
      ''api-key'', ''apikey'', ''private-key'', ''client-secret'']"

definition validOperatorAttentionProfile :: "attention_profile \<Rightarrow> bool" where
  "validOperatorAttentionProfile p \<longleftrightarrow>
     (operatorAttentionRepository (ap_Name p) \<or> operatorAttentionProfileID (ap_Name p)) \<and>
     (\<forall>v \<in> {ap_ID p, ap_Name p}.
        (\<forall>w \<in> set forbidden_words. \<not> sublist w (to_lower v)) \<and>
        (\<forall>c \<in> set v. c \<notin> {CHR 0x5C, CHR ''@'', CHR ''?'', CHR ''#'', CHR ''%''})) \<and>
     (operatorAttentionProfileID (ap_ID p) \<or> ap_ID p = ''repository-profile:'' @ ap_Name p)"

section \<open>Building an event\<close>

record attention_input =
  ai_ScopeID :: string
  ai_RunID :: string
  ai_EventType :: string
  ai_LinearIdentifier :: string
  ai_Profile :: attention_profile
  ai_State :: state_arg
  ai_Severity :: string
  ai_ReasonCode :: string
  ai_EvidenceDigest :: string
  ai_RetryFailureClass :: failure_class
  ai_TransitionSequence :: int
  ai_OccurredAt :: time
  ai_ObservedAt :: time

text \<open>What the payload digest covers: every field but the key and the digest itself.\<close>

type_synonym event_encoder = "attention_event \<Rightarrow> string"

definition payload :: "attention_event \<Rightarrow> attention_event" where
  "payload e = e\<lparr>ae_EventKey := [], ae_PayloadDigest := []\<rparr>"

definition OperatorAttentionPayloadDigest :: "event_encoder \<Rightarrow> attention_event \<Rightarrow> string" where
  "OperatorAttentionPayloadDigest json e = sha256_hex (json (payload e))"

definition attention_input_ok :: "attention_input \<Rightarrow> bool" where
  "attention_input_ok i \<longleftrightarrow>
     operatorAttentionScope (ai_ScopeID i) \<and> (ai_RunID i = [] \<or> ai_RunID i = ai_ScopeID i) \<and>
     (ai_LinearIdentifier i = [] \<or> operatorAttentionIdentifier (ai_LinearIdentifier i)) \<and>
     validOperatorAttentionProfile (ai_Profile i) \<and> validOperatorAttentionDigest (ai_EvidenceDigest i) \<and>
     \<not> is_zero_time (ai_OccurredAt i) \<and> \<not> is_zero_time (ai_ObservedAt i) \<and>
     \<not> ai_ObservedAt i < ai_OccurredAt i \<and> \<not> ai_TransitionSequence i < 0"

definition attention_key :: "string \<Rightarrow> string \<Rightarrow> string \<Rightarrow> string" where
  "attention_key scope eventType suff = ''automation:'' @ scope @ '':'' @ eventType @ '':'' @ suff"

definition attention_suffix :: "attention_input \<Rightarrow> string" where
  "attention_suffix i =
     (if ai_TransitionSequence i > 0 then dec_int (ai_TransitionSequence i) else ai_EvidenceDigest i)"

definition attention_event_of :: "attention_input \<Rightarrow> attention_event" where
  "attention_event_of i =
     (let eventType = sanitizedOperatorAttentionEventType (ai_EventType i);
          reason = sanitizedOperatorAttentionReason eventType (ai_ReasonCode i);
          st = sanitizedOperatorAttentionState (ai_State i)
      in \<lparr>ae_SchemaVersion = 2,
          ae_EventKey = attention_key (ai_ScopeID i) eventType (attention_suffix i),
          ae_EventType = eventType, ae_RunID = ai_RunID i, ae_LinearIdentifier = ai_LinearIdentifier i,
          ae_ProfileID = ap_ID (ai_Profile i), ae_ProfileName = ap_Name (ai_Profile i),
          ae_ControllerState = st, ae_Severity = sanitizedOperatorAttentionSeverity (ai_Severity i),
          ae_ReasonCode = reason, ae_RetryFailureClass = ai_RetryFailureClass i,
          ae_AllowedActions =
            Some (allowedOperatorAttentionActionsFor eventType st reason (ai_RetryFailureClass i)),
          ae_EvidenceDigest = ai_EvidenceDigest i, ae_OccurredAt = ai_OccurredAt i,
          ae_ObservedAt = ai_ObservedAt i, ae_PayloadDigest = []\<rparr>)"

definition newOperatorAttentionEvent :: "event_encoder \<Rightarrow> attention_input \<Rightarrow> attention_event result" where
  "newOperatorAttentionEvent json i =
     (if \<not> attention_input_ok i then Inl (New ''operator attention event is invalid'')
      else let e = attention_event_of i
        in Inr (e\<lparr>ae_PayloadDigest := OperatorAttentionPayloadDigest json e\<rparr>))"

section \<open>Events of runs\<close>

type_synonym profile_decoder = "string \<Rightarrow> (string \<times> string) option"

definition operatorAttentionProfileForRun :: "profile_decoder \<Rightarrow> run_row \<Rightarrow> attention_profile result" where
  "operatorAttentionProfileForRun profile_of run =
     (if profile_of (run_RepositoryConfigJSON run) \<noteq> Some (run_ProfileID run, run_Repository run)
      then Inl (New ''persisted operator attention profile is invalid'')
      else Inr \<lparr>ap_ID = (if run_ProfileID run = [] then ''legacy-profile'' else run_ProfileID run),
             ap_Name = run_Repository run\<rparr>)"

text \<open>The input of an event about a run whose two times agree.\<close>

definition run_event ::
  "event_encoder \<Rightarrow> profile_decoder \<Rightarrow> run_row \<Rightarrow> string \<Rightarrow> state_arg \<Rightarrow> string \<Rightarrow> string \<Rightarrow> string \<Rightarrow>
     failure_class \<Rightarrow> int \<Rightarrow> time \<Rightarrow> attention_event result" where
  "run_event json profile_of run eventType st severity reason digest c sequence at =
     (case operatorAttentionProfileForRun profile_of run of
        Inl e \<Rightarrow> Inl e
      | Inr profile \<Rightarrow> newOperatorAttentionEvent json
          \<lparr>ai_ScopeID = run_ID run, ai_RunID = run_ID run, ai_EventType = eventType,
           ai_LinearIdentifier = [], ai_Profile = profile, ai_State = st, ai_Severity = severity,
           ai_ReasonCode = reason, ai_EvidenceDigest = digest, ai_RetryFailureClass = c,
           ai_TransitionSequence = sequence, ai_OccurredAt = at, ai_ObservedAt = at\<rparr>)"

abbreviation (input) no_failure :: failure_class where "no_failure \<equiv> RetryFailureOther []"

definition SourceCheckoutSkippedAttentionEvent ::
  "event_encoder \<Rightarrow> profile_decoder \<Rightarrow> run_row \<Rightarrow> int \<Rightarrow> string \<Rightarrow> string \<Rightarrow> time \<Rightarrow>
     attention_event result" where
  "SourceCheckoutSkippedAttentionEvent json profile_of run sequence reason digest at =
     run_event json profile_of run SourceCheckoutSkipped (AsState (run_State run)) ''warning'' reason digest
       no_failure sequence at"

definition CleanupResidueAttentionEvent ::
  "event_encoder \<Rightarrow> profile_decoder \<Rightarrow> run_row \<Rightarrow> int \<Rightarrow> string \<Rightarrow> time \<Rightarrow> attention_event result" where
  "CleanupResidueAttentionEvent json profile_of run sequence digest at =
     run_event json profile_of run CleanupResidue (AsState (run_State run)) ''warning'' ''cleanup_residue''
       digest no_failure sequence at"

definition AdmissionAuthorityConflictAttentionEvent ::
  "event_encoder \<Rightarrow> profile_decoder \<Rightarrow> run_row \<Rightarrow> string \<Rightarrow> string \<Rightarrow> time \<Rightarrow> attention_event result" where
  "AdmissionAuthorityConflictAttentionEvent json profile_of run reason digest at =
     run_event json profile_of run AdmissionAuthority (AsState (run_State run)) ''warning'' reason digest
       no_failure 0 at"

fun failure_class_string :: "failure_class \<Rightarrow> string" where
  "failure_class_string RetryFailureProcessStart = ''process_start''"
| "failure_class_string RetryFailureUnavailable = ''unavailable''"
| "failure_class_string RetryFailureAuthority = ''authority_conflict''"
| "failure_class_string RetryFailureIntegrity = ''integrity_failure''"
| "failure_class_string RetryFailureManual = ''manual_state''"
| "failure_class_string RetryFailureTerminal = ''terminal_failure''"
| "failure_class_string RetryFailurePersistence = ''persistence_conflict''"
| "failure_class_string (RetryFailureOther v) = v"

definition retryAttentionDigest :: "retry_row \<Rightarrow> string" where
  "retryAttentionDigest s =
     sha256_hex (sch_RunID s @ [nul] @ sch_Phase s @ [nul] @ dec_int (sch_AttemptCount s) @ [nul] @
       failure_class_string (sch_FailureClass s) @ [nul] @ sch_ReasonCode s)"

definition AutomaticRetryAttentionEvent ::
  "event_encoder \<Rightarrow> profile_decoder \<Rightarrow> run_row \<Rightarrow> retry_row \<Rightarrow> attention_event result" where
  "AutomaticRetryAttentionEvent json profile_of run s =
     (if RetrySchedule_validate s \<noteq> None \<or> sch_RunID s \<noteq> run_ID run \<or> sch_Status s \<noteq> RetryAttention
      then Inl (New ''automatic retry attention evidence is invalid'')
      else run_event json profile_of run AttentionRetry (AsText (state_string (sch_ControllerState s))) ''error''
        (sch_ReasonCode s) (retryAttentionDigest s) (sch_FailureClass s) 0 (sch_AttentionAt s))"

definition manualInterventionReasonCode :: "string \<Rightarrow> string" where
  "manualInterventionReasonCode reason =
     (if reason \<in> {''trusted_review_topology_unsupported'', ''trusted_review_topology_split_review'',
          ''trusted_review_feedback_drift'', ''trusted_review_feedback_conflict''}
      then reason else ''manual_intervention'')"

text \<open>\<open>digest\<close> is the hash of the JSON text of a run ID and a transition.\<close>

type_synonym transition_digest = "string \<Rightarrow> transition_row \<Rightarrow> string"

definition stop_event ::
  "event_encoder \<Rightarrow> profile_decoder \<Rightarrow> transition_digest \<Rightarrow> state \<Rightarrow> go_error \<Rightarrow> string \<Rightarrow> string \<Rightarrow> string \<Rightarrow>
     run_row \<Rightarrow> transition_row \<Rightarrow> attention_event result" where
  "stop_event json profile_of digest st err eventType severity reason run t =
     (if run_State run \<noteq> st \<or> tr_Sequence t < 1 \<or> tr_To t \<noteq> st \<or> is_zero_time (tr_CreatedAt t)
      then Inl err
      else run_event json profile_of run eventType (AsState (run_State run)) severity reason
        (digest (run_ID run) t) no_failure (tr_Sequence t) (tr_CreatedAt t))"

definition ManualInterventionAttentionEvent ::
  "event_encoder \<Rightarrow> profile_decoder \<Rightarrow> transition_digest \<Rightarrow> run_row \<Rightarrow> transition_row \<Rightarrow>
     attention_event result" where
  "ManualInterventionAttentionEvent json profile_of digest run t =
     stop_event json profile_of digest StateManualIntervention
       (New ''manual intervention attention evidence is invalid'') ManualIntervention ''error''
       (manualInterventionReasonCode (tr_Reason t)) run t"

definition HumanDecisionAttentionEvent ::
  "event_encoder \<Rightarrow> profile_decoder \<Rightarrow> transition_digest \<Rightarrow> run_row \<Rightarrow> transition_row \<Rightarrow>
     attention_event result" where
  "HumanDecisionAttentionEvent json profile_of digest run t =
     stop_event json profile_of digest StateAwaitingHumanDecision
       (New ''human decision attention evidence is invalid'') HumanDecision ''warning''
       ''human_decision_required'' run t"

text \<open>The timeline is in the order of the sequence numbers; the loops run from its end.\<close>

definition latestTransitionTo :: "state \<Rightarrow> go_error \<Rightarrow> transition_row list \<Rightarrow> transition_row result" where
  "latestTransitionTo st err timeline =
     (case find (\<lambda>t. tr_To t = st) (rev timeline) of None \<Rightarrow> Inl err | Some t \<Rightarrow> Inr t)"

definition latestManualInterventionTransition :: "transition_row list \<Rightarrow> transition_row result" where
  "latestManualInterventionTransition =
     latestTransitionTo StateManualIntervention (New ''manual intervention transition evidence is missing'')"

definition latestHumanDecisionTransition :: "transition_row list \<Rightarrow> transition_row result" where
  "latestHumanDecisionTransition =
     latestTransitionTo StateAwaitingHumanDecision (New ''human decision transition evidence is missing'')"

section \<open>Reading events back\<close>

definition operatorAttentionScopeFromKey :: "string \<Rightarrow> string" where
  "operatorAttentionScopeFromKey key =
     (case split_on (CHR '':'') key of [_, scope, _, _] \<Rightarrow> scope | _ \<Rightarrow> [])"

definition input_of_event :: "attention_event \<Rightarrow> attention_input" where
  "input_of_event e =
     \<lparr>ai_ScopeID = operatorAttentionScopeFromKey (ae_EventKey e), ai_RunID = ae_RunID e,
      ai_EventType = ae_EventType e, ai_LinearIdentifier = ae_LinearIdentifier e,
      ai_Profile = \<lparr>ap_ID = ae_ProfileID e, ap_Name = ae_ProfileName e\<rparr>,
      ai_State = AsText (ae_ControllerState e), ai_Severity = ae_Severity e,
      ai_ReasonCode = ae_ReasonCode e, ai_EvidenceDigest = ae_EvidenceDigest e,
      ai_RetryFailureClass = ae_RetryFailureClass e,
      ai_TransitionSequence =
        (case split_on (CHR '':'') (ae_EventKey e) of
           [_, _, _, d] \<Rightarrow> (case ParseInt d of Some n \<Rightarrow> if n > 0 then n else 0 | None \<Rightarrow> 0)
         | _ \<Rightarrow> 0),
      ai_OccurredAt = ae_OccurredAt e, ai_ObservedAt = ae_ObservedAt e\<rparr>"

definition key_matches :: "attention_event \<Rightarrow> bool" where
  "key_matches e =
     (case split_on (CHR '':'') (ae_EventKey e) of
        [a, b, c, d] \<Rightarrow> a = ''automation'' \<and> b \<noteq> [] \<and> c = ae_EventType e | _ \<Rightarrow> False)"

definition corrupt_event :: go_error where
  "corrupt_event = New ''operator attention event record is corrupt''"

definition ValidateOperatorAttentionEvent :: "event_encoder \<Rightarrow> attention_event \<Rightarrow> go_error option" where
  "ValidateOperatorAttentionEvent json e =
     (if ae_SchemaVersion e \<noteq> 2 \<or> ae_PayloadDigest e = [] \<or> ae_AllowedActions e = None
      then Some corrupt_event
      else if \<not> key_matches e then Some corrupt_event
      else case newOperatorAttentionEvent json (input_of_event e) of
        Inl _ \<Rightarrow> Some corrupt_event
      | Inr want \<Rightarrow>
          (if ae_EventKey want \<noteq> ae_EventKey e \<or> ae_PayloadDigest want \<noteq> ae_PayloadDigest e \<or>
              ae_AllowedActions want \<noteq> ae_AllowedActions e
           then Some corrupt_event else None))"

definition previousOperatorAttentionPayloadDigest :: "event_encoder \<Rightarrow> attention_event \<Rightarrow> string" where
  "previousOperatorAttentionPayloadDigest json e =
     sha256_hex (json ((payload e)\<lparr>ae_RetryFailureClass := no_failure\<rparr>))"

definition previous_actions :: "attention_event \<Rightarrow> attention_action list" where
  "previous_actions e =
     (if ae_EventType e = AttentionRetry \<and> ae_ReasonCode e \<noteq> unknown_attention \<and>
         knownOperatorAttentionState (state_of_string (ae_ControllerState e))
      then [ActionRetry, ActionAbandon]
      else allowedOperatorAttentionActions (ae_EventType e) (ae_ControllerState e) (ae_ReasonCode e))"

definition ValidatePreviousOperatorAttentionEvent ::
  "event_encoder \<Rightarrow> attention_event \<Rightarrow> go_error option" where
  "ValidatePreviousOperatorAttentionEvent json e =
     (let err = Some (New ''previous operator attention event record is corrupt'') in
      if ae_SchemaVersion e \<noteq> 1 \<or> ae_PayloadDigest e = [] \<or> ae_AllowedActions e = None \<or>
         previousOperatorAttentionPayloadDigest json e \<noteq> ae_PayloadDigest e then err
      else if \<not> key_matches e \<or> ae_EventType e = CISlow then err
      else if ae_AllowedActions e \<noteq> Some (previous_actions e) then err
      else None)"

definition UpgradePreviousOperatorAttentionEvent ::
  "event_encoder \<Rightarrow> event_encoder \<Rightarrow> attention_event \<Rightarrow> attention_event result" where
  "UpgradePreviousOperatorAttentionEvent json_previous json e =
     (case ValidatePreviousOperatorAttentionEvent json_previous e of
        Some err \<Rightarrow> Inl err
      | None \<Rightarrow> newOperatorAttentionEvent json (input_of_event e))"

definition ValidateLegacyOperatorAttentionEvent :: "attention_event \<Rightarrow> go_error option" where
  "ValidateLegacyOperatorAttentionEvent e =
     (let err = Some (New ''legacy operator attention event record is corrupt'') in
      if ae_SchemaVersion e \<noteq> 0 \<or> \<not> validOperatorAttentionDigest (ae_PayloadDigest e) \<or>
         ae_AllowedActions e \<noteq> Some [] then err
      else case split_on (CHR '':'') (ae_EventKey e) of
        [a, scope, c, d] \<Rightarrow>
          (if a \<noteq> ''automation'' \<or> \<not> operatorAttentionScope scope \<or> c \<noteq> ae_EventType e \<or>
              (ae_RunID e \<noteq> [] \<and> ae_RunID e \<noteq> scope) \<or>
              (ae_LinearIdentifier e \<noteq> [] \<and> \<not> operatorAttentionIdentifier (ae_LinearIdentifier e)) \<or>
              \<not> legacyOperatorAttentionProfileField (ae_ProfileID e) \<or>
              \<not> legacyOperatorAttentionProfileField (ae_ProfileName e) \<or>
              \<not> validOperatorAttentionDigest (ae_EvidenceDigest e) \<or> is_zero_time (ae_OccurredAt e) \<or>
              is_zero_time (ae_ObservedAt e) \<or> ae_ObservedAt e < ae_OccurredAt e \<or>
              ae_EventType e \<noteq> sanitizedOperatorAttentionEventType (ae_EventType e) \<or>
              ae_ControllerState e \<noteq> sanitizedOperatorAttentionState (AsText (ae_ControllerState e)) \<or>
              ae_ReasonCode e \<noteq> sanitizedOperatorAttentionReason (ae_EventType e) (ae_ReasonCode e) \<or>
              ae_Severity e \<noteq> sanitizedOperatorAttentionSeverity (ae_Severity e)
           then err
           else if d \<noteq> ae_EvidenceDigest e \<and>
              (case ParseInt d of None \<Rightarrow> True | Some n \<Rightarrow> n < 1) then err
           else None)
      | _ \<Rightarrow> err)"

definition projectedOperatorAttentionProfile :: "attention_event \<Rightarrow> attention_profile" where
  "projectedOperatorAttentionProfile e =
     (let p = \<lparr>ap_ID = ae_ProfileID e, ap_Name = ae_ProfileName e\<rparr>
      in if validOperatorAttentionProfile p then p
         else \<lparr>ap_ID = ''legacy-profile'', ap_Name = ''legacy-repository''\<rparr>)"

section \<open>Decimal numbers and event keys\<close>

lemma dec_nat_digits: "c \<in> set (dec_nat n) \<Longrightarrow> is_digit c"
proof (induction n rule: dec_nat.induct)
  case (1 n)
  have d: "is_digit (char_of (48 + k :: nat))" if "k < 10" for k
    using that by (simp add: is_digit_def in_range_def byte_def)
  show ?case
  proof (cases "n < 10")
    case True
    with 1 d show ?thesis by (simp add: dec_nat.simps [of n])
  next
    case False
    with 1 d [of "n mod 10"] show ?thesis by (auto simp: dec_nat.simps [of n])
  qed
qed

lemma dec_nat_value: "digits_value (dec_nat n) = int n"
proof (induction n rule: dec_nat.induct)
  case (1 n)
  have v: "digit_value (char_of (48 + k :: nat)) = int k" if "k < 10" for k
    using that by (simp add: digit_value_def byte_def)
  show ?case
  proof (cases "n < 10")
    case True
    then show ?thesis by (simp add: dec_nat.simps [of n] digits_value_def v)
  next
    case False
    with 1 have "digits_value (dec_nat (n div 10)) = int (n div 10)" by simp
    with False v [of "n mod 10"] show ?thesis
      by (simp add: dec_nat.simps [of n] digits_value_def) presburger
  qed
qed

lemma dec_nat_length: "n < 10 ^ Suc k \<Longrightarrow> length (dec_nat n) \<le> Suc k"
proof (induction k arbitrary: n)
  case 0
  then show ?case by (simp add: dec_nat.simps [of n])
next
  case (Suc k)
  then have "n div 10 < 10 ^ Suc k" by (simp add: less_mult_imp_div_less)
  from Suc.IH [OF this] show ?case by (simp add: dec_nat.simps [of n])
qed

lemma dec_nat_nonempty [simp]: "dec_nat n \<noteq> []"
  by (simp add: dec_nat.simps [of n])

lemma ParseInt_dec: "0 < n \<Longrightarrow> n < 2 ^ 63 \<Longrightarrow> ParseInt (dec_int n) = Some n"
proof -
  assume n: "0 < n" "n < 2 ^ 63"
  have "is_digit (hd (dec_nat (nat n)))" using dec_nat_digits [OF hd_in_set] by simp
  then have "hd (dec_nat (nat n)) \<noteq> CHR ''-''" "hd (dec_nat (nat n)) \<noteq> CHR ''+''"
    by (auto simp: char_class_defs)
  with n dec_nat_digits [of _ "nat n"] dec_nat_value [of "nat n"] show ?thesis
    by (auto simp: ParseInt_def dec_int_def)
qed

lemma split_on_sep: "d \<notin> set a \<Longrightarrow> split_on d (a @ d # b) = a # split_on d b"
  by (induction a) auto

lemma attention_key_parts:
  assumes "CHR '':'' \<notin> set scope" and "CHR '':'' \<notin> set eventType" and "CHR '':'' \<notin> set suff"
  shows "split_on (CHR '':'') (attention_key scope eventType suff) = [''automation'', scope, eventType, suff]"
proof -
  have "split_on (CHR '':'') (''automation'' @ CHR '':'' # r) = ''automation'' # split_on (CHR '':'') r" for r
    by (rule split_on_sep) simp
  with assms show ?thesis by (simp add: attention_key_def split_on_sep split_on_no_sep)
qed

section \<open>Sanitizing twice\<close>

lemma sanitized_type_idem [simp]:
  "sanitizedOperatorAttentionEventType (sanitizedOperatorAttentionEventType v) =
     sanitizedOperatorAttentionEventType v"
  by (simp add: sanitizedOperatorAttentionEventType_def)

lemma sanitized_type_no_colon: "CHR '':'' \<notin> set (sanitizedOperatorAttentionEventType v)"
  by (auto simp: sanitizedOperatorAttentionEventType_def event_types)

lemma unknown_not_allowed: "unknown_attention \<notin> set (allowed_reasons t)"
  by (auto simp: allowed_reasons_def event_types retry_reasons_def manual_reasons_def)

lemma sanitized_reason_idem [simp]:
  "sanitizedOperatorAttentionReason t (sanitizedOperatorAttentionReason t v) =
     sanitizedOperatorAttentionReason t v"
  by (simp add: sanitizedOperatorAttentionReason_def)

lemma sanitized_severity_idem [simp]:
  "sanitizedOperatorAttentionSeverity (sanitizedOperatorAttentionSeverity v) =
     sanitizedOperatorAttentionSeverity v"
  by (simp add: sanitizedOperatorAttentionSeverity_def)

lemma known_attention_state: "knownOperatorAttentionState st \<longleftrightarrow> is_known st"
  by (cases st) simp_all

lemma unknown_state: "state_of_string unknown_attention = StateOther unknown_attention"
  by (simp add: state_of_string_def known_states_def unknown_attention_def)

lemma sanitized_state_idem [simp]:
  "sanitizedOperatorAttentionState (AsText (sanitizedOperatorAttentionState x)) =
     sanitizedOperatorAttentionState x"
proof -
  have u: "sanitizedOperatorAttentionState (AsText unknown_attention) = unknown_attention"
    by (simp add: unknown_state)
  show ?thesis
  proof (cases x)
    case (AsState st)
    show ?thesis
    proof (cases "is_known st")
      case True
      then show ?thesis by (simp add: AsState known_attention_state state_roundtrip del: knownOperatorAttentionState.simps)
    next
      case False
      with u show ?thesis by (simp add: AsState known_attention_state del: knownOperatorAttentionState.simps)
    qed
  next
    case (AsText t)
    with u show ?thesis by auto
  next
    case AsOther
    with u show ?thesis by simp
  qed
qed

section \<open>Building and validating agree\<close>

text \<open>The number a reader takes from the key of an event.\<close>

definition key_sequence :: "attention_input \<Rightarrow> int" where
  "key_sequence i =
     (case ParseInt (attention_suffix i) of Some n \<Rightarrow> if n > 0 then n else 0 | None \<Rightarrow> 0)"

lemma attention_event_key:
  assumes "attention_input_ok i"
  shows "split_on (CHR '':'') (ae_EventKey (attention_event_of i)) =
    [''automation'', ai_ScopeID i, sanitizedOperatorAttentionEventType (ai_EventType i), attention_suffix i]"
    and "ai_ScopeID i \<noteq> []"
proof -
  have scope: "CHR '':'' \<notin> set (ai_ScopeID i)" "ai_ScopeID i \<noteq> []"
    using assms by (auto simp: attention_input_ok_def operatorAttentionScope_def is_alnum_def char_class_defs)
  have "CHR '':'' \<notin> set (ai_EvidenceDigest i)"
    using assms by (auto simp: attention_input_ok_def validOperatorAttentionDigest_def char_class_defs)
  moreover have "CHR '':'' \<notin> set (dec_nat n)" for n
    using dec_nat_digits [of "CHR '':''" n] by (auto simp: char_class_defs)
  ultimately have "CHR '':'' \<notin> set (attention_suffix i)"
    by (auto simp: attention_suffix_def dec_int_def)
  with scope sanitized_type_no_colon show "split_on (CHR '':'') (ae_EventKey (attention_event_of i)) =
    [''automation'', ai_ScopeID i, sanitizedOperatorAttentionEventType (ai_EventType i), attention_suffix i]"
    by (simp add: attention_event_of_def Let_def attention_key_parts)
  from scope show "ai_ScopeID i \<noteq> []" by simp
qed

lemma profile_fields [simp]: "\<lparr>ap_ID = ap_ID p, ap_Name = ap_Name p\<rparr> = p"
  by (cases p) simp

text \<open>The input read back from an event builds the same event up to its key.\<close>

definition reread :: "attention_input \<Rightarrow> attention_input" where
  "reread i = input_of_event (attention_event_of i)"

lemma reread_fields:
  assumes "attention_input_ok i"
  shows "ai_ScopeID (reread i) = ai_ScopeID i" and "ai_TransitionSequence (reread i) = key_sequence i"
    and "attention_input_ok (reread i)" and "payload (attention_event_of (reread i)) = payload (attention_event_of i)"
    and "ae_AllowedActions (attention_event_of (reread i)) = ae_AllowedActions (attention_event_of i)"
    and "ae_EventKey (attention_event_of (reread i)) =
      attention_key (ai_ScopeID i) (sanitizedOperatorAttentionEventType (ai_EventType i)) (attention_suffix (reread i))"
proof -
  note key = attention_event_key [OF assms]
  have k: "split_on (CHR '':'') (attention_key (ai_ScopeID i) (sanitizedOperatorAttentionEventType (ai_EventType i))
      (attention_suffix i)) = [''automation'', ai_ScopeID i, sanitizedOperatorAttentionEventType (ai_EventType i),
      attention_suffix i]"
    using key(1) by (simp add: attention_event_of_def Let_def)
  show scope: "ai_ScopeID (reread i) = ai_ScopeID i" and "ai_TransitionSequence (reread i) = key_sequence i"
    by (simp_all add: reread_def input_of_event_def operatorAttentionScopeFromKey_def attention_event_of_def
        Let_def k key_sequence_def)
  then have "ai_TransitionSequence (reread i) \<ge> 0" by (simp add: key_sequence_def split: option.split)
  with assms scope show "attention_input_ok (reread i)"
    unfolding attention_input_ok_def by (simp add: profile_fields reread_def input_of_event_def attention_event_of_def Let_def)
  show "payload (attention_event_of (reread i)) = payload (attention_event_of i)"
    "ae_AllowedActions (attention_event_of (reread i)) = ae_AllowedActions (attention_event_of i)"
    "ae_EventKey (attention_event_of (reread i)) =
      attention_key (ai_ScopeID i) (sanitizedOperatorAttentionEventType (ai_EventType i)) (attention_suffix (reread i))"
    using scope by (simp_all add: payload_def reread_def input_of_event_def attention_event_of_def Let_def
        del: sanitizedOperatorAttentionState.simps)
qed


lemma validate_new:
  assumes "newOperatorAttentionEvent json i = Inr e"
  shows "ValidateOperatorAttentionEvent json e = None \<longleftrightarrow> attention_suffix (reread i) = attention_suffix i"
proof -
  from assms have valid: "attention_input_ok i"
    and e: "e = (attention_event_of i)\<lparr>ae_PayloadDigest := OperatorAttentionPayloadDigest json (attention_event_of i)\<rparr>"
    by (simp_all add: newOperatorAttentionEvent_def Let_def split: if_splits)
  note r = reread_fields [OF valid]
  have input: "input_of_event e = reread i" by (simp add: e reread_def input_of_event_def)
  have header: "ae_SchemaVersion e = 2" "ae_PayloadDigest e \<noteq> []" "ae_AllowedActions e \<noteq> None" "key_matches e"
    using attention_event_key [OF valid]
    by (simp_all add: e key_matches_def OperatorAttentionPayloadDigest_def) (simp_all add: attention_event_of_def Let_def)
  have new: "newOperatorAttentionEvent json (reread i) = Inr ((attention_event_of (reread i))
      \<lparr>ae_PayloadDigest := OperatorAttentionPayloadDigest json (attention_event_of (reread i))\<rparr>)"
    using r(3) by (simp add: newOperatorAttentionEvent_def Let_def)
  have "ae_EventKey (attention_event_of (reread i)) = ae_EventKey (attention_event_of i) \<longleftrightarrow>
      attention_suffix (reread i) = attention_suffix i"
    by (simp add: r(6)) (simp add: attention_event_of_def Let_def attention_key_def)
  moreover have "ae_EventKey e = ae_EventKey (attention_event_of i)"
    "ae_PayloadDigest e = OperatorAttentionPayloadDigest json (attention_event_of i)"
    "ae_AllowedActions e = ae_AllowedActions (attention_event_of i)" by (simp_all add: e)
  ultimately show ?thesis
    using header r(4,5) by (simp add: ValidateOperatorAttentionEvent_def input new OperatorAttentionPayloadDigest_def)
qed

text \<open>C4: An event just built from typed input passes the validation of stored events, so what a
  publisher appends can be read back. The one exception is an event without a transition number whose
  evidence digest itself reads as a positive decimal number.\<close>

theorem attention_event_roundtrip:
  assumes "newOperatorAttentionEvent json i = Inr e" and "ai_TransitionSequence i < 2 ^ 63"
  shows "ValidateOperatorAttentionEvent json e = None \<longleftrightarrow>
    ai_TransitionSequence i > 0 \<or> \<not> (\<exists>n > 0. ParseInt (ai_EvidenceDigest i) = Some n)"
proof -
  from assms(1) have valid: "attention_input_ok i"
    by (simp add: newOperatorAttentionEvent_def split: if_splits)
  note r = reread_fields [OF valid]
  have digest: "ai_EvidenceDigest (reread i) = ai_EvidenceDigest i"
    by (simp add: reread_def input_of_event_def attention_event_of_def Let_def)
  have "attention_suffix (reread i) = attention_suffix i \<longleftrightarrow>
    ai_TransitionSequence i > 0 \<or> \<not> (\<exists>n > 0. ParseInt (ai_EvidenceDigest i) = Some n)"
  proof (cases "ai_TransitionSequence i > 0")
    case True
    with assms(2) have "key_sequence i = ai_TransitionSequence i"
      by (simp add: key_sequence_def attention_suffix_def ParseInt_dec)
    with True r(2) show ?thesis by (simp add: attention_suffix_def)
  next
    case False
    show ?thesis
    proof (cases "\<exists>n > 0. ParseInt (ai_EvidenceDigest i) = Some n")
      case True
      then obtain n where n: "n > 0" "ParseInt (ai_EvidenceDigest i) = Some n" by blast
      then have "n < 2 ^ 63" by (auto simp: ParseInt_def Let_def split: if_splits)
      with n have "nat n < 10 ^ Suc 18" by simp
      from dec_nat_length [OF this] n have "length (dec_int n) \<le> 19" by (simp add: dec_int_def)
      moreover have "length (ai_EvidenceDigest i) = 64"
        using valid by (simp add: attention_input_ok_def validOperatorAttentionDigest_def)
      ultimately have "dec_int n \<noteq> ai_EvidenceDigest i" by auto
      with n False r(2) show ?thesis by (auto simp: attention_suffix_def key_sequence_def)
    next
      case no: False
      then have "key_sequence i = 0"
        using False by (auto simp: attention_suffix_def key_sequence_def split: option.split)
      with no False r(2) digest show ?thesis by (simp add: attention_suffix_def)
    qed
  qed
  with validate_new [OF assms(1)] show ?thesis by simp
qed

section \<open>The actions an event offers\<close>

lemma offered_actions:
  assumes "newOperatorAttentionEvent json i = Inr e" and "ae_AllowedActions e = Some actions"
  shows "actions = allowedOperatorAttentionActionsFor (ae_EventType e) (ae_ControllerState e) (ae_ReasonCode e)
    (ae_RetryFailureClass e)"
  using assms by (auto simp: newOperatorAttentionEvent_def attention_event_of_def Let_def split: if_splits)

lemma state_string_eq: "is_known st \<Longrightarrow> state_of_string s = st \<longleftrightarrow> s = state_string st"
  using state_roundtrip state_string_of_string by metis

text \<open>No event offers an action the run's state rules out: abandonment is offered only where the
  abandonment guard accepts the state, a retry only in a state and for a failure that the retry guard
  accepts with an exhausted budget, and a decision only while a decision is awaited.\<close>

theorem attention_actions_guarded:
  assumes "newOperatorAttentionEvent json i = Inr e" and "ae_AllowedActions e = Some actions"
  shows "(ActionAbandon \<in> set actions \<longrightarrow> GracefulAbandonState (state_of_string (ae_ControllerState e))) \<and>
    (ActionRetry \<in> set actions \<longrightarrow> operatorRetryableState (state_of_string (ae_ControllerState e)) \<and>
       ae_ReasonCode e = ''retry_budget_exhausted'' \<and>
       (ae_RetryFailureClass e = RetryFailureProcessStart \<or>
        ae_RetryFailureClass e = RetryFailureUnavailable \<and>
          state_of_string (ae_ControllerState e) \<in> {StateReceived, StateAdmitting})) \<and>
    (ActionDecide \<in> set actions \<longrightarrow> state_of_string (ae_ControllerState e) = StateAwaitingHumanDecision) \<and>
    (actions \<noteq> [] \<longrightarrow> \<not> terminal (state_of_string (ae_ControllerState e)) \<or>
       ae_EventType e = AttentionRetry \<and> state_of_string (ae_ControllerState e) = StateFailed)"
proof -
  have s: "state_of_string (state_string StateManualIntervention) = StateManualIntervention"
    "state_of_string (state_string StateAwaitingHumanDecision) = StateAwaitingHumanDecision"
    "state_of_string (state_string StateReconcilingReviews) = StateReconcilingReviews"
    "state_of_string (state_string StatePROpen) = StatePROpen"
    by (simp_all only: state_roundtrip is_known.simps)
  show ?thesis
    unfolding offered_actions [OF assms] allowedOperatorAttentionActionsFor_def Let_def
    using s by (auto simp: retry_offered_def terminal_def event_types split: if_splits state.splits)
qed


section \<open>Upgrading stored events\<close>

text \<open>Reading a row of the previous schema never adds an action.\<close>

lemma upgrade_narrows:
  assumes "UpgradePreviousOperatorAttentionEvent json_previous json e = Inr e'"
    and "ae_AllowedActions e = Some old" and "ae_AllowedActions e' = Some new"
  shows "set new \<subseteq> set old"
proof -
  from assms(1) have v: "ValidatePreviousOperatorAttentionEvent json_previous e = None"
    and n: "newOperatorAttentionEvent json (input_of_event e) = Inr e'"
    by (auto simp: UpgradePreviousOperatorAttentionEvent_def split: option.splits)
  from v assms(2) have old: "old = previous_actions e"
    by (simp add: ValidatePreviousOperatorAttentionEvent_def Let_def split: if_splits)
  let ?t = "sanitizedOperatorAttentionEventType (ae_EventType e)"
  let ?s = "sanitizedOperatorAttentionState (AsText (ae_ControllerState e))"
  let ?r = "sanitizedOperatorAttentionReason ?t (ae_ReasonCode e)"
  have e': "ae_EventType e' = ?t" "ae_ControllerState e' = ?s" "ae_ReasonCode e' = ?r"
    using n by (auto simp: newOperatorAttentionEvent_def attention_event_of_def input_of_event_def Let_def split: if_splits)
  have t: "?t = ae_EventType e \<or> ?t = unknown_attention"
    by (simp add: sanitizedOperatorAttentionEventType_def)
  have s: "?s = ae_ControllerState e \<or> ?s = unknown_attention" by simp
  have r: "?r = ae_ReasonCode e \<or> ?r = unknown_attention"
    by (simp add: sanitizedOperatorAttentionReason_def)
  have u: "state_of_string unknown_attention = StateOther unknown_attention" by (rule unknown_state)
  have none: "allowedOperatorAttentionActionsFor unknown_attention st reason c = []"
    "allowedOperatorAttentionActionsFor ty unknown_attention reason c = []"
    "allowedOperatorAttentionActionsFor ty st unknown_attention c = []" for ty st reason c
    by (simp_all add: allowedOperatorAttentionActionsFor_def u)
      (auto simp: event_types isManualInterventionReason_def manual_reasons_def)
  have keep: "set (allowedOperatorAttentionActionsFor ty st reason c) \<subseteq>
      set (if ty = AttentionRetry \<and> reason \<noteq> unknown_attention \<and>
         knownOperatorAttentionState (state_of_string st) then [ActionRetry, ActionAbandon]
       else allowedOperatorAttentionActions ty st reason)" for ty st reason c
  proof (cases "ty = AttentionRetry \<and> reason \<noteq> unknown_attention \<and>
      knownOperatorAttentionState (state_of_string st)")
    case True
    then show ?thesis
      by (simp add: allowedOperatorAttentionActionsFor_def Let_def subset_iff
          del: knownOperatorAttentionState.simps GracefulAbandonState.simps)
  next
    case False
    then show ?thesis
      by (simp only: allowedOperatorAttentionActionsFor_def allowedOperatorAttentionActions_def False if_False subset_refl)
  qed
  have new: "new = allowedOperatorAttentionActionsFor ?t ?s ?r (ae_RetryFailureClass e')"
    using offered_actions [OF n assms(3)] unfolding e' .
  show ?thesis
  proof (cases "?t = unknown_attention \<or> ?s = unknown_attention \<or> ?r = unknown_attention")
    case True
    then have "new = []" unfolding new by (elim disjE) (simp_all only: none)
    then show ?thesis by simp
  next
    case False
    with t s r have "?t = ae_EventType e" "?s = ae_ControllerState e" "?r = ae_ReasonCode e" by blast+
    then show ?thesis unfolding new old previous_actions_def by (simp only: keep)
  qed
qed

definition sample_attention :: attention_input where
  "sample_attention =
     \<lparr>ai_ScopeID = ''run-1'', ai_RunID = ''run-1'', ai_EventType = AttentionRetry, ai_LinearIdentifier = ''ALC-7'',
      ai_Profile = \<lparr>ap_ID = ''repository-profile:o/r'', ap_Name = ''o/r''\<rparr>,
      ai_State = AsText ''executing'', ai_Severity = ''error'', ai_ReasonCode = ''retry_budget_exhausted'',
      ai_EvidenceDigest = replicate 64 (CHR ''b''), ai_RetryFailureClass = RetryFailureProcessStart,
      ai_TransitionSequence = 0, ai_OccurredAt = 5, ai_ObservedAt = 5\<rparr>"

lemma sample_attention_ok: "attention_input_ok sample_attention"
  by code_simp

lemma sample_attention_event: "\<exists>e. newOperatorAttentionEvent (\<lambda>_. []) sample_attention = Inr e \<and>
    ae_AllowedActions e = Some [ActionRetry, ActionAbandon]"
proof -
  have "ae_AllowedActions (attention_event_of sample_attention) = Some [ActionRetry, ActionAbandon]" by code_simp
  with sample_attention_ok show ?thesis by (simp add: newOperatorAttentionEvent_def Let_def)
qed

theorem attention_event_roundtrip_witness:
  "\<exists>e. newOperatorAttentionEvent (\<lambda>_. []) sample_attention = Inr e \<and>
     ValidateOperatorAttentionEvent (\<lambda>_. []) e = None"
proof -
  have "ParseInt (ai_EvidenceDigest sample_attention) = None" by code_simp
  moreover have "ai_TransitionSequence sample_attention < 2 ^ 63" by (simp add: sample_attention_def)
  ultimately show ?thesis using sample_attention_event attention_event_roundtrip by fastforce
qed

theorem attention_actions_guarded_witness:
  "\<exists>e actions. newOperatorAttentionEvent (\<lambda>_. []) sample_attention = Inr e \<and>
     ae_AllowedActions e = Some actions \<and> ActionRetry \<in> set actions \<and>
     operatorRetryableState (state_of_string (ae_ControllerState e))"
proof -
  obtain e where "newOperatorAttentionEvent (\<lambda>_. []) sample_attention = Inr e"
    "ae_AllowedActions e = Some [ActionRetry, ActionAbandon]" using sample_attention_event by blast
  with attention_actions_guarded [OF this] show ?thesis by auto
qed

end
