(* ===== verification/Github_Evidence.thy ===== *)
theory Github_Evidence
  imports Contracts "HOL-Library.AList" "HOL-Library.Multiset"
begin

text \<open>
  GitHub delivery evidence: \<open>internal/domain/delivery.go\<close> and the checks and approval parts of
  \<open>internal/domain/github_read.go\<close>. Go maps that are only looked up are association lists;
  the one map that is iterated (\<open>latest\<close> in \<open>NormalizeHumanApproval\<close>) is visited in an
  order that is an argument of the model, because Go leaves the order of map iteration open.
\<close>

section \<open>Pull requests, checks and findings (delivery.go)\<close>

datatype reconciliation_status =
    ReconciliationPending | ReconciliationPass | ReconciliationActionable
  | ReconciliationInfrastructure | ReconciliationTimeout

record pull_request =
  pr_Number :: int
  pr_DatabaseID :: int
  pr_URL :: string
  pr_NodeID :: string
  pr_HeadBranch :: string
  pr_BaseBranch :: string
  pr_HeadSHA :: string
  pr_BaseSHA :: string
  pr_BodyDigest :: string
  pr_OwnershipKey :: string
  pr_State :: string
  pr_Merged :: bool
  pr_MergeSHA :: string
  pr_MergedAt :: time

definition ValidateOwnership ::
  "pull_request \<Rightarrow> string \<Rightarrow> string \<Rightarrow> string \<Rightarrow> string \<Rightarrow> go_error option" where
  "ValidateOwnership p branch base head ownershipKey =
     (if pr_HeadBranch p \<noteq> branch \<or> pr_BaseBranch p \<noteq> base \<or> pr_HeadSHA p \<noteq> head
      then Some (New ''pull request head/base evidence does not match the run'')
      else if blank ownershipKey \<or> pr_OwnershipKey p \<noteq> ownershipKey
      then Some (New ''pull request lacks controller ownership evidence'')
      else if pr_Number p < 1 \<or> blank (pr_NodeID p) \<or> blank (pr_BodyDigest p) \<or> blank (pr_BaseSHA p)
      then Some (New ''pull request identity evidence is incomplete'')
      else None)"

record check =
  chk_ID :: string
  chk_Name :: string
  chk_Required :: bool
  chk_Status :: string
  chk_Conclusion :: string
  chk_ObservedSHA :: string

record external_finding =
  xf_SourceID :: string
  xf_ThreadID :: string
  xf_Source :: string
  xf_File :: string
  xf_Line :: int
  xf_Severity :: string
  xf_Body :: string
  xf_Resolved :: bool
  xf_Outdated :: bool

definition ExternalFinding_Validate :: "external_finding \<Rightarrow> go_error option" where
  "ExternalFinding_Validate f =
     (if blank (xf_SourceID f) \<or> blank (xf_Source f) \<or> blank (xf_Body f)
      then Some (New ''review finding identity, source, and body are required'')
      else if xf_Line f < 0 \<or> xf_Line f > 0 \<and> blank (xf_File f)
      then Some (New ''review finding line requires a file'')
      else None)"

record review_snapshot =
  snap_HeadSHA :: string
  snap_RequiredChecks :: "string list"
  snap_Checks :: "check list"
  snap_Findings :: "external_finding list"
  snap_ObservedAt :: time
  snap_UnknownEvents :: "string list"

text \<open>
  The check loop of \<open>Classify\<close>: \<open>observed\<close> holds the required names already marked.
  \<open>Inl\<close> is an early return.
\<close>

fun classify_checks ::
  "string \<Rightarrow> string list \<Rightarrow> string list \<Rightarrow> check list \<Rightarrow> reconciliation_status + string list" where
  "classify_checks head required observed [] = Inr observed"
| "classify_checks head required observed (c # cs) =
     (if \<not> chk_Required c then classify_checks head required observed cs
      else if chk_ObservedSHA c \<noteq> head then Inl ReconciliationInfrastructure
      else if chk_Name c \<notin> set required then classify_checks head required observed cs
      else if chk_Status c \<in> {''queued'', ''in_progress'', ''pending'', ''requested'', ''waiting''}
      then Inl ReconciliationPending
      else if chk_Conclusion c \<in> {''success'', ''neutral'', ''skipped''}
      then classify_checks head required (chk_Name c # observed) cs
      else if chk_Conclusion c \<in> {''failure'', ''action_required''}
      then Inl ReconciliationActionable
      else if chk_Conclusion c \<in> {''cancelled'', ''timed_out''}
      then Inl ReconciliationInfrastructure
      else Inl ReconciliationPending)"

definition Classify :: "review_snapshot \<Rightarrow> reconciliation_status" where
  "Classify s =
     (if blank (snap_HeadSHA s) \<or> snap_RequiredChecks s = [] then ReconciliationInfrastructure
      else if \<exists>name \<in> set (snap_RequiredChecks s). blank name then ReconciliationInfrastructure
      else case classify_checks (snap_HeadSHA s) (snap_RequiredChecks s) [] (snap_Checks s) of
        Inl r \<Rightarrow> r
      | Inr observed \<Rightarrow>
          (if \<exists>name \<in> set (snap_RequiredChecks s). name \<notin> set observed
           then ReconciliationInfrastructure
           else if \<exists>f \<in> set (snap_Findings s). \<not> xf_Resolved f \<and> \<not> xf_Outdated f
           then ReconciliationActionable
           else ReconciliationPass))"

section \<open>Actors and approvals\<close>

record repository_identity =
  repo_ID :: int
  repo_NodeID :: string
  repo_Owner :: string
  repo_Name :: string

record actor_identity =
  actor_DatabaseID :: int
  actor_NodeID :: string
  actor_Login :: string
  actor_Type :: string
  actor_AppID :: int

record human_approval =
  ha_PRNumber :: int
  ha_Approver :: string
  ha_Actor :: actor_identity
  ha_ReviewDatabaseID :: int
  ha_ReviewNodeID :: string
  ha_Source :: string
  ha_ApprovedSHA :: string
  ha_CIStatus :: string
  ha_ReviewSHA :: string
  ha_ApprovedAt :: time
  ha_ObservedAt :: time

definition Authorizes :: "human_approval \<Rightarrow> pull_request \<Rightarrow> string \<Rightarrow> go_error option" where
  "Authorizes a pr head =
     (if ha_Source a \<noteq> ''github_pull_request_review'' \<or> actor_Type (ha_Actor a) \<noteq> ''User'' \<or>
         actor_DatabaseID (ha_Actor a) < 1 \<or> blank (actor_NodeID (ha_Actor a)) \<or>
         blank (actor_Login (ha_Actor a)) \<or> ha_ReviewDatabaseID a < 1 \<or> blank (ha_ReviewNodeID a)
      then Some (New ''human approval lacks immutable trusted review identity'')
      else if \<not> equal_fold (ha_Approver a) (actor_Login (ha_Actor a)) \<or>
         ha_PRNumber a \<noteq> pr_Number pr \<or> ha_ApprovedSHA a \<noteq> head \<or> ha_ReviewSHA a \<noteq> head \<or>
         is_zero_time (ha_ApprovedAt a) \<or> is_zero_time (ha_ObservedAt a)
      then Some (New ''human approval is not bound to the exact PR head'')
      else if ha_CIStatus a \<noteq> ''pass''
      then Some (New ''human approval lacks passing automated evidence'')
      else None)"

text \<open>\<open>PRBody\<close>: the magic word is only produced for issues of the IFAN team.\<close>

fun join :: "string \<Rightarrow> string list \<Rightarrow> string" where
  "join sep [] = []"
| "join sep [x] = x"
| "join sep (x # y # zs) = x @ sep @ join sep (y # zs)"

abbreviation (input) nl :: string where "nl \<equiv> [CHR 0x0A]"

definition PRBody :: "coding_task \<Rightarrow> string \<Rightarrow> string \<Rightarrow> string \<Rightarrow> string result" where
  "PRBody task validation internalReview ownershipKey =
     (if \<not> prefix ''IFAN-'' (task_IssueID task)
      then Inl (Errorf ''issue %q cannot produce a Linear magic word'' [AStr (task_IssueID task)])
      else Inr (''## Summary'' @ nl @ nl @ task_Goal task @ nl @ nl @
                ''## Scope and rationale'' @ nl @ nl @ task_Description task @ nl @ nl @
                ''## Validation'' @ nl @ nl @ validation @ nl @ nl @
                ''## Fresh internal review'' @ nl @ nl @ internalReview @ nl @ nl @
                ''## Out of scope'' @ nl @ nl @ join (nl @ ''- '') (task_OutOfScope task) @ nl @ nl @
                ''Fixes '' @ task_IssueID task @ nl @ nl @
                ''<!-- controller-run:'' @ ownershipKey @ '' -->'' @ nl))"

section \<open>Reviews and their normalization (github\_read.go)\<close>

record github_review =
  gr_DatabaseID :: int
  gr_NodeID :: string
  gr_State :: string
  gr_Actor :: actor_identity
  gr_CommitSHA :: string
  gr_SourceAt :: time

datatype human_approval_status =
    HumanApprovalPending | HumanApprovalApproved | HumanApprovalDismissed
  | HumanApprovalChangesRequested | HumanApprovalStaleHead | HumanApprovalUntrustedActor
  | HumanApprovalAmbiguous

record approval_observation =
  obs_PRNumber :: int
  obs_CandidateHead :: string
  obs_Status :: human_approval_status
  obs_ReviewDatabaseID :: int
  obs_ReviewNodeID :: string
  obs_Actor :: actor_identity
  obs_ReviewHeadSHA :: string
  obs_SourceAt :: time
  obs_ObservedAt :: time

definition zero_actor :: actor_identity where
  "zero_actor = \<lparr>actor_DatabaseID = 0, actor_NodeID = [], actor_Login = [], actor_Type = [],
     actor_AppID = 0\<rparr>"

fun index_trusted ::
  "(string \<times> actor_identity) list \<Rightarrow> actor_identity list \<Rightarrow> (string \<times> actor_identity) list result" where
  "index_trusted m [] = Inr m"
| "index_trusted m (a # as) =
     (if actor_DatabaseID a < 1 \<or> blank (actor_NodeID a) \<or> blank (actor_Login a) \<or>
         actor_Type a \<noteq> ''User''
      then Inl (New ''trusted human actor identity is incomplete'')
      else if map_of m (to_lower (actor_Login a)) \<noteq> None
      then Inl (New ''trusted human actor identity is ambiguous'')
      else index_trusted ((to_lower (actor_Login a), a) # m) as)"

record approval_scan =
  scan_untrusted :: "github_review option"
  scan_ambiguous :: "github_review option"
  scan_latest :: "(string \<times> github_review) list"

definition foreign_identity :: "actor_identity \<Rightarrow> github_review \<Rightarrow> bool" where
  "foreign_identity configured review \<longleftrightarrow>
     actor_Type (gr_Actor review) \<noteq> ''User'' \<or>
     actor_DatabaseID (gr_Actor review) \<noteq> actor_DatabaseID configured \<or>
     actor_NodeID (gr_Actor review) \<noteq> actor_NodeID configured \<or>
     \<not> equal_fold (actor_Login (gr_Actor review)) (actor_Login configured)"

definition review_incomplete :: "github_review \<Rightarrow> bool" where
  "review_incomplete review \<longleftrightarrow>
     gr_DatabaseID review < 1 \<or> blank (gr_NodeID review) \<or> is_zero_time (gr_SourceAt review)"

definition scan_review ::
  "(string \<times> actor_identity) list \<Rightarrow> approval_scan \<Rightarrow> github_review \<Rightarrow> approval_scan" where
  "scan_review trusted sc review =
     (case map_of trusted (to_lower (actor_Login (gr_Actor review))) of
        None \<Rightarrow> sc
      | Some configured \<Rightarrow>
          (if foreign_identity configured review then sc\<lparr>scan_untrusted := Some review\<rparr>
           else if review_incomplete review then sc\<lparr>scan_ambiguous := Some review\<rparr>
           else (let key = actor_NodeID (gr_Actor review) in
             case map_of (scan_latest sc) key of
               Some previous \<Rightarrow>
                 (if gr_SourceAt review = gr_SourceAt previous then sc\<lparr>scan_ambiguous := Some review\<rparr>
                  else if gr_SourceAt review < gr_SourceAt previous then sc
                  else sc\<lparr>scan_latest := AList.update key review (scan_latest sc)\<rparr>)
             | None \<Rightarrow> sc\<lparr>scan_latest := AList.update key review (scan_latest sc)\<rparr>)))"

definition empty_scan :: approval_scan where
  "empty_scan = \<lparr>scan_untrusted = None, scan_ambiguous = None, scan_latest = []\<rparr>"

record approval_choice =
  ch_approval :: "github_review option"
  ch_stale :: "github_review option"
  ch_dismissal :: "github_review option"
  ch_changes :: "github_review option"
  ch_ambiguous :: "github_review option"

definition choose_review :: "string \<Rightarrow> approval_choice \<Rightarrow> github_review \<Rightarrow> approval_choice" where
  "choose_review head c review =
     (if gr_State review = ''APPROVED''
      then (if gr_CommitSHA review = head
            then (if ch_approval c \<noteq> None then c\<lparr>ch_ambiguous := Some review\<rparr>
                  else c\<lparr>ch_approval := Some review\<rparr>)
            else c\<lparr>ch_stale := Some review\<rparr>)
      else if gr_State review = ''DISMISSED'' then c\<lparr>ch_dismissal := Some review\<rparr>
      else if gr_State review = ''CHANGES_REQUESTED'' then c\<lparr>ch_changes := Some review\<rparr>
      else c\<lparr>ch_ambiguous := Some review\<rparr>)"

definition base_observation :: "pull_request \<Rightarrow> time \<Rightarrow> approval_observation" where
  "base_observation pr observedAt =
     \<lparr>obs_PRNumber = pr_Number pr, obs_CandidateHead = pr_HeadSHA pr,
      obs_Status = HumanApprovalPending, obs_ReviewDatabaseID = 0, obs_ReviewNodeID = [],
      obs_Actor = zero_actor, obs_ReviewHeadSHA = [], obs_SourceAt = 0, obs_ObservedAt = observedAt\<rparr>"

definition selected ::
  "approval_observation \<Rightarrow> human_approval_status \<Rightarrow> github_review \<Rightarrow> approval_observation" where
  "selected base status review =
     base\<lparr>obs_Status := status, obs_ReviewDatabaseID := gr_DatabaseID review,
       obs_ReviewNodeID := gr_NodeID review, obs_Actor := gr_Actor review,
       obs_ReviewHeadSHA := gr_CommitSHA review, obs_SourceAt := gr_SourceAt review\<rparr>"

definition approval_of :: "pull_request \<Rightarrow> github_review \<Rightarrow> time \<Rightarrow> human_approval" where
  "approval_of pr a observedAt =
     \<lparr>ha_PRNumber = pr_Number pr, ha_Approver = actor_Login (gr_Actor a), ha_Actor = gr_Actor a,
      ha_ReviewDatabaseID = gr_DatabaseID a, ha_ReviewNodeID = gr_NodeID a,
      ha_Source = ''github_pull_request_review'', ha_ApprovedSHA = pr_HeadSHA pr,
      ha_CIStatus = ''pass'', ha_ReviewSHA = pr_HeadSHA pr, ha_ApprovedAt = gr_SourceAt a,
      ha_ObservedAt = observedAt\<rparr>"

definition decide_approval ::
  "pull_request \<Rightarrow> time \<Rightarrow> github_review option \<Rightarrow> approval_choice \<Rightarrow>
     approval_observation \<times> human_approval option" where
  "decide_approval pr observedAt untrusted c =
     (let base = base_observation pr observedAt in
      case ch_changes c of Some r \<Rightarrow> (selected base HumanApprovalChangesRequested r, None)
      | None \<Rightarrow> (case ch_dismissal c of Some r \<Rightarrow> (selected base HumanApprovalDismissed r, None)
      | None \<Rightarrow> (case ch_ambiguous c of Some r \<Rightarrow> (selected base HumanApprovalAmbiguous r, None)
      | None \<Rightarrow> (case untrusted of Some r \<Rightarrow> (selected base HumanApprovalUntrustedActor r, None)
      | None \<Rightarrow> (case ch_approval c of
          Some r \<Rightarrow> (selected base HumanApprovalApproved r, Some (approval_of pr r observedAt))
      | None \<Rightarrow> (case ch_stale c of Some r \<Rightarrow> (selected base HumanApprovalStaleHead r, None)
      | None \<Rightarrow> (base, None)))))))"

text \<open>\<open>ord\<close> is the order in which the runtime iterates over the map \<open>latest\<close>.\<close>

definition NormalizeHumanApproval ::
  "(github_review list \<Rightarrow> github_review list) \<Rightarrow> pull_request \<Rightarrow> github_review list \<Rightarrow>
     actor_identity list \<Rightarrow> time \<Rightarrow> (approval_observation \<times> human_approval option) result" where
  "NormalizeHumanApproval ord pr reviews trusted observedAt =
     (if pr_Number pr < 1 \<or> blank (pr_HeadSHA pr) \<or> is_zero_time observedAt
      then Inl (New ''pull request and observation timestamp are required'')
      else case index_trusted [] trusted of
        Inl e \<Rightarrow> Inl e
      | Inr byLogin \<Rightarrow>
          (if byLogin = [] then Inl (New ''trusted human actor identity is required'')
           else (let sc = foldl (scan_review byLogin) empty_scan reviews;
                     c0 = \<lparr>ch_approval = None, ch_stale = None, ch_dismissal = None,
                           ch_changes = None, ch_ambiguous = scan_ambiguous sc\<rparr>;
                     c = foldl (choose_review (pr_HeadSHA pr)) c0 (ord (map snd (scan_latest sc)))
                 in Inr (decide_approval pr observedAt (scan_untrusted sc) c))))"

section \<open>Required checks (github\_read.go)\<close>

datatype check_state =
    CheckQueued | CheckInProgress | CheckPending | CheckRequested | CheckWaiting | CheckSuccess
  | CheckNeutral | CheckSkipped | CheckFailure | CheckActionRequired | CheckCancelled
  | CheckTimedOut | CheckStale | CheckUnknown | CheckOther string

record github_check =
  ghc_ID :: string
  ghc_Name :: string
  ghc_Required :: bool
  ghc_Source :: string
  ghc_AppID :: int
  ghc_State :: check_state
  ghc_ObservedSHA :: string
  ghc_SourceAt :: time
  ghc_ObservedAt :: time

record check_tally =
  tly_required :: int
  tly_pending :: bool
  tly_actionable :: bool
  tly_incomplete :: bool

definition tally_check :: "string \<Rightarrow> check_tally \<Rightarrow> github_check \<Rightarrow> check_tally" where
  "tally_check head t c =
     (if \<not> ghc_Required c then t
      else (let t = t\<lparr>tly_required := tly_required t + 1\<rparr> in
        if ghc_ObservedSHA c \<noteq> head then t\<lparr>tly_incomplete := True\<rparr>
        else (case ghc_State c of
          CheckSuccess \<Rightarrow> t | CheckNeutral \<Rightarrow> t | CheckSkipped \<Rightarrow> t
        | CheckQueued \<Rightarrow> t\<lparr>tly_pending := True\<rparr> | CheckInProgress \<Rightarrow> t\<lparr>tly_pending := True\<rparr>
        | CheckPending \<Rightarrow> t\<lparr>tly_pending := True\<rparr> | CheckRequested \<Rightarrow> t\<lparr>tly_pending := True\<rparr>
        | CheckWaiting \<Rightarrow> t\<lparr>tly_pending := True\<rparr>
        | CheckFailure \<Rightarrow> t\<lparr>tly_actionable := True\<rparr>
        | CheckActionRequired \<Rightarrow> t\<lparr>tly_actionable := True\<rparr>
        | CheckCancelled \<Rightarrow> t\<lparr>tly_actionable := True\<rparr>
        | CheckTimedOut \<Rightarrow> t\<lparr>tly_actionable := True\<rparr>
        | _ \<Rightarrow> t\<lparr>tly_incomplete := True\<rparr>)))"

definition tally_event :: "check_tally \<Rightarrow> string \<Rightarrow> check_tally" where
  "tally_event t event =
     (if prefix ''missing_required_check:'' event then t\<lparr>tly_pending := True\<rparr>
      else t\<lparr>tly_incomplete := True\<rparr>)"

record github_evidence =
  ev_Repository :: repository_identity
  ev_PullRequest :: pull_request
  ev_Checks :: "github_check list"
  ev_Reviews :: "github_review list"
  ev_UnknownEvents :: "string list"
  ev_ObservedAt :: time

definition check_tally_of :: "github_evidence \<Rightarrow> check_tally" where
  "check_tally_of e =
     foldl tally_event
       (foldl (tally_check (pr_HeadSHA (ev_PullRequest e)))
          \<lparr>tly_required = 0, tly_pending = False, tly_actionable = False, tly_incomplete = False\<rparr>
          (ev_Checks e))
       (ev_UnknownEvents e)"

definition RequiredChecksStatus :: "github_evidence \<Rightarrow> reconciliation_status" where
  "RequiredChecksStatus e =
     (let t = check_tally_of e in
      if tly_incomplete t \<or> tly_required t = 0 \<and> \<not> tly_pending t then ReconciliationInfrastructure
      else if tly_actionable t then ReconciliationActionable
      else if tly_pending t then ReconciliationPending
      else ReconciliationPass)"

definition RequiredChecksWaiting :: "github_evidence \<Rightarrow> bool" where
  "RequiredChecksWaiting e \<longleftrightarrow> RequiredChecksStatus e = ReconciliationPending"

definition DeliveryStatus :: "github_evidence \<Rightarrow> reconciliation_status" where
  "DeliveryStatus e =
     (if \<not> equal_fold (pr_State (ev_PullRequest e)) ''open'' \<or> pr_Merged (ev_PullRequest e)
      then ReconciliationInfrastructure
      else if RequiredChecksStatus e \<noteq> ReconciliationPass then RequiredChecksStatus e
      else if ev_UnknownEvents e \<noteq> [] then ReconciliationInfrastructure
      else ReconciliationPass)"


section \<open>Reference definitions\<close>

text \<open>What a required check contributes, told apart from the loop that accumulates it.\<close>

definition passing_states :: "check_state set" where
  "passing_states = {CheckSuccess, CheckNeutral, CheckSkipped}"

definition waiting_states :: "check_state set" where
  "waiting_states = {CheckQueued, CheckInProgress, CheckPending, CheckRequested, CheckWaiting}"

definition failing_states :: "check_state set" where
  "failing_states = {CheckFailure, CheckActionRequired, CheckCancelled, CheckTimedOut}"

lemmas state_class_defs = passing_states_def waiting_states_def failing_states_def

definition required_at :: "string \<Rightarrow> github_check \<Rightarrow> check_state set \<Rightarrow> bool" where
  "required_at head c S \<longleftrightarrow> ghc_Required c \<and> ghc_ObservedSHA c = head \<and> ghc_State c \<in> S"

definition required_broken :: "string \<Rightarrow> github_check \<Rightarrow> bool" where
  "required_broken head c \<longleftrightarrow> ghc_Required c \<and>
     (ghc_ObservedSHA c \<noteq> head \<or> ghc_State c \<notin> passing_states \<union> waiting_states \<union> failing_states)"

definition missing_event :: "string \<Rightarrow> bool" where
  "missing_event event \<longleftrightarrow> prefix ''missing_required_check:'' event"

lemma tally_check_eq:
  "tally_check head t c =
     \<lparr>tly_required = tly_required t + (if ghc_Required c then 1 else 0),
      tly_pending = (tly_pending t \<or> required_at head c waiting_states),
      tly_actionable = (tly_actionable t \<or> required_at head c failing_states),
      tly_incomplete = (tly_incomplete t \<or> required_broken head c)\<rparr>"
  by (cases t; cases "ghc_State c")
    (auto simp: tally_check_def required_at_def required_broken_def state_class_defs Let_def)

lemma tally_event_eq:
  "tally_event t ev =
     t\<lparr>tly_pending := tly_pending t \<or> missing_event ev,
       tly_incomplete := tly_incomplete t \<or> \<not> missing_event ev\<rparr>"
  by (cases t) (auto simp: tally_event_def missing_event_def)

lemma foldl_tally_check:
  "foldl (tally_check head) t cs =
     \<lparr>tly_required = tly_required t + int (length (filter ghc_Required cs)),
      tly_pending = (tly_pending t \<or> (\<exists>c \<in> set cs. required_at head c waiting_states)),
      tly_actionable = (tly_actionable t \<or> (\<exists>c \<in> set cs. required_at head c failing_states)),
      tly_incomplete = (tly_incomplete t \<or> (\<exists>c \<in> set cs. required_broken head c))\<rparr>"
  by (induction cs arbitrary: t) (auto simp: tally_check_eq)

lemma foldl_tally_event:
  "foldl tally_event t evs =
     t\<lparr>tly_pending := tly_pending t \<or> (\<exists>ev \<in> set evs. missing_event ev),
       tly_incomplete := tly_incomplete t \<or> (\<exists>ev \<in> set evs. \<not> missing_event ev)\<rparr>"
  by (induction evs arbitrary: t) (auto simp: tally_event_eq)

lemmas check_tally_simps = check_tally_of_def foldl_tally_check foldl_tally_event

lemma filter_Required_empty: "filter ghc_Required cs = [] \<longleftrightarrow> (\<forall>c \<in> set cs. \<not> ghc_Required c)"
  by (simp add: filter_empty_conv)

lemma passing_cases:
  "ghc_Required c \<Longrightarrow> \<not> required_broken head c \<Longrightarrow> \<not> required_at head c failing_states \<Longrightarrow>
     \<not> required_at head c waiting_states \<Longrightarrow> ghc_ObservedSHA c = head \<and> ghc_State c \<in> passing_states"
  by (auto simp: required_broken_def required_at_def)

lemma passing_exclusive:
  "ghc_ObservedSHA c = head \<Longrightarrow> ghc_State c \<in> passing_states \<Longrightarrow>
     \<not> required_broken head c \<and> \<not> required_at head c failing_states \<and> \<not> required_at head c waiting_states"
  by (auto simp: required_broken_def required_at_def state_class_defs)

section \<open>Properties of the required checks\<close>

text \<open>The required checks of a pull request pass exactly when there is a required check, every
  required check was observed at the pull request's head in a successful, neutral or skipped
  state, and no unknown event was reported, a missing required check being such an event.\<close>

theorem required_checks_pass_iff:
  "RequiredChecksStatus e = ReconciliationPass \<longleftrightarrow>
     ev_UnknownEvents e = [] \<and> (\<exists>c \<in> set (ev_Checks e). ghc_Required c) \<and>
     (\<forall>c \<in> set (ev_Checks e). ghc_Required c \<longrightarrow>
        ghc_ObservedSHA c = pr_HeadSHA (ev_PullRequest e) \<and>
        ghc_State c \<in> {CheckSuccess, CheckNeutral, CheckSkipped})"
proof -
  let ?h = "pr_HeadSHA (ev_PullRequest e)"
  have "RequiredChecksStatus e = ReconciliationPass \<longleftrightarrow>
     ev_UnknownEvents e = [] \<and> (\<exists>c \<in> set (ev_Checks e). ghc_Required c) \<and>
     (\<forall>c \<in> set (ev_Checks e). \<not> required_broken ?h c \<and> \<not> required_at ?h c failing_states \<and>
        \<not> required_at ?h c waiting_states)"
    by (cases "ev_UnknownEvents e")
      (auto simp: RequiredChecksStatus_def check_tally_simps tally_event_eq filter_Required_empty Let_def)
  also have "\<dots> \<longleftrightarrow> ev_UnknownEvents e = [] \<and> (\<exists>c \<in> set (ev_Checks e). ghc_Required c) \<and>
     (\<forall>c \<in> set (ev_Checks e). ghc_Required c \<longrightarrow>
        ghc_ObservedSHA c = ?h \<and> ghc_State c \<in> passing_states)"
    using passing_cases passing_exclusive by (auto simp: required_broken_def required_at_def)
  finally show ?thesis by (simp add: passing_states_def)
qed

text \<open>The verdict on the required checks does not depend on the order in which GitHub lists
  checks and events.\<close>

theorem required_checks_order_independent:
  assumes "mset (ev_Checks e) = mset cs" and "mset (ev_UnknownEvents e) = mset evs"
  shows "RequiredChecksStatus (e\<lparr>ev_Checks := cs, ev_UnknownEvents := evs\<rparr>) = RequiredChecksStatus e"
proof -
  from assms have "set (ev_Checks e) = set cs" "set (ev_UnknownEvents e) = set evs"
    by (auto dest: mset_eq_setD)
  moreover from assms(1) have "length (filter ghc_Required (ev_Checks e)) = length (filter ghc_Required cs)"
    by (metis mset_filter size_mset)
  ultimately show ?thesis
    by (simp add: RequiredChecksStatus_def check_tally_simps)
qed


text \<open>Witness data.\<close>

definition sample_pr :: pull_request where
  "sample_pr =
     \<lparr>pr_Number = 7, pr_DatabaseID = 70, pr_URL = [], pr_NodeID = ''PR_7'',
      pr_HeadBranch = ''agent/x'', pr_BaseBranch = ''main'', pr_HeadSHA = ''abc'',
      pr_BaseSHA = ''base'', pr_BodyDigest = ''d'', pr_OwnershipKey = ''k'', pr_State = ''open'',
      pr_Merged = False, pr_MergeSHA = [], pr_MergedAt = 0\<rparr>"

definition sample_ghc :: "string \<Rightarrow> check_state \<Rightarrow> github_check" where
  "sample_ghc name st =
     \<lparr>ghc_ID = name, ghc_Name = name, ghc_Required = True, ghc_Source = ''check_run'',
      ghc_AppID = 1, ghc_State = st, ghc_ObservedSHA = ''abc'', ghc_SourceAt = 1,
      ghc_ObservedAt = 2\<rparr>"

definition sample_evidence :: github_evidence where
  "sample_evidence =
     \<lparr>ev_Repository = \<lparr>repo_ID = 1, repo_NodeID = ''R'', repo_Owner = ''o'', repo_Name = ''n''\<rparr>,
      ev_PullRequest = sample_pr,
      ev_Checks = [sample_ghc ''build'' CheckSuccess, sample_ghc ''test'' CheckFailure],
      ev_Reviews = [], ev_UnknownEvents = [], ev_ObservedAt = 5\<rparr>"

theorem required_checks_order_independent_witness:
  "RequiredChecksStatus
     (sample_evidence\<lparr>ev_Checks := [sample_ghc ''test'' CheckFailure, sample_ghc ''build'' CheckSuccess],
        ev_UnknownEvents := []\<rparr>) = ReconciliationActionable"
proof -
  have "RequiredChecksStatus sample_evidence = ReconciliationActionable" by code_simp
  with required_checks_order_independent [of sample_evidence
      "[sample_ghc ''test'' CheckFailure, sample_ghc ''build'' CheckSuccess]" "[]"]
  show ?thesis by (simp add: sample_evidence_def add_mset_commute)
qed

theorem required_checks_pass_iff_witness:
  "RequiredChecksStatus (sample_evidence\<lparr>ev_Checks := [sample_ghc ''build'' CheckSuccess]\<rparr>)
     = ReconciliationPass"
  using required_checks_pass_iff [of "sample_evidence\<lparr>ev_Checks := [sample_ghc ''build'' CheckSuccess]\<rparr>"]
  by (simp add: sample_evidence_def sample_ghc_def sample_pr_def)

text \<open>Delivery passes only for an open, unmerged pull request whose required checks pass, and a
  pull request that is no longer open never reports pending or actionable work.\<close>

theorem delivery_pass_iff:
  "(DeliveryStatus e = ReconciliationPass \<longleftrightarrow>
      equal_fold (pr_State (ev_PullRequest e)) ''open'' \<and> \<not> pr_Merged (ev_PullRequest e) \<and>
      RequiredChecksStatus e = ReconciliationPass) \<and>
   (DeliveryStatus e \<in> {ReconciliationPending, ReconciliationActionable} \<longrightarrow>
      equal_fold (pr_State (ev_PullRequest e)) ''open'' \<and> \<not> pr_Merged (ev_PullRequest e))"
proof -
  have "RequiredChecksStatus e = ReconciliationPass \<Longrightarrow> ev_UnknownEvents e = []"
    by (cases "ev_UnknownEvents e")
      (auto simp: RequiredChecksStatus_def check_tally_simps tally_event_eq Let_def split: if_splits)
  then show ?thesis by (auto simp: DeliveryStatus_def split: if_splits)
qed

theorem delivery_pass_iff_witness:
  "DeliveryStatus (sample_evidence\<lparr>ev_PullRequest := sample_pr\<lparr>pr_Merged := True\<rparr>\<rparr>)
     \<notin> {ReconciliationPending, ReconciliationActionable}"
  using delivery_pass_iff [of "sample_evidence\<lparr>ev_PullRequest := sample_pr\<lparr>pr_Merged := True\<rparr>\<rparr>"]
  by auto

section \<open>Reconciliation of a review snapshot\<close>

lemma classify_checks_Inr:
  "classify_checks head req obs cs = Inr obs' \<longleftrightarrow>
     (\<forall>c \<in> set cs. chk_Required c \<longrightarrow> chk_ObservedSHA c = head) \<and>
     (\<forall>c \<in> set cs. chk_Required c \<and> chk_Name c \<in> set req \<longrightarrow>
        chk_Status c \<notin> {''queued'', ''in_progress'', ''pending'', ''requested'', ''waiting''} \<and>
        chk_Conclusion c \<in> {''success'', ''neutral'', ''skipped''}) \<and>
     obs' = rev (map chk_Name (filter (\<lambda>c. chk_Required c \<and> chk_Name c \<in> set req) cs)) @ obs"
  by (induction cs arbitrary: obs) (auto simp del: insert_iff split: if_splits)

definition checks_settled :: "string \<Rightarrow> string list \<Rightarrow> check list \<Rightarrow> bool" where
  "checks_settled head req cs \<longleftrightarrow>
     (\<forall>c \<in> set cs. chk_Required c \<longrightarrow> chk_ObservedSHA c = head) \<and>
     (\<forall>c \<in> set cs. chk_Required c \<and> chk_Name c \<in> set req \<longrightarrow>
        chk_Status c \<notin> {''queued'', ''in_progress'', ''pending'', ''requested'', ''waiting''} \<and>
        chk_Conclusion c \<in> {''success'', ''neutral'', ''skipped''})"

lemma classify_checks_settled:
  "checks_settled head req cs \<Longrightarrow> \<exists>obs'. classify_checks head req obs cs = Inr obs'"
  unfolding checks_settled_def by (subst classify_checks_Inr) (simp del: insert_iff)

lemma classify_checks_not_Pass: "classify_checks head req obs cs \<noteq> Inl ReconciliationPass"
  by (induction cs arbitrary: obs) auto

text \<open>A review snapshot is classified as passing exactly when every named check is reported as
  required, finished and successful at the snapshot's head, no required check was observed at
  another head, and every finding is resolved or outdated.\<close>

theorem classify_pass_iff:
  "Classify s = ReconciliationPass \<longleftrightarrow>
     \<not> blank (snap_HeadSHA s) \<and> snap_RequiredChecks s \<noteq> [] \<and>
     (\<forall>n \<in> set (snap_RequiredChecks s). \<not> blank n) \<and>
     (\<forall>c \<in> set (snap_Checks s). chk_Required c \<longrightarrow> chk_ObservedSHA c = snap_HeadSHA s) \<and>
     (\<forall>c \<in> set (snap_Checks s). chk_Required c \<and> chk_Name c \<in> set (snap_RequiredChecks s) \<longrightarrow>
        chk_Status c \<notin> {''queued'', ''in_progress'', ''pending'', ''requested'', ''waiting''} \<and>
        chk_Conclusion c \<in> {''success'', ''neutral'', ''skipped''}) \<and>
     (\<forall>n \<in> set (snap_RequiredChecks s). \<exists>c \<in> set (snap_Checks s). chk_Required c \<and> chk_Name c = n) \<and>
     (\<forall>f \<in> set (snap_Findings s). xf_Resolved f \<or> xf_Outdated f)"
  (is "?lhs \<longleftrightarrow> ?guards \<and> ?rest")
proof (cases "classify_checks (snap_HeadSHA s) (snap_RequiredChecks s) [] (snap_Checks s)")
  case (Inl r)
  then have "r \<noteq> ReconciliationPass" by (metis classify_checks_not_Pass)
  with Inl have "Classify s \<noteq> ReconciliationPass" by (simp add: Classify_def)
  moreover have "\<not> checks_settled (snap_HeadSHA s) (snap_RequiredChecks s) (snap_Checks s)"
    using Inl classify_checks_settled [of "snap_HeadSHA s" "snap_RequiredChecks s" "snap_Checks s" "[]"]
    by auto
  ultimately show ?thesis unfolding checks_settled_def by blast
next
  case (Inr obs)
  then have o: "set obs = chk_Name ` {c \<in> set (snap_Checks s). chk_Required c \<and>
      chk_Name c \<in> set (snap_RequiredChecks s)}"
    by (auto simp: classify_checks_Inr)
  from Inr have "Classify s = ReconciliationPass \<longleftrightarrow>
      \<not> blank (snap_HeadSHA s) \<and> snap_RequiredChecks s \<noteq> [] \<and>
      (\<forall>n \<in> set (snap_RequiredChecks s). \<not> blank n) \<and>
      (\<forall>n \<in> set (snap_RequiredChecks s). n \<in> set obs) \<and>
      (\<forall>f \<in> set (snap_Findings s). xf_Resolved f \<or> xf_Outdated f)"
    by (auto simp: Classify_def)
  moreover have "checks_settled (snap_HeadSHA s) (snap_RequiredChecks s) (snap_Checks s)"
    using Inr by (simp add: classify_checks_Inr checks_settled_def del: insert_iff)
  moreover have "(\<forall>n \<in> set (snap_RequiredChecks s). n \<in> set obs) \<longleftrightarrow>
      (\<forall>n \<in> set (snap_RequiredChecks s). \<exists>c \<in> set (snap_Checks s). chk_Required c \<and> chk_Name c = n)"
    unfolding o by (auto simp: image_iff)
  ultimately show ?thesis unfolding checks_settled_def by blast
qed

definition sample_snapshot :: review_snapshot where
  "sample_snapshot =
     \<lparr>snap_HeadSHA = ''abc'', snap_RequiredChecks = [''build''],
      snap_Checks = [\<lparr>chk_ID = ''1'', chk_Name = ''build'', chk_Required = True,
        chk_Status = ''completed'', chk_Conclusion = ''success'', chk_ObservedSHA = ''abc''\<rparr>],
      snap_Findings = [], snap_ObservedAt = 1, snap_UnknownEvents = []\<rparr>"

theorem classify_pass_iff_witness: "Classify sample_snapshot = ReconciliationPass"
  using classify_pass_iff [of sample_snapshot]
  by (simp add: sample_snapshot_def blank_graphic graphic_def byte_def)

section \<open>Trusted actors\<close>

lemma index_trusted_Inr:
  "index_trusted m as = Inr m' \<Longrightarrow>
     (\<forall>a \<in> set as. 1 \<le> actor_DatabaseID a \<and> \<not> blank (actor_NodeID a) \<and> \<not> blank (actor_Login a) \<and>
        actor_Type a = ''User'') \<and>
     m' = rev (map (\<lambda>a. (to_lower (actor_Login a), a)) as) @ m"
  by (induction as arbitrary: m) (auto split: if_splits)

lemma index_trusted_lookup:
  assumes "index_trusted [] as = Inr m" and "map_of m l = Some a"
  shows "a \<in> set as \<and> to_lower (actor_Login a) = l \<and> 1 \<le> actor_DatabaseID a \<and>
    \<not> blank (actor_NodeID a) \<and> \<not> blank (actor_Login a) \<and> actor_Type a = ''User''"
proof -
  note m = index_trusted_Inr [OF assms(1)]
  from assms(2) have "(l, a) \<in> set m" by (rule map_of_SomeD)
  with m show ?thesis by auto
qed

lemma prefix_to_lower:
  "\<forall>c \<in> set w. \<not> is_lower c \<and> \<not> is_upper c \<Longrightarrow> prefix w (to_lower s) \<longleftrightarrow> prefix w s"
proof (induction w arbitrary: s)
  case Nil
  then show ?case by simp
next
  case (Cons c w)
  have fix_c: "c = lower_char x \<longleftrightarrow> c = x" for x
  proof (cases "is_upper x")
    case True
    then have "is_lower (lower_char x)"
      using byte_lower_char [of x] by (auto simp: is_lower_def is_upper_def in_range_def byte_def)
    with True Cons.prems show ?thesis by auto
  next
    case False
    then show ?thesis by (auto simp: lower_char_def)
  qed
  show ?case
  proof (cases s)
    case Nil
    then show ?thesis by (simp add: to_lower_def)
  next
    case (Cons x xs)
    with Cons.IH [of xs] Cons.prems fix_c show ?thesis by (simp add: to_lower_def)
  qed
qed

lemma strip_to_lower:
  assumes "\<forall>w \<in> set ws. \<forall>c \<in> set w. \<not> is_lower c \<and> \<not> is_upper c"
  shows "strip ws (to_lower s) = to_lower (strip ws s)"
proof (induction "length s" arbitrary: s rule: less_induct)
  case less
  have r: "rune_at ws (to_lower s) = rune_at ws s"
    using assms by (induction ws) (auto simp: prefix_to_lower)
  show ?case
  proof (cases "rune_at ws s = 0")
    case True
    with r show ?thesis by (simp add: strip.simps [of ws s] strip.simps [of ws "to_lower s"])
  next
    case False
    with rune_at_le [of ws s] have "length (drop (rune_at ws s) s) < length s" by simp
    from less.hyps [OF this] False r show ?thesis
      by (simp add: strip.simps [of ws s] strip.simps [of ws "to_lower s"])
        (simp add: to_lower_def drop_map)
  qed
qed

lemma space_runes_no_letters: "\<forall>w \<in> set space_runes. \<forall>c \<in> set w. \<not> is_lower c \<and> \<not> is_upper c"
  by (simp add: space_runes_def char_class_defs)

lemma blank_to_lower [simp]: "blank (to_lower s) = blank s"
proof -
  have "trim_left (to_lower s) = to_lower (trim_left s)"
    by (simp add: trim_left_def strip_to_lower space_runes_no_letters)
  moreover have "trim_right (to_lower t) = to_lower (trim_right t)" for t
    using strip_to_lower [of "map rev space_runes" "rev t"] space_runes_no_letters
    by (simp add: trim_right_def to_lower_def rev_map)
  ultimately show ?thesis by (simp add: blank_def trim_space_def)
qed

lemma blank_equal_fold: "equal_fold a b \<Longrightarrow> blank a = blank b"
  by (metis blank_to_lower equal_fold_def)

section \<open>The newest review of every trusted actor\<close>

definition claims_trusted :: "(string \<times> actor_identity) list \<Rightarrow> github_review \<Rightarrow> bool" where
  "claims_trusted byLogin r \<longleftrightarrow> map_of byLogin (to_lower (actor_Login (gr_Actor r))) \<noteq> None"

definition genuine :: "(string \<times> actor_identity) list \<Rightarrow> github_review \<Rightarrow> bool" where
  "genuine byLogin r \<longleftrightarrow>
     (\<exists>a. map_of byLogin (to_lower (actor_Login (gr_Actor r))) = Some a \<and>
        \<not> foreign_identity a r \<and> \<not> review_incomplete r)"

definition superseded_by :: "github_review \<Rightarrow> github_review \<Rightarrow> bool" where
  "superseded_by r l \<longleftrightarrow> actor_NodeID (gr_Actor l) = actor_NodeID (gr_Actor r) \<and>
     (r = l \<or> gr_SourceAt r < gr_SourceAt l)"

definition scan_inv ::
  "(string \<times> actor_identity) list \<Rightarrow> github_review list \<Rightarrow> approval_scan \<Rightarrow> bool" where
  "scan_inv byLogin seen sc \<longleftrightarrow>
     distinct (map fst (scan_latest sc)) \<and>
     (\<forall>k l. map_of (scan_latest sc) k = Some l \<longrightarrow>
        l \<in> set seen \<and> genuine byLogin l \<and> k = actor_NodeID (gr_Actor l)) \<and>
     (scan_untrusted sc = None \<and> scan_ambiguous sc = None \<longrightarrow>
        (\<forall>r \<in> set seen. claims_trusted byLogin r \<longrightarrow>
           genuine byLogin r \<and>
           (\<exists>l. map_of (scan_latest sc) (actor_NodeID (gr_Actor r)) = Some l \<and> superseded_by r l)))"

lemma scan_inv_skip:
  "scan_inv byLogin seen sc \<Longrightarrow> \<not> claims_trusted byLogin r \<Longrightarrow> scan_inv byLogin (seen @ [r]) sc"
  by (auto simp: scan_inv_def)

lemma scan_inv_flag:
  "scan_inv byLogin seen sc \<Longrightarrow> scan_latest sc' = scan_latest sc \<Longrightarrow>
     scan_untrusted sc' \<noteq> None \<or> scan_ambiguous sc' \<noteq> None \<Longrightarrow> scan_inv byLogin (seen @ [r]) sc'"
  by (auto simp: scan_inv_def)

lemma scan_inv_older:
  assumes "scan_inv byLogin seen sc" and "genuine byLogin r"
    and "map_of (scan_latest sc) (actor_NodeID (gr_Actor r)) = Some l"
    and "gr_SourceAt r < gr_SourceAt l"
  shows "scan_inv byLogin (seen @ [r]) sc"
proof -
  from assms(1,3) have "actor_NodeID (gr_Actor l) = actor_NodeID (gr_Actor r)"
    unfolding scan_inv_def by metis
  with assms(4) have "superseded_by r l" by (simp add: superseded_by_def)
  with assms(1-3) show ?thesis
    unfolding scan_inv_def by (simp del: map_of_eq_Some_iff)
qed

lemma scan_inv_newer:
  assumes inv: "scan_inv byLogin seen sc" and g: "genuine byLogin r"
    and new: "\<And>l. map_of (scan_latest sc) (actor_NodeID (gr_Actor r)) = Some l \<Longrightarrow>
      gr_SourceAt l < gr_SourceAt r"
  shows "scan_inv byLogin (seen @ [r])
    (sc\<lparr>scan_latest := AList.update (actor_NodeID (gr_Actor r)) r (scan_latest sc)\<rparr>)"
    (is "scan_inv _ _ ?sc")
proof -
  let ?k = "actor_NodeID (gr_Actor r)"
  have look: "map_of (scan_latest ?sc) = (map_of (scan_latest sc))(?k \<mapsto> r)"
    by (simp add: update_conv')
  have newest: "\<exists>l. map_of (scan_latest ?sc) (actor_NodeID (gr_Actor q)) = Some l \<and> superseded_by q l"
    if "q = r \<or> (\<exists>l. map_of (scan_latest sc) (actor_NodeID (gr_Actor q)) = Some l \<and> superseded_by q l)"
    for q
  proof (cases "actor_NodeID (gr_Actor q) = ?k")
    case True
    with that new have "superseded_by q r" by (auto simp: superseded_by_def intro: less_trans)
    with True show ?thesis unfolding look by simp
  next
    case False
    with that show ?thesis unfolding look by auto
  qed
  from inv have "distinct (map fst (scan_latest ?sc))"
    by (simp add: scan_inv_def distinct_update)
  moreover from inv g have "\<forall>k l. map_of (scan_latest ?sc) k = Some l \<longrightarrow>
      l \<in> set (seen @ [r]) \<and> genuine byLogin l \<and> k = actor_NodeID (gr_Actor l)"
    unfolding look scan_inv_def by simp
  moreover have "\<forall>q \<in> set (seen @ [r]). claims_trusted byLogin q \<longrightarrow> genuine byLogin q \<and>
      (\<exists>l. map_of (scan_latest ?sc) (actor_NodeID (gr_Actor q)) = Some l \<and> superseded_by q l)"
    if "scan_untrusted ?sc = None \<and> scan_ambiguous ?sc = None"
  proof (intro ballI impI)
    fix q assume q: "q \<in> set (seen @ [r])" "claims_trusted byLogin q"
    show "genuine byLogin q \<and>
      (\<exists>l. map_of (scan_latest ?sc) (actor_NodeID (gr_Actor q)) = Some l \<and> superseded_by q l)"
    proof (cases "q = r")
      case True
      with g newest [of q] show ?thesis by blast
    next
      case False
      with q inv that have "genuine byLogin q \<and>
          (\<exists>l. map_of (scan_latest sc) (actor_NodeID (gr_Actor q)) = Some l \<and> superseded_by q l)"
        by (simp add: scan_inv_def del: map_of_eq_Some_iff)
      with newest [of q] show ?thesis by blast
    qed
  qed
  ultimately show ?thesis unfolding scan_inv_def by blast
qed

lemma scan_inv_step:
  assumes inv: "scan_inv byLogin seen sc"
  shows "scan_inv byLogin (seen @ [r]) (scan_review byLogin sc r)"
proof (cases "map_of byLogin (to_lower (actor_Login (gr_Actor r)))")
  case None
  then show ?thesis using scan_inv_skip [OF inv] by (simp add: scan_review_def claims_trusted_def)
next
  case (Some a)
  show ?thesis
  proof (cases "foreign_identity a r \<or> review_incomplete r")
    case True
    with Some show ?thesis by (auto simp: scan_review_def intro!: scan_inv_flag [OF inv])
  next
    case False
    with Some have g: "genuine byLogin r" by (simp add: genuine_def)
    show ?thesis
      using Some False scan_inv_older [OF inv g] scan_inv_newer [OF inv g] scan_inv_flag [OF inv]
      by (cases "map_of (scan_latest sc) (actor_NodeID (gr_Actor r))")
        (auto simp: scan_review_def Let_def)
  qed
qed

lemma scan_inv_fold: "scan_inv byLogin reviews (foldl (scan_review byLogin) empty_scan reviews)"
proof (induction reviews rule: rev_induct)
  case Nil
  then show ?case by (simp add: scan_inv_def empty_scan_def)
next
  case (snoc r reviews)
  then show ?case by (simp add: scan_inv_step)
qed

section \<open>The choice among the newest reviews\<close>

definition approves_head :: "string \<Rightarrow> github_review \<Rightarrow> bool" where
  "approves_head head r \<longleftrightarrow> gr_State r = ''APPROVED'' \<and> gr_CommitSHA r = head"

definition odd_state :: "github_review \<Rightarrow> bool" where
  "odd_state r \<longleftrightarrow> gr_State r \<notin> {''APPROVED'', ''DISMISSED'', ''CHANGES_REQUESTED''}"

lemma choose_fold:
  fixes head :: string and c :: approval_choice and rs :: "github_review list"
  defines "d \<equiv> foldl (choose_review head) c rs"
  shows "ch_changes d = None \<longleftrightarrow> ch_changes c = None \<and> (\<forall>r \<in> set rs. gr_State r \<noteq> ''CHANGES_REQUESTED'')"
    and "ch_dismissal d = None \<longleftrightarrow> ch_dismissal c = None \<and> (\<forall>r \<in> set rs. gr_State r \<noteq> ''DISMISSED'')"
    and "ch_stale d = None \<longleftrightarrow> ch_stale c = None \<and>
      (\<forall>r \<in> set rs. gr_State r = ''APPROVED'' \<longrightarrow> gr_CommitSHA r = head)"
  unfolding d_def
  by (induction rs arbitrary: c) (auto simp: choose_review_def)

lemma choose_fold_approval:
  "ch_approval (foldl (choose_review head) c rs) =
     (case ch_approval c of Some r \<Rightarrow> Some r | None \<Rightarrow> find (approves_head head) rs)"
  by (induction rs arbitrary: c) (auto simp: choose_review_def approves_head_def split: option.splits)

lemma choose_fold_ambiguous:
  "ch_ambiguous (foldl (choose_review head) c rs) = None \<longleftrightarrow>
     ch_ambiguous c = None \<and> (\<forall>r \<in> set rs. \<not> odd_state r) \<and>
     length (filter (approves_head head) rs) + (if ch_approval c = None then 0 else 1) \<le> 1"
  by (induction rs arbitrary: c)
    (auto simp: choose_review_def approves_head_def odd_state_def)

definition is_permuting :: "('a list \<Rightarrow> 'a list) \<Rightarrow> bool" where
  "is_permuting ord \<longleftrightarrow> (\<forall>xs. mset (ord xs) = mset xs)"

lemma permuting_set: "is_permuting ord \<Longrightarrow> set (ord xs) = set xs"
  by (metis is_permuting_def mset_eq_setD)

lemma permuting_filter: "is_permuting ord \<Longrightarrow> length (filter P (ord xs)) = length (filter P xs)"
  by (metis is_permuting_def mset_filter size_mset)

definition choice_of ::
  "(github_review list \<Rightarrow> github_review list) \<Rightarrow> string \<Rightarrow> approval_scan \<Rightarrow> approval_choice" where
  "choice_of ord head sc =
     foldl (choose_review head)
       \<lparr>ch_approval = None, ch_stale = None, ch_dismissal = None, ch_changes = None,
        ch_ambiguous = scan_ambiguous sc\<rparr> (ord (map snd (scan_latest sc)))"

definition approval_guards :: "pull_request \<Rightarrow> time \<Rightarrow> bool" where
  "approval_guards pr observedAt \<longleftrightarrow>
     1 \<le> pr_Number pr \<and> \<not> blank (pr_HeadSHA pr) \<and> \<not> is_zero_time observedAt"

lemma NormalizeHumanApproval_Inr:
  "NormalizeHumanApproval ord pr reviews trusted observedAt = Inr res \<longleftrightarrow>
     approval_guards pr observedAt \<and>
     (\<exists>byLogin sc. index_trusted [] trusted = Inr byLogin \<and> byLogin \<noteq> [] \<and>
        sc = foldl (scan_review byLogin) empty_scan reviews \<and>
        decide_approval pr observedAt (scan_untrusted sc) (choice_of ord (pr_HeadSHA pr) sc) = res)"
  by (auto simp: NormalizeHumanApproval_def approval_guards_def choice_of_def Let_def
      split: sum.splits if_splits)

lemma NormalizeHumanApproval_alt:
  "NormalizeHumanApproval ord pr reviews trusted observedAt =
     (if \<not> approval_guards pr observedAt
      then Inl (New ''pull request and observation timestamp are required'')
      else case index_trusted [] trusted of
        Inl e \<Rightarrow> Inl e
      | Inr byLogin \<Rightarrow>
          (if byLogin = [] then Inl (New ''trusted human actor identity is required'')
           else (let sc = foldl (scan_review byLogin) empty_scan reviews in
             Inr (decide_approval pr observedAt (scan_untrusted sc)
                    (choice_of ord (pr_HeadSHA pr) sc)))))"
  by (simp add: NormalizeHumanApproval_def approval_guards_def choice_of_def Let_def not_le
      cong: sum.case_cong if_cong)

lemma decide_approval_Some:
  "decide_approval pr observedAt untrusted c = (obs, Some a) \<longleftrightarrow>
     ch_changes c = None \<and> ch_dismissal c = None \<and> ch_ambiguous c = None \<and> untrusted = None \<and>
     (\<exists>r. ch_approval c = Some r \<and> a = approval_of pr r observedAt \<and>
        obs = selected (base_observation pr observedAt) HumanApprovalApproved r)"
  by (auto simp: decide_approval_def Let_def split: option.splits)

lemma choice_of_approves:
  assumes ord: "is_permuting ord"
    and c: "choice_of ord head sc = c"
    and none: "ch_changes c = None" "ch_dismissal c = None" "ch_ambiguous c = None"
    and r: "ch_approval c = Some r"
  shows "r \<in> snd ` set (scan_latest sc) \<and> approves_head head r \<and> scan_ambiguous sc = None \<and>
    (\<forall>l \<in> snd ` set (scan_latest sc). gr_State l = ''APPROVED'')"
proof -
  let ?rs = "ord (map snd (scan_latest sc))"
  have s: "set ?rs = snd ` set (scan_latest sc)" by (simp add: permuting_set [OF ord])
  have "find (approves_head head) ?rs = Some r"
    using r unfolding c [symmetric] choice_of_def by (simp add: choose_fold_approval)
  then have "r \<in> set ?rs" "approves_head head r" by (auto simp: find_Some_iff)
  moreover have "\<forall>l \<in> set ?rs. gr_State l \<noteq> ''CHANGES_REQUESTED'' \<and> gr_State l \<noteq> ''DISMISSED'' \<and>
      \<not> odd_state l" and "scan_ambiguous sc = None"
    using none unfolding c [symmetric] choice_of_def
    by (simp_all add: choose_fold choose_fold_ambiguous)
  ultimately show ?thesis unfolding s odd_state_def by auto
qed

lemma genuine_authorizes:
  assumes "index_trusted [] trusted = Inr byLogin" and g: "genuine byLogin r"
    and "\<not> is_zero_time observedAt"
  shows "Authorizes (approval_of pr r observedAt) pr (pr_HeadSHA pr) = None"
proof -
  from g obtain a where a: "map_of byLogin (to_lower (actor_Login (gr_Actor r))) = Some a"
      "\<not> foreign_identity a r" "\<not> review_incomplete r"
    by (auto simp: genuine_def)
  from index_trusted_lookup [OF assms(1) a(1)] a(2,3) assms(3) show ?thesis
    using blank_equal_fold [of "actor_Login (gr_Actor r)" "actor_Login a"]
    by (auto simp: Authorizes_def approval_of_def foreign_identity_def review_incomplete_def)
qed

text \<open>What the configured identities say about a review, without the loop's tables.\<close>

definition written_by :: "actor_identity \<Rightarrow> github_review \<Rightarrow> bool" where
  "written_by a r \<longleftrightarrow> \<not> foreign_identity a r"

definition names_trusted :: "actor_identity list \<Rightarrow> github_review \<Rightarrow> bool" where
  "names_trusted trusted r \<longleftrightarrow>
     (\<exists>a \<in> set trusted. equal_fold (actor_Login (gr_Actor r)) (actor_Login a))"

lemma names_trusted_claims:
  assumes "index_trusted [] trusted = Inr byLogin"
  shows "names_trusted trusted r \<Longrightarrow> claims_trusted byLogin r"
proof -
  assume "names_trusted trusted r"
  then obtain a where "a \<in> set trusted" "to_lower (actor_Login (gr_Actor r)) = to_lower (actor_Login a)"
    by (auto simp: names_trusted_def equal_fold_def)
  then have "(to_lower (actor_Login (gr_Actor r)), a) \<in> set byLogin"
    using index_trusted_Inr [OF assms] by auto
  then show ?thesis by (auto simp: claims_trusted_def map_of_eq_None_iff image_iff intro!: bexI)
qed

lemma genuine_written_by:
  "index_trusted [] trusted = Inr byLogin \<Longrightarrow> genuine byLogin r \<Longrightarrow> \<exists>a \<in> set trusted. written_by a r"
  unfolding genuine_def written_by_def using index_trusted_lookup by blast

text \<open>An approval authorizes the merge only if it is one trusted human's: the returned approval
  is bound to the exact head and passes \<open>Authorizes\<close>; it comes from a review of that head by an
  actor whose identity matches a configured human; and every review under a configured login
  matches that human's identity and is no newer than an APPROVED review of the same actor, so no
  trusted human's newest review requests changes or was dismissed.\<close>

theorem human_approval_sound:
  assumes ord: "is_permuting ord"
    and res: "NormalizeHumanApproval ord pr reviews trusted observedAt = Inr (obs, Some a)"
  shows "Authorizes a pr (pr_HeadSHA pr) = None \<and> obs_Status obs = HumanApprovalApproved \<and>
    (\<exists>r \<in> set reviews. gr_State r = ''APPROVED'' \<and> gr_CommitSHA r = pr_HeadSHA pr \<and>
       ha_ReviewNodeID a = gr_NodeID r \<and> ha_Actor a = gr_Actor r \<and>
       (\<exists>t \<in> set trusted. written_by t r)) \<and>
    (\<forall>q \<in> set reviews. names_trusted trusted q \<longrightarrow>
       (\<exists>t \<in> set trusted. written_by t q) \<and>
       (\<exists>l \<in> set reviews. gr_State l = ''APPROVED'' \<and> superseded_by q l))"
proof -
  from res obtain byLogin sc r where g: "approval_guards pr observedAt"
    and idx: "index_trusted [] trusted = Inr byLogin"
    and sc: "sc = foldl (scan_review byLogin) empty_scan reviews"
    and none: "ch_changes (choice_of ord (pr_HeadSHA pr) sc) = None"
      "ch_dismissal (choice_of ord (pr_HeadSHA pr) sc) = None"
      "ch_ambiguous (choice_of ord (pr_HeadSHA pr) sc) = None" "scan_untrusted sc = None"
    and r: "ch_approval (choice_of ord (pr_HeadSHA pr) sc) = Some r"
      "a = approval_of pr r observedAt"
      "obs = selected (base_observation pr observedAt) HumanApprovalApproved r"
    by (auto simp: NormalizeHumanApproval_Inr decide_approval_Some)
  have inv: "scan_inv byLogin reviews sc" unfolding sc by (rule scan_inv_fold)
  note ch = choice_of_approves [OF ord refl none(1-3) r(1)]
  have latest: "l \<in> set reviews \<and> genuine byLogin l" if "l \<in> snd ` set (scan_latest sc)" for l
    using that inv unfolding scan_inv_def by (auto simp: map_of_eq_Some_iff)
  have "Authorizes a pr (pr_HeadSHA pr) = None"
    unfolding r(2) using latest [of r] ch g
    by (intro genuine_authorizes [OF idx]) (auto simp: approval_guards_def)
  moreover have "\<exists>r \<in> set reviews. gr_State r = ''APPROVED'' \<and> gr_CommitSHA r = pr_HeadSHA pr \<and>
       ha_ReviewNodeID a = gr_NodeID r \<and> ha_Actor a = gr_Actor r \<and> (\<exists>t \<in> set trusted. written_by t r)"
    using latest [of r] ch r(2) genuine_written_by [OF idx]
    by (intro bexI [of _ r]) (auto simp: approves_head_def approval_of_def)
  moreover have "(\<exists>t \<in> set trusted. written_by t q) \<and>
       (\<exists>l \<in> set reviews. gr_State l = ''APPROVED'' \<and> superseded_by q l)"
    if "q \<in> set reviews" "names_trusted trusted q" for q
  proof -
    from that inv none(4) ch names_trusted_claims [OF idx] obtain l
      where "genuine byLogin q" "map_of (scan_latest sc) (actor_NodeID (gr_Actor q)) = Some l"
        "superseded_by q l"
      unfolding scan_inv_def by blast
    moreover from this have "l \<in> snd ` set (scan_latest sc)" by (force dest: map_of_SomeD)
    ultimately show ?thesis using latest [of l] ch genuine_written_by [OF idx] by blast
  qed
  ultimately show ?thesis using r(3) by (simp add: selected_def)
qed

definition sample_human :: actor_identity where
  "sample_human = \<lparr>actor_DatabaseID = 11, actor_NodeID = ''U_11'', actor_Login = ''Ifan'',
     actor_Type = ''User'', actor_AppID = 0\<rparr>"

definition sample_approval :: github_review where
  "sample_approval = \<lparr>gr_DatabaseID = 5, gr_NodeID = ''R_5'', gr_State = ''APPROVED'',
     gr_Actor = sample_human, gr_CommitSHA = ''abc'', gr_SourceAt = 20\<rparr>"

definition sample_changes :: github_review where
  "sample_changes = \<lparr>gr_DatabaseID = 4, gr_NodeID = ''R_4'', gr_State = ''CHANGES_REQUESTED'',
     gr_Actor = sample_human, gr_CommitSHA = ''abc'', gr_SourceAt = 10\<rparr>"

lemma sample_approval_result:
  "\<exists>obs a. NormalizeHumanApproval (\<lambda>xs. xs) sample_pr [sample_approval, sample_changes] [sample_human] 30
     = Inr (obs, Some a)"
proof -
  have "case NormalizeHumanApproval (\<lambda>xs. xs) sample_pr [sample_approval, sample_changes] [sample_human] 30
      of Inr (obs, Some a) \<Rightarrow> True | _ \<Rightarrow> False"
    by code_simp
  then show ?thesis by (auto split: sum.splits prod.splits option.splits)
qed

theorem human_approval_sound_witness:
  "\<exists>obs a. NormalizeHumanApproval (\<lambda>xs. xs) sample_pr [sample_approval, sample_changes] [sample_human] 30
     = Inr (obs, Some a) \<and> Authorizes a sample_pr ''abc'' = None"
proof -
  from sample_approval_result obtain obs a where r: "NormalizeHumanApproval (\<lambda>xs. xs) sample_pr
      [sample_approval, sample_changes] [sample_human] 30 = Inr (obs, Some a)" by blast
  have "is_permuting (\<lambda>xs :: github_review list. xs)" by (simp add: is_permuting_def)
  from human_approval_sound [OF this r] r show ?thesis by (auto simp: sample_pr_def)
qed

section \<open>Independence of the order of map iteration\<close>

lemma find_filter: "find P xs = (case filter P xs of [] \<Rightarrow> None | x # _ \<Rightarrow> Some x)"
  by (induction xs) auto

lemma find_permuting:
  assumes "mset xs = mset ys"
  shows "find P xs = None \<longleftrightarrow> find P ys = None"
    and "length (filter P xs) \<le> 1 \<Longrightarrow> find P xs = find P ys"
proof -
  from assms have m: "mset (filter P xs) = mset (filter P ys)" by simp
  from mset_eq_setD [OF assms] show "find P xs = None \<longleftrightarrow> find P ys = None"
    by (simp add: find_None_iff)
  show "find P xs = find P ys" if "length (filter P xs) \<le> 1"
  proof (cases "filter P xs")
    case Nil
    with m show ?thesis by (simp add: find_filter)
  next
    case (Cons x zs)
    with that have "filter P xs = [x]" by simp
    with m have "filter P ys = [x]" by (simp del: mset_filter)
    with \<open>filter P xs = [x]\<close> show ?thesis by (simp add: find_filter)
  qed
qed

lemma choice_of_permuting:
  assumes 1: "is_permuting ord1" and 2: "is_permuting ord2"
  shows "ch_changes (choice_of ord1 h sc) = None \<longleftrightarrow> ch_changes (choice_of ord2 h sc) = None"
    and "ch_dismissal (choice_of ord1 h sc) = None \<longleftrightarrow> ch_dismissal (choice_of ord2 h sc) = None"
    and "ch_ambiguous (choice_of ord1 h sc) = None \<longleftrightarrow> ch_ambiguous (choice_of ord2 h sc) = None"
    and "ch_stale (choice_of ord1 h sc) = None \<longleftrightarrow> ch_stale (choice_of ord2 h sc) = None"
    and "ch_approval (choice_of ord1 h sc) = None \<longleftrightarrow> ch_approval (choice_of ord2 h sc) = None"
    and "ch_ambiguous (choice_of ord1 h sc) = None \<Longrightarrow>
      ch_approval (choice_of ord1 h sc) = ch_approval (choice_of ord2 h sc)"
proof -
  let ?xs = "map snd (scan_latest sc)"
  have m: "mset (ord1 ?xs) = mset (ord2 ?xs)" using 1 2 by (simp add: is_permuting_def)
  note simps = choice_of_def choose_fold choose_fold_ambiguous choose_fold_approval
    permuting_set [OF 1] permuting_set [OF 2] permuting_filter [OF 1] permuting_filter [OF 2]
  show "ch_changes (choice_of ord1 h sc) = None \<longleftrightarrow> ch_changes (choice_of ord2 h sc) = None"
    "ch_dismissal (choice_of ord1 h sc) = None \<longleftrightarrow> ch_dismissal (choice_of ord2 h sc) = None"
    "ch_ambiguous (choice_of ord1 h sc) = None \<longleftrightarrow> ch_ambiguous (choice_of ord2 h sc) = None"
    "ch_stale (choice_of ord1 h sc) = None \<longleftrightarrow> ch_stale (choice_of ord2 h sc) = None"
    by (simp_all add: simps)
  show "ch_approval (choice_of ord1 h sc) = None \<longleftrightarrow> ch_approval (choice_of ord2 h sc) = None"
    using find_permuting(1) [OF m] by (simp add: simps del: find_None_iff)
  show "ch_approval (choice_of ord1 h sc) = ch_approval (choice_of ord2 h sc)"
    if "ch_ambiguous (choice_of ord1 h sc) = None"
    using find_permuting(2) [OF m, of "approves_head h"] that by (simp add: simps)
qed

definition verdict :: "approval_observation \<times> human_approval option \<Rightarrow>
    human_approval_status \<times> human_approval option" where
  "verdict res = (obs_Status (fst res), snd res)"

lemma verdict_decide:
  "verdict (decide_approval pr at u c) =
     (if ch_changes c \<noteq> None then (HumanApprovalChangesRequested, None)
      else if ch_dismissal c \<noteq> None then (HumanApprovalDismissed, None)
      else if ch_ambiguous c \<noteq> None then (HumanApprovalAmbiguous, None)
      else if u \<noteq> None then (HumanApprovalUntrustedActor, None)
      else if ch_approval c \<noteq> None
      then (HumanApprovalApproved, Some (approval_of pr (the (ch_approval c)) at))
      else if ch_stale c \<noteq> None then (HumanApprovalStaleHead, None)
      else (HumanApprovalPending, None))"
  by (simp add: verdict_def decide_approval_def selected_def base_observation_def Let_def
      split: option.split)

lemma decide_verdict_cong:
  assumes "ch_changes c = None \<longleftrightarrow> ch_changes d = None"
    and "ch_dismissal c = None \<longleftrightarrow> ch_dismissal d = None"
    and "ch_ambiguous c = None \<longleftrightarrow> ch_ambiguous d = None"
    and "ch_stale c = None \<longleftrightarrow> ch_stale d = None"
    and "ch_ambiguous c = None \<Longrightarrow> ch_approval c = ch_approval d"
  shows "verdict (decide_approval pr at u c) = verdict (decide_approval pr at u d)"
  using assms unfolding verdict_decide by presburger

text \<open>The approval status and the approval itself do not depend on the order in which the
  runtime iterates over the map of newest reviews.\<close>

theorem approval_map_order_independent:
  assumes "is_permuting ord1" and "is_permuting ord2"
  shows "map_sum id verdict (NormalizeHumanApproval ord1 pr reviews trusted observedAt) =
    map_sum id verdict (NormalizeHumanApproval ord2 pr reviews trusted observedAt)"
proof -
  have "verdict (decide_approval pr observedAt u (choice_of ord1 h sc)) =
      verdict (decide_approval pr observedAt u (choice_of ord2 h sc))" for u h sc
    by (rule decide_verdict_cong) (use choice_of_permuting [OF assms] in auto)
  then show ?thesis
    by (cases "index_trusted [] trusted") (simp_all add: NormalizeHumanApproval_alt Let_def)
qed

theorem approval_map_order_independent_witness:
  "map_sum id verdict (NormalizeHumanApproval rev sample_pr
      [sample_approval, sample_changes] [sample_human] 30) =
   map_sum id verdict (NormalizeHumanApproval (\<lambda>xs. xs) sample_pr
      [sample_approval, sample_changes] [sample_human] 30)"
  by (rule approval_map_order_independent) (simp_all add: is_permuting_def)

end
