(* ===== verification/CI_Wait.thy ===== *)
theory CI_Wait
  imports Attention Github_Evidence
begin

text \<open>
  Waiting for required checks: table \<open>ci_waits\<close> of \<open>adapters/sqlite/ci_wait.go\<close>, the slow-CI event of
  \<open>application/operator_attention.go\<close>, and \<open>reconcileCIWait\<close> of \<open>application/driver.go\<close>, which ties
  them to the persisted evidence of a run. The table is a list of its rows, newest first, next to the
  store; a zero instant is an empty column. \<open>pr\<close> is the number in table \<open>pull_requests\<close>.
\<close>

section \<open>The table\<close>

record ci_wait =
  cw_RunID :: string
  cw_PRNumber :: int
  cw_HeadSHA :: string
  cw_ProfileDigest :: string
  cw_FirstSeenAt :: time
  cw_WarningAt :: time
  cw_ClosedAt :: time

definition wait_key :: "ci_wait \<Rightarrow> string \<times> int \<times> string \<times> string" where
  "wait_key w = (cw_RunID w, cw_PRNumber w, cw_HeadSHA w, cw_ProfileDigest w)"

definition new_wait :: "string \<times> int \<times> string \<times> string \<Rightarrow> time \<Rightarrow> ci_wait" where
  "new_wait k first =
     (case k of (runID, pr, head, profile) \<Rightarrow>
        \<lparr>cw_RunID = runID, cw_PRNumber = pr, cw_HeadSHA = head, cw_ProfileDigest = profile,
         cw_FirstSeenAt = first, cw_WarningAt = 0, cw_ClosedAt = 0\<rparr>)"

definition wait_authority_ok :: "string \<Rightarrow> int \<Rightarrow> string \<Rightarrow> string \<Rightarrow> duration \<Rightarrow> time \<Rightarrow> time \<Rightarrow> bool" where
  "wait_authority_ok runID pr head profile threshold first at \<longleftrightarrow>
     runID \<noteq> [] \<and> pr \<ge> 1 \<and> head \<noteq> [] \<and> profile \<noteq> [] \<and> threshold \<ge> minute \<and> threshold \<le> 24 * hour \<and>
     \<not> is_zero_time first \<and> \<not> is_zero_time at \<and> \<not> first > at"

text \<open>The state the wait must belong to.\<close>

definition wait_state_ok :: "store \<Rightarrow> (string \<Rightarrow> int option) \<Rightarrow> string \<Rightarrow> int \<Rightarrow> string \<Rightarrow> string \<Rightarrow> go_error option" where
  "wait_state_ok s pr_of runID pr head profile =
     (case (find_run s runID, pr_of runID) of
        (Some run, Some persisted) \<Rightarrow>
          (if run_State run \<notin> {StatePROpen, StateReconcilingReviews} \<or> run_CandidateHead run \<noteq> head \<or>
              run_ProfileDigest run \<noteq> profile \<or> persisted \<noteq> pr
           then Some (New ''CI wait exact authority changed'') else None)
      | _ \<Rightarrow> Some no_rows)"

text \<open>The writes: other open waits of the run are closed, the wait is inserted unless it exists.\<close>

definition close_others :: "string \<times> int \<times> string \<times> string \<Rightarrow> time \<Rightarrow> ci_wait list \<Rightarrow> ci_wait list" where
  "close_others k at =
     update_where (\<lambda>w. cw_RunID w = fst k \<and> is_zero_time (cw_ClosedAt w) \<and> wait_key w \<noteq> k)
       (\<lambda>w. w\<lparr>cw_ClosedAt := at\<rparr>)"

definition insert_wait :: "string \<times> int \<times> string \<times> string \<Rightarrow> time \<Rightarrow> ci_wait list \<Rightarrow> ci_wait list" where
  "insert_wait k first ws = (if k \<in> set (map wait_key ws) then ws else new_wait k first # ws)"

definition warn_wait :: "string \<times> int \<times> string \<times> string \<Rightarrow> time \<Rightarrow> ci_wait list \<Rightarrow> nat \<times> ci_wait list" where
  "warn_wait k warning ws =
     (let P = (\<lambda>w. wait_key w = k \<and> is_zero_time (cw_WarningAt w) \<and> is_zero_time (cw_ClosedAt w))
      in (count_where P ws, update_where P (\<lambda>w. w\<lparr>cw_WarningAt := warning\<rparr>) ws))"

definition ObserveCIWait ::
  "(string \<Rightarrow> int option) \<Rightarrow> string \<Rightarrow> int \<Rightarrow> string \<Rightarrow> string \<Rightarrow> duration \<Rightarrow> time \<Rightarrow> time \<Rightarrow> store \<Rightarrow>
     ci_wait list \<Rightarrow> ci_wait result \<times> ci_wait list" where
  "ObserveCIWait pr_of runID pr head profile threshold first at s ws =
     (if \<not> wait_authority_ok runID pr head profile threshold first at
      then (Inl (New ''CI wait authority is incomplete''), ws)
      else case wait_state_ok s pr_of runID pr head profile of
        Some e \<Rightarrow> (Inl e, ws)
      | None \<Rightarrow>
          (let k = (runID, pr, head, profile);
               ws1 = insert_wait k first (close_others k at ws)
           in case select_where (\<lambda>w. wait_key w = k) ws1 of
             None \<Rightarrow> (Inl no_rows, ws)
           | Some w \<Rightarrow>
               (let due = cw_FirstSeenAt w + threshold
                in if is_zero_time (cw_WarningAt w) \<and> \<not> at < due
                   then (let (n, ws2) = warn_wait k due ws1
                         in if n \<noteq> 1 then (Inl (New ''CI wait warning compare update lost''), ws)
                            else (Inr (w\<lparr>cw_WarningAt := due\<rparr>), ws2))
                   else (Inr w, ws1))))"

definition CloseCIWaits :: "string \<Rightarrow> time \<Rightarrow> ci_wait list \<Rightarrow> go_error option \<times> ci_wait list" where
  "CloseCIWaits runID at ws =
     (if runID = [] \<or> is_zero_time at then (Some (New ''CI wait close authority is incomplete''), ws)
      else (None, update_where (\<lambda>w. cw_RunID w = runID \<and> is_zero_time (cw_ClosedAt w))
                    (\<lambda>w. w\<lparr>cw_ClosedAt := at\<rparr>) ws))"

definition CloseInactiveCIWaits :: "time \<Rightarrow> store \<Rightarrow> ci_wait list \<Rightarrow> go_error option \<times> ci_wait list" where
  "CloseInactiveCIWaits at s ws =
     (if is_zero_time at then (Some (New ''inactive CI wait close time is required''), ws)
      else (None, update_where
          (\<lambda>w. is_zero_time (cw_ClosedAt w) \<and>
             (\<exists>run \<in> set (st_runs s). run_ID run = cw_RunID w \<and> run_State run \<noteq> StateReconcilingReviews))
          (\<lambda>w. w\<lparr>cw_ClosedAt := at\<rparr>) ws))"

section \<open>The slow-CI event and the driver\<close>

text \<open>\<open>digest\<close> is the hash of the JSON text of the wait and its warning.\<close>

definition CISlowAttentionEvent ::
  "event_encoder \<Rightarrow> profile_decoder \<Rightarrow> (string \<Rightarrow> ci_wait \<Rightarrow> string) \<Rightarrow> run_row \<Rightarrow> ci_wait \<Rightarrow>
     attention_event result" where
  "CISlowAttentionEvent json profile_of digest run w =
     (if cw_RunID w \<noteq> run_ID run \<or> cw_HeadSHA w \<noteq> run_CandidateHead run \<or>
         cw_ProfileDigest w \<noteq> run_ProfileDigest run \<or> cw_PRNumber w < 1 \<or>
         is_zero_time (cw_WarningAt w) \<or> \<not> is_zero_time (cw_ClosedAt w)
      then Inl (New ''CI slow attention evidence is invalid'')
      else run_event json profile_of run CISlow (AsState (run_State run)) ''warning'' ''ci_wait_slow''
        (digest (run_ID run) w) no_failure 0 (cw_WarningAt w))"

text \<open>What the driver reads of an inspection, and the append it calls. \<open>now\<close> is its clock.\<close>

record wait_inspection =
  wi_Run :: run_row
  wi_PullRequest :: "int option"
  wi_Evidence :: "github_evidence option"

definition waiting_evidence :: "wait_inspection \<Rightarrow> github_evidence option" where
  "waiting_evidence i =
     (case (wi_PullRequest i, wi_Evidence i) of
        (Some _, Some ev) \<Rightarrow>
          (if run_State (wi_Run i) = StateReconcilingReviews \<and>
              pr_HeadSHA (ev_PullRequest ev) = run_CandidateHead (wi_Run i) \<and> RequiredChecksWaiting ev
           then Some ev else None)
      | _ \<Rightarrow> None)"

definition reconcileCIWait ::
  "(run_row \<Rightarrow> ci_wait \<Rightarrow> attention_event result) \<Rightarrow> (attention_event \<Rightarrow> bool result) \<Rightarrow>
     (string \<Rightarrow> int option) \<Rightarrow> duration \<Rightarrow> wait_inspection \<Rightarrow> time \<Rightarrow> store \<Rightarrow> ci_wait list \<Rightarrow>
     go_error option \<times> ci_wait list" where
  "reconcileCIWait event publish pr_of threshold i now s ws =
     (let run = wi_Run i in
      case (waiting_evidence i, wi_PullRequest i) of
        (Some ev, Some pr) \<Rightarrow>
          (case ObserveCIWait pr_of (run_ID run) pr (run_CandidateHead run) (run_ProfileDigest run)
                  threshold (ev_ObservedAt ev) now s ws of
             (Inl e, ws') \<Rightarrow> (Some e, ws')
           | (Inr w, ws') \<Rightarrow>
               (if is_zero_time (cw_WarningAt w) then (None, ws')
                else case event run w of
                  Inl e \<Rightarrow> (Some e, ws')
                | Inr ae \<Rightarrow> (case publish ae of Inl e \<Rightarrow> (Some e, ws') | Inr _ \<Rightarrow> (None, ws'))))
      | _ \<Rightarrow> CloseCIWaits (run_ID run) now ws)"


section \<open>The table as a step system\<close>

inductive wait_step :: "ci_wait list \<Rightarrow> ci_wait list \<Rightarrow> bool" where
  step_observe: "ObserveCIWait pr_of runID pr head profile threshold first at s ws = (r, ws') \<Longrightarrow> wait_step ws ws'"
| step_close: "CloseCIWaits runID at ws = (r, ws') \<Longrightarrow> wait_step ws ws'"
| step_inactive: "CloseInactiveCIWaits at s ws = (r, ws') \<Longrightarrow> wait_step ws ws'"

definition open_wait :: "ci_wait \<Rightarrow> bool" where
  "open_wait w \<longleftrightarrow> is_zero_time (cw_ClosedAt w)"

definition waits_inv :: "ci_wait list \<Rightarrow> bool" where
  "waits_inv ws \<longleftrightarrow> distinct (map wait_key ws) \<and>
     (\<forall>w \<in> set ws. \<forall>w' \<in> set ws. open_wait w \<and> open_wait w' \<and> cw_RunID w = cw_RunID w' \<longrightarrow> w = w')"

text \<open>Closing rows of an invariant table, and setting the warning of one.\<close>

definition closing :: "(ci_wait \<Rightarrow> ci_wait) \<Rightarrow> bool" where
  "closing f \<longleftrightarrow> (\<forall>w. wait_key (f w) = wait_key w \<and> (open_wait (f w) \<longrightarrow> open_wait w))"

lemma wait_key_eq: "wait_key w = (r, p, h, d) \<longleftrightarrow>
    cw_RunID w = r \<and> cw_PRNumber w = p \<and> cw_HeadSHA w = h \<and> cw_ProfileDigest w = d"
  by (auto simp: wait_key_def)

lemma run_of_key: "wait_key w = wait_key w' \<Longrightarrow> cw_RunID w = cw_RunID w'"
  by (simp add: wait_key_def)

lemma closing_simps [simp]:
  "closing (\<lambda>w. w\<lparr>cw_ClosedAt := at\<rparr>) \<longleftrightarrow> at \<noteq> 0 \<or> at = 0 \<and> (\<forall>w :: ci_wait. open_wait w)"
  "closing (\<lambda>w. w\<lparr>cw_WarningAt := at\<rparr>)"
  by (auto simp: closing_def open_wait_def wait_key_def is_zero_time_def)

lemma waits_inv_update:
  assumes "waits_inv ws" and "closing f"
  shows "waits_inv (update_where P f ws)"
  unfolding waits_inv_def
proof (intro conjI ballI impI)
  show "distinct (map wait_key (update_where P f ws))"
    using assms by (simp add: waits_inv_def map_update_where closing_def)
next
  fix w w'
  assume in_table: "w \<in> set (update_where P f ws)" "w' \<in> set (update_where P f ws)"
    and both: "open_wait w \<and> open_wait w' \<and> cw_RunID w = cw_RunID w'"
  from in_table obtain v v' where v: "v \<in> set ws" "w = (if P v then f v else v)"
    and v': "v' \<in> set ws" "w' = (if P v' then f v' else v')"
    unfolding set_update_where by blast
  have "open_wait v" "open_wait v'" "cw_RunID v = cw_RunID v'"
    using both v(2) v'(2) assms(2) run_of_key [of "f v" v] run_of_key [of "f v'" v']
    by (simp_all add: closing_def split: if_splits)
  with v(1) v'(1) assms(1) have "v = v'" by (simp add: waits_inv_def)
  with v(2) v'(2) show "w = w'" by simp
qed

lemma close_others_inv: "waits_inv ws \<Longrightarrow> at \<noteq> 0 \<Longrightarrow> waits_inv (close_others k at ws)"
  unfolding close_others_def by (rule waits_inv_update) simp_all

lemma close_others_open:
  assumes "w \<in> set (close_others k at ws)" and "at \<noteq> 0" and "open_wait w" and "cw_RunID w = fst k"
  shows "wait_key w = k"
  using assms unfolding close_others_def set_update_where
  by (auto simp: open_wait_def is_zero_time_def wait_key_def split: if_splits)

lemma insert_wait_inv:
  assumes "waits_inv ws" and "at \<noteq> 0"
  shows "waits_inv (insert_wait k first (close_others k at ws))"
proof (cases "k \<in> set (map wait_key (close_others k at ws))")
  case True
  with assms show ?thesis by (simp add: insert_wait_def close_others_inv)
next
  case False
  have k: "wait_key (new_wait k first) = k" "cw_RunID (new_wait k first) = fst k"
    by (simp_all add: new_wait_def wait_key_def split: prod.split)
  have "\<not> open_wait w" if "w \<in> set (close_others k at ws)" "cw_RunID w = fst k" for w
    using close_others_open [OF that(1) assms(2) _ that(2)] False that(1) by auto
  with False k close_others_inv [OF assms] show ?thesis
    by (auto simp: insert_wait_def waits_inv_def)
qed

lemma ObserveCIWait_cases:
  assumes "ObserveCIWait pr_of runID pr head profile threshold first at s ws = (r, ws')"
  obtains (failed) e where "r = Inl e" and "ws' = ws"
    | (kept) w where "at \<noteq> 0" and "r = Inr w"
        and "ws' = insert_wait (runID, pr, head, profile) first (close_others (runID, pr, head, profile) at ws)"
    | (warned) w due n where "at \<noteq> 0" and "r = Inr w"
        and "warn_wait (runID, pr, head, profile) due
               (insert_wait (runID, pr, head, profile) first (close_others (runID, pr, head, profile) at ws)) = (n, ws')"
proof -
  have "wait_authority_ok runID pr head profile threshold first at \<Longrightarrow> at \<noteq> 0"
    by (simp add: wait_authority_ok_def is_zero_time_def)
  with assms that show thesis
    unfolding ObserveCIWait_def Let_def
    by (auto split: if_splits option.splits prod.splits)
qed

lemma waits_inv_step:
  assumes "waits_inv ws" and "wait_step ws ws'"
  shows "waits_inv ws'"
  using assms(2)
proof cases
  case (step_observe pr_of runID pr head profile threshold first at s r)
  then show ?thesis
  proof (cases rule: ObserveCIWait_cases)
    case (warned w due n)
    with insert_wait_inv [OF assms(1)] waits_inv_update [OF _ closing_simps(2)] show ?thesis
      by (auto simp: warn_wait_def Let_def)
  qed (use assms(1) insert_wait_inv in auto)
next
  case (step_close runID at r)
  with assms(1) show ?thesis
    by (auto simp: CloseCIWaits_def is_zero_time_def intro!: waits_inv_update split: if_splits)
next
  case (step_inactive at s r)
  with assms(1) show ?thesis
    by (auto simp: CloseInactiveCIWaits_def is_zero_time_def intro!: waits_inv_update split: if_splits)
qed

interpretation waits: invariant_system "\<lambda>ws. ws = []" wait_step waits_inv
  by unfold_locales (simp add: waits_inv_def, rule waits_inv_step)

text \<open>A closed row never changes again.\<close>

lemma keep_row: "\<not> P w \<Longrightarrow> w \<in> set ws \<Longrightarrow> w \<in> set (update_where P f ws)"
  unfolding set_update_where by force

lemma closed_wait_step:
  assumes "wait_step ws ws'" and "w \<in> set ws" and "\<not> open_wait w"
  shows "w \<in> set ws'"
  using assms(1)
proof cases
  case (step_observe pr_of runID pr head profile threshold first at s r)
  have "w \<in> set (insert_wait k first (close_others k at ws))" for k
    using assms(2,3) by (auto simp: insert_wait_def close_others_def open_wait_def intro!: keep_row)
  with step_observe assms show ?thesis
    by (elim ObserveCIWait_cases) (auto simp: warn_wait_def Let_def open_wait_def intro!: keep_row)
next
  case (step_close runID at r)
  with assms(2,3) show ?thesis
    by (auto simp: CloseCIWaits_def open_wait_def intro!: keep_row split: if_splits)
next
  case (step_inactive at s r)
  with assms(2,3) show ?thesis
    by (auto simp: CloseInactiveCIWaits_def open_wait_def intro!: keep_row split: if_splits)
qed

lemma closed_wait_path: "path wait_step ws ts ws' \<Longrightarrow> w \<in> set ws \<Longrightarrow> \<not> open_wait w \<Longrightarrow> w \<in> set ws'"
  by (induction rule: path.induct) (auto intro: closed_wait_step)


text \<open>At most one wait of a run is open.\<close>

lemma one_open_wait:
  assumes "path wait_step [] ts ws" and "w \<in> set ws" and "w' \<in> set ws"
    and "open_wait w" and "open_wait w'" and "cw_RunID w = cw_RunID w'"
  shows "w = w'"
  using waits.path_inv [OF assms(1)] assms(2-) by (simp add: waits_inv_def)

section \<open>What an observation returns\<close>

definition wait_of :: "string \<times> int \<times> string \<times> string \<Rightarrow> time \<Rightarrow> ci_wait list \<Rightarrow> ci_wait" where
  "wait_of k first ws =
     (case select_where (\<lambda>w. wait_key w = k) ws of None \<Rightarrow> new_wait k first | Some w \<Rightarrow> w)"

lemma wait_key_new [simp]: "wait_key (new_wait k first) = k"
  by (simp add: new_wait_def wait_key_def split: prod.split)

lemma select_close_others:
  "select_where (\<lambda>w. wait_key w = k) (close_others k at ws) = select_where (\<lambda>w. wait_key w = k) ws"
  by (induction ws) (auto simp: select_where_def close_others_def update_where_def wait_key_def)

lemma keys_close_others: "map wait_key (close_others k at ws) = map wait_key ws"
  unfolding close_others_def by (rule map_update_where) (simp add: wait_key_def)

lemma select_insert_wait:
  "select_where (\<lambda>w. wait_key w = k) (insert_wait k first (close_others k at ws)) = Some (wait_of k first ws)"
proof (cases "select_where (\<lambda>w. wait_key w = k) ws")
  case None
  then have "k \<notin> set (map wait_key ws)" by (auto simp: select_where_None)
  with None show ?thesis by (simp add: insert_wait_def keys_close_others wait_of_def select_where_def)
next
  case (Some w)
  with select_where_Some [OF Some] have "k \<in> set (map wait_key ws)" by auto
  with Some show ?thesis by (simp add: insert_wait_def keys_close_others wait_of_def select_close_others)
qed

lemma count_open_wait:
  assumes "distinct (map wait_key ws)" and "select_where (\<lambda>w. wait_key w = k) ws = Some w"
  shows "count_where (\<lambda>x. wait_key x = k \<and> Q x) ws = (if Q w then 1 else 0)"
proof -
  note w = select_where_Some [OF assms(2)]
  have le: "count_where (\<lambda>x. wait_key x = k \<and> Q x) ws \<le> 1"
    using assms(1) by (rule count_where_unique [where k = k]) simp
  show ?thesis
  proof (cases "Q w")
    case True
    with w have "0 < count_where (\<lambda>x. wait_key x = k \<and> Q x) ws" by (auto simp: count_where_pos)
    with le True show ?thesis by simp
  next
    case False
    with w unique_row [OF assms(1)] have "\<forall>x \<in> set ws. \<not> (wait_key x = k \<and> Q x)" by blast
    with False show ?thesis by simp
  qed
qed

lemma observe_result:
  assumes "waits_inv ws" and ok: "wait_authority_ok runID pr head profile threshold first at"
    and "wait_state_ok s pr_of runID pr head profile = None"
    and "w = wait_of (runID, pr, head, profile) first ws"
  shows "fst (ObserveCIWait pr_of runID pr head profile threshold first at s ws) =
    (if cw_WarningAt w \<noteq> 0 \<or> at < cw_FirstSeenAt w + threshold then Inr w
     else if cw_ClosedAt w = 0 then Inr (w\<lparr>cw_WarningAt := cw_FirstSeenAt w + threshold\<rparr>)
     else Inl (New ''CI wait warning compare update lost''))"
proof -
  let ?k = "(runID, pr, head, profile)"
  let ?ws1 = "insert_wait ?k first (close_others ?k at ws)"
  have "at \<noteq> 0" using ok by (simp add: wait_authority_ok_def is_zero_time_def)
  with insert_wait_inv [OF assms(1)] have "distinct (map wait_key ?ws1)" by (simp add: waits_inv_def)
  from count_open_wait [OF this select_insert_wait, of "\<lambda>w. cw_WarningAt w = 0 \<and> cw_ClosedAt w = 0"]
  have n: "fst (warn_wait ?k due ?ws1) = (if cw_WarningAt w = 0 \<and> cw_ClosedAt w = 0 then 1 else 0)" for due
    by (simp add: warn_wait_def Let_def is_zero_time_def assms(4))
  show ?thesis
  proof (cases "cw_WarningAt w \<noteq> 0 \<or> at < cw_FirstSeenAt w + threshold")
    case True
    then show ?thesis
      using ok assms(3,4) by (auto simp: ObserveCIWait_def Let_def select_insert_wait is_zero_time_def)
  next
    case False
    obtain m ws2 where m: "warn_wait ?k (cw_FirstSeenAt w + threshold) ?ws1 = (m, ws2)" by fastforce
    with n [of "cw_FirstSeenAt w + threshold"] False have "m = (if cw_ClosedAt w = 0 then 1 else 0)" by simp
    with False m ok assms(3,4) show ?thesis
      by (simp add: ObserveCIWait_def Let_def select_insert_wait is_zero_time_def)
  qed
qed

text \<open>Observing a wait under valid authority returns the row of that exact run, pull request, head and
  profile: its first observation stays the anchor, the warning is set once, exactly the threshold after
  it, and a row that was closed before its warning was due makes the observation fail.\<close>

theorem observe_wait_exact:
  assumes "path wait_step [] ts ws" and "wait_authority_ok runID pr head profile threshold first at"
    and "wait_state_ok s pr_of runID pr head profile = None"
    and "w = wait_of (runID, pr, head, profile) first ws"
  shows "fst (ObserveCIWait pr_of runID pr head profile threshold first at s ws) =
    (if cw_WarningAt w \<noteq> 0 \<or> at < cw_FirstSeenAt w + threshold then Inr w
     else if cw_ClosedAt w = 0 then Inr (w\<lparr>cw_WarningAt := cw_FirstSeenAt w + threshold\<rparr>)
     else Inl (New ''CI wait warning compare update lost''))"
  using waits.path_inv [OF assms(1)] assms(2-4) by (intro observe_result) (simp_all add: waits_inv_def)

lemma wait_of_row:
  assumes "waits_inv ws" and "w \<in> set ws"
  shows "wait_of (wait_key w) first ws = w"
  using select_unique [of wait_key ws w] assms by (simp add: wait_of_def waits_inv_def)

text \<open>C5: Once the wait of a run for a head was closed, checks of that head that are waiting again are never
  polled past the threshold: from then on every reconciliation of the wait fails, whatever happened to the
  table in between.\<close>

theorem closed_wait_blocks_polling:
  assumes "path wait_step [] ts ws" and "w \<in> set ws" and "cw_ClosedAt w \<noteq> 0"
    and "path wait_step ws ts' ws'"
    and "waiting_evidence i = Some ev" and "wi_PullRequest i = Some (cw_PRNumber w)"
    and "run_ID (wi_Run i) = cw_RunID w" and "run_CandidateHead (wi_Run i) = cw_HeadSHA w"
    and "run_ProfileDigest (wi_Run i) = cw_ProfileDigest w" and "now \<ge> cw_FirstSeenAt w + threshold"
  shows "\<exists>e. fst (reconcileCIWait (CISlowAttentionEvent json profile_of digest) publish pr_of threshold i now s ws') = Some e"
proof -
  have w': "w \<in> set ws'"
    using closed_wait_path [OF assms(4,2)] assms(3) by (simp add: open_wait_def is_zero_time_def)
  have inv: "waits_inv ws'"
    using waits.path_inv [OF assms(4)] waits.path_inv [OF assms(1)] by (simp add: waits_inv_def)
  obtain r ws2 where r: "ObserveCIWait pr_of (cw_RunID w) (cw_PRNumber w) (cw_HeadSHA w) (cw_ProfileDigest w)
      threshold (ev_ObservedAt ev) now s ws' = (r, ws2)" by fastforce
  have "(\<exists>e. r = Inl e) \<or> r = Inr w \<and> cw_WarningAt w \<noteq> 0"
  proof (cases "wait_authority_ok (cw_RunID w) (cw_PRNumber w) (cw_HeadSHA w) (cw_ProfileDigest w) threshold
      (ev_ObservedAt ev) now \<and> wait_state_ok s pr_of (cw_RunID w) (cw_PRNumber w) (cw_HeadSHA w)
      (cw_ProfileDigest w) = None")
    case True
    have "w = wait_of (cw_RunID w, cw_PRNumber w, cw_HeadSHA w, cw_ProfileDigest w) (ev_ObservedAt ev) ws'"
      using wait_of_row [OF inv w'] by (simp add: wait_key_def)
    from observe_result [OF inv True [THEN conjunct1] True [THEN conjunct2] this] r assms(3,10)
    show ?thesis by (auto split: if_splits)
  next
    case False
    with r show ?thesis unfolding ObserveCIWait_def by (auto split: option.splits if_splits)
  qed
  moreover have "\<exists>e. CISlowAttentionEvent json profile_of digest (wi_Run i) w = Inl e"
    using assms(3) by (simp add: CISlowAttentionEvent_def is_zero_time_def)
  ultimately show ?thesis
    using assms(5-9) r by (auto simp: reconcileCIWait_def Let_def is_zero_time_def)
qed


section \<open>A wait that is closed and waits again\<close>

definition waiting_run :: run_row where
  "waiting_run = sample_run\<lparr>run_State := StateReconcilingReviews, run_CandidateHead := ''head'',
     run_ProfileDigest := ''p''\<rparr>"

definition waiting_store :: store where
  "waiting_store = empty_store\<lparr>st_runs := [waiting_run]\<rparr>"

definition opened_wait :: ci_wait where
  "opened_wait = \<lparr>cw_RunID = run_ID waiting_run, cw_PRNumber = 7, cw_HeadSHA = ''head'', cw_ProfileDigest = ''p'',
     cw_FirstSeenAt = 10, cw_WarningAt = 0, cw_ClosedAt = 0\<rparr>"

definition waiting_inspection :: wait_inspection where
  "waiting_inspection = \<lparr>wi_Run = waiting_run, wi_PullRequest = Some 7,
     wi_Evidence = Some (sample_evidence\<lparr>ev_PullRequest := sample_pr\<lparr>pr_HeadSHA := ''head''\<rparr>,
       ev_Checks := [(sample_ghc ''test'' CheckQueued)\<lparr>ghc_ObservedSHA := ''head''\<rparr>]\<rparr>)\<rparr>"

lemma waiting_steps:
  "ObserveCIWait (\<lambda>_. Some 7) (run_ID waiting_run) 7 ''head'' ''p'' minute 10 20 waiting_store [] =
     (Inr opened_wait, [opened_wait])"
  "CloseCIWaits (run_ID waiting_run) 30 [opened_wait] = (None, [opened_wait\<lparr>cw_ClosedAt := 30\<rparr>])"
  by code_simp+

lemma waiting_paths:
  "path wait_step [] [[opened_wait]] [opened_wait]"
  "path wait_step [] [[opened_wait], [opened_wait\<lparr>cw_ClosedAt := 30\<rparr>]] [opened_wait\<lparr>cw_ClosedAt := 30\<rparr>]"
  using step_observe [OF waiting_steps(1)] step_close [OF waiting_steps(2)] by (auto intro: path.intros)

theorem observe_wait_exact_witness:
  "fst (ObserveCIWait (\<lambda>_. Some 7) (run_ID waiting_run) 7 ''head'' ''p'' minute 50 (10 + 2 * minute) waiting_store
     [opened_wait]) = Inr (opened_wait\<lparr>cw_WarningAt := 10 + minute\<rparr>)"
proof -
  have "wait_authority_ok (run_ID waiting_run) 7 ''head'' ''p'' minute 50 (10 + 2 * minute)"
    "wait_state_ok waiting_store (\<lambda>_. Some 7) (run_ID waiting_run) 7 ''head'' ''p'' = None"
    "wait_of (run_ID waiting_run, 7, ''head'', ''p'') 50 [opened_wait] = opened_wait" by code_simp+
  from observe_wait_exact [OF waiting_paths(1) this(1,2) this(3) [symmetric]]
  show ?thesis by (simp add: opened_wait_def)
qed

theorem closed_wait_blocks_polling_witness:
  "\<exists>e. fst (reconcileCIWait (CISlowAttentionEvent (\<lambda>_. []) (\<lambda>_. None) (\<lambda>_ _. [])) (\<lambda>_. Inr True) (\<lambda>_. Some 7)
     minute waiting_inspection (10 + 2 * minute) waiting_store [opened_wait\<lparr>cw_ClosedAt := 30\<rparr>]) = Some e"
proof -
  obtain ev where "waiting_evidence waiting_inspection = Some ev"
  proof -
    have "waiting_evidence waiting_inspection \<noteq> None" by code_simp
    with that show thesis by blast
  qed
  note ev = this
  show ?thesis
    by (rule closed_wait_blocks_polling [where w = "opened_wait\<lparr>cw_ClosedAt := 30\<rparr>", OF waiting_paths(2) _ _ path_Nil ev])
      (simp_all add: opened_wait_def waiting_inspection_def waiting_run_def)
qed

end
