(* ===== verification/Driver.thy ===== *)
theory Driver
  imports Authorization CI_Wait "HOL-Library.While_Combinator"
begin

text \<open>
  The production driver: \<open>application/driver.go\<close> with \<open>productionNextAction\<close> of
  \<open>application/production.go\<close>. Everything outside \<open>Drive\<close>'s local variables is one environment \<open>'e\<close>:
  the store, the clock, GitHub, Linear and the context. The ports of the driver are a record of
  functions on it, the interfaces the code declares; \<open>None\<close> is a nil port. The loop is
  \<open>while_option\<close> over one iteration, so a call that never returns is \<open>None\<close>.
\<close>

section \<open>Error values\<close>

fun error_is :: "go_error \<Rightarrow> go_error \<Rightarrow> bool" where
  "error_is target (Wrapf f a e) \<longleftrightarrow> Wrapf f a e = target \<or> error_is target e"
| "error_is target (ServiceErr c m (Some e)) \<longleftrightarrow> ServiceErr c m (Some e) = target \<or> error_is target e"
| "error_is target (Joined a b) \<longleftrightarrow> Joined a b = target \<or> error_is target a \<or> error_is target b"
| "error_is target e \<longleftrightarrow> e = target"

fun as_service :: "go_error \<Rightarrow> error_category option" where
  "as_service (ServiceErr c m x) = Some c"
| "as_service (Wrapf f a e) = as_service e"
| "as_service (Joined a b) = (case as_service a of Some c \<Rightarrow> Some c | None \<Rightarrow> as_service b)"
| "as_service _ = None"

definition context_canceled :: go_error where
  "context_canceled = New ''context canceled''"

definition deadline_exceeded :: go_error where
  "deadline_exceeded = New ''context deadline exceeded''"

definition classifyServiceError :: "go_error \<Rightarrow> go_error" where
  "classifyServiceError e =
     (if as_service e \<noteq> None then e
      else if error_is run_not_found e then ServiceErr ErrorNotFound ''run was not found'' (Some e)
      else if error_is ErrRepositoryAdmissionConflict e
      then ServiceErr ErrorConflict ''repository admission is fenced'' (Some e)
      else if error_is context_canceled e \<or> error_is deadline_exceeded e
      then ServiceErr ErrorUnavailable ''application operation was interrupted'' (Some e)
      else ServiceErr ErrorInternal ''application operation failed'' (Some e))"

definition retryableProductionDriverError :: "go_error \<Rightarrow> bool" where
  "retryableProductionDriverError e \<longleftrightarrow> as_service e = Some ErrorUnavailable"

section \<open>Actions\<close>

datatype production_action =
    ProductionContinueLocal | ProductionReconcileGitHub | ProductionReplyReviewFeedback
  | ProductionPush | ProductionOpenPullRequest | ProductionMerge | ProductionReconcileLinear
  | ProductionCleanup | ProductionAbandon | ProductionStop

fun productionNextAction :: "state \<Rightarrow> production_action \<times> string" where
  "productionNextAction st =
     (let local = (ProductionContinueLocal, ''local controller evidence is resumable'');
          github = (ProductionReconcileGitHub, ''persisted pull request requires fresh GitHub read evidence'');
          push = (ProductionPush, ''verified candidate may be reconciled with its owned working branch'');
          open_pr = (ProductionOpenPullRequest, ''pushed exact candidate may open its one owned pull request'')
      in case st of
        StateReceived \<Rightarrow> local | StateAdmitting \<Rightarrow> local | StateProvisioning \<Rightarrow> local
      | StateExecuting \<Rightarrow> local | StateAwaitingHumanDecision \<Rightarrow> local | StateVerifying \<Rightarrow> local
      | StateFreshReview \<Rightarrow> local
      | StateRepairing \<Rightarrow>
          (ProductionContinueLocal, ''persisted trusted review findings require a bounded Terra repair'')
      | StatePROpen \<Rightarrow> github | StateReconcilingReviews \<Rightarrow> github | StateAwaitingHumanApproval \<Rightarrow> github
      | StateReplyingReviewFeedback \<Rightarrow>
          (ProductionReplyReviewFeedback, ''verified review repair requires one restart-safe reply'')
      | StateApprovalReady \<Rightarrow> push | StatePushingBranch \<Rightarrow> push
      | StateBranchPushed \<Rightarrow> open_pr | StateOpeningPR \<Rightarrow> open_pr
      | StateMerging \<Rightarrow> (ProductionMerge, ''trusted exact-HEAD approval requires a guarded squash merge'')
      | StateAwaitingGitHubMergeability \<Rightarrow>
          (ProductionReconcileGitHub, ''GitHub merge protection requires read-only resolution observation'')
      | StateAwaitingLinearCompletion \<Rightarrow>
          (ProductionReconcileLinear, ''authoritative merge requires bounded read-only Linear completion observation'')
      | StateCleaning \<Rightarrow> (ProductionCleanup, ''completed Linear evidence authorizes owned cleanup'')
      | StateManualIntervention \<Rightarrow> (ProductionStop, ''durable evidence requires a human decision'')
      | _ \<Rightarrow> (ProductionStop, ''run is terminal or unsupported for reconciliation''))"

definition productionPermitReleaseReason :: "state \<Rightarrow> string" where
  "productionPermitReleaseReason st =
     (if TerminalRunState st then ''terminal''
      else if st = StateManualIntervention then ''manual_intervention''
      else if st = StateAwaitingHumanDecision then ''human_wait'' else ''external_wait'')"

section \<open>Policy, command and ports\<close>

record driver_policy =
  dp_PollInterval :: duration
  dp_MaxImmediateAction :: int
  dp_CISlowThreshold :: duration
  dp_ReturnOnExternalWait :: bool
  dp_HeavyPermitOwner :: string

definition DriverPolicy_validate :: "driver_policy \<Rightarrow> go_error option" where
  "DriverPolicy_validate p =
     (if dp_PollInterval p \<le> 0 then Some (New ''production driver poll interval must be positive'')
      else if dp_MaxImmediateAction p < 1
      then Some (New ''production driver immediate action limit must be positive'')
      else if dp_CISlowThreshold p \<noteq> 0 \<and> (dp_CISlowThreshold p < minute \<or> dp_CISlowThreshold p > 24 * hour)
      then Some (New ''production driver CI slow threshold must be between 1m and 24h'')
      else None)"

definition NewProductionDriver_policy :: "driver_policy \<Rightarrow> driver_policy result" where
  "NewProductionDriver_policy p =
     (case DriverPolicy_validate p of
        Some e \<Rightarrow> Inl e
      | None \<Rightarrow> Inr (if dp_CISlowThreshold p = 0 then p\<lparr>dp_CISlowThreshold := 20 * minute\<rparr> else p))"

record drive_command =
  dc_Requester :: requester
  dc_RunID :: string
  dc_Repository :: string
  dc_IdempotencyKey :: string

record drive_result =
  dr_Run :: run_row
  dr_Action :: production_action
  dr_Reason :: string
  dr_ActionsRun :: int

text \<open>The command every coordinator method takes.\<close>

record production_command =
  pc_Requester :: requester
  pc_RunID :: string
  pc_Repository :: string
  pc_ExpectedState :: state
  pc_IdempotencyKey :: string

record run_inspection = wait_inspection +
  ri_Timeline :: "transition_row list"

text \<open>
  \<open>ports_call owner action command\<close> is the coordinator's method for the action, with the permit owner
  in its context; it returns the action of its result. \<open>ports_manual_event\<close> and
  \<open>ports_decision_event\<close> are the events of theory Attention with their encoders. \<open>ports_present\<close> says which of the ports the
  methods need are not nil. \<open>ports_waits\<close> is the CI-wait store behind \<open>reconcileCIWait\<close> and \<open>closeCIWait\<close>,
  \<open>ports_reconcile\<close> the optional interface for interrupted runs.
\<close>

datatype port = PortGitHubReader | PortReviewCommentReply | PortApprovalValidator | PortBranchPublisher
  | PortPullRequestOpener | PortSquashMerger | PortCleanup | PortSourceSync

record 'e heavy_scheduler =
  hs_Acquire :: "string \<Rightarrow> string \<Rightarrow> time \<Rightarrow> 'e \<Rightarrow> permit_row option result \<times> 'e"
  hs_Release :: "permit_row \<Rightarrow> string \<Rightarrow> time \<Rightarrow> 'e \<Rightarrow> bool result \<times> 'e"

record 'e wait_store =
  ws_Reconcile :: "run_inspection \<Rightarrow> time \<Rightarrow> 'e \<Rightarrow> go_error option \<times> 'e"
  ws_Close :: "string \<Rightarrow> time \<Rightarrow> 'e \<Rightarrow> go_error option \<times> 'e"

record 'e driver_ports =
  ports_ctx :: "'e \<Rightarrow> go_error option"
  ports_now :: "'e \<Rightarrow> time"
  ports_GetRun :: "string \<Rightarrow> 'e \<Rightarrow> run_row result"
  ports_progress :: "run_row \<Rightarrow> 'e \<Rightarrow> bool result"
  ports_authorize :: "run_row \<Rightarrow> requester \<Rightarrow> go_error option"
  ports_Inspect :: "string \<Rightarrow> 'e \<Rightarrow> run_inspection result"
  ports_scheduler :: "'e heavy_scheduler option"
  ports_reconcile :: "(string \<Rightarrow> 'e \<Rightarrow> go_error option \<times> 'e) option"
  ports_waits :: "'e wait_store option"
  ports_manual_event :: "run_row \<Rightarrow> transition_row \<Rightarrow> attention_event result"
  ports_decision_event :: "run_row \<Rightarrow> transition_row \<Rightarrow> attention_event result"
  ports_append :: "attention_event \<Rightarrow> 'e \<Rightarrow> bool result \<times> 'e"
  ports_wait :: "duration \<Rightarrow> 'e \<Rightarrow> go_error option \<times> 'e"
  ports_present :: "port list"
  ports_call :: "string \<Rightarrow> production_action \<Rightarrow> production_command \<Rightarrow> 'e \<Rightarrow> production_action result \<times> 'e"


section \<open>Publishing a stop\<close>

definition publish_stop ::
  "go_error \<Rightarrow> (transition_row list \<Rightarrow> transition_row result) \<Rightarrow>
     (run_row \<Rightarrow> transition_row \<Rightarrow> attention_event result) \<Rightarrow> 'e driver_ports \<Rightarrow> run_row \<Rightarrow>
     run_inspection \<Rightarrow> 'e \<Rightarrow> go_error option \<times> 'e" where
  "publish_stop invalid latest event d run i e =
     (if run_ID (wi_Run i) \<noteq> [] \<and> run_ID (wi_Run i) \<noteq> run_ID run then (Some invalid, e)
      else case latest (ri_Timeline i) of
        Inl err \<Rightarrow> (Some err, e)
      | Inr t \<Rightarrow>
     (case event run t of
        Inl err \<Rightarrow> (Some err, e)
      | Inr ae \<Rightarrow>
     (case ports_append d ae e of
        (Inl err, e') \<Rightarrow> (Some err, e') | (Inr _, e') \<Rightarrow> (None, e'))))"

definition publishManualInterventionAttention ::
  "'e driver_ports \<Rightarrow> run_row \<Rightarrow> run_inspection \<Rightarrow> 'e \<Rightarrow> go_error option \<times> 'e" where
  "publishManualInterventionAttention d =
     publish_stop (New ''manual intervention attention dependencies are invalid'')
       latestManualInterventionTransition (ports_manual_event d) d"

definition publishHumanDecisionAttention ::
  "'e driver_ports \<Rightarrow> run_row \<Rightarrow> run_inspection \<Rightarrow> 'e \<Rightarrow> go_error option \<times> 'e" where
  "publishHumanDecisionAttention d =
     publish_stop (New ''human decision attention dependencies are invalid'')
       latestHumanDecisionTransition (ports_decision_event d) d"

section \<open>One iteration\<close>

text \<open>The local variables of \<open>Drive\<close>. The counter \<open>actions\<close> wraps like a 64-bit \<open>int\<close>; \<open>immediate\<close> stays
  below the limit of the policy.\<close>

record 'e drive_state =
  ds_env :: 'e
  ds_actions :: int
  ds_immediate :: int
  ds_permit :: permit_row

datatype 'e drive_outcome = Again "'e drive_state" | Return "drive_result result" "'e drive_state"

definition no_permit :: permit_row where
  "no_permit = \<lparr>hp_RunID = [], hp_OwnerNonce = [], hp_Version = 0, hp_AcquiredAt = 0, hp_UpdatedAt = 0\<rparr>"

definition releasePermit :: "'e driver_ports \<Rightarrow> string \<Rightarrow> 'e drive_state \<Rightarrow> 'e drive_state" where
  "releasePermit d reason x =
     (case ports_scheduler d of
        None \<Rightarrow> x
      | Some h \<Rightarrow>
          (if hp_RunID (ds_permit x) = [] then x
           else case hs_Release h (ds_permit x) reason (ports_now d (ds_env x)) (ds_env x) of
             (Inr True, e) \<Rightarrow> x\<lparr>ds_env := e, ds_permit := no_permit\<rparr>
           | (_, e) \<Rightarrow> x\<lparr>ds_env := e\<rparr>))"

definition fail :: "go_error \<Rightarrow> 'e drive_state \<Rightarrow> 'e drive_outcome" where
  "fail err x = Return (Inl err) x"

text \<open>\<open>stop\<close>: a human or manual stop is published before it is reported.\<close>

definition stop ::
  "'e driver_ports \<Rightarrow> run_row \<Rightarrow> production_action \<Rightarrow> string \<Rightarrow> 'e drive_state \<Rightarrow> 'e drive_outcome" where
  "stop d run action reason x =
     (let res = \<lparr>dr_Run = run, dr_Action = action, dr_Reason = reason, dr_ActionsRun = ds_actions x\<rparr> in
      if run_State run \<noteq> StateManualIntervention \<and> run_State run \<noteq> StateAwaitingHumanDecision
      then Return (Inr res) x
      else case ports_Inspect d (run_ID run) (ds_env x) of
        Inl err \<Rightarrow> fail (classifyServiceError err) x
      | Inr i \<Rightarrow>
          (case (if run_State run = StateAwaitingHumanDecision then publishHumanDecisionAttention d run i (ds_env x)
                 else publishManualInterventionAttention d run i (ds_env x)) of
             (Some err, e) \<Rightarrow> fail (classifyServiceError err) (x\<lparr>ds_env := e\<rparr>)
           | (None, e) \<Rightarrow> Return (Inr res) (x\<lparr>ds_env := e\<rparr>)))"

definition durableStop :: "'e driver_ports \<Rightarrow> drive_command \<Rightarrow> 'e drive_state \<Rightarrow> 'e drive_outcome option" where
  "durableStop d c x =
     (case ports_GetRun d (dc_RunID c) (ds_env x) of
        Inl _ \<Rightarrow> None
      | Inr run \<Rightarrow>
          (if run_Repository run \<noteq> dc_Repository c \<or> run_IdempotencyKey run \<noteq> dc_IdempotencyKey c \<or>
              ports_authorize d run (dc_Requester c) \<noteq> None then None
           else if run_State run = StateAwaitingHumanDecision
           then Some (stop d run ProductionStop ''durable human decision is required'' x)
           else (case productionNextAction (run_State run) of
               (ProductionStop, reason) \<Rightarrow> Some (stop d run ProductionStop reason x)
             | _ \<Rightarrow> None)))"

definition reconcileCIWait_port :: "'e driver_ports \<Rightarrow> string \<Rightarrow> 'e \<Rightarrow> go_error option \<times> 'e" where
  "reconcileCIWait_port d runID e =
     (case ports_waits d of
        None \<Rightarrow> (None, e)
      | Some w \<Rightarrow>
          (case ports_Inspect d runID e of
             Inl err \<Rightarrow> (Some err, e) | Inr i \<Rightarrow> ws_Reconcile w i (ports_now d e) e))"

definition closeCIWait :: "'e driver_ports \<Rightarrow> string \<Rightarrow> 'e \<Rightarrow> go_error option \<times> 'e" where
  "closeCIWait d runID e =
     (case ports_waits d of None \<Rightarrow> (None, e) | Some w \<Rightarrow> ws_Close w runID (ports_now d e) e)"

definition required_ports :: "production_action \<Rightarrow> port list \<times> string" where
  "required_ports action =
     (case action of
        ProductionReconcileGitHub \<Rightarrow>
          ([PortGitHubReader], ''GitHub read port is required for automatic reconciliation'')
      | ProductionReplyReviewFeedback \<Rightarrow>
          ([PortApprovalValidator, PortGitHubReader, PortReviewCommentReply],
           ''approval validator, GitHub reader, and review reply port are required for automatic review replies'')
      | ProductionPush \<Rightarrow>
          ([PortApprovalValidator, PortBranchPublisher],
           ''approval validator and branch publisher are required for automatic push'')
      | ProductionOpenPullRequest \<Rightarrow>
          ([PortApprovalValidator, PortPullRequestOpener],
           ''approval validator and pull request opener are required for automatic pull request creation'')
      | ProductionMerge \<Rightarrow>
          ([PortApprovalValidator, PortGitHubReader, PortSquashMerger],
           ''approval validator, GitHub reader, and squash merger are required for automatic merge'')
      | ProductionCleanup \<Rightarrow>
          ([PortCleanup, PortSourceSync],
           ''cleanup and source synchronization ports are required for automatic cleanup'')
      | _ \<Rightarrow> ([], []))"

text \<open>\<open>apply\<close>: \<open>(poll, err)\<close>. Only the two observing actions ask to be polled.\<close>

definition apply_action ::
  "'e driver_ports \<Rightarrow> driver_policy \<Rightarrow> drive_command \<Rightarrow> run_row \<Rightarrow> production_action \<Rightarrow> 'e \<Rightarrow>
     (bool \<times> go_error option) \<times> 'e" where
  "apply_action d p c run action e =
     (let (needed, message) = required_ports action;
          pc = \<lparr>pc_Requester = dc_Requester c, pc_RunID = run_ID run, pc_Repository = run_Repository run,
                pc_ExpectedState = run_State run, pc_IdempotencyKey = run_IdempotencyKey run\<rparr>
      in if action = ProductionAbandon \<or> action = ProductionStop
         then ((False, Some (ServiceErr ErrorInternal
                 ''production action is unsupported by automatic driver'' None)), e)
         else if \<not> set needed \<subseteq> set (ports_present d)
         then ((False, Some (ServiceErr ErrorInternal message None)), e)
         else (case ports_call d (dp_HeavyPermitOwner p) action pc e of
           (Inl err, e') \<Rightarrow> ((False, Some err), e')
         | (Inr result_action, e') \<Rightarrow>
             (((action = ProductionReconcileGitHub \<or> action = ProductionReconcileLinear) \<and>
                 result_action = action, None), e')))"


text \<open>The poll: an error of the wait ends the loop, otherwise the next iteration starts.\<close>

definition poll :: "'e driver_ports \<Rightarrow> driver_policy \<Rightarrow> 'e drive_state \<Rightarrow> 'e drive_outcome" where
  "poll d p x =
     (case ports_wait d (dp_PollInterval p) (ds_env x) of
        (Some err, e) \<Rightarrow> fail err (x\<lparr>ds_env := e\<rparr>)
      | (None, e) \<Rightarrow> Again (x\<lparr>ds_env := e\<rparr>))"

definition read_run :: "'e driver_ports \<Rightarrow> drive_command \<Rightarrow> 'e drive_state \<Rightarrow> run_row result" where
  "read_run d c x =
     (case ports_ctx d (ds_env x) of
        Some err \<Rightarrow> Inl err
      | None \<Rightarrow>
     (case ports_GetRun d (dc_RunID c) (ds_env x) of
        Inl err \<Rightarrow> Inl (classifyServiceError err)
      | Inr run \<Rightarrow>
     (case ports_progress d run (ds_env x) of
        Inl err \<Rightarrow> Inl (classifyServiceError err)
      | Inr allowed \<Rightarrow>
     (if \<not> allowed
      then Inl (ServiceErr ErrorConflict ''run progress is blocked by unresolved historical recovery evidence'' None)
      else if run_Repository run \<noteq> dc_Repository c \<or> run_IdempotencyKey run \<noteq> dc_IdempotencyKey c
      then Inl (ServiceErr ErrorConflict ''run authority changed before automatic delivery'' None)
      else case ports_authorize d run (dc_Requester c) of Some err \<Rightarrow> Inl err | None \<Rightarrow> Inr run))))"

definition acquire_permit ::
  "'e driver_ports \<Rightarrow> 'e heavy_scheduler \<Rightarrow> string \<Rightarrow> string \<Rightarrow> 'e \<Rightarrow> permit_row option result \<times> 'e" where
  "acquire_permit d h runID owner e =
     (case hs_Acquire h runID owner (ports_now d e) e of
        (Inl err, e1) \<Rightarrow>
          (if \<not> error_is ErrHeavyPermitProcessReconciliationRequired err
           then (Inl (classifyServiceError err), e1)
           else case ports_reconcile d of
             None \<Rightarrow> (Inl (ServiceErr ErrorInternal ''interrupted heavy work cannot be reconciled'' None), e1)
           | Some f \<Rightarrow>
               (case f runID e1 of
                  (Some err2, e2) \<Rightarrow> (Inl (classifyServiceError err2), e2)
                | (None, e2) \<Rightarrow>
                    (case hs_Acquire h runID owner (ports_now d e2) e2 of
                       (Inl err3, e3) \<Rightarrow> (Inl (classifyServiceError err3), e3)
                     | (Inr held, e3) \<Rightarrow> (Inr held, e3))))
      | (Inr held, e1) \<Rightarrow> (Inr held, e1))"

text \<open>Heavy work needs a permit, anything else gives it back. \<open>Inl\<close> ends the iteration.\<close>

definition hold_permit ::
  "'e driver_ports \<Rightarrow> driver_policy \<Rightarrow> run_row \<Rightarrow> 'e drive_state \<Rightarrow> 'e drive_outcome + 'e drive_state" where
  "hold_permit d p run x =
     (case (HeavyWorkRequired (run_State run), ports_scheduler d) of
        (True, Some h) \<Rightarrow>
          (if dp_HeavyPermitOwner p = []
           then Inl (fail (ServiceErr ErrorInternal ''heavy-work permit owner is required'' None) x)
           else if hp_RunID (ds_permit x) \<noteq> [] then Inr x
           else (case acquire_permit d h (run_ID run) (dp_HeavyPermitOwner p) (ds_env x) of
               (Inl err, e) \<Rightarrow> Inl (fail err (x\<lparr>ds_env := e\<rparr>))
             | (Inr None, e) \<Rightarrow> Inl (poll d p (x\<lparr>ds_env := e\<rparr>))
             | (Inr (Some held), e) \<Rightarrow> Inr (x\<lparr>ds_env := e, ds_permit := held\<rparr>)))
      | _ \<Rightarrow>
          (if hp_RunID (ds_permit x) \<noteq> []
           then Inr (releasePermit d (productionPermitReleaseReason (run_State run)) x) else Inr x))"

text \<open>After an action that failed: close the wait of a failed reconciliation, report a stop that the
  action itself persisted, and poll after an error that may pass.\<close>

definition action_failed ::
  "'e driver_ports \<Rightarrow> driver_policy \<Rightarrow> drive_command \<Rightarrow> production_action \<Rightarrow> go_error \<Rightarrow>
     'e drive_state \<Rightarrow> 'e drive_outcome" where
  "action_failed d p c action err x =
     (if retryableProductionDriverError err
      then (if dp_ReturnOnExternalWait p then fail err x
            else poll d p (x\<lparr>ds_immediate := 0\<rparr>))
      else (case (if action = ProductionReconcileGitHub then closeCIWait d (dc_RunID c) (ds_env x)
                  else (None, ds_env x)) of
          (Some err2, e) \<Rightarrow> fail (classifyServiceError err2) (x\<lparr>ds_env := e\<rparr>)
        | (None, e) \<Rightarrow>
            (case durableStop d c (x\<lparr>ds_env := e\<rparr>) of
               Some out \<Rightarrow> out | None \<Rightarrow> fail err (x\<lparr>ds_env := e\<rparr>))))"

definition action_done ::
  "'e driver_ports \<Rightarrow> driver_policy \<Rightarrow> drive_command \<Rightarrow> production_action \<Rightarrow> bool \<Rightarrow>
     'e drive_state \<Rightarrow> 'e drive_outcome" where
  "action_done d p c action polling x =
     (case (if action = ProductionReconcileGitHub then reconcileCIWait_port d (dc_RunID c) (ds_env x)
            else (None, ds_env x)) of
        (Some err, e) \<Rightarrow> fail (classifyServiceError err) (x\<lparr>ds_env := e\<rparr>)
      | (None, e) \<Rightarrow>
          (let x' = x\<lparr>ds_env := e\<rparr> in
           if \<not> polling then Again x'
           else if dp_ReturnOnExternalWait p
           then (case ports_GetRun d (dc_RunID c) e of
               Inl err \<Rightarrow> fail (classifyServiceError err) x'
             | Inr waiting \<Rightarrow>
                 (let x2 = (if HeavyWorkRequired (run_State waiting) then x'
                            else releasePermit d (productionPermitReleaseReason (run_State waiting)) x');
                      (action', reason) = productionNextAction (run_State waiting)
                  in Return (Inr \<lparr>dr_Run = waiting, dr_Action = action', dr_Reason = reason,
                       dr_ActionsRun = ds_actions x2\<rparr>) x2))
           else poll d p (x'\<lparr>ds_immediate := 0\<rparr>)))"

definition act ::
  "'e driver_ports \<Rightarrow> driver_policy \<Rightarrow> drive_command \<Rightarrow> run_row \<Rightarrow> production_action \<Rightarrow>
     'e drive_state \<Rightarrow> 'e drive_outcome" where
  "act d p c run action x =
     (case apply_action d p c run action (ds_env x) of
        ((polling, err), e) \<Rightarrow>
          (let x' = x\<lparr>ds_env := e, ds_immediate := ds_immediate x + 1, ds_actions := wrap64 (ds_actions x + 1)\<rparr>
           in case err of
             Some er \<Rightarrow> action_failed d p c action er x'
           | None \<Rightarrow> action_done d p c action polling x'))"

definition dispatch ::
  "'e driver_ports \<Rightarrow> driver_policy \<Rightarrow> drive_command \<Rightarrow> run_row \<Rightarrow> 'e drive_state \<Rightarrow> 'e drive_outcome" where
  "dispatch d p c run x =
     (case reconcileCIWait_port d (dc_RunID c) (ds_env x) of
        (Some err, e) \<Rightarrow> fail (classifyServiceError err) (x\<lparr>ds_env := e\<rparr>)
      | (None, e) \<Rightarrow>
          (let x' = x\<lparr>ds_env := e\<rparr>; (action, reason) = productionNextAction (run_State run) in
           if run_State run = StateAwaitingHumanDecision
           then stop d run ProductionStop ''durable human decision is required'' x'
           else if action = ProductionStop then stop d run action reason x'
           else if ds_immediate x' \<ge> dp_MaxImmediateAction p
           then poll d p (x'\<lparr>ds_immediate := 0\<rparr>)
           else act d p c run action x'))"

definition drive_iteration ::
  "'e driver_ports \<Rightarrow> driver_policy \<Rightarrow> drive_command \<Rightarrow> 'e drive_state \<Rightarrow> 'e drive_outcome" where
  "drive_iteration d p c x =
     (case read_run d c x of
        Inl err \<Rightarrow> fail err x
      | Inr run \<Rightarrow> (case hold_permit d p run x of Inl out \<Rightarrow> out | Inr x' \<Rightarrow> dispatch d p c run x'))"

section \<open>The loop\<close>

fun running :: "'e drive_outcome \<Rightarrow> bool" where
  "running (Again x) = True"
| "running (Return r x) = False"

fun iterate :: "'e driver_ports \<Rightarrow> driver_policy \<Rightarrow> drive_command \<Rightarrow> 'e drive_outcome \<Rightarrow> 'e drive_outcome" where
  "iterate d p c (Again x) = drive_iteration d p c x"
| "iterate d p c (Return r x) = Return r x"

definition drive_loop ::
  "'e driver_ports \<Rightarrow> driver_policy \<Rightarrow> drive_command \<Rightarrow> 'e drive_state \<Rightarrow> 'e drive_outcome option" where
  "drive_loop d p c x = while_option running (iterate d p c) (Again x)"

definition drive_start :: "'e \<Rightarrow> 'e drive_state" where
  "drive_start e = \<lparr>ds_env = e, ds_actions = 0, ds_immediate = 0, ds_permit = no_permit\<rparr>"

text \<open>The deferred release runs on every return.\<close>

fun leave :: "'e driver_ports \<Rightarrow> 'e drive_outcome \<Rightarrow> (drive_result result \<times> 'e) option" where
  "leave d (Return r x) = Some (r, ds_env (releasePermit d ''shutdown_after_process_exit'' x))"
| "leave d (Again x) = None"

definition Drive ::
  "'e driver_ports \<Rightarrow> driver_policy \<Rightarrow> drive_command \<Rightarrow> 'e \<Rightarrow> (drive_result result \<times> 'e) option" where
  "Drive d p c e =
     (if dc_RunID c = [] \<or> dc_Repository c = [] \<or> dc_IdempotencyKey c = []
      then Some (Inl (ServiceErr ErrorInvalidInput ''run, repository, and idempotency key are required'' None), e)
      else Option.bind (drive_loop d p c (drive_start e)) (leave d))"

end
