(* ===== verification/Driver_Trace.thy ===== *)
theory Driver_Trace
  imports Driver
begin

section \<open>Watching the driver\<close>

text \<open>
  The ports with a log of what the driver does to the outside, newest first: the calls of the
  coordinator, the polls that returned, and the permits granted and given back. The log is an
  observation: the driver behaves as it does without it.
\<close>

datatype drive_event = Called production_action production_command | Waited | Granted string | Released string

definition logged :: "('x \<times> 'e) \<Rightarrow> ('x \<Rightarrow> drive_event list) \<Rightarrow> drive_event list \<Rightarrow> 'x \<times> ('e \<times> drive_event list)" where
  "logged out ev l = (fst out, (snd out, ev (fst out) @ l))"

definition traced_scheduler :: "'e heavy_scheduler \<Rightarrow> ('e \<times> drive_event list) heavy_scheduler" where
  "traced_scheduler h =
     \<lparr>hs_Acquire = (\<lambda>r owner t s. logged (hs_Acquire h r owner t (fst s))
        (\<lambda>res. case res of Inr (Some _) \<Rightarrow> [Granted r] | _ \<Rightarrow> []) (snd s)),
      hs_Release = (\<lambda>pm reason t s. logged (hs_Release h pm reason t (fst s))
        (\<lambda>res. if res = Inr True then [Released (hp_RunID pm)] else []) (snd s))\<rparr>"

definition quiet :: "('e \<Rightarrow> 'x \<times> 'e) \<Rightarrow> 'e \<times> drive_event list \<Rightarrow> 'x \<times> ('e \<times> drive_event list)" where
  "quiet f s = logged (f (fst s)) (\<lambda>_. []) (snd s)"

definition traced :: "'e driver_ports \<Rightarrow> ('e \<times> drive_event list) driver_ports" where
  "traced d =
     \<lparr>ports_ctx = (\<lambda>s. ports_ctx d (fst s)), ports_now = (\<lambda>s. ports_now d (fst s)),
      ports_GetRun = (\<lambda>r s. ports_GetRun d r (fst s)), ports_progress = (\<lambda>r s. ports_progress d r (fst s)),
      ports_authorize = ports_authorize d, ports_Inspect = (\<lambda>r s. ports_Inspect d r (fst s)),
      ports_scheduler = map_option traced_scheduler (ports_scheduler d),
      ports_reconcile = map_option (\<lambda>f r. quiet (f r)) (ports_reconcile d),
      ports_waits = map_option (\<lambda>w. \<lparr>ws_Reconcile = (\<lambda>i t. quiet (ws_Reconcile w i t)),
        ws_Close = (\<lambda>r t. quiet (ws_Close w r t))\<rparr>) (ports_waits d),
      ports_manual_event = ports_manual_event d, ports_decision_event = ports_decision_event d,
      ports_append = (\<lambda>ae. quiet (ports_append d ae)),
      ports_wait = (\<lambda>t s. logged (ports_wait d t (fst s)) (\<lambda>res. if res = None then [Waited] else []) (snd s)),
      ports_present = ports_present d,
      ports_call = (\<lambda>owner a pc s. logged (ports_call d owner a pc (fst s)) (\<lambda>_. [Called a pc]) (snd s))\<rparr>"

fun burst :: "drive_event list \<Rightarrow> nat" where
  "burst [] = 0"
| "burst (Waited # l) = 0"
| "burst (Called a pc # l) = Suc (burst l)"
| "burst (_ # l) = burst l"

fun holding :: "string \<Rightarrow> drive_event list \<Rightarrow> bool" where
  "holding r [] = False"
| "holding r (Granted r' # l) = (r' = r \<or> holding r l)"
| "holding r (Released r' # l) = (r' \<noteq> r \<and> holding r l)"
| "holding r (_ # l) = holding r l"

definition call_ok :: "bool \<Rightarrow> drive_command \<Rightarrow> production_action \<Rightarrow> production_command \<Rightarrow> drive_event list \<Rightarrow> bool" where
  "call_ok scheduled c a pc l \<longleftrightarrow>
     pc_Requester pc = dc_Requester c \<and> pc_RunID pc = dc_RunID c \<and> pc_Repository pc = dc_Repository c \<and>
     pc_IdempotencyKey pc = dc_IdempotencyKey c \<and> a = fst (productionNextAction (pc_ExpectedState pc)) \<and>
     a \<noteq> ProductionStop \<and> pc_ExpectedState pc \<noteq> StateAwaitingHumanDecision \<and>
     (scheduled \<and> HeavyWorkRequired (pc_ExpectedState pc) \<longrightarrow> holding (dc_RunID c) l)"

fun good_log :: "bool \<Rightarrow> int \<Rightarrow> drive_command \<Rightarrow> drive_event list \<Rightarrow> bool" where
  "good_log scheduled m c [] = True"
| "good_log scheduled m c (Called a pc # l) \<longleftrightarrow>
     int (burst l) < m \<and> call_ok scheduled c a pc l \<and> good_log scheduled m c l"
| "good_log scheduled m c (_ # l) = good_log scheduled m c l"

definition calls :: "drive_event list \<Rightarrow> nat" where
  "calls l = length (filter (\<lambda>ev. case ev of Called _ _ \<Rightarrow> True | _ \<Rightarrow> False) l)"

definition waits_in :: "drive_event list \<Rightarrow> nat" where
  "waits_in l = length (filter (\<lambda>ev. ev = Waited) l)"

lemma call_budget:
  assumes "good_log scheduled m c l" and "0 \<le> m"
  shows "int (burst l) \<le> m" and "int (calls l) \<le> m * int (waits_in l) + int (burst l)"
proof -
  have "int (burst l) \<le> m \<and> int (calls l) \<le> m * int (waits_in l) + int (burst l)"
    using assms
  proof (induction l)
    case Nil
    then show ?case by (simp add: calls_def waits_in_def)
  next
    case (Cons ev l)
    then show ?case by (cases ev) (auto simp: calls_def waits_in_def algebra_simps)
  qed
  then show "int (burst l) \<le> m" "int (calls l) \<le> m * int (waits_in l) + int (burst l)" by simp_all
qed


section \<open>What each step leaves in the log\<close>

abbreviation trace :: "('e \<times> drive_event list) drive_state \<Rightarrow> drive_event list" where
  "trace x \<equiv> snd (ds_env x)"

lemma snd_quiet [simp]: "snd (snd (quiet f s)) = snd s"
  by (simp add: quiet_def logged_def)

lemma reconcileCIWait_quiet [simp]: "snd (snd (reconcileCIWait_port (traced d) r e)) = snd e"
  by (auto simp: reconcileCIWait_port_def traced_def split: option.split sum.split)

lemma closeCIWait_quiet [simp]: "snd (snd (closeCIWait (traced d) r e)) = snd e"
  by (auto simp: closeCIWait_def traced_def split: option.split)

lemma publish_stop_quiet [simp]: "snd (snd (publish_stop bad latest event (traced d) run i e)) = snd e"
  by (auto simp: publish_stop_def traced_def quiet_def logged_def split: sum.split)

lemma publish_quiet [simp]:
  "snd (snd (publishManualInterventionAttention (traced d) run i e)) = snd e"
  "snd (snd (publishHumanDecisionAttention (traced d) run i e)) = snd e"
  by (simp_all add: publishManualInterventionAttention_def publishHumanDecisionAttention_def)

definition quiet_return :: "('e \<times> drive_event list) drive_state \<Rightarrow> ('e \<times> drive_event list) drive_outcome \<Rightarrow> bool" where
  "quiet_return x out \<longleftrightarrow> (\<exists>r y. out = Return r y \<and> trace y = trace x)"

lemma fail_quiet [simp]: "quiet_return x (fail err y) \<longleftrightarrow> trace y = trace x"
  by (simp add: quiet_return_def fail_def)

lemma quiet_pair: "snd (snd q) = snd e \<Longrightarrow> q = (a, b) \<Longrightarrow> snd b = snd e"
  by simp

lemma stop_quiet: "quiet_return x (stop (traced d) run a reason x)"
proof -
  have "quiet_return x (case q of (Some err, e) \<Rightarrow> fail (classifyServiceError err) (x\<lparr>ds_env := e\<rparr>)
      | (None, e) \<Rightarrow> Return (Inr res) (x\<lparr>ds_env := e\<rparr>))"
    if "snd (snd q) = trace x" for q :: "go_error option \<times> _" and res
    using that by (auto simp: quiet_return_def fail_def split: prod.split option.split)
  then show ?thesis
    unfolding stop_def Let_def
    by (auto simp: quiet_return_def fail_def split: sum.split prod.split option.split)
qed

lemma durableStop_quiet: "durableStop (traced d) c x = Some out \<Longrightarrow> quiet_return x out"
  unfolding durableStop_def
  by (auto simp: stop_quiet split: sum.splits if_splits prod.splits production_action.splits)

definition weak_inv :: "bool \<Rightarrow> int \<Rightarrow> drive_command \<Rightarrow> ('e \<times> drive_event list) drive_state \<Rightarrow> bool" where
  "weak_inv scheduled m c x \<longleftrightarrow> good_log scheduled m c (trace x) \<and>
     (hp_RunID (ds_permit x) \<noteq> [] \<longrightarrow> holding (dc_RunID c) (trace x)) \<and> 0 \<le> ds_immediate x \<and> ds_immediate x \<le> m"

definition drive_inv :: "bool \<Rightarrow> int \<Rightarrow> drive_command \<Rightarrow> ('e \<times> drive_event list) drive_state \<Rightarrow> bool" where
  "drive_inv scheduled m c x \<longleftrightarrow> weak_inv scheduled m c x \<and> int (burst (trace x)) \<le> ds_immediate x"

fun good_out :: "bool \<Rightarrow> int \<Rightarrow> drive_command \<Rightarrow> ('e \<times> drive_event list) drive_outcome \<Rightarrow> bool" where
  "good_out scheduled m c (Again x) \<longleftrightarrow> drive_inv scheduled m c x"
| "good_out scheduled m c (Return r x) \<longleftrightarrow> good_log scheduled m c (trace x)"

lemma quiet_return_good: "quiet_return x out \<Longrightarrow> weak_inv scheduled m c x \<Longrightarrow> good_out scheduled m c out"
  by (auto simp: quiet_return_def weak_inv_def)

lemma weak_inv_env: "weak_inv scheduled m c x \<Longrightarrow> snd e = trace x \<Longrightarrow> weak_inv scheduled m c (x\<lparr>ds_env := e\<rparr>)"
  by (simp add: weak_inv_def)

lemma drive_inv_env: "drive_inv scheduled m c x \<Longrightarrow> snd e = trace x \<Longrightarrow> drive_inv scheduled m c (x\<lparr>ds_env := e\<rparr>)"
  by (simp add: drive_inv_def weak_inv_def)

lemma release_cases:
  obtains e where "releasePermit (traced d) reason x = x\<lparr>ds_env := (e, trace x)\<rparr>"
    | e where "releasePermit (traced d) reason x =
        x\<lparr>ds_env := (e, Released (hp_RunID (ds_permit x)) # trace x), ds_permit := no_permit\<rparr>"
proof (cases "ports_scheduler d")
  case None
  then have "releasePermit (traced d) reason x = x\<lparr>ds_env := (fst (ds_env x), trace x)\<rparr>"
    by (simp add: releasePermit_def traced_def)
  then show thesis using that(1) by blast
next
  case (Some h)
  show thesis
  proof (cases "hp_RunID (ds_permit x) = []")
    case True
    then have "releasePermit (traced d) reason x = x\<lparr>ds_env := (fst (ds_env x), trace x)\<rparr>"
      using Some by (simp add: releasePermit_def traced_def)
    then show thesis using that(1) by blast
  next
    case False
    obtain res e where r: "hs_Release h (ds_permit x) reason (ports_now d (fst (ds_env x))) (fst (ds_env x)) = (res, e)"
      by fastforce
    show thesis
    proof (cases "res = Inr True")
      case True
      with r Some False have "releasePermit (traced d) reason x =
        x\<lparr>ds_env := (e, Released (hp_RunID (ds_permit x)) # trace x), ds_permit := no_permit\<rparr>"
        by (simp add: releasePermit_def traced_def traced_scheduler_def logged_def)
      then show thesis by (rule that(2))
    next
      case no: False
      with r Some False have "releasePermit (traced d) reason x = x\<lparr>ds_env := (e, trace x)\<rparr>"
        by (auto simp: releasePermit_def traced_def traced_scheduler_def logged_def split: sum.split bool.split)
      then show thesis by (rule that(1))
    qed
  qed
qed

lemma release_inv:
  "drive_inv scheduled m c x \<Longrightarrow> drive_inv scheduled m c (releasePermit (traced d) reason x)"
  by (rule release_cases [of d reason x]) (auto simp: drive_inv_def weak_inv_def no_permit_def)

lemma release_good: "good_log scheduled m c (trace x) \<Longrightarrow> good_log scheduled m c (trace (releasePermit (traced d) reason x))"
  by (rule release_cases [of d reason x]) auto

lemma poll_good:
  assumes "weak_inv scheduled m c x"
  shows "good_out scheduled m c (poll (traced d) p x)"
proof -
  obtain res e where "ports_wait d (dp_PollInterval p) (fst (ds_env x)) = (res, e)" by fastforce
  with assms show ?thesis
    by (cases res) (simp_all add: poll_def traced_def logged_def fail_def drive_inv_def weak_inv_def)
qed


lemma acquire_trace:
  assumes "acquire_permit (traced d) (traced_scheduler h) r owner e = (res, e')"
  shows "snd e' = (case res of Inr (Some _) \<Rightarrow> [Granted r] | _ \<Rightarrow> []) @ snd e"
proof -
  obtain r1 e1 where a1: "hs_Acquire h r owner (ports_now d (fst e)) (fst e) = (r1, e1)" by fastforce
  have acq: "hs_Acquire (traced_scheduler h) r owner (ports_now (traced d) e) e =
      (r1, (e1, (case r1 of Inr (Some _) \<Rightarrow> [Granted r] | _ \<Rightarrow> []) @ snd e))"
    by (simp add: traced_scheduler_def traced_def logged_def a1)
  show ?thesis
  proof (cases r1)
    case (Inr held)
    with assms acq show ?thesis by (auto simp: acquire_permit_def)
  next
    case (Inl err)
    show ?thesis
    proof (cases "error_is ErrHeavyPermitProcessReconciliationRequired err \<and> ports_reconcile d \<noteq> None")
      case False
      with assms acq Inl show ?thesis
        by (auto simp: acquire_permit_def traced_def split: if_splits option.splits)
    next
      case True
      then obtain f where f: "ports_reconcile d = Some f" by blast
      obtain r2 e2 where b: "f r e1 = (r2, e2)" by fastforce
      have q: "quiet (f r) (e1, snd e) = (r2, (e2, snd e))" by (simp add: quiet_def logged_def b)
      obtain r3 e3 where a3: "hs_Acquire h r owner (ports_now d e2) e2 = (r3, e3)" by fastforce
      have acq3: "hs_Acquire (traced_scheduler h) r owner (ports_now (traced d) (e2, snd e)) (e2, snd e) =
          (r3, (e3, (case r3 of Inr (Some _) \<Rightarrow> [Granted r] | _ \<Rightarrow> []) @ snd e))"
        by (simp add: traced_scheduler_def traced_def logged_def a3)
      have fr: "ports_reconcile (traced d) = Some (\<lambda>r. quiet (f r))" using f by (simp add: traced_def)
      from assms acq Inl True fr q acq3 show ?thesis
        by (cases r2; cases r3) (auto simp: acquire_permit_def)
    qed
  qed
qed

lemma hold_good:
  assumes inv: "drive_inv scheduled m c x" and run: "run_ID run = dc_RunID c"
    and scheduled: "scheduled \<longleftrightarrow> ports_scheduler d \<noteq> None"
  shows "case hold_permit (traced d) p run x of
      Inl out \<Rightarrow> good_out scheduled m c out
    | Inr y \<Rightarrow> drive_inv scheduled m c y \<and>
        (scheduled \<and> HeavyWorkRequired (run_State run) \<longrightarrow> holding (dc_RunID c) (trace y))"
proof (cases "HeavyWorkRequired (run_State run) \<and> ports_scheduler d \<noteq> None")
  case False
  moreover have "ports_scheduler (traced d) = map_option traced_scheduler (ports_scheduler d)"
    by (simp add: traced_def)
  ultimately show ?thesis
    using inv release_inv [OF inv] scheduled by (auto simp: hold_permit_def split: option.split bool.split)
next
  case True
  then obtain h where h: "ports_scheduler d = Some h" by blast
  then have th: "ports_scheduler (traced d) = Some (traced_scheduler h)" by (simp add: traced_def)
  have log: "good_log scheduled m c (trace x)" using inv by (simp add: drive_inv_def weak_inv_def)
  show ?thesis
  proof (cases "dp_HeavyPermitOwner p = [] \<or> hp_RunID (ds_permit x) \<noteq> []")
    case early: True
    with inv True th log show ?thesis
      by (auto simp: hold_permit_def fail_def drive_inv_def weak_inv_def)
  next
    case False
    obtain res e where a: "acquire_permit (traced d) (traced_scheduler h) (run_ID run) (dp_HeavyPermitOwner p) (ds_env x) = (res, e)"
      by (metis surj_pair)
    note tr = acquire_trace [OF a]
    have eq: "hold_permit (traced d) p run x =
      (case res of Inl err \<Rightarrow> Inl (fail err (x\<lparr>ds_env := e\<rparr>)) | Inr None \<Rightarrow> Inl (poll (traced d) p (x\<lparr>ds_env := e\<rparr>))
       | Inr (Some held) \<Rightarrow> Inr (x\<lparr>ds_env := e, ds_permit := held\<rparr>))"
      using True th False a by (auto simp: hold_permit_def split: sum.split option.split)
    consider (bad) err where "res = Inl err" | (none) "res = Inr None" | (got) held where "res = Inr (Some held)"
      by (metis option.exhaust sum.exhaust)
    then show ?thesis
    proof cases
      case bad
      with tr log show ?thesis by (simp add: eq fail_def)
    next
      case none
      with tr inv have "weak_inv scheduled m c (x\<lparr>ds_env := e\<rparr>)" by (simp add: drive_inv_def weak_inv_env)
      with none show ?thesis by (simp add: eq poll_good)
    next
      case got
      with tr inv run show ?thesis by (simp add: eq drive_inv_def weak_inv_def)
    qed
  qed
qed

lemma action_failed_good:
  assumes "weak_inv scheduled m c x"
  shows "good_out scheduled m c (action_failed (traced d) p c action err x)"
proof (cases "retryableProductionDriverError err")
  case True
  moreover have "weak_inv scheduled m c (x\<lparr>ds_immediate := 0\<rparr>)" using assms by (simp add: weak_inv_def)
  ultimately show ?thesis
    using poll_good [of scheduled m c "x\<lparr>ds_immediate := 0\<rparr>" d p] assms
    by (simp add: action_failed_def fail_def weak_inv_def)
next
  case False
  obtain res e where q: "(if action = ProductionReconcileGitHub then closeCIWait (traced d) (dc_RunID c) (ds_env x)
      else (None, ds_env x)) = (res, e)" by (metis surj_pair)
  then have e: "snd e = trace x"
    by (metis closeCIWait_quiet snd_conv)
  note inv = weak_inv_env [OF assms e]
  show ?thesis
  proof (cases res)
    case (Some err2)
    with False q inv show ?thesis by (simp add: action_failed_def fail_def weak_inv_def)
  next
    case None
    show ?thesis
    proof (cases "durableStop (traced d) c (x\<lparr>ds_env := e\<rparr>)")
      case no: None
      with None False q inv show ?thesis by (simp add: action_failed_def fail_def weak_inv_def)
    next
      case (Some out)
      with durableStop_quiet [OF Some] quiet_return_good inv None False q show ?thesis
        by (fastforce simp: action_failed_def)
    qed
  qed
qed

lemma action_done_good:
  assumes "drive_inv scheduled m c x"
  shows "good_out scheduled m c (action_done (traced d) p c action polling x)"
proof -
  obtain res e where q: "(if action = ProductionReconcileGitHub then reconcileCIWait_port (traced d) (dc_RunID c) (ds_env x)
      else (None, ds_env x)) = (res, e)" by (metis surj_pair)
  then have e: "snd e = trace x"
    by (metis reconcileCIWait_quiet snd_conv)
  note inv = drive_inv_env [OF assms e]
  then have weak: "weak_inv scheduled m c (x\<lparr>ds_env := e\<rparr>)"
    "weak_inv scheduled m c (x\<lparr>ds_env := e, ds_immediate := 0\<rparr>)"
    and log: "good_log scheduled m c (trace (x\<lparr>ds_env := e\<rparr>))" by (simp_all add: drive_inv_def weak_inv_def)
  show ?thesis
  proof (cases "res = None \<and> polling \<and> dp_ReturnOnExternalWait p")
    case True
    with q show ?thesis
      using log release_good [OF log]
      by (auto simp: action_done_def Let_def fail_def split: sum.split prod.split)
  next
    case False
    with q inv log poll_good [OF weak(2)] show ?thesis
      by (auto simp: action_done_def Let_def fail_def split: option.split)
  qed
qed

lemma act_good:
  assumes inv: "drive_inv scheduled m c x" and "ds_immediate x < m"
    and ok: "call_ok scheduled c action \<lparr>pc_Requester = dc_Requester c, pc_RunID = run_ID run,
      pc_Repository = run_Repository run, pc_ExpectedState = run_State run,
      pc_IdempotencyKey = run_IdempotencyKey run\<rparr> (trace x)"
  shows "good_out scheduled m c (act (traced d) p c run action x)"
proof -
  let ?pc = "\<lparr>pc_Requester = dc_Requester c, pc_RunID = run_ID run, pc_Repository = run_Repository run,
      pc_ExpectedState = run_State run, pc_IdempotencyKey = run_IdempotencyKey run\<rparr>"
  obtain polling err e where a: "apply_action (traced d) p c run action (ds_env x) = ((polling, err), e)"
    by (metis prod.exhaust)
  have e: "snd e = trace x \<or> snd e = Called action ?pc # trace x"
    using a unfolding apply_action_def
    by (auto simp: traced_def logged_def Let_def split: if_splits prod.splits sum.splits)
  let ?x = "x\<lparr>ds_env := e, ds_immediate := ds_immediate x + 1, ds_actions := wrap64 (ds_actions x + 1)\<rparr>"
  have "drive_inv scheduled m c ?x"
    using e inv assms(2) ok by (elim disjE) (simp_all add: drive_inv_def weak_inv_def)
  moreover then have "weak_inv scheduled m c ?x" by (simp add: drive_inv_def)
  ultimately show ?thesis
    using action_failed_good action_done_good by (auto simp: act_def a Let_def split: option.split)
qed

lemma dispatch_good:
  assumes inv: "drive_inv scheduled m c x" and run: "run_ID run = dc_RunID c"
    and "run_Repository run = dc_Repository c" and "run_IdempotencyKey run = dc_IdempotencyKey c"
    and held: "scheduled \<and> HeavyWorkRequired (run_State run) \<longrightarrow> holding (dc_RunID c) (trace x)"
    and m: "m = dp_MaxImmediateAction p"
  shows "good_out scheduled m c (dispatch (traced d) p c run x)"
proof -
  obtain res e where q: "reconcileCIWait_port (traced d) (dc_RunID c) (ds_env x) = (res, e)" by (metis surj_pair)
  then have e: "snd e = trace x" by (metis reconcileCIWait_quiet snd_conv)
  obtain action reason where n: "productionNextAction (run_State run) = (action, reason)" by fastforce
  note inv' = drive_inv_env [OF inv e]
  then have weak: "weak_inv scheduled m c (x\<lparr>ds_env := e\<rparr>)" "weak_inv scheduled m c (x\<lparr>ds_env := e, ds_immediate := 0\<rparr>)"
    by (simp_all add: drive_inv_def weak_inv_def)
  note st = quiet_return_good [OF stop_quiet weak(1)]
  have "call_ok scheduled c action \<lparr>pc_Requester = dc_Requester c, pc_RunID = run_ID run,
      pc_Repository = run_Repository run, pc_ExpectedState = run_State run,
      pc_IdempotencyKey = run_IdempotencyKey run\<rparr> (trace (x\<lparr>ds_env := e\<rparr>))"
    if "action \<noteq> ProductionStop" "run_State run \<noteq> StateAwaitingHumanDecision"
    using assms n that e by (simp add: call_ok_def)
  from act_good [OF inv' _ this] st poll_good [OF weak(2)] weak(1) m q n show ?thesis
    by (auto simp: dispatch_def Let_def fail_def weak_inv_def split: option.split)
qed

lemma iteration_good:
  assumes inv: "drive_inv scheduled m c x" and m: "m = dp_MaxImmediateAction p"
    and scheduled: "scheduled \<longleftrightarrow> ports_scheduler d \<noteq> None"
    and ids: "\<And>r e run. ports_GetRun d r e = Inr run \<Longrightarrow> run_ID run = r"
  shows "good_out scheduled m c (drive_iteration (traced d) p c x)"
proof (cases "read_run (traced d) c x")
  case (Inl err)
  with inv show ?thesis by (simp add: drive_iteration_def fail_def drive_inv_def weak_inv_def)
next
  case (Inr run)
  have r: "run_ID run = dc_RunID c" "run_Repository run = dc_Repository c"
    "run_IdempotencyKey run = dc_IdempotencyKey c"
    using Inr ids by (auto simp: read_run_def traced_def split: option.splits sum.splits if_splits)
  from hold_good [OF inv r(1) scheduled, of p] dispatch_good [OF _ r _ m] Inr show ?thesis
    by (auto simp: drive_iteration_def split: sum.splits)
qed


section \<open>Bounds on one drive\<close>

fun log_of :: "('e \<times> drive_event list) drive_outcome \<Rightarrow> drive_event list" where
  "log_of (Again x) = trace x"
| "log_of (Return r x) = trace x"

definition drive_after ::
  "'e driver_ports \<Rightarrow> driver_policy \<Rightarrow> drive_command \<Rightarrow> 'e \<Rightarrow> nat \<Rightarrow> ('e \<times> drive_event list) drive_outcome" where
  "drive_after d p c e n = (iterate (traced d) p c ^^ n) (Again (drive_start (e, [])))"

lemma drive_after_good:
  assumes "dp_MaxImmediateAction p \<ge> 1" and "\<And>r e run. ports_GetRun d r e = Inr run \<Longrightarrow> run_ID run = r"
  shows "good_out (ports_scheduler d \<noteq> None) (dp_MaxImmediateAction p) c (drive_after d p c e n)"
proof (induction n)
  case 0
  from assms(1) show ?case by (simp add: drive_after_def drive_start_def drive_inv_def weak_inv_def no_permit_def)
next
  case (Suc n)
  have step: "good_out s m c (iterate (traced d) p c out)"
    if "good_out s m c out" "m = dp_MaxImmediateAction p" "s \<longleftrightarrow> ports_scheduler d \<noteq> None" for s m out
    using that iteration_good [OF _ that(2,3) assms(2)] by (cases out) simp_all
  from step [OF Suc.IH] show ?case by (simp add: drive_after_def)
qed

lemma good_out_log: "good_out scheduled m c out \<Longrightarrow> good_log scheduled m c (log_of out)"
  by (cases out) (simp_all add: drive_inv_def weak_inv_def)

text \<open>An iteration that goes on has called the coordinator or polled, or has nothing else left to do
  than refuse the action for want of a port, which ends the loop.\<close>

definition progress :: "drive_event list \<Rightarrow> nat" where
  "progress l = calls l + waits_in l"

lemma progress_simps [simp]:
  "progress [] = 0" "progress (Called a pc # l) = Suc (progress l)" "progress (Waited # l) = Suc (progress l)"
  "progress (Granted r # l) = progress l" "progress (Released r # l) = progress l"
  by (simp_all add: progress_def calls_def waits_in_def)

lemma quiet_return_ends: "quiet_return x out \<Longrightarrow> \<not> running out"
  by (auto simp: quiet_return_def)

lemma poll_progress: "poll (traced d) p x = Again y \<Longrightarrow> progress (trace y) = Suc (progress (trace x))"
  by (auto simp: poll_def traced_def logged_def fail_def split: prod.splits option.splits if_splits)

lemma poll_progress_env:
  "poll (traced d) p x = Again y \<Longrightarrow> trace x = l \<Longrightarrow> progress (trace y) = Suc (progress l)"
  using poll_progress by blast

lemma hold_progress:
  assumes "hold_permit (traced d) p run x = r"
  shows "(\<forall>out y. r = Inl out \<and> out = Again y \<longrightarrow> progress (trace y) > progress (trace x)) \<and>
    (\<forall>y. r = Inr y \<longrightarrow> progress (trace y) = progress (trace x))"
proof -
  have rel: "progress (trace (releasePermit (traced d) reason x)) = progress (trace x)" for reason
    by (rule release_cases [of d reason x]) simp_all
  show ?thesis
  proof (cases "HeavyWorkRequired (run_State run) \<and> ports_scheduler d \<noteq> None \<and> dp_HeavyPermitOwner p \<noteq> [] \<and>
      hp_RunID (ds_permit x) = []")
    case False
    have "ports_scheduler (traced d) = map_option traced_scheduler (ports_scheduler d)" by (simp add: traced_def)
    with False assms rel show ?thesis
      by (auto simp: hold_permit_def fail_def split: option.splits bool.splits if_splits)
  next
    case True
    then obtain h where "ports_scheduler d = Some h" by blast
    then have th: "ports_scheduler (traced d) = Some (traced_scheduler h)" by (simp add: traced_def)
    obtain res e where a: "acquire_permit (traced d) (traced_scheduler h) (run_ID run) (dp_HeavyPermitOwner p) (ds_env x) = (res, e)"
      by (metis surj_pair)
    have "progress (snd e) = progress (trace x)"
      using acquire_trace [OF a] by (auto split: sum.splits option.splits)
    with assms True th a show ?thesis
      by (auto simp: hold_permit_def fail_def dest!: poll_progress split: sum.splits option.splits)
  qed
qed

lemma apply_progress:
  assumes "apply_action (traced d) p c run action e = ((polling, err), e')"
  shows "progress (snd e') = Suc (progress (snd e)) \<or>
    snd e' = snd e \<and> (\<exists>m. err = Some (ServiceErr ErrorInternal m None))"
  using assms unfolding apply_action_def
  by (auto simp: traced_def logged_def Let_def split: if_splits prod.splits sum.splits)

lemma failed_progress:
  assumes "action_failed (traced d) p c action err x = Again y"
  shows "retryableProductionDriverError err" and "progress (trace y) > progress (trace x)"
proof -
  have "durableStop (traced d) c z = Some out \<Longrightarrow> out \<noteq> Again y" for z out
    using durableStop_quiet quiet_return_ends by fastforce
  then show r: "retryableProductionDriverError err"
    using assms by (auto simp: action_failed_def fail_def split: if_splits prod.splits option.splits)
  with assms show "progress (trace y) > progress (trace x)"
    by (auto simp: action_failed_def fail_def dest!: poll_progress split: if_splits)
qed

lemma done_progress:
  assumes "action_done (traced d) p c action polling x = Again y"
  shows "progress (trace y) \<ge> progress (trace x)"
proof -
  obtain res e where q: "(if action = ProductionReconcileGitHub then reconcileCIWait_port (traced d) (dc_RunID c) (ds_env x)
      else (None, ds_env x)) = (res, e)" by (metis surj_pair)
  then have e: "snd e = trace x" by (metis reconcileCIWait_quiet snd_conv)
  with assms q show ?thesis
    by (auto simp: action_done_def Let_def fail_def dest!: poll_progress
        split: option.splits if_splits sum.splits prod.splits)
qed

lemma act_progress:
  assumes "act (traced d) p c run action x = Again y"
  shows "progress (trace y) > progress (trace x)"
proof -
  obtain polling err e where a: "apply_action (traced d) p c run action (ds_env x) = ((polling, err), e)"
    by (metis prod.exhaust)
  let ?x = "x\<lparr>ds_env := e, ds_immediate := ds_immediate x + 1, ds_actions := wrap64 (ds_actions x + 1)\<rparr>"
  show ?thesis
  proof (cases err)
    case (Some er)
    with assms a have f: "action_failed (traced d) p c action er ?x = Again y" by (simp add: act_def Let_def)
    have "progress (snd e) \<ge> progress (trace x)" using apply_progress [OF a] by auto
    with failed_progress(2) [OF f] show ?thesis by simp
  next
    case None
    with assms a have "action_done (traced d) p c action polling ?x = Again y" by (simp add: act_def Let_def)
    from done_progress [OF this] apply_progress [OF a] None show ?thesis by auto
  qed
qed

lemma iteration_progress:
  assumes "drive_iteration (traced d) p c x = Again y"
  shows "progress (trace y) > progress (trace x)"
proof -
  have disp: "progress (trace y) > progress (trace z)" if "dispatch (traced d) p c run z = Again y" for run z
  proof -
    obtain res e where q: "reconcileCIWait_port (traced d) (dc_RunID c) (ds_env z) = (res, e)" by (metis surj_pair)
    then have e: "snd e = trace z" by (metis reconcileCIWait_quiet snd_conv)
    have "stop (traced d) run a reason w \<noteq> Again y" for a reason w
      using quiet_return_ends [OF stop_quiet [of w d run a reason]] by auto
    with that q e show ?thesis
      by (auto simp: dispatch_def Let_def fail_def dest!: poll_progress act_progress
          split: option.splits if_splits prod.splits)
  qed
  obtain run where run: "read_run (traced d) c x = Inr run"
    using assms by (auto simp: drive_iteration_def fail_def split: sum.splits)
  note h = hold_progress [of d p run x, OF refl]
  show ?thesis
  proof (cases "hold_permit (traced d) p run x")
    case (Inl out)
    with assms run h show ?thesis by (auto simp: drive_iteration_def)
  next
    case (Inr z)
    with assms run have "dispatch (traced d) p c run z = Again y" by (simp add: drive_iteration_def)
    from disp [OF this] h Inr show ?thesis by simp
  qed
qed

lemma drive_after_progress: "running (drive_after d p c e n) \<Longrightarrow> n \<le> progress (log_of (drive_after d p c e n))"
proof (induction n)
  case 0
  then show ?case by simp
next
  case (Suc n)
  then obtain x y where x: "drive_after d p c e n = Again x" and y: "drive_iteration (traced d) p c x = Again y"
    by (cases "drive_after d p c e n"; cases "drive_after d p c e (Suc n)") (auto simp: drive_after_def)
  from Suc.IH x iteration_progress [OF y] have "Suc n \<le> progress (trace y)" by simp
  with x y show ?case by (simp add: drive_after_def)
qed


text \<open>C25: However long the driver runs, it never spins and never runs away: after \<open>n\<close> iterations that
  all went on, it has called the coordinator or polled at least \<open>n\<close> times, at most the policy's limit of
  calls lie between two polls, and the calls in all are bounded by the polls.\<close>

theorem drive_is_paced:
  assumes "DriverPolicy_validate p = None" and "\<And>r e run. ports_GetRun d r e = Inr run \<Longrightarrow> run_ID run = r"
    and "l = log_of (drive_after d p c e n)"
  shows "(running (drive_after d p c e n) \<longrightarrow> n \<le> calls l + waits_in l) \<and>
    int (burst l) \<le> dp_MaxImmediateAction p \<and>
    int (calls l) \<le> dp_MaxImmediateAction p * (int (waits_in l) + 1)"
proof -
  have m: "dp_MaxImmediateAction p \<ge> 1" using assms(1) by (simp add: DriverPolicy_validate_def split: if_splits)
  from good_out_log [OF drive_after_good [OF m assms(2)]]
  have g: "good_log (ports_scheduler d \<noteq> None) (dp_MaxImmediateAction p) c l" unfolding assms(3) .
  from call_budget [OF g] m drive_after_progress [of d p c e n] show ?thesis
    by (simp add: assms(3) progress_def algebra_simps)
qed

lemma good_log_append: "good_log scheduled m c (l @ k) \<Longrightarrow> good_log scheduled m c k"
proof (induction l)
  case (Cons ev l)
  then show ?case by (cases ev) simp_all
qed simp

text \<open>C24: Whenever the driver calls the coordinator, it does so for the run, repository, key and requester
  of its command, with the one action that belongs to the state it read, never while a human decision is
  awaited, and for local heavy work only while it holds the permit it was granted for that run.\<close>

theorem driver_calls_authorized:
  assumes "DriverPolicy_validate p = None" and "\<And>r e run. ports_GetRun d r e = Inr run \<Longrightarrow> run_ID run = r"
    and "log_of (drive_after d p c e n) = later @ Called a pc # earlier"
  shows "pc_Requester pc = dc_Requester c \<and> pc_RunID pc = dc_RunID c \<and> pc_Repository pc = dc_Repository c \<and>
    pc_IdempotencyKey pc = dc_IdempotencyKey c \<and>
    a = fst (productionNextAction (pc_ExpectedState pc)) \<and> a \<noteq> ProductionStop \<and>
    pc_ExpectedState pc \<noteq> StateAwaitingHumanDecision \<and>
    (ports_scheduler d \<noteq> None \<and> HeavyWorkRequired (pc_ExpectedState pc) \<longrightarrow> holding (dc_RunID c) earlier)"
proof -
  have m: "dp_MaxImmediateAction p \<ge> 1" using assms(1) by (simp add: DriverPolicy_validate_def split: if_splits)
  from good_out_log [OF drive_after_good [OF m assms(2)]]
  have "good_log (ports_scheduler d \<noteq> None) (dp_MaxImmediateAction p) c (later @ Called a pc # earlier)"
    unfolding assms(3) [symmetric] .
  from good_log_append [OF this] show ?thesis
    unfolding good_log.simps call_ok_def by blast
qed


section \<open>The log only observes\<close>

definition erase :: "('e \<times> drive_event list) drive_state \<Rightarrow> 'e drive_state" where
  "erase x = \<lparr>ds_env = fst (ds_env x), ds_actions = ds_actions x, ds_immediate = ds_immediate x,
     ds_permit = ds_permit x\<rparr>"

fun erase_out :: "('e \<times> drive_event list) drive_outcome \<Rightarrow> 'e drive_outcome" where
  "erase_out (Again x) = Again (erase x)"
| "erase_out (Return r x) = Return r (erase x)"

definition seen :: "'x \<times> ('e \<times> drive_event list) \<Rightarrow> 'x \<times> 'e" where
  "seen q = (fst q, fst (snd q))"

lemma erase_simps [simp]:
  "ds_env (erase x) = fst (ds_env x)" "ds_actions (erase x) = ds_actions x"
  "ds_immediate (erase x) = ds_immediate x" "ds_permit (erase x) = ds_permit x"
  "erase (x\<lparr>ds_env := e\<rparr>) = (erase x)\<lparr>ds_env := fst e\<rparr>"
  "erase (x\<lparr>ds_immediate := i\<rparr>) = (erase x)\<lparr>ds_immediate := i\<rparr>"
  "erase (x\<lparr>ds_actions := i\<rparr>) = (erase x)\<lparr>ds_actions := i\<rparr>"
  "erase (x\<lparr>ds_permit := m\<rparr>) = (erase x)\<lparr>ds_permit := m\<rparr>"
  by (simp_all add: erase_def)

lemma seen_logged [simp]: "seen (logged out ev l) = out"
  by (simp add: seen_def logged_def)

lemma seen_quiet [simp]: "seen (quiet f s) = f (fst s)"
  by (simp add: quiet_def)

lemma seen_pair [simp]: "seen (a, b) = (a, fst b)"
  by (simp add: seen_def)

text \<open>A case distinction on what a logged call returned is one on what the call returned.\<close>

lemma seen_case:
  assumes "seen q = q'" and "\<And>a b. g (f a b) = f' a (fst b)"
  shows "g (case q of (a, b) \<Rightarrow> f a b) = (case q' of (a, b) \<Rightarrow> f' a b)"
  using assms by (auto simp: seen_def split: prod.split)

lemma traced_reads [simp]:
  "ports_ctx (traced d) = (\<lambda>s. ports_ctx d (fst s))" "ports_now (traced d) = (\<lambda>s. ports_now d (fst s))"
  "ports_GetRun (traced d) = (\<lambda>r s. ports_GetRun d r (fst s))"
  "ports_progress (traced d) = (\<lambda>r s. ports_progress d r (fst s))"
  "ports_authorize (traced d) = ports_authorize d" "ports_Inspect (traced d) = (\<lambda>r s. ports_Inspect d r (fst s))"
  "ports_manual_event (traced d) = ports_manual_event d" "ports_decision_event (traced d) = ports_decision_event d"
  "ports_present (traced d) = ports_present d"
  by (simp_all add: traced_def)

lemma erase_fail [simp]: "erase_out (fail err x) = fail err (erase x)"
  by (simp add: fail_def)

lemma erase_release [simp]: "erase (releasePermit (traced d) reason x) = releasePermit d reason (erase x)"
proof (cases "ports_scheduler d")
  case (Some h)
  obtain res e where "hs_Release h (ds_permit x) reason (ports_now d (fst (ds_env x))) (fst (ds_env x)) = (res, e)"
    by fastforce
  with Some show ?thesis
    by (auto simp: releasePermit_def traced_def traced_scheduler_def logged_def split: sum.split bool.split)
qed (simp add: releasePermit_def traced_def)

lemma seen_reconcile: "seen (reconcileCIWait_port (traced d) r e) = reconcileCIWait_port d r (fst e)"
  by (auto simp: reconcileCIWait_port_def traced_def split: option.split sum.split)

lemma seen_close: "seen (closeCIWait (traced d) r e) = closeCIWait d r (fst e)"
  by (auto simp: closeCIWait_def traced_def split: option.split)

lemma seen_publish: "seen (publish_stop bad latest event (traced d) run i e) = publish_stop bad latest event d run i (fst e)"
  by (auto simp: publish_stop_def traced_def quiet_def logged_def seen_def split: sum.split prod.split)

lemma erase_poll [simp]: "erase_out (poll (traced d) p x) = poll d p (erase x)"
proof -
  obtain res e where "ports_wait d (dp_PollInterval p) (fst (ds_env x)) = (res, e)" by fastforce
  then show ?thesis by (cases res) (simp_all add: poll_def traced_def logged_def)
qed

lemma erase_stop [simp]: "erase_out (stop (traced d) run a reason x) = stop d run a reason (erase x)"
proof -
  have pub: "erase_out (case q of (Some err, e) \<Rightarrow> fail (classifyServiceError err) (x\<lparr>ds_env := e\<rparr>)
      | (None, e) \<Rightarrow> Return (Inr res) (x\<lparr>ds_env := e\<rparr>)) =
    (case seen q of (Some err, e) \<Rightarrow> fail (classifyServiceError err) ((erase x)\<lparr>ds_env := e\<rparr>)
      | (None, e) \<Rightarrow> Return (Inr res) ((erase x)\<lparr>ds_env := e\<rparr>))" for q :: "go_error option \<times> _" and res
    by (cases q) (auto simp: seen_def split: option.split)
  show ?thesis
    by (auto simp: stop_def Let_def pub seen_publish publishHumanDecisionAttention_def
        publishManualInterventionAttention_def split: sum.split)
qed

lemma erase_durableStop: "durableStop d c (erase x) = map_option erase_out (durableStop (traced d) c x)"
  by (auto simp: durableStop_def split: sum.split prod.split production_action.split)

lemma seen_acquire:
  "seen (acquire_permit (traced d) (traced_scheduler h) r owner e) = acquire_permit d h r owner (fst e)"
proof -
  have acq: "hs_Acquire (traced_scheduler h) r owner t s =
      logged (hs_Acquire h r owner t (fst s)) (\<lambda>res. case res of Inr (Some _) \<Rightarrow> [Granted r] | _ \<Rightarrow> []) (snd s)" for t s
    by (simp add: traced_scheduler_def)
  have rec: "ports_reconcile (traced d) = map_option (\<lambda>f r. quiet (f r)) (ports_reconcile d)"
    by (simp add: traced_def)
  show ?thesis
    unfolding acquire_permit_def acq rec
    by (auto simp: logged_def seen_def quiet_def split: prod.split sum.split option.split)
qed

lemma erase_hold:
  "hold_permit d p run (erase x) =
     (case hold_permit (traced d) p run x of Inl out \<Rightarrow> Inl (erase_out out) | Inr y \<Rightarrow> Inr (erase y))"
proof (cases "HeavyWorkRequired (run_State run) \<and> ports_scheduler d \<noteq> None \<and> dp_HeavyPermitOwner p \<noteq> [] \<and>
    hp_RunID (ds_permit x) = []")
  case False
  have "ports_scheduler (traced d) = map_option traced_scheduler (ports_scheduler d)" by (simp add: traced_def)
  with False show ?thesis by (auto simp: hold_permit_def split: option.split bool.split)
next
  case True
  then obtain h where h: "ports_scheduler d = Some h" by blast
  then have th: "ports_scheduler (traced d) = Some (traced_scheduler h)" by (simp add: traced_def)
  obtain res e where a: "acquire_permit (traced d) (traced_scheduler h) (run_ID run) (dp_HeavyPermitOwner p) (ds_env x) = (res, e)"
    by (metis surj_pair)
  from seen_acquire [of d h "run_ID run" "dp_HeavyPermitOwner p" "ds_env x"] a
  have "acquire_permit d h (run_ID run) (dp_HeavyPermitOwner p) (fst (ds_env x)) = (res, fst e)" by (simp add: seen_def)
  with True h th a show ?thesis by (auto simp: hold_permit_def split: sum.split option.split)
qed

lemma seen_apply: "seen (apply_action (traced d) p c run action e) = apply_action d p c run action (fst e)"
proof -
  have call: "ports_call (traced d) o1 a pc e = logged (ports_call d o1 a pc (fst e)) (\<lambda>_. [Called a pc]) (snd e)" for o1 a pc
    by (simp add: traced_def)
  show ?thesis
    unfolding apply_action_def call
    by (auto simp: logged_def seen_def Let_def split: prod.split sum.split)
qed

lemma release_actions [simp]: "ds_actions (releasePermit d reason x) = ds_actions x"
  by (simp add: releasePermit_def split: option.split prod.split sum.split bool.split)

lemma erase_done [simp]:
  "erase_out (action_done (traced d) p c action polling x) = action_done d p c action polling (erase x)"
proof -
  obtain res e where q: "(if action = ProductionReconcileGitHub then reconcileCIWait_port (traced d) (dc_RunID c) (ds_env x)
      else (None, ds_env x)) = (res, e)" by (metis surj_pair)
  then have "(if action = ProductionReconcileGitHub then reconcileCIWait_port d (dc_RunID c) (fst (ds_env x))
      else (None, fst (ds_env x))) = (res, fst e)"
    using seen_reconcile [of d "dc_RunID c" "ds_env x"] by (auto simp: seen_def split: if_splits)
  note q' = this
  show ?thesis
  proof (cases res)
    case None
    show ?thesis
      unfolding action_done_def q erase_simps q' None
      by (cases "ports_GetRun d (dc_RunID c) (fst e)") (simp_all add: Let_def case_prod_unfold)
  next
    case (Some err)
    then show ?thesis unfolding action_done_def q erase_simps q' by simp
  qed
qed

lemma erase_failed [simp]:
  "erase_out (action_failed (traced d) p c action err x) = action_failed d p c action err (erase x)"
proof -
  obtain res e where q: "(if action = ProductionReconcileGitHub then closeCIWait (traced d) (dc_RunID c) (ds_env x)
      else (None, ds_env x)) = (res, e)" by (metis surj_pair)
  then have "(if action = ProductionReconcileGitHub then closeCIWait d (dc_RunID c) (fst (ds_env x))
      else (None, fst (ds_env x))) = (res, fst e)"
    using seen_close [of d "dc_RunID c" "ds_env x"] by (auto simp: seen_def split: if_splits)
  moreover have "durableStop d c ((erase x)\<lparr>ds_env := fst e\<rparr>) =
      map_option erase_out (durableStop (traced d) c (x\<lparr>ds_env := e\<rparr>))"
    using erase_durableStop [of d c "x\<lparr>ds_env := e\<rparr>"] by simp
  ultimately show ?thesis
    unfolding action_failed_def q erase_simps
    by (cases res; cases "durableStop (traced d) c (x\<lparr>ds_env := e\<rparr>)") simp_all
qed

lemma erase_act [simp]: "erase_out (act (traced d) p c run action x) = act d p c run action (erase x)"
proof -
  obtain polling err e where a: "apply_action (traced d) p c run action (ds_env x) = ((polling, err), e)"
    by (metis prod.exhaust)
  with seen_apply [of d p c run action "ds_env x"]
  have "apply_action d p c run action (fst (ds_env x)) = ((polling, err), fst e)" by (simp add: seen_def)
  with a show ?thesis by (auto simp: act_def Let_def split: option.split)
qed

lemma erase_dispatch [simp]: "erase_out (dispatch (traced d) p c run x) = dispatch d p c run (erase x)"
proof -
  obtain res e where q: "reconcileCIWait_port (traced d) (dc_RunID c) (ds_env x) = (res, e)" by (metis surj_pair)
  with seen_reconcile [of d "dc_RunID c" "ds_env x"]
  have "reconcileCIWait_port d (dc_RunID c) (fst (ds_env x)) = (res, fst e)" by (simp add: seen_def)
  with q show ?thesis
    by (auto simp: dispatch_def Let_def split: option.split prod.split)
qed

lemma erase_iterate: "erase_out (iterate (traced d) p c out) = iterate d p c (erase_out out)"
proof (cases out)
  case (Again x)
  have "read_run (traced d) c x = read_run d c (erase x)"
    unfolding read_run_def traced_reads erase_simps by (rule refl)
  with Again show ?thesis
    by (simp add: drive_iteration_def erase_hold [of d p _ x] split: sum.split)
qed simp

lemma observed:
  "Drive d p c e = map_option (\<lambda>(r, s). (r, fst s)) (Drive (traced d) p c (e, l))"
proof -
  have run: "running out = running (erase_out out)" for out :: "('a \<times> drive_event list) drive_outcome"
    by (cases out) simp_all
  have "erase_out (Again (drive_start (e, l))) = Again (drive_start e)"
    by (simp add: drive_start_def erase_def)
  with while_option_commute [where f = erase_out and b = running and b' = running and c = "iterate (traced d) p c"
      and c' = "iterate d p c", OF run erase_iterate]
  have loop: "map_option erase_out (drive_loop (traced d) p c (drive_start (e, l))) = drive_loop d p c (drive_start e)"
    by (simp add: drive_loop_def)
  have "leave d (erase_out out) = map_option (\<lambda>(r, s). (r, fst s)) (leave (traced d) out)" for out
    by (cases out) (simp_all flip: erase_release)
  then show ?thesis
    unfolding Drive_def loop [symmetric]
    by (cases "drive_loop (traced d) p c (drive_start (e, l))") simp_all
qed


text \<open>Watching the driver changes nothing: with its ports logged it returns, returns the same and leaves
  the same environment as without the log.\<close>

theorem driver_log_observes:
  "Drive d p c e = map_option (\<lambda>(r, s). (r, fst s)) (Drive (traced d) p c (e, l))"
  by (rule observed)

section \<open>What every port keeps, the driver keeps\<close>

definition ports_keep :: "('e \<Rightarrow> bool) \<Rightarrow> 'e driver_ports \<Rightarrow> bool" where
  "ports_keep P d \<longleftrightarrow>
     (\<forall>h r owner t e. ports_scheduler d = Some h \<and> P e \<longrightarrow> P (snd (hs_Acquire h r owner t e))) \<and>
     (\<forall>h m r t e. ports_scheduler d = Some h \<and> P e \<longrightarrow> P (snd (hs_Release h m r t e))) \<and>
     (\<forall>f r e. ports_reconcile d = Some f \<and> P e \<longrightarrow> P (snd (f r e))) \<and>
     (\<forall>w i t e. ports_waits d = Some w \<and> P e \<longrightarrow> P (snd (ws_Reconcile w i t e))) \<and>
     (\<forall>w r t e. ports_waits d = Some w \<and> P e \<longrightarrow> P (snd (ws_Close w r t e))) \<and>
     (\<forall>ae e. P e \<longrightarrow> P (snd (ports_append d ae e))) \<and>
     (\<forall>t e. P e \<longrightarrow> P (snd (ports_wait d t e))) \<and>
     (\<forall>owner a pc e. P e \<longrightarrow> P (snd (ports_call d owner a pc e)))"

fun env_of :: "'e drive_outcome \<Rightarrow> 'e" where
  "env_of (Again x) = ds_env x"
| "env_of (Return r x) = ds_env x"

lemma env_fail [simp]: "env_of (fail err x) = ds_env x"
  by (simp add: fail_def)

lemma ports_keepD:
  assumes "ports_keep P d" and "P e"
  shows "ports_scheduler d = Some h \<Longrightarrow> hs_Acquire h r owner t e = (res1, e') \<Longrightarrow> P e'"
    and "ports_scheduler d = Some h \<Longrightarrow> hs_Release h m r t e = (res2, e') \<Longrightarrow> P e'"
    and "ports_reconcile d = Some f \<Longrightarrow> f r e = (res3, e') \<Longrightarrow> P e'"
    and "ports_append d ae e = (res4, e') \<Longrightarrow> P e'"
    and "ports_wait d t e = (res5, e') \<Longrightarrow> P e'"
    and "ports_call d owner a pc e = (res6, e') \<Longrightarrow> P e'"
proof -
  from assms have
    "ports_scheduler d = Some h \<Longrightarrow> P (snd (hs_Acquire h r owner t e))"
    "ports_scheduler d = Some h \<Longrightarrow> P (snd (hs_Release h m r t e))"
    "ports_reconcile d = Some f \<Longrightarrow> P (snd (f r e))"
    "P (snd (ports_append d ae e))" "P (snd (ports_wait d t e))" "P (snd (ports_call d owner a pc e))"
    by (simp_all add: ports_keep_def)
  then show "ports_scheduler d = Some h \<Longrightarrow> hs_Acquire h r owner t e = (res1, e') \<Longrightarrow> P e'"
    and "ports_scheduler d = Some h \<Longrightarrow> hs_Release h m r t e = (res2, e') \<Longrightarrow> P e'"
    and "ports_reconcile d = Some f \<Longrightarrow> f r e = (res3, e') \<Longrightarrow> P e'"
    and "ports_append d ae e = (res4, e') \<Longrightarrow> P e'"
    and "ports_wait d t e = (res5, e') \<Longrightarrow> P e'"
    and "ports_call d owner a pc e = (res6, e') \<Longrightarrow> P e'" by simp_all
qed

lemma keep_release:
  assumes "ports_keep P d" "P (ds_env x)"
  shows "P (ds_env (releasePermit d reason x))"
proof (cases "ports_scheduler d")
  case (Some h)
  obtain res e where "hs_Release h (ds_permit x) reason (ports_now d (ds_env x)) (ds_env x) = (res, e)" by fastforce
  with ports_keepD(2) [OF assms Some this] assms(2) Some show ?thesis
    by (simp add: releasePermit_def split: sum.split bool.split)
qed (simp add: releasePermit_def assms(2))

lemma keep_reconcile: "ports_keep P d \<Longrightarrow> P e \<Longrightarrow> P (snd (reconcileCIWait_port d r e))"
  by (simp add: reconcileCIWait_port_def ports_keep_def split: option.split sum.split)

lemma keep_close: "ports_keep P d \<Longrightarrow> P e \<Longrightarrow> P (snd (closeCIWait d r e))"
  by (simp add: closeCIWait_def ports_keep_def split: option.split)

lemma keep_publish: "ports_keep P d \<Longrightarrow> P e \<Longrightarrow> P (snd (publish_stop bad latest event d run i e))"
  by (auto simp: publish_stop_def split: sum.split prod.split dest: ports_keepD(4))

lemma keep_poll: "ports_keep P d \<Longrightarrow> P (ds_env x) \<Longrightarrow> P (env_of (poll d p x))"
proof -
  assume "ports_keep P d" "P (ds_env x)"
  then have "P (snd (ports_wait d (dp_PollInterval p) (ds_env x)))" by (simp add: ports_keep_def)
  then show ?thesis by (auto simp: poll_def split: prod.split option.split)
qed

lemma keep_stop: "ports_keep P d \<Longrightarrow> P (ds_env x) \<Longrightarrow> P (env_of (stop d run a reason x))"
proof -
  assume k: "ports_keep P d" "P (ds_env x)"
  have "P (env_of (case q of (Some err, e) \<Rightarrow> fail (classifyServiceError err) (x\<lparr>ds_env := e\<rparr>)
      | (None, e) \<Rightarrow> Return (Inr res) (x\<lparr>ds_env := e\<rparr>)))" if "P (snd q)" for q res
    using that by (auto split: prod.split option.split)
  with keep_publish [OF k] k show ?thesis
    by (simp add: stop_def Let_def publishHumanDecisionAttention_def publishManualInterventionAttention_def
        split: sum.split)
qed

lemma durableStop_cases:
  assumes "durableStop d c x = Some out"
  obtains run reason where "ports_GetRun d (dc_RunID c) (ds_env x) = Inr run" and "out = stop d run ProductionStop reason x"
    and "run_State run = StateAwaitingHumanDecision \<or> productionNextAction (run_State run) = (ProductionStop, reason)"
proof (cases "ports_GetRun d (dc_RunID c) (ds_env x)")
  case (Inl err)
  with assms show thesis by (simp add: durableStop_def)
next
  case (Inr run)
  obtain a reason where n: "productionNextAction (run_State run) = (a, reason)" by fastforce
  from assms Inr have ok: "\<not> (run_Repository run \<noteq> dc_Repository c \<or> run_IdempotencyKey run \<noteq> dc_IdempotencyKey c \<or>
      ports_authorize d run (dc_Requester c) \<noteq> None)"
    unfolding durableStop_def by (cases "run_Repository run \<noteq> dc_Repository c \<or>
      run_IdempotencyKey run \<noteq> dc_IdempotencyKey c \<or> ports_authorize d run (dc_Requester c) \<noteq> None") simp_all
  show thesis
  proof (cases "run_State run = StateAwaitingHumanDecision")
    case True
    with assms Inr ok have "out = stop d run ProductionStop ''durable human decision is required'' x"
      by (simp add: durableStop_def del: productionNextAction.simps)
    with Inr True that show thesis by blast
  next
    case False
    with assms Inr ok n have "a = ProductionStop \<and> out = stop d run ProductionStop reason x"
      by (cases a) (simp_all add: durableStop_def del: productionNextAction.simps)
    with Inr n that show thesis by blast
  qed
qed

lemma keep_durable: "ports_keep P d \<Longrightarrow> P (ds_env x) \<Longrightarrow> durableStop d c x = Some out \<Longrightarrow> P (env_of out)"
  by (erule durableStop_cases) (simp add: keep_stop)

lemma keep_acquire:
  assumes "ports_keep P d" "ports_scheduler d = Some h" "P e" "acquire_permit d h r owner e = (res, e')"
  shows "P e'"
proof -
  have acq: "P e1 \<Longrightarrow> hs_Acquire h r owner t e1 = (res1, e2) \<Longrightarrow> P e2" for t e1 res1 e2
    by (rule ports_keepD(1) [OF assms(1) _ assms(2)])
  have rec: "ports_reconcile d = Some f \<Longrightarrow> P e1 \<Longrightarrow> f r e1 = (res1, e2) \<Longrightarrow> P e2" for f e1 res1 e2
    by (rule ports_keepD(3) [OF assms(1)])
  obtain r1 e1 where a1: "hs_Acquire h r owner (ports_now d e) e = (r1, e1)" by fastforce
  note e1 = acq [OF assms(3) a1]
  show ?thesis
  proof (cases r1)
    case (Inl err)
    show ?thesis
    proof (cases "error_is ErrHeavyPermitProcessReconciliationRequired err \<and> ports_reconcile d \<noteq> None")
      case True
      then obtain f where f: "ports_reconcile d = Some f" by blast
      obtain r2 e2 where b: "f r e1 = (r2, e2)" by fastforce
      note e2 = rec [OF f e1 b]
      obtain r3 e3 where a3: "hs_Acquire h r owner (ports_now d e2) e2 = (r3, e3)" by fastforce
      note e3 = acq [OF e2 a3]
      from assms(4) Inl True f a1 b a3 e2 e3 show ?thesis
        by (auto simp: acquire_permit_def split: option.splits sum.splits)
    next
      case False
      with assms(4) Inl a1 e1 show ?thesis by (auto simp: acquire_permit_def split: if_splits option.splits)
    qed
  next
    case (Inr held)
    with assms(4) a1 e1 show ?thesis by (auto simp: acquire_permit_def)
  qed
qed

lemma keep_hold:
  assumes "ports_keep P d" "P (ds_env x)"
  shows "case hold_permit d p run x of Inl out \<Rightarrow> P (env_of out) | Inr y \<Rightarrow> P (ds_env y)"
proof -
  have "P (ds_env (releasePermit d reason x))" for reason by (rule keep_release [OF assms])
  moreover have "P e" if "ports_scheduler d = Some h" "acquire_permit d h r owner (ds_env x) = (res, e)" for h r owner res e
    by (rule keep_acquire [OF assms(1) that(1) assms(2) that(2)])
  ultimately show ?thesis
    using assms(2) unfolding hold_permit_def
    by (auto split: option.split bool.split prod.split sum.split intro!: keep_poll [OF assms(1)])
qed

lemma keep_apply: "ports_keep P d \<Longrightarrow> P e \<Longrightarrow> P (snd (apply_action d p c run action e))"
proof -
  assume k: "ports_keep P d" "P e"
  have "P e'" if "ports_call d o1 a pc e = (res, e')" for o1 a pc res e'
    by (rule ports_keepD(6) [OF k that])
  with k(2) show ?thesis by (auto simp: apply_action_def Let_def split: prod.split sum.split)
qed

lemma keep_done:
  assumes "ports_keep P d" "P (ds_env x)"
  shows "P (env_of (action_done d p c action polling x))"
proof -
  obtain res e where q: "(if action = ProductionReconcileGitHub then reconcileCIWait_port d (dc_RunID c) (ds_env x)
      else (None, ds_env x)) = (res, e)" by (metis surj_pair)
  then have "P e" using keep_reconcile [OF assms] assms(2) by (auto split: if_splits) (metis snd_conv)
  with keep_release [OF assms(1)] keep_poll [OF assms(1)] show ?thesis
    unfolding action_done_def q by (auto simp: Let_def case_prod_unfold split: option.split sum.split)
qed

lemma keep_failed:
  assumes "ports_keep P d" "P (ds_env x)"
  shows "P (env_of (action_failed d p c action err x))"
proof -
  obtain res e where q: "(if action = ProductionReconcileGitHub then closeCIWait d (dc_RunID c) (ds_env x)
      else (None, ds_env x)) = (res, e)" by (metis surj_pair)
  then have "P e" using keep_close [OF assms] assms(2) by (auto split: if_splits) (metis snd_conv)
  then have "P (env_of out)" if "durableStop d c (x\<lparr>ds_env := e\<rparr>) = Some out" for out
    by (auto intro: keep_durable [OF assms(1) _ that])
  with \<open>P e\<close> assms keep_poll [OF assms(1)] show ?thesis
    unfolding action_failed_def q by (auto split: option.split)
qed

lemma keep_dispatch:
  assumes "ports_keep P d" "P (ds_env x)"
  shows "P (env_of (dispatch d p c run x))"
proof -
  obtain res e where q: "reconcileCIWait_port d (dc_RunID c) (ds_env x) = (res, e)" by (metis surj_pair)
  then have e: "P e" using keep_reconcile [OF assms] by (metis snd_conv)
  have act: "P (env_of (act d p c run action (x\<lparr>ds_env := e\<rparr>)))" for action
  proof -
    obtain polling err e2 where a: "apply_action d p c run action e = ((polling, err), e2)" by (metis prod.exhaust)
    then have "P e2" using keep_apply [OF assms(1) e] by (metis snd_conv)
    with a show ?thesis
      by (auto simp: act_def Let_def split: option.split intro: keep_failed [OF assms(1)] keep_done [OF assms(1)])
  qed
  with e keep_stop [OF assms(1)] keep_poll [OF assms(1)] show ?thesis
    unfolding dispatch_def q by (auto simp: Let_def case_prod_unfold split: option.split)
qed

lemma keep_iterate: "ports_keep P d \<Longrightarrow> P (env_of out) \<Longrightarrow> P (env_of (iterate d p c out))"
proof (cases out)
  case (Again x)
  assume k: "ports_keep P d" "P (env_of out)"
  have h: "case hold_permit d p run x of Inl out \<Rightarrow> P (env_of out) | Inr y \<Rightarrow> P (ds_env y)" for run
    using keep_hold [OF k(1)] k(2) Again by simp
  have "P (env_of (case hold_permit d p run x of Inl out \<Rightarrow> out | Inr y \<Rightarrow> dispatch d p c run y))" for run
    using h [of run] keep_dispatch [OF k(1)] by (cases "hold_permit d p run x") simp_all
  with k(2) Again show ?thesis by (simp add: drive_iteration_def split: sum.split)
qed simp


section \<open>The driver ends\<close>

definition within :: "('e \<Rightarrow> nat) \<Rightarrow> nat \<Rightarrow> 'e \<times> drive_event list \<Rightarrow> bool" where
  "within budget k s \<longleftrightarrow> budget (fst s) \<le> k - progress (snd s)"

text \<open>\<open>budget\<close> counts the calls and polls left before the context ends: each of them takes one, nothing
  the ports do gives one back, and at none left the context is over.\<close>

definition budgeted :: "('e \<Rightarrow> nat) \<Rightarrow> 'e driver_ports \<Rightarrow> bool" where
  "budgeted budget d \<longleftrightarrow> (\<forall>k. ports_keep (\<lambda>e. budget e \<le> k) d) \<and>
     (\<forall>t e e'. ports_wait d t e = (None, e') \<longrightarrow> budget e' \<le> budget e - 1) \<and>
     (\<forall>owner a pc e. budget (snd (ports_call d owner a pc e)) \<le> budget e - 1) \<and>
     (\<forall>e. budget e = 0 \<longrightarrow> ports_ctx d e \<noteq> None)"

lemma within_quiet:
  "within budget k s \<Longrightarrow> budget (snd (f (fst s))) \<le> budget (fst s) \<Longrightarrow> within budget k (snd (quiet f s))"
  by (simp add: quiet_def logged_def within_def)

lemma budgeted_keep:
  assumes "budgeted budget d"
  shows "ports_keep (within budget k) (traced d)"
proof -
  have keep: "ports_keep (\<lambda>e. budget e \<le> j) d" for j using assms by (simp add: budgeted_def)
  have acq: "budget (snd (hs_Acquire h r owner t e)) \<le> budget e"
    and rel: "budget (snd (hs_Release h m r t e)) \<le> budget e" if "ports_scheduler d = Some h" for h m r owner t e
    using keep [of "budget e"] that by (simp_all add: ports_keep_def)
  have rec: "budget (snd (f r e)) \<le> budget e" if "ports_reconcile d = Some f" for f r e
    using keep [of "budget e"] that by (simp add: ports_keep_def)
  have wait: "budget (snd (ws_Reconcile w i t e)) \<le> budget e"
    and close: "budget (snd (ws_Close w r t e)) \<le> budget e" if "ports_waits d = Some w" for w i r t e
    using keep [of "budget e"] that by (simp_all add: ports_keep_def)
  have app: "budget (snd (ports_append d ae e)) \<le> budget e"
    and poll: "budget (snd (ports_wait d t e)) \<le> budget e" for ae t e
    using keep [of "budget e"] by (simp_all add: ports_keep_def)
  have poll1: "budget (snd (ports_wait d t e)) \<le> budget e - 1" if "fst (ports_wait d t e) = None" for t e
    using assms that by (simp add: budgeted_def) (metis prod.collapse)
  have call: "budget (snd (ports_call d owner a pc e)) \<le> budget e - 1" for owner a pc e
    using assms by (simp add: budgeted_def)
  have 1: "within budget k e \<Longrightarrow> within budget k (snd (hs_Acquire (traced_scheduler h) r owner t e))"
    if "ports_scheduler d = Some h" for h r owner t e
    using acq [OF that, of r owner t "fst e"]
    by (auto simp: traced_scheduler_def logged_def within_def split: sum.split option.split)
  have 2: "within budget k e \<Longrightarrow> within budget k (snd (hs_Release (traced_scheduler h) m r t e))"
    if "ports_scheduler d = Some h" for h m r t e
    using rel [OF that, of m r t "fst e"]
    by (auto simp: traced_scheduler_def logged_def within_def split: sum.split)
  have 3: "within budget k e \<Longrightarrow> within budget k (snd (ports_wait (traced d) t e))" for t e
    using poll [of t "fst e"] poll1 [of t "fst e"] by (auto simp: traced_def logged_def within_def)
  have 4: "within budget k e \<Longrightarrow> within budget k (snd (ports_call (traced d) owner a pc e))" for owner a pc e
    using call [of owner a pc "fst e"] by (auto simp: traced_def logged_def within_def)
  show ?thesis
    unfolding ports_keep_def
    by (intro conjI; (simp add: 3 4; fail)?) (auto simp: 1 2 traced_def within_quiet rec wait close app)
qed


lemma snd_env_of: "snd (env_of out) = log_of out"
  by (cases out) simp_all

lemma drive_after_budget:
  assumes "budgeted budget d"
  shows "budget (fst (env_of (drive_after d p c e n))) \<le> budget e - progress (log_of (drive_after d p c e n))"
proof -
  have "within budget (budget e) (env_of (drive_after d p c e n))"
  proof (induction n)
    case 0
    then show ?case by (simp add: drive_after_def drive_start_def within_def)
  next
    case (Suc n)
    from keep_iterate [OF budgeted_keep [OF assms] this] show ?case by (simp add: drive_after_def)
  qed
  then show ?thesis by (simp add: within_def snd_env_of)
qed

text \<open>C26: A context that ends ends the driver: if every call and every poll uses up some of what is left of the
  context, and the rest of the ports give nothing back, \<open>Drive\<close> returns.\<close>

theorem drive_returns:
  assumes "budgeted budget d"
  shows "\<exists>r e'. Drive d p c e = Some (r, e')"
proof -
  have "\<not> running (drive_after d p c e (Suc (budget e)))"
  proof
    assume "running (drive_after d p c e (Suc (budget e)))"
    then obtain x where x: "drive_after d p c e (budget e) = Again x"
      and go: "running (drive_iteration (traced d) p c x)"
      by (cases "drive_after d p c e (budget e)") (auto simp: drive_after_def)
    from drive_after_progress [of d p c e "budget e"] drive_after_budget [OF assms, of p c e "budget e"] x
    have "budget (fst (ds_env x)) = 0" by simp
    then have "ports_ctx d (fst (ds_env x)) \<noteq> None" using assms by (simp add: budgeted_def)
    then have "\<not> running (drive_iteration (traced d) p c x)"
      by (auto simp: drive_iteration_def read_run_def fail_def)
    with go show False by simp
  qed
  then have "\<exists>k. \<not> running ((iterate (traced d) p c ^^ k) (Again (drive_start (e, []))))"
    unfolding drive_after_def by blast
  then have "drive_loop (traced d) p c (drive_start (e, [])) \<noteq> None"
    unfolding drive_loop_def while_option_def by simp
  then obtain out where "drive_loop (traced d) p c (drive_start (e, [])) = Some out" by blast
  moreover from this have "\<not> running out" unfolding drive_loop_def by (rule while_option_stop)
  ultimately have "Drive (traced d) p c (e, []) \<noteq> None" by (cases out) (auto simp: Drive_def)
  with observed [of d p c e "[]"] show ?thesis by auto
qed

section \<open>What the driver reports\<close>

definition published :: "'e driver_ports \<Rightarrow> run_row \<Rightarrow> bool" where
  "published d run \<longleftrightarrow> (\<exists>(i :: run_inspection) t ae e1 e2 b.
     (if run_State run = StateAwaitingHumanDecision
      then latestHumanDecisionTransition (ri_Timeline i) = Inr t \<and> ports_decision_event d run t = Inr ae
      else latestManualInterventionTransition (ri_Timeline i) = Inr t \<and> ports_manual_event d run t = Inr ae) \<and>
     ports_append d ae e1 = (Inr b, e2))"

definition halted :: "'e driver_ports \<Rightarrow> drive_result \<Rightarrow> bool" where
  "halted d res \<longleftrightarrow> dr_Action res = ProductionStop \<and>
     (run_State (dr_Run res) = StateAwaitingHumanDecision \<or>
      productionNextAction (run_State (dr_Run res)) = (ProductionStop, dr_Reason res)) \<and>
     (run_State (dr_Run res) = StateAwaitingHumanDecision \<or> run_State (dr_Run res) = StateManualIntervention \<longrightarrow>
      published d (dr_Run res))"

fun reports :: "'e driver_ports \<Rightarrow> driver_policy \<Rightarrow> 'e drive_outcome \<Rightarrow> bool" where
  "reports d p (Return (Inr res) x) \<longleftrightarrow> halted d res \<or>
     dp_ReturnOnExternalWait p \<and> productionNextAction (run_State (dr_Run res)) = (dr_Action res, dr_Reason res)"
| "reports d p _ \<longleftrightarrow> True"

lemma reports_fail [simp]: "reports d p (fail err x)"
  by (simp add: fail_def)

lemma reports_poll [simp]: "reports d p (poll d p x)"
  by (simp add: poll_def split: prod.split option.split)

lemma publish_stop_ok:
  assumes "publish_stop bad latest event d run i e = (None, e')"
  obtains t ae b where "latest (ri_Timeline i) = Inr t" and "event run t = Inr ae" and "ports_append d ae e = (Inr b, e')"
  using assms by (auto simp: publish_stop_def split: if_splits sum.splits prod.splits)

lemma stop_reports:
  assumes "run_State run = StateAwaitingHumanDecision \<or> productionNextAction (run_State run) = (ProductionStop, reason)"
  shows "reports d p (stop d run ProductionStop reason x)"
proof (cases "stop d run ProductionStop reason x")
  case (Return r y)
  show ?thesis
  proof (cases r)
    case (Inr res)
    have res: "res = \<lparr>dr_Run = run, dr_Action = ProductionStop, dr_Reason = reason, dr_ActionsRun = ds_actions x\<rparr>"
      using Return Inr by (auto simp: stop_def fail_def Let_def split: if_splits sum.splits prod.splits option.splits)
    have "published d run" if "run_State run = StateAwaitingHumanDecision \<or> run_State run = StateManualIntervention"
    proof -
      have "\<exists>i e'. (if run_State run = StateAwaitingHumanDecision then publishHumanDecisionAttention d run i (ds_env x)
            else publishManualInterventionAttention d run i (ds_env x)) = (None, e')"
        using Return Inr that
        by (auto simp: stop_def fail_def Let_def split: sum.splits prod.splits option.splits if_splits)
      then show ?thesis
        unfolding published_def publishHumanDecisionAttention_def publishManualInterventionAttention_def
        by (auto split: if_splits elim!: publish_stop_ok) blast+
    qed
    with assms Return Inr res show ?thesis by (simp add: halted_def)
  qed (use Return in simp)
qed simp


lemma failed_reports: "reports d p (action_failed d p c action err x)"
proof -
  have "reports d p out" if "durableStop d c y = Some out" for y out
    using that by (rule durableStop_cases) (use stop_reports in blast)
  then show ?thesis
    unfolding action_failed_def by (auto split: if_split prod.split option.split)
qed

lemma done_reports: "reports d p (action_done d p c action polling x)"
  unfolding action_done_def
  by (auto simp: Let_def case_prod_unfold split: option.split sum.split)

lemma dispatch_reports: "reports d p (dispatch d p c run x)"
proof -
  have act: "reports d p (act d p c run action y)" for action y
    by (auto simp: act_def Let_def failed_reports done_reports split: prod.split option.split)
  obtain a reason where n: "productionNextAction (run_State run) = (a, reason)" by fastforce
  have st: "reports d p (stop d run ProductionStop why y)"
    if "run_State run = StateAwaitingHumanDecision \<or> a = ProductionStop \<and> why = reason" for why y
    by (rule stop_reports) (use that n in auto)
  show ?thesis
    unfolding dispatch_def n
    by (auto simp: Let_def act st split: prod.split option.split)
qed

lemma iterate_reports: "reports d p out \<Longrightarrow> reports d p (iterate d p c out)"
  by (cases out) (auto simp: drive_iteration_def hold_permit_def dispatch_reports
      split: sum.split prod.split option.split bool.split)

text \<open>A drive that reports a result has stopped: unless the policy returns at external waits, the result is a stop
  the state of the run calls for, terminal or waiting for a human, and a run that waits for a human has had the
  attention event of its latest such transition stored. With that policy the result may also be the
  next action of the state that waits.\<close>

theorem drive_result_is_a_stop:
  assumes "Drive d p c e = Some (Inr res, e')"
  shows "halted d res \<or>
    dp_ReturnOnExternalWait p \<and> productionNextAction (run_State (dr_Run res)) = (dr_Action res, dr_Reason res)"
proof -
  obtain out where out: "drive_loop d p c (drive_start e) = Some out" and l: "leave d out = Some (Inr res, e')"
    using assms by (auto simp: Drive_def split: if_splits bind_splits)
  from out have "reports d p out"
    unfolding drive_loop_def by (rule while_option_rule [rotated]) (use iterate_reports in auto)
  with l show ?thesis by (cases out) auto
qed

section \<open>A drive of a small store\<close>

text \<open>The store of theory Scheduling behind the ports, a coordinator that ends the run and a budget of the context.\<close>

definition demo_ports :: "(store \<times> nat) driver_ports" where
  "demo_ports =
     \<lparr>ports_ctx = (\<lambda>(s, n). if n = 0 then Some context_canceled else None), ports_now = (\<lambda>_. 9),
      ports_GetRun = (\<lambda>r (s, n). case find_run s r of None \<Rightarrow> Inl run_not_found | Some run \<Rightarrow> Inr run),
      ports_progress = (\<lambda>_ _. Inr True), ports_authorize = (\<lambda>_ _. None),
      ports_Inspect = (\<lambda>_ _. Inl run_not_found),
      ports_scheduler = Some \<lparr>hs_Acquire = (\<lambda>r owner t (s, n). case AcquireHeavyPermit r owner t s of (x, s') \<Rightarrow> (x, (s', n))),
        hs_Release = (\<lambda>m reason t (s, n). (Inr True, (s, n)))\<rparr>,
      ports_reconcile = None, ports_waits = None, ports_manual_event = (\<lambda>_ _. Inl run_not_found),
      ports_decision_event = (\<lambda>_ _. Inl run_not_found), ports_append = (\<lambda>_ e. (Inr True, e)),
      ports_wait = (\<lambda>_ (s, n). (None, (s, n - 1))), ports_present = [],
      ports_call = (\<lambda>_ a pc (s, n). (Inr a, (s\<lparr>st_runs := map (\<lambda>r. r\<lparr>run_State := StateCompleted\<rparr>) (st_runs s)\<rparr>, n - 1)))\<rparr>"

definition demo_policy :: driver_policy where
  "demo_policy = \<lparr>dp_PollInterval = 1, dp_MaxImmediateAction = 1, dp_CISlowThreshold = minute,
     dp_ReturnOnExternalWait = False, dp_HeavyPermitOwner = ''sup''\<rparr>"

definition demo_command :: drive_command where
  "demo_command = \<lparr>dc_Requester = \<lparr>rq_ID = ''op'', rq_Kind = ''human'', rq_DatabaseID = 7, rq_NodeID = ''n'', rq_ActorType = ''User''\<rparr>, dc_RunID = ''r1'',
     dc_Repository = ''o/r'', dc_IdempotencyKey = ''k1''\<rparr>"

lemmas demo_defs = demo_ports_def demo_policy_def demo_command_def

lemma demo_ids: "ports_GetRun demo_ports r e = Inr run \<Longrightarrow> run_ID run = r"
  by (auto simp: demo_ports_def split: option.splits prod.splits dest: find_run_Some)

definition demo_call :: production_command where
  "demo_call = \<lparr>pc_Requester = dc_Requester demo_command, pc_RunID = ''r1'', pc_Repository = ''o/r'',
     pc_ExpectedState = StateExecuting, pc_IdempotencyKey = ''k1''\<rparr>"

lemma demo_policy_valid: "DriverPolicy_validate demo_policy = None"
  by code_simp

lemma demo_first:
  "log_of (drive_after demo_ports demo_policy demo_command (sample_store, 5) 1) =
     [] @ Called ProductionContinueLocal demo_call # [Granted ''r1'']"
  by code_simp

lemma demo_budgeted: "budgeted snd demo_ports"
  by (auto simp: budgeted_def ports_keep_def demo_ports_def split: prod.split)

theorem drive_is_paced_witness:
  "1 \<le> calls [Called ProductionContinueLocal demo_call, Granted ''r1''] +
     waits_in [Called ProductionContinueLocal demo_call, Granted ''r1'']"
proof -
  have "running (drive_after demo_ports demo_policy demo_command (sample_store, 5) 1)" by code_simp
  with drive_is_paced [OF demo_policy_valid demo_ids demo_first [symmetric]] show ?thesis by simp
qed

theorem driver_calls_authorized_witness:
  "ports_scheduler demo_ports \<noteq> None \<and> HeavyWorkRequired StateExecuting \<and> holding ''r1'' [Granted ''r1'']"
  using driver_calls_authorized [OF demo_policy_valid demo_ids demo_first]
  by (simp add: demo_call_def demo_defs HeavyWorkRequired.simps)

theorem drive_returns_witness:
  "\<exists>r e'. Drive demo_ports demo_policy demo_command (sample_store, 5) = Some (r, e')"
  by (rule drive_returns [OF demo_budgeted])

theorem drive_result_is_a_stop_witness:
  "\<exists>res e'. Drive demo_ports demo_policy demo_command (sample_store, 5) = Some (Inr res, e') \<and>
     halted demo_ports res \<and> dr_ActionsRun res = 1"
proof -
  obtain res e' where d: "Drive demo_ports demo_policy demo_command (sample_store, 5) = Some (Inr res, e')"
    and n: "dr_ActionsRun res = 1"
  proof -
    have "case Drive demo_ports demo_policy demo_command (sample_store, 5) of
      Some (Inr res, e') \<Rightarrow> dr_ActionsRun res = 1 | _ \<Rightarrow> False" by code_simp
    with that show thesis by (auto split: option.splits sum.splits prod.splits)
  qed
  from drive_result_is_a_stop [OF d] have "halted demo_ports res" by (simp add: demo_policy_def)
  with d n show ?thesis by blast
qed

end
