(* ===== verification/Trusted_Feedback.thy ===== *)
theory Trusted_Feedback
  imports Github_Evidence Sha256 "HOL-Library.List_Lexorder" "HOL-Library.Char_ord"
begin

text \<open>
  Trusted review feedback: \<open>internal/domain/trusted_review_feedback.go\<close>,
  \<open>trusted_changes_requested.go\<close>, \<open>review_reply.go\<close> and the raw-body handoff of
  \<open>github_read.go\<close>. Digests are the SHA-256 of theory \<open>Sha256\<close>. \<open>path.Clean\<close> and
  \<open>strings.LastIndex\<close> are written out from their documentation. Pointers that are only
  read (\<open>*int\<close>, \<open>*ActorIdentity\<close>) are options.
\<close>

section \<open>Standard library functions\<close>

text \<open>\<open>path.Clean\<close> on the slash-separated components, the stack held last component first.\<close>

fun clean_step :: "bool \<Rightarrow> string list \<Rightarrow> string \<Rightarrow> string list" where
  "clean_step rooted stack p =
     (if p = [] \<or> p = ''.'' then stack
      else if p = ''..'' then
        (case stack of
           [] \<Rightarrow> (if rooted then [] else [''..''])
         | q # qs \<Rightarrow> (if q = ''..'' then ''..'' # stack else qs))
      else p # stack)"

definition path_clean :: "string \<Rightarrow> string" where
  "path_clean s =
     (let rooted = prefix ''/'' s;
          out = rev (foldl (clean_step rooted) [] (split_on (CHR ''/'') s)) in
      if rooted then ''/'' @ join ''/'' out
      else if out = [] then ''.'' else join ''/'' out)"

text \<open>\<open>strings.LastIndex\<close>: \<open>-1\<close> when there is no occurrence.\<close>

definition last_index :: "string \<Rightarrow> string \<Rightarrow> int" where
  "last_index s pat =
     (case find (\<lambda>i. prefix pat (drop i s)) (rev [0..<Suc (length s)]) of
        None \<Rightarrow> -1 | Some i \<Rightarrow> int i)"

definition trim_prefix :: "string \<Rightarrow> string \<Rightarrow> string" where
  "trim_prefix s p = (if prefix p s then drop (length p) s else s)"

definition trim_suffix :: "string \<Rightarrow> string \<Rightarrow> string" where
  "trim_suffix s p = (if suffix p s then take (length s - length p) s else s)"

section \<open>Feedback records (trusted\_review\_feedback.go)\<close>

definition MaxTrustedReviewFeedbackBodyBytes :: nat where
  "MaxTrustedReviewFeedbackBodyBytes = 16 * 1024"

definition MaxTrustedReviewFeedbackPerHead :: nat where
  "MaxTrustedReviewFeedbackPerHead = 50"

definition MaxTrustedReviewFeedbackTextBytes :: nat where
  "MaxTrustedReviewFeedbackTextBytes = 64 * 1024"

datatype feedback_lifecycle =
    FeedbackObserved | FeedbackSelectedForRepair | FeedbackRepairVerified | FeedbackReplyPending
  | FeedbackReplied | FeedbackResolved | FeedbackSuperseded | FeedbackOther string

fun lifecycle_string :: "feedback_lifecycle \<Rightarrow> string" where
  "lifecycle_string FeedbackObserved = ''observed''"
| "lifecycle_string FeedbackSelectedForRepair = ''selected_for_repair''"
| "lifecycle_string FeedbackRepairVerified = ''repair_verified''"
| "lifecycle_string FeedbackReplyPending = ''reply_pending''"
| "lifecycle_string FeedbackReplied = ''replied''"
| "lifecycle_string FeedbackResolved = ''resolved''"
| "lifecycle_string FeedbackSuperseded = ''superseded''"
| "lifecycle_string (FeedbackOther s) = s"

record trusted_feedback =
  tf_PRNumber :: int
  tf_PRDatabaseID :: int
  tf_PRNodeID :: string
  tf_ReviewDatabaseID :: int
  tf_ReviewNodeID :: string
  tf_ThreadNodeID :: string
  tf_RootCommentDatabaseID :: int
  tf_RootCommentNodeID :: string
  tf_Author :: actor_identity
  tf_OriginalReviewHeadSHA :: string
  tf_Path :: string
  tf_Line :: "int option"
  tf_Body :: string
  tf_BodyDigest :: string
  tf_SourceAt :: time
  tf_ObservedAt :: time
  tf_Lifecycle :: feedback_lifecycle
  tf_BoundRepairHead :: string
  tf_ReplyIntentKey :: string
  tf_ReplyDatabaseID :: int
  tf_ReplyNodeID :: string
  tf_Resolved :: bool
  tf_Outdated :: bool
  tf_UpdatedAt :: time

definition fullSHA :: "string \<Rightarrow> bool" where
  "fullSHA value = (if length value \<noteq> 40 then False else \<forall>c \<in> set value. is_lower_hex c)"

definition feedbackDigest :: "string \<Rightarrow> string" where
  "feedbackDigest body = sha256_hex body"

definition safeRepositoryPath :: "string \<Rightarrow> bool" where
  "safeRepositoryPath value \<longleftrightarrow>
     value \<noteq> [] \<and> value \<noteq> ''.'' \<and> value \<noteq> ''..'' \<and> trim_space value = value \<and>
     nul \<notin> set value \<and> \<not> prefix ''/'' value \<and> \<not> prefix ''~'' value \<and>
     CHR 0x5C \<notin> set value \<and> path_clean value = value \<and> \<not> prefix ''../'' value"

definition validTrustedReviewFeedbackNodeID :: "string \<Rightarrow> bool" where
  "validTrustedReviewFeedbackNodeID value \<longleftrightarrow> \<not> blank value \<and> nul \<notin> set value"

definition require_positive_id :: "string \<times> int \<Rightarrow> go_error option" where
  "require_positive_id v =
     (if snd v < 1 then Some (Errorf ''%s ID must be positive'' [AStr (fst v)]) else None)"

definition require_node_id :: "string \<times> string \<Rightarrow> go_error option" where
  "require_node_id v =
     (if \<not> validTrustedReviewFeedbackNodeID (snd v)
      then Some (Errorf ''%s ID is required'' [AStr (fst v)]) else None)"

definition ValidateObservation :: "trusted_feedback \<Rightarrow> go_error option" where
  "ValidateObservation f =
     and_then
       (first_error require_positive_id
          [(''pull request'', tf_PRNumber f), (''pull request database'', tf_PRDatabaseID f),
           (''review'', tf_ReviewDatabaseID f), (''root comment'', tf_RootCommentDatabaseID f),
           (''author'', actor_DatabaseID (tf_Author f))])
     (and_then
       (first_error require_node_id
          [(''pull request node'', tf_PRNodeID f), (''review node'', tf_ReviewNodeID f),
           (''thread node'', tf_ThreadNodeID f), (''root comment node'', tf_RootCommentNodeID f),
           (''author node'', actor_NodeID (tf_Author f)),
           (''author login'', actor_Login (tf_Author f))])
     (if actor_Type (tf_Author f) \<noteq> ''User''
      then Some (New ''trusted feedback author must be a User'')
      else if \<not> fullSHA (tf_OriginalReviewHeadSHA f)
      then Some (New ''original review head must be a full SHA'')
      else if is_zero_time (tf_SourceAt f) \<or> is_zero_time (tf_ObservedAt f)
      then Some (New ''feedback source and observation timestamps are required'')
      else if nul \<in> set (tf_Body f) \<or> tf_Body f = [] \<or>
         length (tf_Body f) > MaxTrustedReviewFeedbackBodyBytes
      then Some (New ''feedback body is empty, contains NUL, or exceeds its bound'')
      else (let digest = feedbackDigest (tf_Body f);
                given = (if tf_BodyDigest f = [] then digest else tf_BodyDigest f) in
        if given \<noteq> digest then Some (New ''feedback body digest does not match body'')
        else if tf_Path f \<noteq> [] \<and> \<not> safeRepositoryPath (tf_Path f)
        then Some (New ''feedback path is not a sanitized repository path'')
        else if (case tf_Line f of None \<Rightarrow> False | Some l \<Rightarrow> l < 1 \<or> tf_Path f = [])
        then Some (New ''feedback line requires a positive value and repository path'')
        else if tf_Lifecycle f \<noteq> FeedbackOther [] \<and> tf_Lifecycle f \<noteq> FeedbackObserved
        then Some (New ''new feedback must start observed'')
        else if tf_BoundRepairHead f \<noteq> [] \<or> tf_ReplyIntentKey f \<noteq> [] \<or> tf_ReplyDatabaseID f \<noteq> 0 \<or>
           tf_ReplyNodeID f \<noteq> [] \<or> tf_Resolved f \<or> tf_Outdated f
        then Some (New ''new feedback must not include future lifecycle evidence'')
        else None)))"

definition ImmutableEqual :: "trusted_feedback \<Rightarrow> trusted_feedback \<Rightarrow> bool" where
  "ImmutableEqual f g \<longleftrightarrow>
     tf_PRNumber f = tf_PRNumber g \<and> tf_PRDatabaseID f = tf_PRDatabaseID g \<and>
     tf_PRNodeID f = tf_PRNodeID g \<and> tf_ReviewDatabaseID f = tf_ReviewDatabaseID g \<and>
     tf_ReviewNodeID f = tf_ReviewNodeID g \<and> tf_ThreadNodeID f = tf_ThreadNodeID g \<and>
     tf_RootCommentDatabaseID f = tf_RootCommentDatabaseID g \<and>
     tf_RootCommentNodeID f = tf_RootCommentNodeID g \<and>
     actor_DatabaseID (tf_Author f) = actor_DatabaseID (tf_Author g) \<and>
     actor_NodeID (tf_Author f) = actor_NodeID (tf_Author g) \<and>
     actor_Login (tf_Author f) = actor_Login (tf_Author g) \<and>
     actor_Type (tf_Author f) = actor_Type (tf_Author g) \<and>
     tf_OriginalReviewHeadSHA f = tf_OriginalReviewHeadSHA g \<and>
     tf_BodyDigest f = tf_BodyDigest g \<and> tf_Body f = tf_Body g"

fun next_lifecycles :: "feedback_lifecycle \<Rightarrow> feedback_lifecycle list" where
  "next_lifecycles FeedbackObserved = [FeedbackSelectedForRepair, FeedbackSuperseded]"
| "next_lifecycles FeedbackSelectedForRepair = [FeedbackRepairVerified, FeedbackSuperseded]"
| "next_lifecycles FeedbackRepairVerified =
     [FeedbackReplyPending, FeedbackResolved, FeedbackSuperseded]"
| "next_lifecycles FeedbackReplyPending = [FeedbackReplied, FeedbackResolved, FeedbackSuperseded]"
| "next_lifecycles FeedbackReplied = [FeedbackResolved, FeedbackSuperseded]"
| "next_lifecycles _ = []"

definition ValidateTrustedReviewFeedbackTransition ::
  "feedback_lifecycle \<Rightarrow> feedback_lifecycle \<Rightarrow> go_error option" where
  "ValidateTrustedReviewFeedbackTransition expected next =
     (if next \<in> set (next_lifecycles expected) then None
      else Some (Errorf ''illegal trusted feedback lifecycle transition: %s -> %s''
                   [AStr (lifecycle_string expected), AStr (lifecycle_string next)]))"

section \<open>Review threads and the raw-body handoff (github\_read.go)\<close>

record review_comment =
  rc_DatabaseID :: int
  rc_NodeID :: string
  rc_ReplyToDatabaseID :: int
  rc_ReplyToNodeID :: string
  rc_Author :: "actor_identity option"
  rc_Review :: github_review
  rc_BodyDigest :: string
  rc_CreatedAt :: time
  rc_UpdatedAt :: time

record review_thread =
  rt_NodeID :: string
  rt_Resolved :: bool
  rt_Outdated :: bool
  rt_OriginalCommitSHA :: string
  rt_Path :: string
  rt_Line :: "int option"
  rt_Comments :: "review_comment list"

record inline_body =
  ib_ThreadNodeID :: string
  ib_CommentNodeID :: string
  ib_Body :: string
  ib_BodyDigest :: string

record normalized_finding =
  nf_Source :: string
  nf_SourceID :: string
  nf_ThreadID :: string
  nf_File :: string
  nf_Line :: int
  nf_Classification :: string
  nf_BodyDigest :: string
  nf_Body :: string
  nf_Resolved :: bool
  nf_Outdated :: bool
  nf_HeadSHA :: string
  nf_SourceAt :: time
  nf_ObservedAt :: time

text \<open>The loop of \<open>InlineReviewBodyHandoff.Validate\<close> with its running total and seen set.\<close>

fun check_bodies :: "nat \<Rightarrow> string list \<Rightarrow> inline_body list \<Rightarrow> go_error option" where
  "check_bodies used seen [] = None"
| "check_bodies used seen (b # bs) =
     (if blank (ib_ThreadNodeID b) \<or> blank (ib_CommentNodeID b) \<or> nul \<in> set (ib_ThreadNodeID b) \<or>
         nul \<in> set (ib_CommentNodeID b)
      then Some (New ''inline review body identity is incomplete'')
      else if ib_CommentNodeID b \<in> set seen
      then Some (New ''duplicate inline review body identity'')
      else if ib_Body b = [] \<or> length (ib_Body b) > MaxTrustedReviewFeedbackBodyBytes \<or>
         nul \<in> set (ib_Body b)
      then Some (New ''inline review body exceeds bounded limit'')
      else if feedbackDigest (ib_Body b) \<noteq> ib_BodyDigest b
      then Some (New ''inline review body digest does not match body'')
      else if used + length (ib_Body b) > MaxTrustedReviewFeedbackTextBytes
      then Some (New ''inline review body aggregate exceeds bounded limit'')
      else check_bodies (used + length (ib_Body b)) (ib_CommentNodeID b # seen) bs)"

definition Handoff_Validate :: "inline_body list \<Rightarrow> go_error option" where
  "Handoff_Validate comments =
     (if length comments > MaxTrustedReviewFeedbackPerHead
      then Some (New ''inline review body count exceeds bounded limit'')
      else check_bodies 0 [] comments)"

section \<open>Changes requested (trusted\_changes\_requested.go)\<close>

datatype topology_reason = TopologyNone | TopologyUnsupported | TopologySplitReview

record trusted_changes =
  tc_Feedback :: "trusted_feedback list"
  tc_Findings :: "normalized_finding list"
  tc_Unsupported :: bool
  tc_Reason :: topology_reason

definition sameActor :: "actor_identity \<Rightarrow> actor_identity \<Rightarrow> bool" where
  "sameActor a b \<longleftrightarrow> actor_Type a = ''User'' \<and> actor_Type b = ''User'' \<and>
     actor_DatabaseID a = actor_DatabaseID b \<and> actor_NodeID a = actor_NodeID b \<and>
     equal_fold (actor_Login a) (actor_Login b)"

definition sameTrustedActor :: "(string \<times> actor_identity) list \<Rightarrow> actor_identity \<Rightarrow> bool" where
  "sameTrustedActor trusted a =
     (case map_of trusted (to_lower (actor_Login a)) of
        None \<Rightarrow> False | Some configured \<Rightarrow> sameActor a configured)"

definition sameLine :: "int option \<Rightarrow> int option \<Rightarrow> bool" where
  "sameLine a b =
     (case (a, b) of
        (Some x, Some y) \<Rightarrow> x = y
      | _ \<Rightarrow> a = None \<and> b = None)"

fun index_operators ::
  "(string \<times> actor_identity) list \<Rightarrow> actor_identity list \<Rightarrow> (string \<times> actor_identity) list result" where
  "index_operators m [] = Inr m"
| "index_operators m (a # as) =
     (if actor_DatabaseID a < 1 \<or> \<not> validTrustedReviewFeedbackNodeID (actor_NodeID a) \<or>
         blank (actor_Login a) \<or> actor_Type a \<noteq> ''User''
      then Inl (New ''trusted operator identity is incomplete'')
      else if map_of m (to_lower (actor_Login a)) \<noteq> None
      then Inl (New ''trusted operator identity is ambiguous'')
      else index_operators ((to_lower (actor_Login a), a) # m) as)"

definition body_index :: "inline_body list \<Rightarrow> (string \<times> inline_body) list" where
  "body_index bodies = index_by (\<lambda>_. True) ib_CommentNodeID bodies"

definition exact_request ::
  "pull_request \<Rightarrow> (string \<times> actor_identity) list \<Rightarrow> github_review \<Rightarrow> bool" where
  "exact_request pr trusted r \<longleftrightarrow>
     gr_State r = ''CHANGES_REQUESTED'' \<and> gr_CommitSHA r = pr_HeadSHA pr \<and> gr_DatabaseID r > 0 \<and>
     validTrustedReviewFeedbackNodeID (gr_NodeID r) \<and> \<not> is_zero_time (gr_SourceAt r) \<and>
     sameTrustedActor trusted (gr_Actor r)"

definition exact_reviews ::
  "pull_request \<Rightarrow> (string \<times> actor_identity) list \<Rightarrow> github_review list \<Rightarrow>
     (string \<times> github_review) list" where
  "exact_reviews pr trusted reviews =
     index_by (exact_request pr trusted) gr_NodeID reviews"

text \<open>The feedback a comment would become, and whether it is a valid root observation.\<close>

definition root_feedback ::
  "pull_request \<Rightarrow> review_thread \<Rightarrow> review_comment \<Rightarrow> actor_identity \<Rightarrow> inline_body \<Rightarrow> time \<Rightarrow>
     trusted_feedback" where
  "root_feedback pr thread comment author body observedAt =
     \<lparr>tf_PRNumber = pr_Number pr, tf_PRDatabaseID = pr_DatabaseID pr, tf_PRNodeID = pr_NodeID pr,
      tf_ReviewDatabaseID = gr_DatabaseID (rc_Review comment),
      tf_ReviewNodeID = gr_NodeID (rc_Review comment), tf_ThreadNodeID = rt_NodeID thread,
      tf_RootCommentDatabaseID = rc_DatabaseID comment, tf_RootCommentNodeID = rc_NodeID comment,
      tf_Author = author, tf_OriginalReviewHeadSHA = pr_HeadSHA pr, tf_Path = rt_Path thread,
      tf_Line = rt_Line thread, tf_Body = ib_Body body, tf_BodyDigest = ib_BodyDigest body,
      tf_SourceAt = rc_CreatedAt comment, tf_ObservedAt = observedAt,
      tf_Lifecycle = FeedbackOther [], tf_BoundRepairHead = [], tf_ReplyIntentKey = [],
      tf_ReplyDatabaseID = 0, tf_ReplyNodeID = [], tf_Resolved = False, tf_Outdated = False,
      tf_UpdatedAt = 0\<rparr>"

definition trustedInlineRootObservation ::
  "pull_request \<Rightarrow> review_thread \<Rightarrow> review_comment \<Rightarrow> (string \<times> inline_body) list \<Rightarrow> time \<Rightarrow>
     trusted_feedback option" where
  "trustedInlineRootObservation pr thread comment bodies observedAt =
     (case rc_Author comment of
        None \<Rightarrow> None
      | Some author \<Rightarrow>
          (if rt_Resolved thread \<or> rt_Outdated thread \<or> rc_ReplyToDatabaseID comment \<noteq> 0 \<or>
              rc_ReplyToNodeID comment \<noteq> [] \<or> is_zero_time (rc_UpdatedAt comment) \<or>
              rc_UpdatedAt comment < rc_CreatedAt comment \<or>
              is_zero_time (gr_SourceAt (rc_Review comment)) \<or>
              gr_CommitSHA (rc_Review comment) \<noteq> pr_HeadSHA pr \<or>
              rt_OriginalCommitSHA thread \<noteq> pr_HeadSHA pr
           then None
           else (case map_of bodies (rc_NodeID comment) of
              None \<Rightarrow> None
            | Some body \<Rightarrow>
                (if ib_ThreadNodeID body \<noteq> rt_NodeID thread \<or> ib_BodyDigest body \<noteq> rc_BodyDigest comment
                 then None
                 else (let f = root_feedback pr thread comment author body observedAt in
                   if ValidateObservation f = None then Some f else None)))))"

definition mark_unsupported :: "topology_reason \<Rightarrow> trusted_changes \<Rightarrow> trusted_changes" where
  "mark_unsupported reason res =
     res\<lparr>tc_Unsupported := True,
       tc_Reason := (if tc_Reason res = TopologyNone \<or> reason = TopologySplitReview then reason
                     else tc_Reason res)\<rparr>"

text \<open>
  The comments of all threads in the order of the two nested loops. The first pass looks for
  a root comment under a COMMENTED review of an actor whose CHANGES\_REQUESTED review is a
  different one; the order of the map \<open>exact\<close> is immaterial because marking is idempotent.
\<close>

definition thread_comments :: "review_thread list \<Rightarrow> (review_thread \<times> review_comment) list" where
  "thread_comments threads = concat (map (\<lambda>t. map (\<lambda>c. (t, c)) (rt_Comments t)) threads)"

definition split_review ::
  "pull_request \<Rightarrow> (string \<times> actor_identity) list \<Rightarrow> (string \<times> github_review) list \<Rightarrow>
     (string \<times> inline_body) list \<Rightarrow> time \<Rightarrow> review_thread \<times> review_comment \<Rightarrow> bool" where
  "split_review pr trusted exact bodies observedAt tc =
     (case rc_Author (snd tc) of
        None \<Rightarrow> False
      | Some author \<Rightarrow>
          gr_State (rc_Review (snd tc)) = ''COMMENTED'' \<and>
          gr_CommitSHA (rc_Review (snd tc)) = pr_HeadSHA pr \<and>
          sameTrustedActor trusted author \<and> sameTrustedActor trusted (gr_Actor (rc_Review (snd tc))) \<and>
          sameActor author (gr_Actor (rc_Review (snd tc))) \<and>
          trustedInlineRootObservation pr (fst tc) (snd tc) bodies observedAt \<noteq> None \<and>
          (\<exists>r \<in> snd ` set exact. gr_NodeID r \<noteq> gr_NodeID (rc_Review (snd tc)) \<and>
             sameActor (gr_Actor r) (gr_Actor (rc_Review (snd tc)))))"

definition linked_comment ::
  "(string \<times> actor_identity) list \<Rightarrow> (string \<times> github_review) list \<Rightarrow> review_comment \<Rightarrow> bool" where
  "linked_comment trusted exact c =
     (case (map_of exact (gr_NodeID (rc_Review c)), rc_Author c) of
        (Some linked, Some author) \<Rightarrow>
          gr_DatabaseID (rc_Review c) = gr_DatabaseID linked \<and>
          gr_State (rc_Review c) = gr_State linked \<and>
          gr_CommitSHA (rc_Review c) = gr_CommitSHA linked \<and>
          sameTrustedActor trusted author \<and> sameActor author (gr_Actor linked)
      | _ \<Rightarrow> False)"

definition finding_of ::
  "pull_request \<Rightarrow> review_thread \<Rightarrow> review_comment \<Rightarrow> trusted_feedback \<Rightarrow> time \<Rightarrow> normalized_finding" where
  "finding_of pr thread comment f observedAt =
     \<lparr>nf_Source = ''github_human_review_comment'', nf_SourceID = rc_NodeID comment,
      nf_ThreadID = rt_NodeID thread, nf_File = rt_Path thread,
      nf_Line = (case rt_Line thread of None \<Rightarrow> 0 | Some l \<Rightarrow> l),
      nf_Classification = ''trusted_changes_requested'', nf_BodyDigest = tf_BodyDigest f,
      nf_Body = tf_Body f, nf_Resolved = False, nf_Outdated = False, nf_HeadSHA = pr_HeadSHA pr,
      nf_SourceAt = rc_CreatedAt comment, nf_ObservedAt = observedAt\<rparr>"

record admission =
  adm_result :: trusted_changes
  adm_reviews :: "string list"

definition admit_comment ::
  "pull_request \<Rightarrow> (string \<times> actor_identity) list \<Rightarrow> (string \<times> github_review) list \<Rightarrow>
     (string \<times> inline_body) list \<Rightarrow> time \<Rightarrow> admission \<Rightarrow> review_thread \<times> review_comment \<Rightarrow> admission" where
  "admit_comment pr trusted exact bodies observedAt st tc =
     (if \<not> linked_comment trusted exact (snd tc) then st
      else (case trustedInlineRootObservation pr (fst tc) (snd tc) bodies observedAt of
        None \<Rightarrow> st\<lparr>adm_result := mark_unsupported TopologyUnsupported (adm_result st)\<rparr>
      | Some f \<Rightarrow>
          st\<lparr>adm_result := (adm_result st)
               \<lparr>tc_Feedback := tc_Feedback (adm_result st) @ [f],
                tc_Findings := tc_Findings (adm_result st) @
                  [finding_of pr (fst tc) (snd tc) f observedAt]\<rparr>,
             adm_reviews := gr_NodeID (rc_Review (snd tc)) # adm_reviews st\<rparr>))"

definition NormalizeTrustedChangesRequested ::
  "pull_request \<Rightarrow> github_review list \<Rightarrow> review_thread list \<Rightarrow> inline_body list \<Rightarrow>
     actor_identity list \<Rightarrow> time \<Rightarrow> trusted_changes result" where
  "NormalizeTrustedChangesRequested pr reviews threads bodies trusted observedAt =
     (if pr_Number pr < 1 \<or> pr_DatabaseID pr < 1 \<or>
         \<not> validTrustedReviewFeedbackNodeID (pr_NodeID pr) \<or> \<not> fullSHA (pr_HeadSHA pr) \<or>
         is_zero_time observedAt
      then Inl (New ''pull request identity and exact head are required'')
      else (case Handoff_Validate bodies of
        Some e \<Rightarrow> Inl e
      | None \<Rightarrow> (case index_operators [] trusted of
          Inl e \<Rightarrow> Inl e
        | Inr byLogin \<Rightarrow>
            (let byComment = body_index bodies;
                 exact = exact_reviews pr byLogin reviews;
                 r0 = \<lparr>tc_Feedback = [], tc_Findings = [], tc_Unsupported = False,
                       tc_Reason = TopologyNone\<rparr>;
                 r1 = (if \<exists>tc \<in> set (thread_comments threads).
                            split_review pr byLogin exact byComment observedAt tc
                       then mark_unsupported TopologySplitReview r0 else r0);
                 st = foldl (admit_comment pr byLogin exact byComment observedAt)
                        \<lparr>adm_result = r1, adm_reviews = []\<rparr> (thread_comments threads);
                 r2 = adm_result st;
                 r3 = (if exact \<noteq> [] \<and> tc_Feedback r2 = [] then mark_unsupported TopologyUnsupported r2
                       else r2);
                 r4 = (if \<exists>id \<in> fst ` set exact. id \<notin> set (adm_reviews st)
                       then mark_unsupported TopologyUnsupported r3 else r3)
             in Inr (r4\<lparr>tc_Feedback := sort_key tf_RootCommentNodeID (tc_Feedback r4),
                        tc_Findings := sort_key nf_SourceID (tc_Findings r4)\<rparr>)))))"

section \<open>Drift of admitted feedback\<close>

definition review_index :: "github_review list \<Rightarrow> (string \<times> github_review) list" where
  "review_index reviews = index_by (\<lambda>_. True) gr_NodeID reviews"

definition still_proved ::
  "(string \<times> github_review) list \<Rightarrow> (string \<times> inline_body) list \<Rightarrow> trusted_feedback \<Rightarrow>
     review_thread \<Rightarrow> review_comment \<Rightarrow> bool" where
  "still_proved reviews bodies saved thread c \<longleftrightarrow>
     rt_NodeID thread = tf_ThreadNodeID saved \<and> \<not> rt_Resolved thread \<and> \<not> rt_Outdated thread \<and>
     rt_OriginalCommitSHA thread = tf_OriginalReviewHeadSHA saved \<and>
     rt_Path thread = tf_Path saved \<and> sameLine (rt_Line thread) (tf_Line saved) \<and>
     rc_NodeID c = tf_RootCommentNodeID saved \<and> rc_DatabaseID c = tf_RootCommentDatabaseID saved \<and>
     rc_ReplyToDatabaseID c = 0 \<and> rc_ReplyToNodeID c = [] \<and>
     (case rc_Author c of None \<Rightarrow> False | Some a \<Rightarrow> sameActor a (tf_Author saved)) \<and>
     (case map_of reviews (gr_NodeID (rc_Review c)) of
        None \<Rightarrow> False
      | Some r \<Rightarrow> gr_DatabaseID r = tf_ReviewDatabaseID saved \<and> gr_NodeID r = tf_ReviewNodeID saved \<and>
          gr_State r = ''CHANGES_REQUESTED'' \<and> gr_CommitSHA r = tf_OriginalReviewHeadSHA saved \<and>
          sameActor (gr_Actor r) (tf_Author saved)) \<and>
     (case map_of bodies (rc_NodeID c) of
        None \<Rightarrow> False
      | Some b \<Rightarrow> ib_ThreadNodeID b = tf_ThreadNodeID saved \<and>
          ib_BodyDigest b = tf_BodyDigest saved \<and> ib_Body b = tf_Body saved)"

definition unfinished :: "trusted_feedback \<Rightarrow> bool" where
  "unfinished f \<longleftrightarrow> tf_Lifecycle f = FeedbackOther [] \<or> tf_Lifecycle f = FeedbackObserved \<or>
     tf_Lifecycle f = FeedbackSelectedForRepair"

definition feedback_drifted ::
  "pull_request \<Rightarrow> (string \<times> github_review) list \<Rightarrow> review_thread list \<Rightarrow>
     (string \<times> inline_body) list \<Rightarrow> trusted_feedback \<Rightarrow> bool" where
  "feedback_drifted pr reviews threads bodies saved \<longleftrightarrow>
     (if \<not> unfinished saved then False
      else if tf_PRNumber saved \<noteq> pr_Number pr \<or> tf_PRDatabaseID saved \<noteq> pr_DatabaseID pr \<or>
         tf_PRNodeID saved \<noteq> pr_NodeID pr \<or> tf_OriginalReviewHeadSHA saved \<noteq> pr_HeadSHA pr
      then True
      else \<not> (\<exists>thread \<in> set threads. \<exists>c \<in> set (rt_Comments thread).
                 still_proved reviews bodies saved thread c))"

definition TrustedFeedbackDrift ::
  "trusted_feedback list \<Rightarrow> pull_request \<Rightarrow> github_review list \<Rightarrow> review_thread list \<Rightarrow>
     inline_body list \<Rightarrow> bool" where
  "TrustedFeedbackDrift existing pr reviews threads bodies =
     (if Handoff_Validate bodies \<noteq> None then True
      else \<exists>saved \<in> set existing.
             feedback_drifted pr (review_index reviews) threads (body_index bodies) saved)"

section \<open>Replies (review\_reply.go)\<close>

definition reviewReplyMarkerPrefix :: string where
  "reviewReplyMarkerPrefix = ''agentctl-review-reply:v1:''"

definition legacyReviewReplyMarkerPrefix :: string where
  "legacyReviewReplyMarkerPrefix = ''ifan-loop-review-reply:v1:''"

definition marker_material ::
  "string \<Rightarrow> int \<Rightarrow> string \<Rightarrow> int \<Rightarrow> string \<Rightarrow> string \<Rightarrow> string \<Rightarrow> string" where
  "marker_material runID pr thread root rootNode bodyDigest head =
     join [nul] [''v1'', runID, dec_int pr, thread, dec_int root, rootNode, bodyDigest, head]"

definition ReviewReplyMarker ::
  "string \<Rightarrow> int \<Rightarrow> string \<Rightarrow> int \<Rightarrow> string \<Rightarrow> string \<Rightarrow> string \<Rightarrow> (string \<times> string) result" where
  "ReviewReplyMarker runID pr thread root rootNode bodyDigest head =
     (if blank runID \<or> pr < 1 \<or> blank thread \<or> root < 1 \<or> blank rootNode \<or>
         length bodyDigest \<noteq> 64 \<or> \<not> fullSHA head
      then Inl (New ''review reply marker authority is incomplete'')
      else (let digest = sha256_hex (marker_material runID pr thread root rootNode bodyDigest head) in
        Inr (''<!-- '' @ reviewReplyMarkerPrefix @ digest @ '' -->'', digest)))"

definition ReviewReplyBody :: "string \<Rightarrow> string \<Rightarrow> string result" where
  "ReviewReplyBody head marker =
     (if \<not> fullSHA head \<or> \<not> prefix (''<!-- '' @ reviewReplyMarkerPrefix) marker \<or>
         \<not> suffix '' -->'' marker
      then Inl (New ''review reply body authority is invalid'')
      else Inr (''Addressed in '' @ head @
        ''. Controller verification, required checks, and a fresh independent review passed for this exact head. Please review and resolve this conversation when satisfied.'' @
        nl @ nl @ marker))"

definition ReviewReplyMarkerDigest :: "string \<Rightarrow> string" where
  "ReviewReplyMarkerDigest body =
     (let start = last_index body (''<!-- '' @ reviewReplyMarkerPrefix);
          legacyStart = last_index body (''<!-- '' @ legacyReviewReplyMarkerPrefix);
          chosen = (if legacyStart > start then legacyStart else start);
          pre = (if legacyStart > start then legacyReviewReplyMarkerPrefix else reviewReplyMarkerPrefix) in
      if chosen < 0 then []
      else (let v = trim_suffix (trim_prefix (drop (nat chosen) body) (''<!-- '' @ pre)) '' -->'' in
        if length v \<noteq> 64 then []
        else if \<exists>c \<in> set v. \<not> is_lower_hex c then []
        else v))"

section \<open>Repository paths\<close>

definition plain_component :: "string \<Rightarrow> bool" where
  "plain_component p \<longleftrightarrow> p \<noteq> [] \<and> p \<noteq> ''.'' \<and> p \<noteq> ''..''"

lemma join_Cons: "join sep (p # ps) = (if ps = [] then p else p @ sep @ join sep ps)"
  by (cases ps) auto

lemma join_split_on: "join [d] (split_on d s) = s"
proof (induction s)
  case Nil
  then show ?case by simp
next
  case (Cons c s)
  then show ?case by (cases "split_on d s") (auto simp: join_Cons split: if_splits)
qed

lemma split_on_join:
  "ps \<noteq> [] \<Longrightarrow> \<forall>p \<in> set ps. d \<notin> set p \<Longrightarrow> split_on d (join [d] ps) = ps"
proof (induction ps)
  case Nil
  then show ?case by simp
next
  case (Cons p ps)
  then show ?case by (auto simp: join_Cons split_on_append split_on_no_sep)
qed

lemma clean_step_skip: "p = [] \<or> p = ''.'' \<Longrightarrow> clean_step r st p = st"
  and clean_step_up: "clean_step r (''..'' # st) ''..'' = ''..'' # ''..'' # st"
  and clean_step_up_Nil: "clean_step False [] ''..'' = [''..'']"
  and clean_step_pop: "q \<noteq> ''..'' \<Longrightarrow> clean_step r (q # st) ''..'' = st"
  and clean_step_push: "plain_component p \<Longrightarrow> clean_step r st p = p # st"
  by (auto simp: plain_component_def)

lemmas clean_step_cases = clean_step_skip clean_step_up clean_step_up_Nil clean_step_pop clean_step_push

declare clean_step.simps [simp del]

lemma clean_fold_form:
  "\<forall>p \<in> set ps. d \<notin> set p \<Longrightarrow> d \<noteq> CHR ''.'' \<Longrightarrow>
   \<exists>ns k. foldl (clean_step False) [] ps = ns @ replicate k ''..'' \<and>
     (\<forall>n \<in> set ns. plain_component n \<and> d \<notin> set n)"
proof (induction ps rule: rev_induct)
  case Nil
  then show ?case by (intro exI [of _ "[]"] exI [of _ 0]) simp
next
  case (snoc p ps)
  then obtain ns k where st: "foldl (clean_step False) [] ps = ns @ replicate k ''..''"
    and ns: "\<forall>n \<in> set ns. plain_component n \<and> d \<notin> set n" by auto
  consider "p = [] \<or> p = ''.''" | "p = ''..''" "ns = []" | n ns' where "p = ''..''" "ns = n # ns'"
    | "plain_component p"
    by (cases ns) (auto simp: plain_component_def)
  then show ?case
  proof cases
    case 1
    with st ns show ?thesis by (intro exI [of _ ns] exI [of _ k]) (auto simp: clean_step_cases)
  next
    case 2
    with st show ?thesis by (intro exI [of _ "[]"] exI [of _ "Suc k"])
      (cases k; auto simp: clean_step_cases)
  next
    case 3
    with st ns show ?thesis by (intro exI [of _ ns'] exI [of _ k]) (auto simp: plain_component_def clean_step_cases)
  next
    case 4
    with st ns snoc.prems show ?thesis
      by (intro exI [of _ "p # ns"] exI [of _ k]) (auto simp: clean_step_cases)
  qed
qed

lemma clean_fold_plain:
  "\<forall>p \<in> set ps. plain_component p \<Longrightarrow> foldl (clean_step r) st ps = rev ps @ st"
  by (induction ps arbitrary: st) (auto simp: clean_step_cases)

lemma path_clean_plain:
  assumes "\<forall>p \<in> set (split_on (CHR ''/'') v). plain_component p"
  shows "path_clean v = v \<and> \<not> prefix ''/'' v"
proof -
  have "\<not> prefix ''/'' v"
    using assms split_on_prefix_sep [of "CHR ''/''" v] by (auto simp: plain_component_def)
  moreover have "split_on (CHR ''/'') v \<noteq> []" by simp
  ultimately show ?thesis
    by (simp add: path_clean_def clean_fold_plain [OF assms] join_split_on Let_def)
qed

lemma path_clean_fixed:
  assumes fixed: "path_clean v = v" and rel: "\<not> prefix ''/'' v" "v \<noteq> ''.''" "v \<noteq> ''..''" "\<not> prefix ''../'' v"
  shows "\<forall>p \<in> set (split_on (CHR ''/'') v). plain_component p"
proof -
  let ?d = "CHR ''/''"
  have "\<forall>p \<in> set (split_on ?d v). ?d \<notin> set p" using split_on_pieces by blast
  then obtain ns k where st: "foldl (clean_step False) [] (split_on ?d v) = ns @ replicate k ''..''"
    and ns: "\<forall>n \<in> set ns. plain_component n \<and> ?d \<notin> set n"
    using clean_fold_form [of "split_on ?d v" ?d] by auto
  let ?out = "replicate k ''..'' @ rev ns"
  have out: "?out \<noteq> []" "join ''/'' ?out = v"
    using fixed rel st unfolding path_clean_def Let_def by (simp_all split: if_splits)
  have "k = 0"
  proof (rule ccontr)
    assume "k \<noteq> 0"
    then obtain rest where "?out = ''..'' # rest" by (cases k) auto
    with out(2) rel show False by (auto simp: join_Cons split: if_splits)
  qed
  moreover have "split_on ?d v = ?out"
  proof -
    have "\<forall>p \<in> set ?out. ?d \<notin> set p" using ns by auto
    from split_on_join [OF out(1) this] show ?thesis by (simp only: out(2))
  qed
  ultimately show ?thesis using ns by simp
qed

text \<open>A sanitized repository path is a relative path that cannot leave the repository: the
  checks on \<open>path.Clean\<close> and on the special prefixes accept exactly the paths whose slash-separated
  components are all proper names, none of them empty, \<open>.\<close> or \<open>..\<close>.\<close>

theorem safe_repository_path_exact:
  "safeRepositoryPath v \<longleftrightarrow>
     trim_space v = v \<and> nul \<notin> set v \<and> CHR 0x5C \<notin> set v \<and> \<not> prefix ''~'' v \<and>
     (\<forall>p \<in> set (split_on (CHR ''/'') v). p \<noteq> [] \<and> p \<noteq> ''.'' \<and> p \<noteq> ''..'')"
proof (cases "\<forall>p \<in> set (split_on (CHR ''/'') v). plain_component p")
  case True
  have "\<not> prefix ''../'' v"
  proof
    assume "prefix ''../'' v"
    then obtain b where "v = ''..'' @ CHR ''/'' # b" by (auto simp: prefix_def)
    then have "''..'' \<in> set (split_on (CHR ''/'') v)"
      by (simp only: split_on_append) simp
    with True show False by (auto simp: plain_component_def)
  qed
  moreover have "v \<noteq> [] \<and> v \<noteq> ''.'' \<and> v \<noteq> ''..''"
  proof (intro conjI notI)
    assume "v = []" with True show False by (simp add: plain_component_def)
  next
    assume "v = ''.''" with True show False by (simp add: plain_component_def)
  next
    assume "v = ''..''" with True show False by (simp add: plain_component_def)
  qed
  ultimately have "safeRepositoryPath v \<longleftrightarrow>
      trim_space v = v \<and> nul \<notin> set v \<and> CHR 0x5C \<notin> set v \<and> \<not> prefix ''~'' v"
    unfolding safeRepositoryPath_def using path_clean_plain [OF True] by argo
  with True show ?thesis unfolding plain_component_def by argo
next
  case False
  with path_clean_fixed [of v] have "\<not> safeRepositoryPath v"
    unfolding safeRepositoryPath_def by blast
  with False show ?thesis unfolding plain_component_def by blast
qed

theorem safe_repository_path_exact_witness:
  "safeRepositoryPath ''src/main.go'' \<and> \<not> safeRepositoryPath ''src/../../etc''"
proof -
  have "trim_space ''src/main.go'' = ''src/main.go''" by code_simp
  then show ?thesis
    using safe_repository_path_exact [of "''src/main.go''"]
      safe_repository_path_exact [of "''src/../../etc''"] by (simp add: nul_def)
qed

section \<open>The feedback lifecycle\<close>

definition lifecycle_advances :: "feedback_lifecycle \<Rightarrow> feedback_lifecycle \<Rightarrow> bool" where
  "lifecycle_advances p q \<longleftrightarrow> ValidateTrustedReviewFeedbackTransition p q = None"

fun lifecycle_rank :: "feedback_lifecycle \<Rightarrow> nat" where
  "lifecycle_rank FeedbackObserved = 0"
| "lifecycle_rank FeedbackSelectedForRepair = 1"
| "lifecycle_rank FeedbackRepairVerified = 2"
| "lifecycle_rank FeedbackReplyPending = 3"
| "lifecycle_rank FeedbackReplied = 4"
| "lifecycle_rank FeedbackResolved = 5"
| "lifecycle_rank FeedbackSuperseded = 5"
| "lifecycle_rank (FeedbackOther s) = 0"

lemma lifecycle_advances_iff: "lifecycle_advances p q \<longleftrightarrow> q \<in> set (next_lifecycles p)"
  by (simp add: lifecycle_advances_def ValidateTrustedReviewFeedbackTransition_def)

interpretation feedback: ranked_lifecycle lifecycle_advances lifecycle_rank 5
proof unfold_locales
  show "lifecycle_rank p < lifecycle_rank q" if "lifecycle_advances p q" for p q
    using that by (cases p) (auto simp: lifecycle_advances_iff)
  show "lifecycle_rank p \<le> 5" for p by (cases p) auto
qed

lemma into_replied: "lifecycle_advances p FeedbackReplied \<Longrightarrow> p = FeedbackReplyPending"
  by (cases p) (auto simp: lifecycle_advances_iff)

lemma into_reply_pending: "lifecycle_advances p FeedbackReplyPending \<Longrightarrow> p = FeedbackRepairVerified"
  by (cases p) (auto simp: lifecycle_advances_iff)

lemma path_last_step:
  "path step s ts t \<Longrightarrow> ts \<noteq> [] \<Longrightarrow> \<exists>us u. ts = us @ [t] \<and> path step s us u \<and> step u t \<and> u \<in> set (s # us)"
proof (induction rule: path.induct)
  case (path_Nil s)
  then show ?case by simp
next
  case (path_Cons s t ts u)
  show ?case
  proof (cases "ts = []")
    case True
    with path_Cons show ?thesis
      by (intro exI [of _ "[]"] exI [of _ s]) (auto intro: path.intros elim: path.cases)
  next
    case False
    with path_Cons obtain us v where "ts = us @ [u]" "path step t us v" "step v u" "v \<in> set (t # us)"
      by auto
    with path_Cons.hyps(1) show ?thesis
      by (intro exI [of _ "t # us"] exI [of _ v]) (auto intro: path.intros)
  qed
qed

text \<open>C39: The lifecycle of trusted feedback only moves forward: a chain of validated transitions has
  at most five steps and never returns to a phase it was in, and feedback counts as replied only
  after its repair was verified and a reply intent was recorded.\<close>

theorem feedback_lifecycle_forward:
  assumes "path (\<lambda>p q. ValidateTrustedReviewFeedbackTransition p q = None) p qs q"
  shows "length qs \<le> 5 \<and> p \<notin> set qs \<and>
    (q = FeedbackReplied \<and> p = FeedbackObserved \<longrightarrow>
       FeedbackRepairVerified \<in> set qs \<and> FeedbackReplyPending \<in> set qs)"
proof -
  have adv: "(\<lambda>p q. ValidateTrustedReviewFeedbackTransition p q = None) = lifecycle_advances"
    by (simp add: fun_eq_iff lifecycle_advances_def)
  note pth = assms [unfolded adv]
  have "FeedbackRepairVerified \<in> set qs \<and> FeedbackReplyPending \<in> set qs"
    if "q = FeedbackReplied" "p = FeedbackObserved"
  proof -
    from that pth have "qs \<noteq> []" by (auto elim: path.cases)
    from path_last_step [OF pth this] that obtain us
      where 1: "qs = us @ [FeedbackReplied]" "path lifecycle_advances p us FeedbackReplyPending"
      using into_replied by blast
    with that have "us \<noteq> []" by (auto elim: path.cases)
    from path_last_step [OF 1(2) this] that obtain vs u
      where 2: "us = vs @ [FeedbackReplyPending]" "u = FeedbackRepairVerified" "u \<in> set (p # vs)"
      using into_reply_pending by blast
    with 1 that show ?thesis by auto
  qed
  with feedback.path_bounded [OF pth] feedback.no_return [OF pth] show ?thesis by blast
qed

theorem feedback_lifecycle_forward_witness:
  "FeedbackObserved \<notin> set [FeedbackSelectedForRepair, FeedbackRepairVerified, FeedbackReplyPending,
     FeedbackReplied]"
proof -
  have "path (\<lambda>p q. ValidateTrustedReviewFeedbackTransition p q = None) FeedbackObserved
      [FeedbackSelectedForRepair, FeedbackRepairVerified, FeedbackReplyPending, FeedbackReplied]
      FeedbackReplied"
    by (auto simp: ValidateTrustedReviewFeedbackTransition_def intro!: path.intros)
  from feedback_lifecycle_forward [OF this] show ?thesis by blast
qed

section \<open>Reply markers\<close>

lemma find_rev_upt_last:
  "k \<le> n \<Longrightarrow> P k \<Longrightarrow> (\<And>i. k < i \<Longrightarrow> \<not> P i) \<Longrightarrow> find P (rev [0..<Suc n]) = Some k"
proof (induction n)
  case 0
  then show ?case by simp
next
  case (Suc n)
  then show ?case by (cases "k = Suc n") (auto simp del: upt_Suc simp: upt_Suc_append)
qed

lemma last_index_none: "c \<notin> set s \<Longrightarrow> last_index s (c # pat) = -1"
proof -
  assume "c \<notin> set s"
  then have "\<not> prefix (c # pat) (drop i s)" for i
    by (metis in_set_dropD list.set_intros(1) set_mono_prefix subsetD)
  then have "find (\<lambda>i. prefix (c # pat) (drop i s)) xs = None" for xs
    by (simp add: find_None_iff)
  then show ?thesis unfolding last_index_def by simp
qed

text \<open>A pattern whose first byte occurs only once in the text.\<close>

lemma last_index_unique:
  assumes "c \<notin> set u" and "c \<notin> set w"
  shows "last_index (u @ c # w) (c # pat) = (if prefix pat w then int (length u) else -1)"
proof -
  let ?s = "u @ c # w" and ?P = "\<lambda>i. prefix (c # pat) (drop i (u @ c # w))"
  have at: "?P i \<Longrightarrow> i = length u" for i
  proof -
    assume P: "?P i"
    then have "drop i ?s \<noteq> []" by auto
    then have i: "i < length ?s" by (metis drop_eq_Nil not_le)
    from P Cons_nth_drop_Suc [OF i, symmetric] have "?s ! i = c" by simp
    moreover have "?s ! i \<noteq> c" if "i < length u"
      using that assms(1) by (metis nth_append nth_mem)
    moreover have "?s ! i \<noteq> c" if "length u < i"
    proof -
      from that i obtain j where "i = length u + Suc j" "j < length w"
        by (metis add_Suc_right less_imp_Suc_add length_Cons length_append nat_add_left_cancel_less Suc_less_eq)
      with assms(2) show ?thesis by (auto simp: nth_append)
    qed
    ultimately show "i = length u" by (metis linorder_neqE_nat)
  qed
  show ?thesis
  proof (cases "prefix pat w")
    case True
    then have "?P (length u)" by simp
    with at have "find ?P (rev [0..<Suc (length ?s)]) = Some (length u)"
      by (intro find_rev_upt_last) (simp, blast, metis less_irrefl)
    with True show ?thesis unfolding last_index_def by simp
  next
    case False
    then have "\<not> ?P i" for i using at [of i] by auto
    then have "find ?P xs = None" for xs by (simp add: find_None_iff)
    with False show ?thesis unfolding last_index_def by simp
  qed
qed

lemma trim_suffix_append [simp]: "trim_suffix (s @ t) t = s"
  by (simp add: trim_suffix_def suffix_def)

lemma trim_prefix_append [simp]: "trim_prefix (s @ t) s = t"
  by (simp add: trim_prefix_def)

lemma hex_no_angle: "\<forall>c \<in> set s. is_lower_hex c \<Longrightarrow> CHR ''<'' \<notin> set s"
  by (auto simp: char_class_defs)

definition reply_text :: string where
  "reply_text = ''. Controller verification, required checks, and a fresh independent review passed for this exact head. Please review and resolve this conversation when satisfied.''"

lemma reply_text_no_angle: "CHR ''<'' \<notin> set reply_text"
  by (simp add: reply_text_def)

lemma marker_digest_at:
  assumes start: "last_index body (''<!-- '' @ reviewReplyMarkerPrefix) = int n"
    and legacy: "last_index body (''<!-- '' @ legacyReviewReplyMarkerPrefix) = -1"
    and rest: "drop n body = (''<!-- '' @ reviewReplyMarkerPrefix) @ (d @ '' -->'')"
    and d: "length d = 64" "\<forall>c \<in> set d. is_lower_hex c"
  shows "ReviewReplyMarkerDigest body = d"
proof -
  have neg: "\<not> int n < - 1" "\<not> int n < 0" by simp_all
  from d(2) have d2: "\<not> (\<exists>c \<in> set d. \<not> is_lower_hex c)" by blast
  show ?thesis
    unfolding ReviewReplyMarkerDigest_def Let_def start legacy if_not_P [OF neg(1)] if_not_P [OF neg(2)]
      nat_int rest trim_prefix_append trim_suffix_append
    using d(1) d2 by (simp only: simp_thms if_False)
qed

lemma marker_digest_of_body:
  assumes head: "\<forall>c \<in> set head. is_lower_hex c" and hex: "\<forall>c \<in> set d. is_lower_hex c"
    and len: "length d = 64"
  shows "ReviewReplyMarkerDigest (''Addressed in '' @ head @ reply_text @ nl @ nl @
     ''<!-- '' @ reviewReplyMarkerPrefix @ d @ '' -->'') = d"
proof -
  let ?u = "''Addressed in '' @ head @ reply_text @ nl @ nl"
  let ?w = "''!-- agentctl-review-reply:v1:'' @ d @ '' -->''"
  have body: "''Addressed in '' @ head @ reply_text @ nl @ nl @
      ''<!-- '' @ reviewReplyMarkerPrefix @ d @ '' -->'' = ?u @ CHR ''<'' # ?w"
    by (simp add: reviewReplyMarkerPrefix_def)
  have u: "CHR ''<'' \<notin> set ?u" using hex_no_angle [OF head] reply_text_no_angle by simp
  have w: "CHR ''<'' \<notin> set ?w" using hex_no_angle [OF hex] by simp
  have 1: "last_index (?u @ CHR ''<'' # ?w) (''<!-- '' @ reviewReplyMarkerPrefix) = int (length ?u)"
    using last_index_unique [OF u w, of "''!-- agentctl-review-reply:v1:''"]
    by (simp add: reviewReplyMarkerPrefix_def)
  have 2: "last_index (?u @ CHR ''<'' # ?w) (''<!-- '' @ legacyReviewReplyMarkerPrefix) = -1"
    using last_index_unique [OF u w, of "''!-- ifan-loop-review-reply:v1:''"]
    by (simp add: legacyReviewReplyMarkerPrefix_def)
  have 3: "drop (length ?u) (?u @ CHR ''<'' # ?w) = (''<!-- '' @ reviewReplyMarkerPrefix) @ (d @ '' -->'')"
    unfolding append_eq_conv_conj [THEN iffD1, OF refl] by (simp add: reviewReplyMarkerPrefix_def)
  show ?thesis unfolding body by (rule marker_digest_at [OF 1 2 3 len hex])
qed

text \<open>C40: The reply the controller posts can be found again: for every marker the controller
  makes, the reply body built from it is accepted, and reading the marker digest back from that
  body gives the digest of the marker.\<close>

theorem review_reply_marker_roundtrip:
  assumes "ReviewReplyMarker runID pr thread root rootNode bodyDigest head = Inr (marker, digest)"
  shows "\<exists>body. ReviewReplyBody head marker = Inr body \<and> ReviewReplyMarkerDigest body = digest"
proof -
  from assms have full: "fullSHA head"
    and d: "digest = sha256_hex (marker_material runID pr thread root rootNode bodyDigest head)"
    and m: "marker = ''<!-- '' @ reviewReplyMarkerPrefix @ digest @ '' -->''"
    by (auto simp: ReviewReplyMarker_def Let_def split: if_splits)
  have hex: "\<forall>c \<in> set digest. is_lower_hex c" "length digest = 64"
    unfolding d using sha256_hex_lower length_sha256_hex by blast+
  from full have h: "\<forall>c \<in> set head. is_lower_hex c" by (simp add: fullSHA_def split: if_splits)
  have "prefix (''<!-- '' @ reviewReplyMarkerPrefix) marker" "suffix '' -->'' marker"
    unfolding m by (simp_all add: suffix_def) 
  with full have "ReviewReplyBody head marker = Inr (''Addressed in '' @ head @ reply_text @ nl @ nl @ marker)"
    by (simp add: ReviewReplyBody_def reply_text_def)
  with marker_digest_of_body [OF h hex] m show ?thesis by simp
qed

theorem review_reply_marker_roundtrip_witness:
  "\<exists>marker digest body.
     ReviewReplyMarker ''run'' 7 ''T'' 9 ''C'' (replicate 64 (CHR ''a'')) (replicate 40 (CHR ''b''))
       = Inr (marker, digest) \<and>
     ReviewReplyBody (replicate 40 (CHR ''b'')) marker = Inr body \<and> ReviewReplyMarkerDigest body = digest"
proof -
  have "\<exists>marker digest. ReviewReplyMarker ''run'' 7 ''T'' 9 ''C'' (replicate 64 (CHR ''a''))
      (replicate 40 (CHR ''b'')) = Inr (marker, digest)"
    by (simp add: ReviewReplyMarker_def Let_def fullSHA_def graphic_def byte_def char_class_defs)
  then show ?thesis using review_reply_marker_roundtrip by blast
qed

section \<open>What the interpretation of review threads admits\<close>

lemma index_operators_Inr:
  "index_operators m as = Inr m' \<Longrightarrow>
     m' = rev (map (\<lambda>a. (to_lower (actor_Login a), a)) as) @ m \<and>
     distinct (map (\<lambda>a. to_lower (actor_Login a)) as) \<and>
     (\<forall>a \<in> set as. map_of m (to_lower (actor_Login a)) = None)"
proof (induction as arbitrary: m)
  case Nil
  then show ?case by simp
next
  case (Cons a as)
  from Cons.prems have none: "map_of m (to_lower (actor_Login a)) = None"
    and rest: "index_operators ((to_lower (actor_Login a), a) # m) as = Inr m'"
    by (auto split: if_splits)
  note ih = Cons.IH [OF rest]
  have "to_lower (actor_Login b) \<noteq> to_lower (actor_Login a) \<and>
      map_of m (to_lower (actor_Login b)) = None" if "b \<in> set as" for b
  proof -
    from ih that have "map_of ((to_lower (actor_Login a), a) # m) (to_lower (actor_Login b)) = None"
      by blast
    then show ?thesis by (simp split: if_splits)
  qed
  then have "to_lower (actor_Login a) \<notin> set (map (\<lambda>a. to_lower (actor_Login a)) as)"
    and "\<forall>b \<in> set as. map_of m (to_lower (actor_Login b)) = None"
    by force+
  with ih none show ?case by simp
qed

lemma sameTrustedActor_iff:
  assumes "index_operators [] trusted = Inr byLogin"
  shows "sameTrustedActor byLogin x \<longleftrightarrow> (\<exists>a \<in> set trusted. sameActor x a)"
proof -
  note ix = index_operators_Inr [OF assms]
  have "map fst byLogin = rev (map (\<lambda>a. to_lower (actor_Login a)) trusted)"
    using ix by (simp add: rev_map comp_def)
  then have d: "distinct (map fst byLogin)" using ix by simp
  have look: "map_of byLogin l = Some a \<longleftrightarrow> a \<in> set trusted \<and> to_lower (actor_Login a) = l" for l a
    unfolding map_of_eq_Some_iff [OF d] using ix by auto
  show ?thesis
  proof
    assume "sameTrustedActor byLogin x"
    then show "\<exists>a \<in> set trusted. sameActor x a"
      unfolding sameTrustedActor_def by (auto simp: look split: option.splits)
  next
    assume "\<exists>a \<in> set trusted. sameActor x a"
    then obtain a where a: "a \<in> set trusted" "sameActor x a" by blast
    then have "map_of byLogin (to_lower (actor_Login x)) = Some a"
      unfolding look by (simp add: sameActor_def equal_fold_def)
    with a show "sameTrustedActor byLogin x" by (simp add: sameTrustedActor_def)
  qed
qed

type_synonym admitted_item = "review_thread \<times> review_comment \<times> trusted_feedback"

fun admitted ::
  "pull_request \<Rightarrow> (string \<times> actor_identity) list \<Rightarrow> (string \<times> github_review) list \<Rightarrow>
     (string \<times> inline_body) list \<Rightarrow> time \<Rightarrow> (review_thread \<times> review_comment) list \<Rightarrow>
     (review_thread \<times> review_comment \<times> trusted_feedback) list" where
  "admitted pr trusted exact bodies at [] = []"
| "admitted pr trusted exact bodies at ((t, c) # xs) =
     (if linked_comment trusted exact c
      then (case trustedInlineRootObservation pr t c bodies at of
              None \<Rightarrow> admitted pr trusted exact bodies at xs
            | Some f \<Rightarrow> (t, c, f) # admitted pr trusted exact bodies at xs)
      else admitted pr trusted exact bodies at xs)"

lemma admitted_iff:
  "(t, c, f) \<in> set (admitted pr trusted exact bodies at xs) \<longleftrightarrow>
     (t, c) \<in> set xs \<and> linked_comment trusted exact c \<and>
     trustedInlineRootObservation pr t c bodies at = Some f"
  by (induction xs) (auto split: option.splits if_splits)

lemma foldl_admit_comment:
  "tc_Feedback (adm_result (foldl (admit_comment pr trusted exact bodies at) st xs)) =
     tc_Feedback (adm_result st) @ map (\<lambda>(t, c, f). f) (admitted pr trusted exact bodies at xs)"
  "tc_Findings (adm_result (foldl (admit_comment pr trusted exact bodies at) st xs)) =
     tc_Findings (adm_result st) @
       map (\<lambda>(t, c, f). finding_of pr t c f at) (admitted pr trusted exact bodies at xs)"
  "adm_reviews (foldl (admit_comment pr trusted exact bodies at) st xs) =
     rev (map (\<lambda>(t, c, f). gr_NodeID (rc_Review c)) (admitted pr trusted exact bodies at xs)) @
       adm_reviews st"
  by (induction xs arbitrary: st)
    (auto simp: admit_comment_def mark_unsupported_def split: option.splits)

definition comment_of :: "review_thread list \<Rightarrow> review_thread \<Rightarrow> review_comment \<Rightarrow> bool" where
  "comment_of threads t c \<longleftrightarrow> t \<in> set threads \<and> c \<in> set (rt_Comments t)"

lemma thread_comments_iff: "(t, c) \<in> set (thread_comments threads) \<longleftrightarrow> comment_of threads t c"
  by (auto simp: thread_comments_def comment_of_def)

lemma root_observation_Some:
  "trustedInlineRootObservation pr t c bodies at = Some f \<longleftrightarrow>
     (\<exists>author body. rc_Author c = Some author \<and> map_of bodies (rc_NodeID c) = Some body \<and>
        \<not> rt_Resolved t \<and> \<not> rt_Outdated t \<and> rc_ReplyToDatabaseID c = 0 \<and> rc_ReplyToNodeID c = [] \<and>
        \<not> is_zero_time (rc_UpdatedAt c) \<and> rc_CreatedAt c \<le> rc_UpdatedAt c \<and>
        \<not> is_zero_time (gr_SourceAt (rc_Review c)) \<and>
        gr_CommitSHA (rc_Review c) = pr_HeadSHA pr \<and> rt_OriginalCommitSHA t = pr_HeadSHA pr \<and>
        ib_ThreadNodeID body = rt_NodeID t \<and> ib_BodyDigest body = rc_BodyDigest c \<and>
        f = root_feedback pr t c author body at \<and> ValidateObservation f = None)"
  by (auto simp: trustedInlineRootObservation_def Let_def split: option.splits if_splits)

text \<open>The items a successful interpretation admits, and the flags it leaves.\<close>

definition admitted_items ::
  "pull_request \<Rightarrow> github_review list \<Rightarrow> review_thread list \<Rightarrow> inline_body list \<Rightarrow>
     (string \<times> actor_identity) list \<Rightarrow> time \<Rightarrow> (review_thread \<times> review_comment \<times> trusted_feedback) list" where
  "admitted_items pr reviews threads bodies byLogin at =
     admitted pr byLogin (exact_reviews pr byLogin reviews) (body_index bodies) at (thread_comments threads)"

lemma mark_unsupported_simps [simp]:
  "tc_Feedback (mark_unsupported r res) = tc_Feedback res"
  "tc_Findings (mark_unsupported r res) = tc_Findings res"
  "tc_Unsupported (mark_unsupported r res)"
  by (simp_all add: mark_unsupported_def)

lemma NormalizeTrusted_Inr:
  assumes "NormalizeTrustedChangesRequested pr reviews threads bodies trusted at = Inr res"
  shows "\<exists>byLogin. index_operators [] trusted = Inr byLogin \<and> Handoff_Validate bodies = None \<and>
    (let items = admitted_items pr reviews threads bodies byLogin at in
      set (tc_Feedback res) = (\<lambda>(t, c, f). f) ` set items \<and>
      set (tc_Findings res) = (\<lambda>(t, c, f). finding_of pr t c f at) ` set items \<and>
      length (tc_Findings res) = length (tc_Feedback res) \<and>
      (\<not> tc_Unsupported res \<longrightarrow>
         (\<forall>id \<in> fst ` set (exact_reviews pr byLogin reviews).
            \<exists>(t, c, f) \<in> set items. gr_NodeID (rc_Review c) = id)))"
proof -
  from assms obtain byLogin where ix: "index_operators [] trusted = Inr byLogin"
    and hv: "Handoff_Validate bodies = None"
    and g: "\<not> (pr_Number pr < 1 \<or> pr_DatabaseID pr < 1 \<or>
         \<not> validTrustedReviewFeedbackNodeID (pr_NodeID pr) \<or> \<not> fullSHA (pr_HeadSHA pr) \<or>
         is_zero_time at)"
    by (auto simp: NormalizeTrustedChangesRequested_def split: if_splits option.splits sum.splits)
  let ?exact = "exact_reviews pr byLogin reviews" and ?body = "body_index bodies"
  let ?items = "admitted_items pr reviews threads bodies byLogin at"
  define r1 where "r1 = (if \<exists>tc \<in> set (thread_comments threads). split_review pr byLogin ?exact ?body at tc
    then mark_unsupported TopologySplitReview
      \<lparr>tc_Feedback = [], tc_Findings = [], tc_Unsupported = False, tc_Reason = TopologyNone\<rparr>
    else \<lparr>tc_Feedback = [], tc_Findings = [], tc_Unsupported = False, tc_Reason = TopologyNone\<rparr>)"
  define st where "st = foldl (admit_comment pr byLogin ?exact ?body at)
    \<lparr>adm_result = r1, adm_reviews = []\<rparr> (thread_comments threads)"
  define r3 where "r3 = (if ?exact \<noteq> [] \<and> tc_Feedback (adm_result st) = []
    then mark_unsupported TopologyUnsupported (adm_result st) else adm_result st)"
  define r4 where "r4 = (if \<exists>id \<in> fst ` set ?exact. id \<notin> set (adm_reviews st)
    then mark_unsupported TopologyUnsupported r3 else r3)"
  have "NormalizeTrustedChangesRequested pr reviews threads bodies trusted at =
      Inr (r4\<lparr>tc_Feedback := sort_key tf_RootCommentNodeID (tc_Feedback r4),
        tc_Findings := sort_key nf_SourceID (tc_Findings r4)\<rparr>)"
    unfolding NormalizeTrustedChangesRequested_def if_not_P [OF g] hv ix option.case sum.case Let_def
      r4_def r3_def st_def r1_def by (rule refl)
  with assms have res: "res = r4\<lparr>tc_Feedback := sort_key tf_RootCommentNodeID (tc_Feedback r4),
      tc_Findings := sort_key nf_SourceID (tc_Findings r4)\<rparr>"
    by simp
  have r1: "tc_Feedback r1 = []" "tc_Findings r1 = []" by (simp_all add: r1_def)
  have f4: "tc_Feedback r4 = map (\<lambda>(t, c, f). f) ?items"
    "tc_Findings r4 = map (\<lambda>(t, c, f). finding_of pr t c f at) ?items"
    by (simp_all add: r4_def r3_def st_def foldl_admit_comment r1 admitted_items_def)
  have revs: "set (adm_reviews st) = (\<lambda>(t, c, f). gr_NodeID (rc_Review c)) ` set ?items"
    by (simp add: st_def foldl_admit_comment admitted_items_def)
  have un: "\<forall>id \<in> fst ` set ?exact. id \<in> set (adm_reviews st)" if "\<not> tc_Unsupported res"
    using that unfolding res r4_def by (auto split: if_splits)
  show ?thesis
    using ix hv f4 un revs by (intro exI [of _ byLogin]) (fastforce simp: res Let_def image_iff)
qed

definition human_request :: "pull_request \<Rightarrow> actor_identity list \<Rightarrow> github_review \<Rightarrow> bool" where
  "human_request pr trusted r \<longleftrightarrow>
     gr_State r = ''CHANGES_REQUESTED'' \<and> gr_CommitSHA r = pr_HeadSHA pr \<and> gr_DatabaseID r > 0 \<and>
     validTrustedReviewFeedbackNodeID (gr_NodeID r) \<and> \<not> is_zero_time (gr_SourceAt r) \<and>
     (\<exists>a \<in> set trusted. sameActor (gr_Actor r) a)"

lemma exact_request_iff:
  "index_operators [] trusted = Inr byLogin \<Longrightarrow> exact_request pr byLogin r \<longleftrightarrow> human_request pr trusted r"
  by (simp add: exact_request_def human_request_def sameTrustedActor_iff)

text \<open>An admitted item: a live root comment, linked to a request of its own author.\<close>

definition proper_root ::
  "pull_request \<Rightarrow> inline_body list \<Rightarrow> review_thread \<Rightarrow> review_comment \<Rightarrow> trusted_feedback \<Rightarrow> bool" where
  "proper_root pr bodies t c f \<longleftrightarrow>
     \<not> rt_Resolved t \<and> \<not> rt_Outdated t \<and> rt_OriginalCommitSHA t = pr_HeadSHA pr \<and>
     rc_ReplyToDatabaseID c = 0 \<and> rc_ReplyToNodeID c = [] \<and> rc_Author c = Some (tf_Author f) \<and>
     tf_ThreadNodeID f = rt_NodeID t \<and> tf_RootCommentNodeID f = rc_NodeID c \<and>
     ValidateObservation f = None \<and>
     (\<exists>b \<in> set bodies. ib_CommentNodeID b = rc_NodeID c \<and> ib_ThreadNodeID b = rt_NodeID t \<and>
        tf_Body f = ib_Body b \<and> tf_BodyDigest f = feedbackDigest (ib_Body b))"

lemma observation_digest:
  "ValidateObservation f = None \<Longrightarrow> tf_BodyDigest f = [] \<or> tf_BodyDigest f = feedbackDigest (tf_Body f)"
  by (auto simp: ValidateObservation_def Let_def split: if_splits)

lemma check_bodies_digest:
  "check_bodies n seen bs = None \<Longrightarrow> b \<in> set bs \<Longrightarrow> ib_BodyDigest b = feedbackDigest (ib_Body b)"
  by (induction bs arbitrary: n seen) (auto split: if_splits)

lemma Handoff_digest:
  "Handoff_Validate bs = None \<Longrightarrow> b \<in> set bs \<Longrightarrow> ib_BodyDigest b = feedbackDigest (ib_Body b)"
  by (auto simp: Handoff_Validate_def dest: check_bodies_digest split: if_splits)

lemma admitted_item:
  assumes ix: "index_operators [] trusted = Inr byLogin" and hv: "Handoff_Validate bodies = None"
    and it: "(t, c, f) \<in> set (admitted_items pr reviews threads bodies byLogin at)"
  obtains author body linked where "comment_of threads t c"
    and "trustedInlineRootObservation pr t c (body_index bodies) at = Some f"
    and "rc_Author c = Some author" and "map_of (body_index bodies) (rc_NodeID c) = Some body"
    and "f = root_feedback pr t c author body at" and "proper_root pr bodies t c f"
    and "linked \<in> set reviews" and "human_request pr trusted linked"
    and "gr_NodeID linked = gr_NodeID (rc_Review c)" and "gr_DatabaseID linked = gr_DatabaseID (rc_Review c)"
    and "sameActor author (gr_Actor linked)"
proof -
  let ?exact = "exact_reviews pr byLogin reviews"
  from it have cm: "comment_of threads t c" and lk: "linked_comment byLogin ?exact c"
    and ob: "trustedInlineRootObservation pr t c (body_index bodies) at = Some f"
    by (auto simp: admitted_items_def admitted_iff thread_comments_iff)
  from ob obtain author body where a: "rc_Author c = Some author"
    and b: "map_of (body_index bodies) (rc_NodeID c) = Some body"
    and f: "f = root_feedback pr t c author body at"
    by (auto simp: root_observation_Some)
  from lk a obtain linked where l: "map_of ?exact (gr_NodeID (rc_Review c)) = Some linked"
      "gr_DatabaseID (rc_Review c) = gr_DatabaseID linked" "sameActor author (gr_Actor linked)"
    by (auto simp: linked_comment_def split: option.splits)
  from index_by_Some [OF b [unfolded body_index_def]]
  have body: "body \<in> set bodies" "ib_CommentNodeID body = rc_NodeID c" by auto
  have "proper_root pr bodies t c f"
    using ob a b body Handoff_digest [OF hv body(1)] unfolding proper_root_def root_observation_Some
    by (auto simp: root_feedback_def intro!: bexI [of _ body])
  moreover from index_by_Some [OF l(1) [unfolded exact_reviews_def]] exact_request_iff [OF ix]
  have "linked \<in> set reviews" "human_request pr trusted linked"
    "gr_NodeID linked = gr_NodeID (rc_Review c)" by auto
  ultimately show thesis using that [OF cm ob a b f] l by simp
qed

text \<open>C33: Only a trusted human's own inline comments become repair work: every admitted feedback is
  an unresolved, current root comment on the exact head, its author is a configured human who
  requested changes on that head in the review the comment belongs to, and its body is the handed
  over text with the right digest; unless the result is flagged unsupported, every such request
  has admitted feedback.\<close>

theorem trusted_changes_sound:
  assumes "NormalizeTrustedChangesRequested pr reviews threads bodies trusted at = Inr res"
  shows "(\<forall>f \<in> set (tc_Feedback res).
      \<exists>t c r. comment_of threads t c \<and> proper_root pr bodies t c f \<and>
        r \<in> set reviews \<and> human_request pr trusted r \<and> tf_ReviewNodeID f = gr_NodeID r \<and>
        sameActor (tf_Author f) (gr_Actor r)) \<and>
    (\<not> tc_Unsupported res \<longrightarrow>
      (\<forall>r \<in> set reviews. human_request pr trusted r \<longrightarrow>
         (\<exists>f \<in> set (tc_Feedback res). tf_ReviewNodeID f = gr_NodeID r)))"
proof -
  from NormalizeTrusted_Inr [OF assms] obtain byLogin
    where ix: "index_operators [] trusted = Inr byLogin" and hv: "Handoff_Validate bodies = None"
      and fb: "set (tc_Feedback res) =
        (\<lambda>(t, c, f). f) ` set (admitted_items pr reviews threads bodies byLogin at)"
      and un: "\<not> tc_Unsupported res \<Longrightarrow> \<forall>id \<in> fst ` set (exact_reviews pr byLogin reviews).
        \<exists>(t, c, f) \<in> set (admitted_items pr reviews threads bodies byLogin at). gr_NodeID (rc_Review c) = id"
    by (auto simp: Let_def)
  have "\<exists>t c r. comment_of threads t c \<and> proper_root pr bodies t c f \<and>
        r \<in> set reviews \<and> human_request pr trusted r \<and> tf_ReviewNodeID f = gr_NodeID r \<and>
        sameActor (tf_Author f) (gr_Actor r)" if f: "f \<in> set (tc_Feedback res)" for f
  proof -
    from f fb obtain t c where "(t, c, f) \<in> set (admitted_items pr reviews threads bodies byLogin at)"
      by auto
    from admitted_item [OF ix hv this] show ?thesis
      by (metis (no_types, lifting) root_feedback_def trusted_feedback.select_convs(5)
          trusted_feedback.select_convs(9))
  qed
  moreover have "\<exists>f \<in> set (tc_Feedback res). tf_ReviewNodeID f = gr_NodeID r"
    if u: "\<not> tc_Unsupported res" and r: "r \<in> set reviews" "human_request pr trusted r" for r
  proof -
    from r exact_request_iff [OF ix] have "exact_request pr byLogin r" by simp
    from index_by_dom [where key = gr_NodeID and P = "exact_request pr byLogin", OF r(1) this]
    have "gr_NodeID r \<in> fst ` set (exact_reviews pr byLogin reviews)"
      unfolding exact_reviews_def by (metis map_of_eq_None_iff)
    with un [OF u] obtain t c f
      where it: "(t, c, f) \<in> set (admitted_items pr reviews threads bodies byLogin at)"
        and id: "gr_NodeID (rc_Review c) = gr_NodeID r" by fastforce
    from admitted_item [OF ix hv it] have "tf_ReviewNodeID f = gr_NodeID (rc_Review c)"
      by (metis root_feedback_def trusted_feedback.select_convs(5))
    with it id fb show ?thesis by force
  qed
  ultimately show ?thesis by blast
qed

text \<open>C35: Admission and drift detection agree: feedback just admitted from a snapshot has not drifted
  in that same snapshot, provided that GitHub's review node IDs are unique in it.\<close>

theorem admitted_feedback_has_no_drift:
  assumes res: "NormalizeTrustedChangesRequested pr reviews threads bodies trusted at = Inr res"
    and uniq: "distinct (map gr_NodeID reviews)"
  shows "\<not> TrustedFeedbackDrift (tc_Feedback res) pr reviews threads bodies"
proof -
  from NormalizeTrusted_Inr [OF res] obtain byLogin
    where ix: "index_operators [] trusted = Inr byLogin" and hv: "Handoff_Validate bodies = None"
      and fb: "set (tc_Feedback res) =
        (\<lambda>(t, c, f). f) ` set (admitted_items pr reviews threads bodies byLogin at)"
    by (auto simp: Let_def)
  have "\<not> feedback_drifted pr (review_index reviews) threads (body_index bodies) f"
    if "f \<in> set (tc_Feedback res)" for f
  proof -
    from that fb obtain t c where it: "(t, c, f) \<in> set (admitted_items pr reviews threads bodies byLogin at)"
      by auto
    obtain author body r where cm: "comment_of threads t c"
      and ob: "trustedInlineRootObservation pr t c (body_index bodies) at = Some f"
      and a: "rc_Author c = Some author" and b: "map_of (body_index bodies) (rc_NodeID c) = Some body"
      and f: "f = root_feedback pr t c author body at"
      and r: "r \<in> set reviews" "human_request pr trusted r" "gr_NodeID r = gr_NodeID (rc_Review c)"
        "gr_DatabaseID r = gr_DatabaseID (rc_Review c)" "sameActor author (gr_Actor r)"
      by (rule admitted_item [OF ix hv it])
    have "map_of (review_index reviews) (gr_NodeID (rc_Review c)) = Some r"
      using index_by_distinct [where P = "\<lambda>_. True", OF r(1) TrueI uniq] by (simp add: review_index_def r(3))
    with ob a b f r have "still_proved (review_index reviews) (body_index bodies) f t c"
      unfolding root_observation_Some
      by (auto simp: still_proved_def root_feedback_def sameLine_def human_request_def sameActor_def
          intro: equal_fold_sym split: option.splits)
    with cm f show ?thesis
      by (auto simp: feedback_drifted_def comment_of_def root_feedback_def)
  qed
  with hv show ?thesis by (simp add: TrustedFeedbackDrift_def)
qed

definition sample_head :: string where
  "sample_head = replicate 40 (CHR ''a'')"

definition sample_head_pr :: pull_request where
  "sample_head_pr = sample_pr\<lparr>pr_HeadSHA := sample_head\<rparr>"

definition sample_request_review :: github_review where
  "sample_request_review = \<lparr>gr_DatabaseID = 4, gr_NodeID = ''R_4'', gr_State = ''CHANGES_REQUESTED'',
     gr_Actor = sample_human, gr_CommitSHA = sample_head, gr_SourceAt = 10\<rparr>"

definition sample_inline_body :: inline_body where
  "sample_inline_body = \<lparr>ib_ThreadNodeID = ''T_1'', ib_CommentNodeID = ''C_1'', ib_Body = ''fix'',
     ib_BodyDigest = feedbackDigest ''fix''\<rparr>"

definition sample_comment :: review_comment where
  "sample_comment = \<lparr>rc_DatabaseID = 8, rc_NodeID = ''C_1'', rc_ReplyToDatabaseID = 0,
     rc_ReplyToNodeID = [], rc_Author = Some sample_human, rc_Review = sample_request_review,
     rc_BodyDigest = feedbackDigest ''fix'', rc_CreatedAt = 9, rc_UpdatedAt = 9\<rparr>"

definition sample_thread :: review_thread where
  "sample_thread = \<lparr>rt_NodeID = ''T_1'', rt_Resolved = False, rt_Outdated = False,
     rt_OriginalCommitSHA = sample_head, rt_Path = [], rt_Line = None, rt_Comments = [sample_comment]\<rparr>"

lemma sample_head_full: "fullSHA sample_head"
  by (simp add: fullSHA_def sample_head_def char_class_defs)

lemma feedbackDigest_nonempty [simp]: "feedbackDigest b \<noteq> []"
  by (simp add: feedbackDigest_def)

lemmas sample_snapshot_defs = sample_head_pr_def sample_request_review_def sample_inline_body_def
  sample_comment_def sample_thread_def sample_pr_def sample_human_def

lemma sample_handoff: "Handoff_Validate [sample_inline_body] = None"
  by (simp add: Handoff_Validate_def sample_inline_body_def MaxTrustedReviewFeedbackPerHead_def
      MaxTrustedReviewFeedbackBodyBytes_def MaxTrustedReviewFeedbackTextBytes_def
      blank_graphic graphic_def byte_def nul_def)

lemma sample_login [simp]: "to_lower ''Ifan'' = ''ifan''"
  by code_simp

lemma sample_operators: "index_operators [] [sample_human] = Inr [(''ifan'', sample_human)]"
  by (simp add: sample_human_def validTrustedReviewFeedbackNodeID_def
      blank_graphic graphic_def byte_def nul_def)

lemma sample_exact:
  "exact_reviews sample_head_pr [(''ifan'', sample_human)] [sample_request_review]
     = [(''R_4'', sample_request_review)]"
  by (simp add: exact_reviews_def index_by_def exact_request_def sample_snapshot_defs is_zero_time_def
      sameTrustedActor_def sameActor_def validTrustedReviewFeedbackNodeID_def
      blank_graphic graphic_def byte_def nul_def)

lemma sample_observation:
  "trustedInlineRootObservation sample_head_pr sample_thread sample_comment
     [(''C_1'', sample_inline_body)] 30 =
   Some (root_feedback sample_head_pr sample_thread sample_comment sample_human sample_inline_body 30)"
  by (simp add: root_observation_Some)
    (simp add: sample_snapshot_defs is_zero_time_def root_feedback_def ValidateObservation_def
      require_positive_id_def require_node_id_def validTrustedReviewFeedbackNodeID_def sample_head_full
      MaxTrustedReviewFeedbackBodyBytes_def blank_graphic graphic_def byte_def nul_def)

lemma sample_normalized:
  "\<exists>res. NormalizeTrustedChangesRequested sample_head_pr [sample_request_review] [sample_thread]
     [sample_inline_body] [sample_human] 30 = Inr res \<and> \<not> tc_Unsupported res \<and>
     tc_Feedback res = [root_feedback sample_head_pr sample_thread sample_comment sample_human
       sample_inline_body 30]"
proof -
  have tc: "thread_comments [sample_thread] = [(sample_thread, sample_comment)]"
    by (simp add: thread_comments_def sample_thread_def)
  have bi: "body_index [sample_inline_body] = [(''C_1'', sample_inline_body)]"
    by (simp add: body_index_def index_by_def sample_inline_body_def)
  have lk: "linked_comment [(''ifan'', sample_human)] [(''R_4'', sample_request_review)] sample_comment"
    by (simp add: linked_comment_def sample_snapshot_defs sameTrustedActor_def sameActor_def)
  have sp: "\<not> split_review sample_head_pr [(''ifan'', sample_human)] [(''R_4'', sample_request_review)]
      [(''C_1'', sample_inline_body)] 30 (sample_thread, sample_comment)"
    by (simp add: split_review_def sample_snapshot_defs)
  have g: "\<not> (pr_Number sample_head_pr < 1 \<or> pr_DatabaseID sample_head_pr < 1 \<or>
         \<not> validTrustedReviewFeedbackNodeID (pr_NodeID sample_head_pr) \<or>
         \<not> fullSHA (pr_HeadSHA sample_head_pr) \<or> is_zero_time 30)"
    by (simp add: sample_snapshot_defs validTrustedReviewFeedbackNodeID_def sample_head_full
        is_zero_time_def blank_graphic graphic_def byte_def nul_def)
  have rid: "gr_NodeID (rc_Review sample_comment) = ''R_4''" by (simp add: sample_snapshot_defs)
  show ?thesis
    unfolding NormalizeTrustedChangesRequested_def if_not_P [OF g] sample_handoff sample_operators
      option.case sum.case Let_def sample_exact bi tc
    by (simp add: sp lk sample_observation admit_comment_def rid)
qed

theorem trusted_changes_sound_witness:
  "\<exists>res r. NormalizeTrustedChangesRequested sample_head_pr [sample_request_review] [sample_thread]
     [sample_inline_body] [sample_human] 30 = Inr res \<and> tc_Feedback res \<noteq> [] \<and>
     human_request sample_head_pr [sample_human] r"
  using sample_normalized
    trusted_changes_sound [of sample_head_pr "[sample_request_review]" "[sample_thread]"
      "[sample_inline_body]" "[sample_human]" 30]
  by (metis list.set_intros(1) not_Cons_self2)

theorem admitted_feedback_has_no_drift_witness:
  "\<exists>res :: trusted_changes. tc_Feedback res \<noteq> [] \<and>
     \<not> TrustedFeedbackDrift (tc_Feedback res) sample_head_pr [sample_request_review] [sample_thread]
       [sample_inline_body]"
proof -
  from sample_normalized obtain res
    where r: "NormalizeTrustedChangesRequested sample_head_pr [sample_request_review] [sample_thread]
      [sample_inline_body] [sample_human] 30 = Inr res" and ne: "tc_Feedback res \<noteq> []" by auto
  have "\<not> TrustedFeedbackDrift (tc_Feedback res) sample_head_pr [sample_request_review] [sample_thread]
      [sample_inline_body]"
    by (rule admitted_feedback_has_no_drift [OF r]) simp
  with ne show ?thesis by blast
qed

end
