(* ===== verification/Run_Trail.thy ===== *)
theory Run_Trail
  imports Run_Store
begin

text \<open>
  What every operation of \<open>Run_Store\<close> and \<open>Scheduling\<close> keeps of the database: run IDs and
  idempotency keys are unique, an issue has one active run, the transition rows of a run are a
  numbered, linked history that ends in its state, and the scheduling authorities stay
  consistent. The properties of histories of \<open>Run_State\<close> thereby hold of the stored rows.
\<close>

section \<open>The trail of a run\<close>

text \<open>The rows of a run, latest first, are numbered without a gap, linked, start at its creation and
  end in its current state, and follow persisted edges.\<close>

definition run_trail :: "store \<Rightarrow> string \<Rightarrow> transition_row list" where
  "run_trail s runID = filter (\<lambda>t. tr_RunID t = runID) (st_transitions s)"

fun countdown :: "nat \<Rightarrow> int list" where
  "countdown 0 = []"
| "countdown (Suc n) = int (Suc n) # countdown n"

definition trail_ok :: "transition_row list \<Rightarrow> state \<Rightarrow> bool" where
  "trail_ok ts st \<longleftrightarrow>
     chain (map tr_To ts) \<and> hd (map tr_To ts) = st \<and>
     map tr_Sequence ts = countdown (length ts) \<and>
     map tr_From ts = tl (map tr_To ts) @ [StateOther []]"

definition one_active_run :: "run_row list \<Rightarrow> bool" where
  "one_active_run rows \<longleftrightarrow>
     (\<forall>r \<in> set rows. \<forall>q \<in> set rows. \<not> terminal (run_State r) \<longrightarrow> \<not> terminal (run_State q) \<longrightarrow>
        run_IssueID r = run_IssueID q \<longrightarrow> run_ID r = run_ID q)"

definition run_inv :: "store \<Rightarrow> bool" where
  "run_inv s \<longleftrightarrow>
     distinct (map run_ID (st_runs s)) \<and> distinct (map run_IdempotencyKey (st_runs s)) \<and>
     (\<forall>r \<in> set (st_runs s). trail_ok (run_trail s (run_ID r)) (run_State r)) \<and>
     one_active_run (st_runs s) \<and>
     (\<forall>t \<in> set (st_transitions s). tr_RunID t \<in> run_ID ` set (st_runs s))"

lemma run_invI:
  assumes "distinct (map run_ID (st_runs s))" and "distinct (map run_IdempotencyKey (st_runs s))"
    and "\<And>r. r \<in> set (st_runs s) \<Longrightarrow> trail_ok (run_trail s (run_ID r)) (run_State r)"
    and "one_active_run (st_runs s)"
    and "\<And>t. t \<in> set (st_transitions s) \<Longrightarrow> tr_RunID t \<in> run_ID ` set (st_runs s)"
  shows "run_inv s"
  using assms by (simp add: run_inv_def)

lemma run_invD:
  assumes "run_inv s"
  shows "distinct (map run_ID (st_runs s))" and "distinct (map run_IdempotencyKey (st_runs s))"
    and "\<And>r. r \<in> set (st_runs s) \<Longrightarrow> trail_ok (run_trail s (run_ID r)) (run_State r)"
    and "one_active_run (st_runs s)"
    and "\<And>t. t \<in> set (st_transitions s) \<Longrightarrow> tr_RunID t \<in> run_ID ` set (st_runs s)"
  using assms by (simp_all add: run_inv_def)

lemma one_active_runI:
  "(\<And>r q. r \<in> set rows \<Longrightarrow> q \<in> set rows \<Longrightarrow> \<not> terminal (run_State r) \<Longrightarrow>
     \<not> terminal (run_State q) \<Longrightarrow> run_IssueID r = run_IssueID q \<Longrightarrow> run_ID r = run_ID q) \<Longrightarrow>
   one_active_run rows"
  unfolding one_active_run_def by blast

lemma one_active_runD:
  "one_active_run rows \<Longrightarrow> r \<in> set rows \<Longrightarrow> q \<in> set rows \<Longrightarrow> \<not> terminal (run_State r) \<Longrightarrow>
     \<not> terminal (run_State q) \<Longrightarrow> run_IssueID r = run_IssueID q \<Longrightarrow> run_ID r = run_ID q"
  unfolding one_active_run_def by blast

lemma run_inv_cong:
  "run_inv s \<Longrightarrow> st_runs t = st_runs s \<Longrightarrow> st_transitions t = st_transitions s \<Longrightarrow> run_inv t"
  by (simp add: run_inv_def run_trail_def)

lemma countdown_le: "x \<in> set (countdown n) \<Longrightarrow> x \<le> int n"
  by (induction n) auto

lemma foldr_max_le: "\<forall>y \<in> set xs. y \<le> x \<Longrightarrow> foldr max xs x = (x :: int)"
  by (induction xs) auto

lemma next_number_countdown: "next_number (countdown n) = int n + 1"
proof (cases n)
  case (Suc m)
  have "\<forall>y \<in> set (countdown m). y \<le> int (Suc m)" using countdown_le [of _ m] by fastforce
  with Suc foldr_max_le [of "countdown m" "int (Suc m)"] show ?thesis by (simp add: next_number_def)
qed (simp add: next_number_def)

lemma next_sequence_trail:
  "trail_ok (run_trail s runID) st \<Longrightarrow> next_sequence s runID = int (length (run_trail s runID)) + 1"
  by (simp add: trail_ok_def next_sequence_def run_trail_def [symmetric] next_number_countdown)

lemma trail_ok_Cons:
  assumes "trail_ok ts src" and "persisted_edge src dst" and "tr_Sequence t = int (length ts) + 1"
    and "tr_From t = src" and "tr_To t = dst"
  shows "trail_ok (t # ts) dst"
proof -
  obtain u us where ts: "ts = u # us" using assms(1) by (cases ts) (auto simp: trail_ok_def)
  from assms(1) have "chain (tr_To u # map tr_To us)" and h: "tr_To u = src"
    by (auto simp: trail_ok_def ts)
  then have "chain (dst # tr_To u # map tr_To us)" using assms(2) by simp
  then have "chain (dst # map tr_To ts)" by (simp add: ts)
  then show ?thesis using assms(1,3-5) unfolding trail_ok_def ts by simp
qed

section \<open>Preservation\<close>

text \<open>What an update may do to the other columns of a run.\<close>

definition keeps :: "(run_row \<Rightarrow> run_row) \<Rightarrow> bool" where
  "keeps f \<longleftrightarrow> (\<forall>r. run_ID (f r) = run_ID r \<and> run_IssueID (f r) = run_IssueID r \<and>
     run_IdempotencyKey (f r) = run_IdempotencyKey r \<and>
     run_RepositoryBindingDigest (f r) = run_RepositoryBindingDigest r \<and> run_State (f r) = run_State r)"

lemma keepsD:
  "keeps f \<Longrightarrow> run_ID (f r) = run_ID r" "keeps f \<Longrightarrow> run_IssueID (f r) = run_IssueID r"
  "keeps f \<Longrightarrow> run_IdempotencyKey (f r) = run_IdempotencyKey r"
  "keeps f \<Longrightarrow> run_RepositoryBindingDigest (f r) = run_RepositoryBindingDigest r"
  "keeps f \<Longrightarrow> run_State (f r) = run_State r"
  by (simp_all add: keeps_def)

lemma update_runs_inv:
  assumes f: "keeps f" and "run_inv s" "sched_inv s"
  shows "run_inv (update_runs P f s)" and "sched_inv (update_runs P f s)"
proof -
  note inv = run_invD [OF assms(2)]
  have rows: "\<exists>q \<in> set (st_runs s). run_ID r = run_ID q \<and> run_IssueID r = run_IssueID q \<and>
      run_State r = run_State q" if "r \<in> set (st_runs (update_runs P f s))" for r
    using that by (auto simp: update_runs_def set_update_where keepsD [OF f] split: if_splits)
  show "run_inv (update_runs P f s)"
  proof (rule run_invI)
    fix r assume "r \<in> set (st_runs (update_runs P f s))"
    from rows [OF this] inv(3) show "trail_ok (run_trail (update_runs P f s) (run_ID r)) (run_State r)"
      by (auto simp: update_runs_def run_trail_def)
  next
    show "one_active_run (st_runs (update_runs P f s))"
    proof (rule one_active_runI)
      fix r q assume *: "r \<in> set (st_runs (update_runs P f s))" "q \<in> set (st_runs (update_runs P f s))"
        "\<not> terminal (run_State r)" "\<not> terminal (run_State q)" "run_IssueID r = run_IssueID q"
      from rows [OF *(1)] rows [OF *(2)] obtain r' q' where
        "r' \<in> set (st_runs s)" "run_ID r = run_ID r'" "run_IssueID r = run_IssueID r'"
        "run_State r = run_State r'" "q' \<in> set (st_runs s)" "run_ID q = run_ID q'"
        "run_IssueID q = run_IssueID q'" "run_State q = run_State q'" by blast
      with * one_active_runD [OF inv(4), of r' q'] show "run_ID r = run_ID q" by simp
    qed
  next
    fix t assume "t \<in> set (st_transitions (update_runs P f s))"
    with inv(5) [of t] obtain q where q: "q \<in> set (st_runs s)" "run_ID q = tr_RunID t"
      by (auto simp: update_runs_def)
    then have "(if P q then f q else q) \<in> set (st_runs (update_runs P f s))"
      by (auto simp: update_runs_def set_update_where)
    moreover have "run_ID (if P q then f q else q) = tr_RunID t" using q(2) by (simp add: keepsD [OF f])
    ultimately show "tr_RunID t \<in> run_ID ` set (st_runs (update_runs P f s))" by force
  qed (use inv(1,2) in \<open>simp_all add: update_runs_def map_update_where keepsD [OF f]\<close>)
  show "sched_inv (update_runs P f s)"
    by (rule sched_inv_cong [OF assms(3)])
      (simp_all add: update_runs_def run_view_def map_update_where keepsD [OF f])
qed

lemma update_run_state_fields [simp]:
  "st_runs (update_run_state P dst f now s) =
     update_where P (\<lambda>r. (f r)\<lparr>run_State := dst, run_UpdatedAt := now\<rparr>) (st_runs s)"
  "st_transitions (update_run_state P dst f now s) = st_transitions s"
  "st_attempts (update_run_state P dst f now s) = st_attempts s"
  "st_side_effects (update_run_state P dst f now s) = st_side_effects s"
  "st_retry (update_run_state P dst f now s) = st_retry s"
  by (simp_all add: update_run_state_def Let_def release_terminal_def)

lemma append_transition_fields [simp]:
  "st_runs (append_transition i n a b r e h now s) = st_runs s"
  "st_slots (append_transition i n a b r e h now s) = st_slots s"
  "st_permits (append_transition i n a b r e h now s) = st_permits s"
  "st_scheduling (append_transition i n a b r e h now s) = st_scheduling s"
  "st_retry (append_transition i n a b r e h now s) = st_retry s"
  "st_side_effects (append_transition i n a b r e h now s) = st_side_effects s"
  "run_trail (append_transition i n a b r e h now s) j =
     (if i = j then \<lparr>tr_RunID = i, tr_Sequence = n, tr_From = a, tr_To = b, tr_Reason = r,
        tr_Evidence = e, tr_Head = h, tr_CreatedAt = now\<rparr> # run_trail s j else run_trail s j)"
  by (simp_all add: append_transition_def run_trail_def)

text \<open>The exact effect of \<open>compare_and_transition\<close>.\<close>

lemma compare_and_transition_None:
  "compare_and_transition lost runID P src dst f reason ev head now s = (None, t) \<longleftrightarrow>
     \<not> index_conflict runID P dst s \<and> count_where P (st_runs s) = 1 \<and>
     t = append_transition runID (next_sequence s runID) src dst reason ev head now
           (update_run_state P dst f now s)"
  by (auto simp: compare_and_transition_def transition_lost_def Let_def)

lemma compare_and_transition_Some:
  "compare_and_transition lost runID P src dst f reason ev head now s = (Some e, t) \<Longrightarrow> t = s"
  by (auto simp: compare_and_transition_def Let_def split: if_splits)

lemma compare_and_transition_snd:
  "snd (compare_and_transition lost runID P src dst f reason ev head now s) = s \<or>
   fst (compare_and_transition lost runID P src dst f reason ev head now s) = None"
  by (auto simp: compare_and_transition_def Let_def)

lemma count_where_1_unique:
  assumes "distinct (map g rows)" and "r \<in> set rows" and "P r" and "\<And>x. P x \<Longrightarrow> g x = g r"
    and "q \<in> set rows"
  shows "P q \<longleftrightarrow> q = r"
  using unique_row [OF assms(1) assms(5) assms(2)] assms(3,4) by blast

text \<open>The run that is moved, and what the moved store looks like.\<close>

definition moves ::
  "store \<Rightarrow> string \<Rightarrow> state \<Rightarrow> state \<Rightarrow> (run_row \<Rightarrow> bool) \<Rightarrow> (run_row \<Rightarrow> run_row) \<Rightarrow> run_row \<Rightarrow> bool" where
  "moves s runID src dst P f run \<longleftrightarrow>
     run_inv s \<and> sched_inv s \<and> keeps f \<and> persisted_edge src dst \<and>
     run \<in> set (st_runs s) \<and> run_ID run = runID \<and> run_State run = src \<and>
     (\<forall>r \<in> set (st_runs s). P r \<longleftrightarrow> r = run) \<and> \<not> index_conflict runID P dst s"

abbreviation moved_row :: "state \<Rightarrow> (run_row \<Rightarrow> run_row) \<Rightarrow> time \<Rightarrow> run_row \<Rightarrow> run_row" where
  "moved_row dst f now run \<equiv> (f run)\<lparr>run_State := dst, run_UpdatedAt := now\<rparr>"

definition moved ::
  "string \<Rightarrow> (run_row \<Rightarrow> bool) \<Rightarrow> state \<Rightarrow> state \<Rightarrow> (run_row \<Rightarrow> run_row) \<Rightarrow> string \<Rightarrow> string \<Rightarrow> string \<Rightarrow>
     time \<Rightarrow> store \<Rightarrow> store" where
  "moved runID P src dst f reason ev head now s =
     append_transition runID (next_sequence s runID) src dst reason ev head now
       (update_run_state P dst f now s)"

lemma movesD:
  assumes "moves s runID src dst P f run"
  shows "run_inv s" "sched_inv s" "keeps f" "persisted_edge src dst" "run \<in> set (st_runs s)"
    "run_ID run = runID" "run_State run = src" "\<not> index_conflict runID P dst s"
    and "\<And>r. r \<in> set (st_runs s) \<Longrightarrow> P r \<longleftrightarrow> r = run"
  using assms by (simp_all add: moves_def)

lemma moves_unique:
  assumes m: "moves s runID src dst P f run" and "r \<in> set (st_runs s)" and "run_ID r = runID"
  shows "r = run"
  using unique_row [OF run_invD(1) [OF movesD(1) [OF m]] assms(2) movesD(5) [OF m]]
    movesD(6) [OF m] assms(3) by simp

lemma moved_fields:
  assumes "moves s runID src dst P f run"
  shows "run_ID (moved_row dst f now run) = runID"
    "run_IssueID (moved_row dst f now run) = run_IssueID run"
    "run_RepositoryBindingDigest (moved_row dst f now run) = run_RepositoryBindingDigest run"
    "run_IdempotencyKey (moved_row dst f now run) = run_IdempotencyKey run"
  using movesD(3,6) [OF assms] by (simp_all add: keepsD)

lemma moved_rows:
  assumes "moves s runID src dst P f run"
  shows "st_runs (moved runID P src dst f reason ev head now s) =
    map (\<lambda>r. if r = run then moved_row dst f now r else r) (st_runs s)"
  using movesD(9) [OF assms] by (auto simp: moved_def update_where_def)

lemma moved_row_cases:
  assumes m: "moves s runID src dst P f run"
    and "r \<in> set (st_runs (moved runID P src dst f reason ev head now s))"
  shows "r = moved_row dst f now run \<or> r \<in> set (st_runs s) \<and> run_ID r \<noteq> runID"
  using assms(2) moves_unique [OF m] unfolding moved_rows [OF m] by (auto split: if_splits)

lemma moved_map:
  assumes m: "moves s runID src dst P f run" and "g (moved_row dst f now run) = g run"
  shows "map g (st_runs (moved runID P src dst f reason ev head now s)) = map g (st_runs s)"
  unfolding moved_rows [OF m] using assms(2) by auto

lemma moved_trail: "run_trail (moved runID P src dst f reason ev head now s) i =
   (if i = runID then \<lparr>tr_RunID = runID, tr_Sequence = next_sequence s runID, tr_From = src, tr_To = dst,
        tr_Reason = reason, tr_Evidence = ev, tr_Head = head, tr_CreatedAt = now\<rparr> # run_trail s runID
    else run_trail s i)"
  by (auto simp: moved_def run_trail_def append_transition_def)

lemma moved_active:
  assumes m: "moves s runID src dst P f run"
  shows "one_active_run (st_runs (moved runID P src dst f reason ev head now s))"
proof (rule one_active_runI)
  have other: "run_ID q \<noteq> runID \<Longrightarrow> \<not> terminal dst \<Longrightarrow> q \<in> set (st_runs s) \<Longrightarrow>
      \<not> terminal (run_State q) \<Longrightarrow> run_IssueID q \<noteq> run_IssueID run" for q
    using movesD(5,8,9) [OF m] by (auto simp: index_conflict_def)
  fix r q
  assume rq: "r \<in> set (st_runs (moved runID P src dst f reason ev head now s))"
    "q \<in> set (st_runs (moved runID P src dst f reason ev head now s))"
    "\<not> terminal (run_State r)" "\<not> terminal (run_State q)" "run_IssueID r = run_IssueID q"
  show "run_ID r = run_ID q"
    using moved_row_cases [OF m rq(1)] moved_row_cases [OF m rq(2)]
  proof (elim disjE conjE)
    assume "r \<in> set (st_runs s)" "q \<in> set (st_runs s)"
    then show ?thesis using one_active_runD [OF run_invD(4) [OF movesD(1) [OF m]]] rq by blast
  qed (use other [of r] other [of q] rq(3-5) moved_fields [OF m, of now] in auto)
qed

lemma moved_run_inv:
  assumes m: "moves s runID src dst P f run"
  shows "run_inv (moved runID P src dst f reason ev head now s)" (is "run_inv ?t")
proof (rule run_invI)
  note inv = run_invD [OF movesD(1) [OF m]]
  show "distinct (map run_ID (st_runs ?t))" "distinct (map run_IdempotencyKey (st_runs ?t))"
    using inv(1,2) moved_fields [OF m] movesD(6) [OF m] by (simp_all add: moved_map [OF m])
  show "one_active_run (st_runs ?t)" by (rule moved_active [OF m])
  show "trail_ok (run_trail ?t (run_ID r)) (run_State r)" if "r \<in> set (st_runs ?t)" for r
    using moved_row_cases [OF m that]
  proof
    have old: "trail_ok (run_trail s runID) src" using inv(3) movesD(5-7) [OF m] by blast
    have "trail_ok (run_trail ?t runID) dst"
      unfolding moved_trail using trail_ok_Cons [OF old movesD(4) [OF m]] next_sequence_trail [OF old]
      by simp
    moreover assume "r = moved_row dst f now run"
    ultimately show ?thesis using moved_fields(1) [OF m] by simp
  next
    assume "r \<in> set (st_runs s) \<and> run_ID r \<noteq> runID"
    then show ?thesis using inv(3) [of r] by (simp add: moved_trail)
  qed
  show "tr_RunID t \<in> run_ID ` set (st_runs ?t)" if "t \<in> set (st_transitions ?t)" for t
  proof -
    have "tr_RunID t \<in> run_ID ` set (st_runs s)"
      using that inv(5) movesD(5,6) [OF m] by (auto simp: moved_def append_transition_def)
    then show ?thesis
      using moved_map [OF m, of run_ID now] moved_fields(1) [OF m] movesD(6) [OF m] by (metis set_map)
  qed
qed

text \<open>The scheduling authorities follow the run: an ended run loses its slot and its permit.\<close>

lemma moved_view:
  assumes m: "moves s runID src dst P f run"
  shows "run_view (moved runID P src dst f reason ev head now s) =
    map (\<lambda>(i, b, st). (i, b, if i = runID then dst else st)) (run_view s)"
proof -
  have pt: "((\<lambda>r. (run_ID r, run_RepositoryBindingDigest r, run_State r)) \<circ>
        (\<lambda>r. if r = run then moved_row dst f now r else r)) r =
      ((\<lambda>(i, b, st). (i, b, if i = runID then dst else st)) \<circ>
       (\<lambda>r. (run_ID r, run_RepositoryBindingDigest r, run_State r))) r"
    if "r \<in> set (st_runs s)" for r
  proof (cases "r = run")
    case True
    then show ?thesis using moved_fields(1,3) [OF m, of now] movesD(6) [OF m] by simp
  next
    case False
    then have "run_ID r \<noteq> runID" using moves_unique [OF m that] by blast
    with False show ?thesis by simp
  qed
  show ?thesis unfolding run_view_def moved_rows [OF m] map_map by (rule map_cong [OF refl pt])
qed

lemma moved_slot_ok:
  assumes m: "moves s runID src dst P f run" and "slot_ok s x"
    and "\<not> terminal dst \<or> slot_RunID x \<noteq> runID"
  shows "slot_ok (moved runID P src dst f reason ev head now s) x"
proof -
  from assms(2) obtain st where st: "(slot_RunID x, slot_Binding x, st) \<in> set (run_view s)" "\<not> terminal st"
    by (auto simp: slot_ok_def)
  let ?st = "if slot_RunID x = runID then dst else st"
  have "(slot_RunID x, slot_Binding x, ?st) \<in>
      (\<lambda>(i, b, st). (i, b, if i = runID then dst else st)) ` set (run_view s)"
    using st(1) by (rule rev_image_eqI) simp
  moreover have "\<not> terminal ?st" using st(2) assms(3) by auto
  ultimately show ?thesis unfolding slot_ok_def moved_view [OF m] set_map by blast
qed

lemma moved_authorities:
  fixes reason ev head now
  assumes m: "moves s runID src dst P f run"
    and t: "t = moved runID P src dst f reason ev head now s"
  shows "\<not> terminal dst \<Longrightarrow> st_slots t = st_slots s \<and> st_permits t = st_permits s \<and>
      st_scheduling t = st_scheduling s"
    and "terminal dst \<Longrightarrow> st_slots t = delete_where (\<lambda>x. slot_RunID x = runID) (st_slots s) \<and>
      st_permits t = delete_where (\<lambda>p. hp_RunID p = runID) (st_permits s) \<and>
      map rs_RunID (st_scheduling t) = map rs_RunID (st_scheduling s)"
proof -
  have hit: "set (map run_ID (filter P (st_runs s))) = {runID}"
    using movesD(5,6,9) [OF m] by auto
  show "\<not> terminal dst \<Longrightarrow> st_slots t = st_slots s \<and> st_permits t = st_permits s \<and>
      st_scheduling t = st_scheduling s"
    by (simp add: t moved_def update_run_state_def)
  show "terminal dst \<Longrightarrow> st_slots t = delete_where (\<lambda>x. slot_RunID x = runID) (st_slots s) \<and>
      st_permits t = delete_where (\<lambda>p. hp_RunID p = runID) (st_permits s) \<and>
      map rs_RunID (st_scheduling t) = map rs_RunID (st_scheduling s)"
    unfolding t moved_def update_run_state_def Let_def release_terminal_def hit
    by (simp add: map_update_where)
qed

lemma moved_sched_inv:
  assumes m: "moves s runID src dst P f run"
  shows "sched_inv (moved runID P src dst f reason ev head now s)" (is "sched_inv ?t")
proof (rule sched_invI)
  note inv = sched_invD [OF movesD(2) [OF m]]
  note auth = moved_authorities [OF m refl, of reason ev head now]
  show "distinct (map fst (run_view ?t))"
    using inv(1) by (simp add: moved_view [OF m] comp_def case_prod_beta)
  show "distinct (map slot_Binding (st_slots ?t))" "distinct (map slot_RunID (st_slots ?t))"
    "distinct (map hp_RunID (st_permits ?t))" "distinct (map rs_RunID (st_scheduling ?t))"
    using inv(2-5) auth by (cases "terminal dst"; simp add: distinct_delete_where)+
  show "slot_ok ?t x" if "x \<in> set (st_slots ?t)" for x
    using that inv(6) [of x] auth by (intro moved_slot_ok [OF m]) (cases "terminal dst"; simp)+
  show "hp_RunID p \<in> slot_RunID ` set (st_slots ?t)" if "p \<in> set (st_permits ?t)" for p
    using that inv(7) [of p] auth by (cases "terminal dst") auto
qed

section \<open>Every operation keeps the invariants\<close>

definition store_inv :: "store \<Rightarrow> bool" where
  "store_inv s \<longleftrightarrow> run_inv s \<and> sched_inv s"

lemma store_invI: "run_inv s \<Longrightarrow> sched_inv s \<Longrightarrow> store_inv s"
  by (simp add: store_inv_def)

lemma store_inv_cong:
  "store_inv s \<Longrightarrow> st_runs t = st_runs s \<Longrightarrow> st_transitions t = st_transitions s \<Longrightarrow>
     st_slots t = st_slots s \<Longrightarrow> st_permits t = st_permits s \<Longrightarrow> st_scheduling t = st_scheduling s \<Longrightarrow>
     store_inv t"
  unfolding store_inv_def
  by (auto intro: run_inv_cong [of s] sched_inv_cong [of s] simp: run_view_def)

lemma compare_and_transition_inv:
  assumes inv: "store_inv s" and "keeps f" and "persisted_edge src dst"
    and P: "\<And>r. P r \<Longrightarrow> run_ID r = runID \<and> run_State r = src"
  shows "store_inv (snd (compare_and_transition lost runID P src dst f reason ev head now s))"
proof (cases "compare_and_transition lost runID P src dst f reason ev head now s")
  case (Pair e t)
  show ?thesis
  proof (cases e)
    case None
    with Pair have t: "t = moved runID P src dst f reason ev head now s"
      and free: "\<not> index_conflict runID P dst s" and one: "count_where P (st_runs s) = 1"
      by (simp_all add: compare_and_transition_None moved_def)
    from one obtain run where run: "run \<in> set (st_runs s)" "P run"
      using count_where_pos [of P "st_runs s"] by auto
    have "run_inv s" using inv by (simp add: store_inv_def)
    then have "P r \<longleftrightarrow> r = run" if "r \<in> set (st_runs s)" for r
      using unique_row [OF run_invD(1) that run(1)] P [of r] P [of run] run(2) by auto
    then have "moves s runID src dst P f run"
      using assms(2,3) inv run P [of run] free by (simp add: moves_def store_inv_def)
    from moved_run_inv [OF this] moved_sched_inv [OF this] Pair t show ?thesis
      by (simp add: store_inv_def)
  next
    case (Some _)
    with Pair inv show ?thesis by (auto dest: compare_and_transition_Some)
  qed
qed

lemma keeps_simps [simp]:
  "keeps (set_error e)" "keeps (\<lambda>r. r)" "keeps (\<lambda>r. r\<lparr>run_CandidateHead := h\<rparr>)"
  by (simp_all add: keeps_def set_error_def)

lemma keeps_touch [simp]: "keeps f \<Longrightarrow> keeps (touch now f)"
  by (simp add: keeps_def touch_def)

lemma ValidateTransition_edge: "ValidateTransition a b = None \<Longrightarrow> persisted_edge a b"
  by (simp add: ValidateTransition_None_iff edge_table)

lemma Transition_inv [preserve]: "store_inv s \<Longrightarrow> store_inv (snd (Transition i a b r e h now s))"
  unfolding Transition_def
  by (auto split: option.split intro!: compare_and_transition_inv ValidateTransition_edge)

lemma MarkLinearSourceDrift_inv [preserve]:
  assumes inv: "store_inv s" shows "store_inv (snd (MarkLinearSourceDrift i st sr ev now s))"
proof -
  let ?c = "compare_and_transition no_rows i (\<lambda>r. run_ID r = i \<and> run_State r = st \<and> run_SourceRevision r = sr)
    st StateManualIntervention (set_error ''Linear source drift requires a human decision'')
    ''Linear source drift requires a human decision'' ev [] now s"
  have "store_inv (snd ?c)"
    by (rule compare_and_transition_inv [OF inv]) (auto intro: edge_intervention)
  then show ?thesis
    by (cases ?c) (auto simp: MarkLinearSourceDrift_def Let_def inv split: option.split)
qed

lemma BeginRepair_inv [preserve]: "store_inv s \<Longrightarrow> store_inv (snd (BeginRepair i h e now s))"
  unfolding BeginRepair_def
  by (auto split: option.split intro!: compare_and_transition_inv edge_table simp: CanTransition_def)

lemma PersistFreshReviewFindings_inv [preserve]:
  assumes inv: "store_inv s"
  shows "store_inv (snd (PersistFreshReviewFindings v rc c i h ref now s))"
proof -
  let ?c = "compare_and_transition (New ''fresh review repair state compare update lost'') i
    (\<lambda>r. run_ID r = i \<and> run_State r = StateFreshReview \<and> run_CandidateHead r = h)
    StateFreshReview StateRepairing (set_error [])
    ''fresh structured review findings persisted'' ref h now s"
  have "store_inv (snd ?c)"
    by (rule compare_and_transition_inv [OF inv]) (auto intro: edge_table simp: CanTransition_def)
  then show ?thesis
    by (cases ?c) (auto simp: PersistFreshReviewFindings_def inv split: option.split)
qed

lemma TransitionReviewReplyRun_inv [preserve]:
  "store_inv s \<Longrightarrow> store_inv (snd (TransitionReviewReplyRun i owner a b r e h now s))"
  unfolding TransitionReviewReplyRun_def
  by (auto split: option.split intro!: compare_and_transition_inv ValidateTransition_edge)

lemma SaveGitHubReconciliation_inv [preserve]:
  "store_inv s \<Longrightarrow> store_inv (snd (SaveGitHubReconciliation c i owner a b k r e h now s))"
  unfolding SaveGitHubReconciliation_def
  by (auto split: option.split intro!: compare_and_transition_inv ValidateTransition_edge
      simp: reconcile_guard_def)

lemma SaveGitHubManualPRTargetDrift_inv [preserve]:
  "store_inv s \<Longrightarrow> store_inv (snd (SaveGitHubManualPRTargetDrift c i owner a k e h r now s))"
  unfolding SaveGitHubManualPRTargetDrift_def
  by (auto split: option.split intro!: compare_and_transition_inv edge_intervention
      simp: reconcile_guard_def)

lemma RequireManualIntervention_inv [preserve]:
  "store_inv s \<Longrightarrow>
     store_inv (snd (RequireManualInterventionForTrustedFeedbackDrift c i owner a k d now s))"
  unfolding RequireManualInterventionForTrustedFeedbackDrift_def
  by (auto split: option.split intro!: compare_and_transition_inv edge_intervention
      simp: reconcile_guard_def)

lemma abandon_retry_inv: "store_inv s \<Longrightarrow> store_inv (abandon_retry i now s)"
  by (erule store_inv_cong) (simp_all add: abandon_retry_def)

lemma abandon_run_inv:
  assumes inv: "store_inv s" and "GracefulAbandonState (ab_ExpectedState q)"
  shows "store_inv (snd (abandon_run q run now s))"
proof -
  let ?c = "compare_and_transition
         (New ''automatic admission abandonment state compare update lost'') (ab_RunID q)
         (abandon_target q (ab_ExpectedState q) now) (ab_ExpectedState q) StateFailed
         (set_error ''operator abandoned automatic run'') ''operator abandoned automatic run''
         (''operator_abandon:'' @ ab_IdempotencyKey q) (run_CandidateHead run) now s"
  have "store_inv (snd ?c)"
    by (rule compare_and_transition_inv [OF inv])
      (auto simp: abandon_target_def intro: edge_abandon assms(2))
  then show ?thesis
    by (cases ?c) (auto simp: abandon_run_def abandon_retry_inv split: option.split)
qed

lemma AbandonAutomaticAdmission_inv [preserve]:
  "store_inv s \<Longrightarrow> store_inv (snd (AbandonAutomaticAdmission a j d q now s))"
  unfolding AbandonAutomaticAdmission_def
  by (auto split: option.split intro: abandon_run_inv)

lemma update_runs_store_inv: "store_inv s \<Longrightarrow> keeps f \<Longrightarrow> store_inv (update_runs P f s)"
  by (simp add: store_inv_def update_runs_inv)

lemma exec_one_run_inv: "store_inv s \<Longrightarrow> keeps f \<Longrightarrow> store_inv (snd (exec_one_run P f s))"
  by (simp add: exec_one_run_def update_runs_store_inv)

lemma keeps_fields [simp]:
  "keeps (\<lambda>r. r\<lparr>run_BaseSHA := b, run_WorktreePath := w\<rparr>)"
  "keeps (\<lambda>r. r\<lparr>run_ImplementationSession := x\<rparr>)"
  "keeps (\<lambda>r. r\<lparr>run_LeaseOwner := x, run_LeaseExpiresUnix := n\<rparr>)"
  "keeps (\<lambda>r. r\<lparr>run_LeaseExpiresUnix := n\<rparr>)"
  by (simp_all add: keeps_def)

lemma run_fields_inv [preserve]:
  "store_inv s \<Longrightarrow> store_inv (snd (SetWorkspace i b w now s))"
  "store_inv s \<Longrightarrow> store_inv (snd (SetImplementationSession i x now s))"
  "store_inv s \<Longrightarrow> store_inv (snd (SetCandidateHead i h now s))"
  "store_inv s \<Longrightarrow> store_inv (snd (SetLastError i e now s))"
  by (simp_all add: SetWorkspace_def SetImplementationSession_def SetCandidateHead_def
      SetLastError_def exec_one_run_inv)

lemma lease_inv [preserve]:
  "store_inv s \<Longrightarrow> store_inv (snd (AcquireLease i owner expires now s))"
  "store_inv s \<Longrightarrow> store_inv (snd (RenewLease i owner expires now s))"
  "store_inv s \<Longrightarrow> store_inv (snd (ReleaseLease i owner now s))"
  by (simp_all add: AcquireLease_def RenewLease_def ReleaseLease_def update_lease_def
      update_runs_store_inv)

lemma attempts_inv [preserve]:
  "store_inv s \<Longrightarrow> store_inv (snd (BeginAttempt i k m d key now s))"
  "store_inv s \<Longrightarrow> store_inv (snd (CommitAttemptProcessLaunch n s))"
  "store_inv s \<Longrightarrow> store_inv (snd (FinishAttempt a s))"
  "store_inv s \<Longrightarrow> store_inv (snd (SaveVerification v now s))"
  "store_inv s \<Longrightarrow> store_inv (snd (AddOwnedResource x s))"
  unfolding BeginAttempt_def CommitAttemptProcessLaunch_def FinishAttempt_def SaveVerification_def
    AddOwnedResource_def Let_def
  by (auto intro: store_inv_cong split: option.split)

text \<open>The scheduling operations leave runs and transitions alone.\<close>

lemma reserve_runs [frame]:
  "st_runs (snd (reserveSchedulingAuthoritiesTx run rv o' now s)) = st_runs s"
  "st_transitions (snd (reserveSchedulingAuthoritiesTx run rv o' now s)) = st_transitions s"
  using reserve_cases [of run rv o' now s] by (auto simp: reserved_store_def)

lemma scheduling_runs [frame]:
  "st_runs (snd (BindWorkerSupervisor w s)) = st_runs s"
  "st_transitions (snd (BindWorkerSupervisor w s)) = st_transitions s"
  "st_runs (snd (ConfigureHeavyCapacity c ident now s)) = st_runs s"
  "st_transitions (snd (ConfigureHeavyCapacity c ident now s)) = st_transitions s"
  "st_runs (snd (ReleaseHeavyPermit p reason now s)) = st_runs s"
  "st_transitions (snd (ReleaseHeavyPermit p reason now s)) = st_transitions s"
  "st_runs (snd (DeferSchedulingRun i at now s)) = st_runs s"
  "st_transitions (snd (DeferSchedulingRun i at now s)) = st_transitions s"
  by (simp_all add: BindWorkerSupervisor_def ConfigureHeavyCapacity_def ReleaseHeavyPermit_def
      DeferSchedulingRun_def Let_def split: option.split)

lemma acquire_runs [frame]:
  "st_runs (snd (AcquireHeavyPermit i owner now s)) = st_runs s"
  "st_transitions (snd (AcquireHeavyPermit i owner now s)) = st_transitions s"
proof -
  have "st_runs (snd (adopt_permit run e owner now s)) = st_runs s"
    "st_transitions (snd (adopt_permit run e owner now s)) = st_transitions s"
    "st_runs (snd (grant_permit run owner now s)) = st_runs s"
    "st_transitions (snd (grant_permit run owner now s)) = st_transitions s" for run e
    by (simp_all add: adopt_permit_def grant_permit_def Let_def split: option.split)
  then show "st_runs (snd (AcquireHeavyPermit i owner now s)) = st_runs s"
    "st_transitions (snd (AcquireHeavyPermit i owner now s)) = st_transitions s"
    by (simp_all add: AcquireHeavyPermit_def split: option.split)
qed

lemma scheduling_store_inv:
  assumes "store_inv s" and "st_runs t = st_runs s" and "st_transitions t = st_transitions s"
    and "sched_inv s \<Longrightarrow> sched_inv t"
  shows "store_inv t"
  using assms by (simp add: store_inv_def run_inv_cong [of s t])

lemma scheduling_ops_inv [preserve]:
  "store_inv s \<Longrightarrow> store_inv (snd (BindWorkerSupervisor w s))"
  "store_inv s \<Longrightarrow> store_inv (snd (ConfigureHeavyCapacity c ident now s))"
  "store_inv s \<Longrightarrow> store_inv (snd (ReleaseHeavyPermit p reason now s))"
  "store_inv s \<Longrightarrow> store_inv (snd (DeferSchedulingRun i at now s))"
  "store_inv s \<Longrightarrow> store_inv (snd (AcquireHeavyPermit i owner now s))"
  by (simp_all add: store_inv_def frame preserve run_inv_cong [of s])

text \<open>Creation.\<close>

lemma run_constraint_ok:
  "\<not> run_constraint_fails s run \<longleftrightarrow>
     (\<forall>r \<in> set (st_runs s). run_ID r \<noteq> run_ID run \<and> run_IdempotencyKey r \<noteq> run_IdempotencyKey run \<and>
        (run_IssueID r = run_IssueID run \<longrightarrow> terminal (run_State r)))"
  by (auto simp: run_constraint_fails_def active_issue_def)

lemma inserted_run_fields [simp]:
  "run_ID (inserted_run run now) = run_ID run" "run_IssueID (inserted_run run now) = run_IssueID run"
  "run_IdempotencyKey (inserted_run run now) = run_IdempotencyKey run"
  "run_RepositoryBindingDigest (inserted_run run now) = run_RepositoryBindingDigest run"
  "run_State (inserted_run run now) = StateReceived"
  by (simp_all add: inserted_run_def)

lemma insert_run_fields [simp]:
  "st_runs (insert_run run now s) = inserted_run run now # st_runs s"
  "st_slots (insert_run run now s) = st_slots s" "st_permits (insert_run run now s) = st_permits s"
  "st_scheduling (insert_run run now s) = st_scheduling s"
  by (simp_all add: insert_run_def)

lemma run_trail_runs [simp]: "run_trail (s\<lparr>st_runs := rows\<rparr>) i = run_trail s i"
  by (simp add: run_trail_def)

lemma insert_run_inv:
  assumes inv: "store_inv s" and ok: "\<not> run_constraint_fails s run"
  shows "store_inv (insert_run run now s)" (is "store_inv ?t")
proof (rule store_invI)
  have ri: "run_inv s" and si: "sched_inv s" using inv by (simp_all add: store_inv_def)
  note i = run_invD [OF ri]
  note new = ok [unfolded run_constraint_ok, rule_format]
  have fresh: "run_ID run \<notin> run_ID ` set (st_runs s)"
    "run_IdempotencyKey run \<notin> run_IdempotencyKey ` set (st_runs s)"
    using new by (metis imageE)+
  have empty: "run_trail s (run_ID run) = []"
    using i(5) fresh(1) unfolding run_trail_def filter_empty_conv by metis
  show "run_inv ?t"
  proof (rule run_invI)
    show "distinct (map run_ID (st_runs ?t))" "distinct (map run_IdempotencyKey (st_runs ?t))"
      using i(1,2) fresh by simp_all
    show "one_active_run (st_runs ?t)"
    proof (rule one_active_runI)
      fix r q assume "r \<in> set (st_runs ?t)" "q \<in> set (st_runs ?t)" "\<not> terminal (run_State r)"
        "\<not> terminal (run_State q)" "run_IssueID r = run_IssueID q"
      then show "run_ID r = run_ID q"
        using one_active_runD [OF i(4), of r q] new [of r] new [of q] by auto
    qed
    fix r assume "r \<in> set (st_runs ?t)"
    then show "trail_ok (run_trail ?t (run_ID r)) (run_State r)"
    proof (cases "r = inserted_run run now")
      case True
      then show ?thesis using empty by (simp add: insert_run_def trail_ok_def)
    next
      case False
      with \<open>r \<in> set (st_runs ?t)\<close> have "r \<in> set (st_runs s)" by simp
      then show ?thesis using i(3) [of r] new [of r] by (auto simp: insert_run_def)
    qed
  next
    fix t assume "t \<in> set (st_transitions ?t)"
    then show "tr_RunID t \<in> run_ID ` set (st_runs ?t)"
      using i(5) [of t] by (auto simp: insert_run_def append_transition_def)
  qed
  have "slot_ok ?t x" if "slot_ok s x" for x
    using that by (auto simp: slot_ok_def run_view_def)
  then show "sched_inv ?t"
    using sched_invD [OF si] fresh(1) by (intro sched_invI) (simp_all add: run_view_def comp_def)
qed


lemma ensureRepositoryBindingDigest_fields [simp]:
  "run_ID (ensureRepositoryBindingDigest run) = run_ID run"
  "run_IssueID (ensureRepositoryBindingDigest run) = run_IssueID run"
  "run_IdempotencyKey (ensureRepositoryBindingDigest run) = run_IdempotencyKey run"
  by (simp_all add: ensureRepositoryBindingDigest_def)

text \<open>The reservation sees the created run, whose binding and identity are those of the input.\<close>

lemma reserve_created_inv:
  assumes "store_inv s" and "inserted_run run now \<in> set (st_runs s)"
  shows "store_inv (snd (reserveSchedulingAuthoritiesTx run rv o' now s))"
proof -
  have ins: "insert_reservation (inserted_run run now) w since now s = insert_reservation run w since now s"
    for w since unfolding insert_reservation_def reservation_row_def inserted_run_fields ..
  have "reserveSchedulingAuthoritiesTx run rv o' now s =
      reserveSchedulingAuthoritiesTx (inserted_run run now) rv o' now s"
    unfolding reserveSchedulingAuthoritiesTx_def inserted_run_fields reservation_owner_def ins ..
  moreover have "sched_inv (snd (reserveSchedulingAuthoritiesTx (inserted_run run now) rv o' now s))"
    using assms by (intro reserve_inv) (simp_all add: store_inv_def terminal_def)
  ultimately show ?thesis using assms(1) run_inv_cong [of s] by (simp add: store_inv_def frame)
qed

lemma CreateRun_inv [preserve]:
  assumes inv: "store_inv s"
  shows "store_inv (snd (CreateRun decode c a input now s))"
proof -
  let ?run = "ensureRepositoryBindingDigest input"
  let ?s1 = "insert_run ?run now s"
  let ?res = "reserveSchedulingAuthoritiesTx ?run zero_reservation (defaultHeavyPermitOwner s (run_ID ?run)) now ?s1"
  have s1: "\<not> run_constraint_fails s ?run \<Longrightarrow> store_inv ?s1" by (rule insert_run_inv [OF inv])
  then have s2: "\<not> run_constraint_fails s ?run \<Longrightarrow> store_inv (snd ?res)"
    by (intro reserve_created_inv) simp_all
  show ?thesis
    using inv s1 s2 by (cases ?res) (simp add: CreateRun_def Let_def split: option.split sum.split)
qed


text \<open>Reconciliation.\<close>

lemma upsert_transitions [simp]: "st_transitions (upsert_scheduling row f s) = st_transitions s"
  by (simp add: upsert_scheduling_def)

lemma reconcile_run_transitions:
  "reconcile_run counts now run s = Inr (s', x) \<Longrightarrow> st_transitions s' = st_transitions s"
  by (auto simp: reconcile_run_def quarantine_run_def record_supervisor_def reconcile_slot_def Let_def
      split: sum.splits option.splits if_splits)

lemma reconcile_runs_transitions:
  "reconcile_runs counts now runs s = Inr (s', xs) \<Longrightarrow> st_transitions s' = st_transitions s"
  by (induction runs arbitrary: s xs) (auto dest: reconcile_run_transitions split: sum.splits prod.splits)

lemma drop_terminal_fields [simp]:
  "st_runs (drop_terminal_authorities s) = st_runs s"
  "st_transitions (drop_terminal_authorities s) = st_transitions s"
  "st_scheduling (drop_terminal_authorities s) = st_scheduling s"
  "run_view (drop_terminal_authorities s) = run_view s"
  by (simp_all add: drop_terminal_authorities_def run_view_def)

lemma drop_terminal_sched_inv:
  assumes inv: "sched_inv s" shows "sched_inv (drop_terminal_authorities s)"
proof -
  note i = sched_invD [OF inv]
  have slots: "set (st_slots (drop_terminal_authorities s)) =
      {x \<in> set (st_slots s). slot_RunID x \<notin> set (terminal_run_ids s)}"
    and permits: "set (st_permits (drop_terminal_authorities s)) =
      {p \<in> set (st_permits s). hp_RunID p \<notin> set (terminal_run_ids s)}"
    by (auto simp: drop_terminal_authorities_def)
  show ?thesis
  proof (rule sched_invI)
    show "slot_ok (drop_terminal_authorities s) x" if "x \<in> set (st_slots (drop_terminal_authorities s))" for x
      using that i(6) [of x] slots by (simp add: slot_ok_def)
    show "hp_RunID p \<in> slot_RunID ` set (st_slots (drop_terminal_authorities s))"
      if "p \<in> set (st_permits (drop_terminal_authorities s))" for p
      using that i(7) [of p] slots permits by auto
  qed (use i(1-5) in \<open>simp_all add: distinct_delete_where\<close>,
       simp_all add: drop_terminal_authorities_def distinct_delete_where i)
qed

lemma ReconcileSchedulingAuthorities_inv [preserve]:
  assumes inv: "store_inv s" and ord: "\<And>xs. set (ord xs) = set xs \<and> length (ord xs) = length xs"
  shows "store_inv (snd (ReconcileSchedulingAuthorities ord now s))"
proof (cases "ReconcileSchedulingAuthorities ord now s")
  case (Pair r s')
  show ?thesis
  proof (cases r)
    case (Inl e)
    with Pair inv show ?thesis
      by (auto simp: ReconcileSchedulingAuthorities_def Let_def split: if_splits sum.splits)
  next
    case (Inr xs)
    let ?s0 = "drop_terminal_authorities s"
    let ?active = "ord (filter (\<lambda>r. \<not> terminal (run_State r)) (st_runs s))"
    have si: "sched_inv s" and ri: "run_inv s" using inv by (simp_all add: store_inv_def)
    have perm: "set (map run_ID ?active) = set (map run_ID (filter (\<lambda>r. \<not> terminal (run_State r)) (st_runs s)))"
      "length ?active = length (filter (\<lambda>r. \<not> terminal (run_State r)) (st_runs s))"
      using ord by simp_all
    have "distinct (map run_ID (filter (\<lambda>r. \<not> terminal (run_State r)) (st_runs s)))"
      using run_invD(1) [OF ri] by (simp add: distinct_map_filter)
    then have d: "distinct (map run_ID ?active)"
      using perm by (metis card_distinct distinct_card length_map)
    from Pair Inr obtain counts where
      res: "reconcile_runs counts now ?active ?s0 = Inr (s', xs)"
      by (auto simp: ReconcileSchedulingAuthorities_def Let_def split: if_splits sum.splits prod.splits)
    have "sched_inv s' \<and> st_runs s' = st_runs s"
      using reconcile_runs_Inr [OF drop_terminal_sched_inv [OF si] _ d res] ord by auto
    moreover have "st_transitions s' = st_transitions s"
      using reconcile_runs_transitions [OF res] by simp
    ultimately show ?thesis using ri run_inv_cong [of s s'] Pair by (simp add: store_inv_def)
  qed
qed

end
