(* ===== verification/Side_Effects.thy ===== *)
theory Side_Effects
  imports Run_Trail
begin

text \<open>
  Durable intents of external writes: table \<open>side_effects\<close> of
  \<open>internal/adapters/sqlite/store.go\<close>. An intent is recorded once per run, kind and idempotency
  key, claimed by compare-and-swap, finished, and retried only under the rule of its kind. The
  clock readings of one operation are one argument \<open>now\<close>. \<open>LIKE\<close> compares bytes: a character of
  several bytes is several characters here, which only matters for text outside ASCII.
\<close>

type_synonym side_effect_result = "(side_effect_row \<times> bool) result"

definition side_effect_of :: "store \<Rightarrow> string \<Rightarrow> string \<Rightarrow> string \<Rightarrow> side_effect_row option" where
  "side_effect_of s runID kind key =
     select_where (\<lambda>x. se_RunID x = runID \<and> se_Kind x = kind \<and> se_IdempotencyKey x = key) (st_side_effects s)"

definition side_effect_by_id :: "store \<Rightarrow> int \<Rightarrow> side_effect_row option" where
  "side_effect_by_id s n = select_where (\<lambda>x. se_ID x = n) (st_side_effects s)"

section \<open>Recording and finishing an intent\<close>

definition new_intent :: "store \<Rightarrow> side_effect_row \<Rightarrow> time \<Rightarrow> side_effect_row" where
  "new_intent s q now =
     \<lparr>se_ID = next_id (map se_ID (st_side_effects s)), se_RunID = se_RunID q, se_Kind = se_Kind q,
      se_IdempotencyKey = se_IdempotencyKey q, se_IntentJSON = se_IntentJSON q,
      se_Status = ''intent'', se_ResultJSON = [], se_StdoutPath = [], se_StderrPath = [],
      se_Attempt = se_Attempt q, se_CreatedAt = now, se_ClaimedAt = 0, se_ObservedAt = 0\<rparr>"

text \<open>The insert with its unique key, and the comparison with a persisted intent on a conflict. On
  success the caller gets its own record back with the row ID.\<close>

definition record_intent :: "side_effect_row \<Rightarrow> time \<Rightarrow> store \<Rightarrow> side_effect_result \<times> store" where
  "record_intent q now s =
     (case side_effect_of s (se_RunID q) (se_Kind q) (se_IdempotencyKey q) of
        None \<Rightarrow>
          (if find_run s (se_RunID q) = None then (Inl (New ''FOREIGN KEY constraint failed''), s)
           else (Inr (q\<lparr>se_ID := se_ID (new_intent s q now), se_Status := ''intent''\<rparr>, True),
                 s\<lparr>st_side_effects := new_intent s q now # st_side_effects s\<rparr>))
      | Some x \<Rightarrow>
          (if se_IntentJSON x \<noteq> se_IntentJSON q
           then (Inl (New ''conflicting immutable side-effect intent''), s)
           else (Inr (x, False), s)))"

definition BeginSideEffect :: "side_effect_row \<Rightarrow> time \<Rightarrow> store \<Rightarrow> side_effect_result \<times> store" where
  "BeginSideEffect q now s =
     (if blank (se_IdempotencyKey q) \<or> blank (se_IntentJSON q)
      then (Inl (New ''side-effect intent and idempotency key are required''), s)
      else record_intent q now s)"

definition exec_one_side_effect ::
  "(side_effect_row \<Rightarrow> bool) \<Rightarrow> (side_effect_row \<Rightarrow> side_effect_row) \<Rightarrow> store \<Rightarrow> nat \<times> store" where
  "exec_one_side_effect P f s =
     (count_where P (st_side_effects s), s\<lparr>st_side_effects := update_where P f (st_side_effects s)\<rparr>)"

definition set_result :: "side_effect_row \<Rightarrow> side_effect_row \<Rightarrow> side_effect_row" where
  "set_result q x =
     x\<lparr>se_Status := se_Status q, se_ResultJSON := se_ResultJSON q, se_StdoutPath := se_StdoutPath q,
       se_StderrPath := se_StderrPath q, se_ObservedAt := se_ObservedAt q\<rparr>"

definition result_status :: "string \<Rightarrow> bool" where
  "result_status st \<longleftrightarrow> st = ''observed'' \<or> st = ''failed''"

definition FinishSideEffect :: "side_effect_row \<Rightarrow> store \<Rightarrow> go_error option \<times> store" where
  "FinishSideEffect q s =
     (if \<not> result_status (se_Status q)
      then (Some (New ''side-effect result status must be observed or failed''), s)
      else let (n, s') = exec_one_side_effect
        (\<lambda>x. se_ID x = se_ID q \<and> se_Status x \<in> {''intent'', ''in_flight'', ''failed''})
        (\<lambda>x. (set_result q x)\<lparr>se_ClaimedAt := 0\<rparr>) s
      in (if n \<noteq> 1 then Some no_rows else None, s'))"

section \<open>Starting a Linear issue\<close>

definition LinearIssueStartTodoRetryResult :: string where
  "LinearIssueStartTodoRetryResult =
     [CHR ''{'', CHR 0x22] @ ''category'' @ [CHR 0x22, CHR '':'', CHR 0x22] @ ''todo_after_mutation'' @
     [CHR 0x22, CHR ''}'']"

definition linear_start :: "side_effect_row \<Rightarrow> side_effect_row \<Rightarrow> bool" where
  "linear_start q x \<longleftrightarrow> se_ID x = se_ID q \<and> se_RunID x = se_RunID q \<and>
     se_Kind x = ''linear_move_to_started'' \<and> se_IdempotencyKey x = se_IdempotencyKey q"

definition retry_linear_start :: "side_effect_row \<Rightarrow> side_effect_row" where
  "retry_linear_start x =
     x\<lparr>se_Status := ''intent'', se_ResultJSON := [], se_ClaimedAt := 0, se_ObservedAt := 0, se_Attempt := 2\<rparr>"

definition RetryLinearIssueStartSideEffect :: "side_effect_row \<Rightarrow> store \<Rightarrow> side_effect_result \<times> store" where
  "RetryLinearIssueStartSideEffect q s =
     (if se_ID q < 1 \<or> se_Kind q \<noteq> ''linear_move_to_started'' \<or> se_Attempt q \<noteq> 1 \<or> se_Status q \<noteq> ''failed''
      then (Inl (New ''invalid Linear issue start retry authority''), s)
      else if se_ResultJSON q \<noteq> LinearIssueStartTodoRetryResult
      then (Inl (New ''Linear issue start retry result is not conclusive Todo evidence''), s)
      else let (n, s') = exec_one_side_effect
        (\<lambda>x. linear_start q x \<and> se_Status x = ''failed'' \<and> se_Attempt x = 1 \<and>
           se_ResultJSON x = LinearIssueStartTodoRetryResult) retry_linear_start s
      in (Inr (if n = 1 then (retry_linear_start q, True) else (q, False)), s'))"

definition FinishLinearIssueStartSideEffect ::
  "side_effect_row \<Rightarrow> string \<Rightarrow> int \<Rightarrow> store \<Rightarrow> go_error option \<times> store" where
  "FinishLinearIssueStartSideEffect q expectedStatus expectedAttempt s =
     (if se_ID q < 1 \<or> se_Kind q \<noteq> ''linear_move_to_started'' \<or> \<not> result_status (se_Status q) \<or>
         expectedStatus \<notin> {''intent'', ''in_flight'', ''failed''} \<or>
         (expectedAttempt \<noteq> 1 \<and> expectedAttempt \<noteq> 2) \<or> se_Attempt q \<noteq> expectedAttempt
      then (Some (New ''invalid Linear issue start finish authority''), s)
      else let (n, s') = exec_one_side_effect
        (\<lambda>x. linear_start q x \<and> se_Status x = expectedStatus \<and> se_Attempt x = expectedAttempt)
        (\<lambda>x. (set_result q x)\<lparr>se_ClaimedAt := 0\<rparr>) s
      in (if n \<noteq> 1 then Some no_rows else None, s'))"

definition zero_side_effect :: side_effect_row where
  "zero_side_effect =
     \<lparr>se_ID = 0, se_RunID = [], se_Kind = [], se_IdempotencyKey = [], se_IntentJSON = [],
      se_Status = [], se_ResultJSON = [], se_StdoutPath = [], se_StderrPath = [], se_Attempt = 0,
      se_CreatedAt = 0, se_ClaimedAt = 0, se_ObservedAt = 0\<rparr>"

definition ClaimLinearIssueStartSideEffect ::
  "side_effect_row \<Rightarrow> time \<Rightarrow> store \<Rightarrow> side_effect_result \<times> store" where
  "ClaimLinearIssueStartSideEffect q claimedAt s =
     (if se_ID q < 1 \<or> se_Kind q \<noteq> ''linear_move_to_started'' \<or> se_Status q \<noteq> ''intent'' \<or>
         (se_Attempt q \<noteq> 1 \<and> se_Attempt q \<noteq> 2) \<or> is_zero_time claimedAt
      then (Inl (New ''invalid Linear issue start claim authority''), s)
      else let (n, s') = exec_one_side_effect
        (\<lambda>x. linear_start q x \<and> se_Status x = ''intent'' \<and> se_Attempt x = se_Attempt q)
        (\<lambda>x. x\<lparr>se_Status := ''in_flight'', se_ClaimedAt := claimedAt\<rparr>) s
      in (Inr (if n = 1 then (q\<lparr>se_Status := ''in_flight'', se_ClaimedAt := claimedAt\<rparr>, True)
               else (case side_effect_by_id s' (se_ID q) of
                       None \<Rightarrow> (zero_side_effect, False) | Some x \<Rightarrow> (x, False))), s'))"

section \<open>Merging under a merge policy\<close>

definition policy_pending :: string where
  "policy_pending = CHR 0x22 # ''category'' @ [CHR 0x22, CHR '':'', CHR 0x22] @
     ''merge_policy_pending'' @ [CHR 0x22]"

definition policy_retry_claimed :: string where
  "policy_retry_claimed = [CHR ''{'', CHR 0x22] @ ''category'' @ [CHR 0x22, CHR '':'', CHR 0x22] @
     ''merge_policy_retry_claimed'' @ [CHR 0x22, CHR ''}'']"

text \<open>\<open>LIKE '%pattern%'\<close>: letters match in either case, an underscore matches any character.\<close>

fun like_prefix :: "string \<Rightarrow> string \<Rightarrow> bool" where
  "like_prefix [] _ \<longleftrightarrow> True"
| "like_prefix (p # ps) [] \<longleftrightarrow> False"
| "like_prefix (p # ps) (c # cs) \<longleftrightarrow> (p = CHR ''_'' \<or> lower_char p = lower_char c) \<and> like_prefix ps cs"

fun like_contains :: "string \<Rightarrow> string \<Rightarrow> bool" where
  "like_contains p [] \<longleftrightarrow> like_prefix p []"
| "like_contains p (c # cs) \<longleftrightarrow> like_prefix p (c # cs) \<or> like_contains p cs"

definition merge_effect :: "side_effect_row \<Rightarrow> string \<Rightarrow> string \<Rightarrow> side_effect_row \<Rightarrow> bool" where
  "merge_effect q runID key x \<longleftrightarrow> se_ID x = se_ID q \<and> se_RunID x = runID \<and>
     se_Kind x = ''squash_merge'' \<and> se_IdempotencyKey x = key"

definition store_pending :: "string \<Rightarrow> side_effect_row \<Rightarrow> string \<Rightarrow> store \<Rightarrow> nat \<times> store" where
  "store_pending runID q candidateHead =
     exec_one_side_effect
       (\<lambda>x. merge_effect q runID candidateHead x \<and> (se_Status x = ''intent'' \<or> se_Status x = ''failed''))
       (\<lambda>x. (set_result q x)\<lparr>se_Status := ''failed''\<rparr>)"

definition wait_for_mergeability :: "string \<Rightarrow> string \<Rightarrow> time \<Rightarrow> store \<Rightarrow> go_error option \<times> store" where
  "wait_for_mergeability runID candidateHead =
     compare_and_transition (New ''merge policy pending state compare lost'') runID
       (\<lambda>r. run_ID r = runID \<and> run_State r = StateMerging \<and> run_CandidateHead r = candidateHead)
       StateMerging StateAwaitingGitHubMergeability (set_error ''merge_policy_pending'')
       ''GitHub merge protection awaits human thread resolution'' ''merge_policy_pending''
       candidateHead"

definition policy_record_ok :: "string \<Rightarrow> side_effect_row \<Rightarrow> string \<Rightarrow> bool" where
  "policy_record_ok runID q candidateHead \<longleftrightarrow>
     runID \<noteq> [] \<and> candidateHead \<noteq> [] \<and> se_ID q \<ge> 1 \<and> se_RunID q = runID \<and>
     se_Kind q = ''squash_merge'' \<and> se_IdempotencyKey q = candidateHead \<and>
     se_Status q = ''failed'' \<and> sublist policy_pending (se_ResultJSON q)"

definition RecordMergePolicyPending ::
  "string \<Rightarrow> side_effect_row \<Rightarrow> string \<Rightarrow> time \<Rightarrow> store \<Rightarrow> go_error option \<times> store" where
  "RecordMergePolicyPending runID q candidateHead now s =
     (if \<not> policy_record_ok runID q candidateHead
      then (Some (New ''merge policy pending record is invalid''), s)
      else case find_run s runID of
        None \<Rightarrow> (Some no_rows, s)
      | Some run \<Rightarrow>
     (if run_State run \<noteq> StateMerging \<or> run_CandidateHead run \<noteq> candidateHead
      then (Some (New ''merge policy pending state authority changed''), s)
      else let (n, s1) = store_pending runID q candidateHead s
        in if n \<noteq> 1 then (Some (New ''merge policy pending side-effect compare lost''), s)
           else (case wait_for_mergeability runID candidateHead now s1 of
              (None, s2) \<Rightarrow> (None, s2) | (Some e, _) \<Rightarrow> (Some e, s))))"

definition RetryMergeSideEffect :: "side_effect_row \<Rightarrow> store \<Rightarrow> side_effect_result \<times> store" where
  "RetryMergeSideEffect q s =
     (if se_ID q < 1 \<or> se_RunID q = [] \<or> se_Kind q \<noteq> ''squash_merge'' \<or> se_IdempotencyKey q = [] \<or>
         se_Status q \<noteq> ''failed''
      then (Inl (New ''merge retry intent is invalid''), s)
      else let (n, s') = exec_one_side_effect
          (\<lambda>x. merge_effect q (se_RunID q) (se_IdempotencyKey q) x \<and> se_Status x = ''failed'' \<and>
             like_contains policy_pending (se_ResultJSON x))
          (\<lambda>x. x\<lparr>se_Status := ''intent'', se_Attempt := se_Attempt x + 1,
             se_ResultJSON := policy_retry_claimed, se_ObservedAt := 0\<rparr>) s
        in if n = 0 then (Inr (q, False), s')
           else (case side_effect_by_id s' (se_ID q) of
               None \<Rightarrow> (Inl no_rows, s)
             | Some x \<Rightarrow> (Inr (x\<lparr>se_ClaimedAt := se_ClaimedAt q\<rparr>, True), s')))"

section \<open>Replying to review comments\<close>

definition BeginReviewReplySideEffect ::
  "string \<Rightarrow> side_effect_row \<Rightarrow> time \<Rightarrow> store \<Rightarrow> side_effect_result \<times> store" where
  "BeginReviewReplySideEffect owner q now s =
     (if blank (se_IdempotencyKey q) \<or> blank (se_IntentJSON q)
      then (Inl (New ''side-effect intent and idempotency key are required''), s)
      else case find_run s (se_RunID q) of
        None \<Rightarrow> (Inl no_rows, s)
      | Some run \<Rightarrow>
          (if \<not> lease_held run owner now
           then (Inl (New ''review reply lease authority changed''), s)
           else (case record_intent q now s of
               (Inl e, s') \<Rightarrow> (Inl e, s')
             | (Inr (x, fresh), s') \<Rightarrow>
                 (Inr (if fresh then x else x\<lparr>se_ClaimedAt := se_ClaimedAt q\<rparr>, fresh), s'))))"

definition lease_count :: "string \<Rightarrow> string \<Rightarrow> time \<Rightarrow> store \<Rightarrow> nat" where
  "lease_count runID owner now s = count_where (\<lambda>r. run_ID r = runID \<and> lease_held r owner now) (st_runs s)"

definition FinishReviewReplySideEffect ::
  "string \<Rightarrow> side_effect_row \<Rightarrow> time \<Rightarrow> store \<Rightarrow> go_error option \<times> store" where
  "FinishReviewReplySideEffect owner q now s =
     (if \<not> result_status (se_Status q)
      then (Some (New ''side-effect result status must be observed or failed''), s)
      else if lease_count (se_RunID q) owner now s \<noteq> 1
      then (Some (New ''review reply lease compare update lost''), s)
      else let (n, s') = exec_one_side_effect
          (\<lambda>x. se_ID x = se_ID q \<and> se_RunID x = se_RunID q \<and> se_Status x \<in> {''intent'', ''failed''})
          (set_result q) s
        in if n \<noteq> 1 then (Some (New ''review reply side effect compare update lost''), s)
           else (None, s'))"

definition RetryReviewReplySideEffect ::
  "string \<Rightarrow> side_effect_row \<Rightarrow> int \<Rightarrow> time \<Rightarrow> store \<Rightarrow> side_effect_result \<times> store" where
  "RetryReviewReplySideEffect owner q maximum now s =
     (if maximum < 1 \<or> se_ID q < 1 \<or> se_Attempt q < 1 \<or> se_RunID q = []
      then (Inl (New ''review reply retry authority is incomplete''), s)
      else if lease_count (se_RunID q) owner now s \<noteq> 1
      then (Inl (New ''review reply lease compare update lost''), s)
      else let (n, s') = exec_one_side_effect
          (\<lambda>x. se_ID x = se_ID q \<and> se_RunID x = se_RunID q \<and> se_Kind x = ''reply_to_review_comment'' \<and>
             se_IdempotencyKey x = se_IdempotencyKey q \<and> se_Status x = ''failed'' \<and> se_Attempt x < maximum)
          (\<lambda>x. x\<lparr>se_Status := ''intent'', se_Attempt := se_Attempt x + 1, se_ResultJSON := [],
             se_ObservedAt := 0\<rparr>) s
        in if n \<noteq> 1 then (Inr (q, False), s)
           else (case side_effect_by_id s' (se_ID q) of
               None \<Rightarrow> (Inl no_rows, s)
             | Some x \<Rightarrow> (Inr (x\<lparr>se_ClaimedAt := se_ClaimedAt q\<rparr>, True), s')))"

section \<open>The table of intents\<close>

definition effect_key :: "side_effect_row \<Rightarrow> string \<times> string \<times> string" where
  "effect_key x = (se_RunID x, se_Kind x, se_IdempotencyKey x)"

definition effects_inv :: "side_effect_row list \<Rightarrow> bool" where
  "effects_inv rows \<longleftrightarrow> distinct (map se_ID rows) \<and> distinct (map effect_key rows)"

text \<open>What an update of an intent leaves alone.\<close>

definition same_intent :: "(side_effect_row \<Rightarrow> side_effect_row) \<Rightarrow> bool" where
  "same_intent f \<longleftrightarrow> (\<forall>x. se_ID (f x) = se_ID x \<and> se_RunID (f x) = se_RunID x \<and> se_Kind (f x) = se_Kind x \<and>
     se_IdempotencyKey (f x) = se_IdempotencyKey x \<and> se_IntentJSON (f x) = se_IntentJSON x)"

lemma same_intentD:
  "same_intent f \<Longrightarrow> se_ID (f x) = se_ID x" "same_intent f \<Longrightarrow> se_Kind (f x) = se_Kind x"
  "same_intent f \<Longrightarrow> effect_key (f x) = effect_key x"
  by (simp_all add: same_intent_def effect_key_def)

lemma same_intent_simps [simp]:
  "same_intent (set_result q)" "same_intent (\<lambda>x. (set_result q x)\<lparr>se_ClaimedAt := 0\<rparr>)"
  "same_intent (\<lambda>x. (set_result q x)\<lparr>se_Status := st\<rparr>)" "same_intent retry_linear_start"
  "same_intent (\<lambda>x. x\<lparr>se_Status := st, se_ClaimedAt := t\<rparr>)"
  "same_intent (\<lambda>x. x\<lparr>se_Status := st, se_Attempt := g x, se_ResultJSON := r, se_ObservedAt := t\<rparr>)"
  by (simp_all add: same_intent_def set_result_def retry_linear_start_def)

lemma effects_inv_update: "effects_inv rows \<Longrightarrow> same_intent f \<Longrightarrow> effects_inv (update_where P f rows)"
  by (simp add: effects_inv_def map_update_where same_intentD)

lemma find_map_same: "(\<And>x. P (g x) = P x) \<Longrightarrow> find P (map g xs) = map_option g (find P xs)"
  by (induction xs) auto

lemma by_id_update:
  "same_intent f \<Longrightarrow> side_effect_by_id (s\<lparr>st_side_effects := update_where P f (st_side_effects s)\<rparr>) n =
     map_option (\<lambda>x. if P x then f x else x) (side_effect_by_id s n)"
  unfolding side_effect_by_id_def select_where_def update_where_def
  by (simp add: find_map_same same_intentD)

lemma by_id_Some: "side_effect_by_id s n = Some x \<Longrightarrow> x \<in> set (st_side_effects s) \<and> se_ID x = n"
  unfolding side_effect_by_id_def by (drule select_where_Some) simp

lemma by_id_row:
  "effects_inv (st_side_effects s) \<Longrightarrow> x \<in> set (st_side_effects s) \<Longrightarrow> side_effect_by_id s (se_ID x) = Some x"
  unfolding side_effect_by_id_def effects_inv_def by (blast intro: select_unique)

lemma count_by_id:
  assumes "effects_inv (st_side_effects s)" and "\<And>x. P x \<Longrightarrow> se_ID x = n"
  shows "count_where P (st_side_effects s) =
    (case side_effect_by_id s n of None \<Rightarrow> 0 | Some x \<Rightarrow> if P x then 1 else 0)"
proof -
  have le: "count_where P (st_side_effects s) \<le> 1"
    using assms by (intro count_where_unique [of se_ID _ P n]) (auto simp: effects_inv_def)
  show ?thesis
  proof (cases "side_effect_by_id s n")
    case None
    then have "\<forall>x \<in> set (st_side_effects s). \<not> P x"
      using assms(2) by (auto simp: side_effect_by_id_def select_where_None)
    with None show ?thesis by simp
  next
    case (Some x)
    show ?thesis
    proof (cases "P x")
      case True
      with by_id_Some [OF Some] have "0 < count_where P (st_side_effects s)"
        unfolding count_where_pos by blast
      with le True Some show ?thesis by simp
    next
      case False
      have "\<not> P y" if "y \<in> set (st_side_effects s)" for y
      proof
        assume "P y"
        with assms(2) by_id_row [OF assms(1) that] Some have "y = x" by simp
        with \<open>P y\<close> False show False by simp
      qed
      with False Some show ?thesis by simp
    qed
  qed
qed

lemma count_row:
  assumes "effects_inv (st_side_effects s)" and "side_effect_by_id s n = Some x"
    and "\<And>x. P x \<Longrightarrow> se_ID x = n" and one: "count_where P (st_side_effects s) = 1"
  shows "P x"
proof (rule ccontr)
  assume no: "\<not> P x"
  have "count_where P (st_side_effects s) =
      (case side_effect_by_id s n of None \<Rightarrow> 0 | Some x \<Rightarrow> if P x then 1 else 0)"
    by (rule count_by_id) (use assms in auto)
  then have "count_where P (st_side_effects s) = 0"
    by (simp only: assms(2) option.case no if_False)
  with one show False by simp
qed

text \<open>A new intent gets a new ID and a new key.\<close>

lemma record_intent_cases:
  assumes "record_intent q now s = (res, s')"
  shows "s' = s \<or> s' = s\<lparr>st_side_effects := new_intent s q now # st_side_effects s\<rparr> \<and>
     side_effect_of s (se_RunID q) (se_Kind q) (se_IdempotencyKey q) = None"
  using assms by (auto simp: record_intent_def split: option.splits if_splits)

lemma new_intent_fresh:
  "x \<in> set (st_side_effects s) \<Longrightarrow> se_ID x < se_ID (new_intent s q now)"
  by (simp add: new_intent_def next_id_def next_number_greater)

lemma record_intent_inv:
  assumes inv: "effects_inv (st_side_effects s)" and res: "record_intent q now s = (res, s')"
  shows "effects_inv (st_side_effects s')"
  using record_intent_cases [OF res]
proof (elim disjE conjE)
  assume s': "s' = s\<lparr>st_side_effects := new_intent s q now # st_side_effects s\<rparr>"
    and none: "side_effect_of s (se_RunID q) (se_Kind q) (se_IdempotencyKey q) = None"
  have "effect_key (new_intent s q now) \<notin> effect_key ` set (st_side_effects s)"
    using none by (auto simp: side_effect_of_def select_where_None effect_key_def new_intent_def)
  moreover have "se_ID (new_intent s q now) \<notin> se_ID ` set (st_side_effects s)"
    using new_intent_fresh [of _ s q now] by fastforce
  ultimately show ?thesis using inv by (simp add: s' effects_inv_def)
qed (simp add: inv)

lemma record_intent_by_id:
  assumes res: "record_intent q now s = (res, s')" and "side_effect_by_id s n = Some x"
  shows "side_effect_by_id s' n = Some x"
  using record_intent_cases [OF res] assms(2) by_id_Some [OF assms(2)] new_intent_fresh [of x s q now]
  by (auto simp: side_effect_by_id_def select_where_def)

section \<open>Sequences of operations\<close>

text \<open>The operations on intents as commands, so that their interleavings are lists. The result says
  whether the command claimed the start of a Linear issue.\<close>

datatype effect_op =
    OpBegin side_effect_row time
  | OpFinish side_effect_row
  | OpRetryStart side_effect_row
  | OpFinishStart side_effect_row string int
  | OpClaimStart side_effect_row time
  | OpPolicyPending string side_effect_row string time
  | OpRetryMerge side_effect_row
  | OpBeginReply string side_effect_row time
  | OpFinishReply string side_effect_row time
  | OpRetryReply string side_effect_row int time

fun run_op :: "effect_op \<Rightarrow> store \<Rightarrow> store" where
  "run_op (OpBegin q now) s = snd (BeginSideEffect q now s)"
| "run_op (OpFinish q) s = snd (FinishSideEffect q s)"
| "run_op (OpRetryStart q) s = snd (RetryLinearIssueStartSideEffect q s)"
| "run_op (OpFinishStart q st n) s = snd (FinishLinearIssueStartSideEffect q st n s)"
| "run_op (OpClaimStart q t) s = snd (ClaimLinearIssueStartSideEffect q t s)"
| "run_op (OpPolicyPending i q h now) s = snd (RecordMergePolicyPending i q h now s)"
| "run_op (OpRetryMerge q) s = snd (RetryMergeSideEffect q s)"
| "run_op (OpBeginReply w q now) s = snd (BeginReviewReplySideEffect w q now s)"
| "run_op (OpFinishReply w q now) s = snd (FinishReviewReplySideEffect w q now s)"
| "run_op (OpRetryReply w q m now) s = snd (RetryReviewReplySideEffect w q m now s)"

text \<open>A caller may write to Linear only when its claim returns true.\<close>

definition claims_start :: "int \<Rightarrow> effect_op \<Rightarrow> store \<Rightarrow> bool" where
  "claims_start n cmd s \<longleftrightarrow>
     (case cmd of
        OpClaimStart q t \<Rightarrow> se_ID q = n \<and>
          (case fst (ClaimLinearIssueStartSideEffect q t s) of Inr (_, claimed) \<Rightarrow> claimed | Inl _ \<Rightarrow> False)
      | _ \<Rightarrow> False)"

fun start_claims :: "int \<Rightarrow> effect_op list \<Rightarrow> store \<Rightarrow> nat" where
  "start_claims n [] s = 0"
| "start_claims n (cmd # cmds) s =
     (if claims_start n cmd s then 1 else 0) + start_claims n cmds (run_op cmd s)"

section \<open>A Linear issue is started at most twice per intent\<close>

definition is_start :: "side_effect_row \<Rightarrow> bool" where
  "is_start x \<longleftrightarrow> se_Kind x = ''linear_move_to_started'' \<and> (se_Attempt x = 1 \<or> se_Attempt x = 2)"

definition start_budget :: "side_effect_row \<Rightarrow> nat" where
  "start_budget x = (if se_Attempt x = 1 then 1 else 0) + (if se_Status x = ''intent'' then 1 else 0)"

definition start_step :: "int \<Rightarrow> side_effect_row \<Rightarrow> nat \<Rightarrow> store \<Rightarrow> bool" where
  "start_step n x c s' \<longleftrightarrow> effects_inv (st_side_effects s') \<and>
     (\<exists>x'. side_effect_by_id s' n = Some x' \<and> is_start x' \<and> start_budget x' + c \<le> start_budget x)"

lemma start_step_same:
  "effects_inv (st_side_effects s) \<Longrightarrow> side_effect_by_id s n = Some x \<Longrightarrow> is_start x \<Longrightarrow> start_step n x 0 s"
  by (simp add: start_step_def)

lemma start_step_cong:
  "st_side_effects t = st_side_effects s \<Longrightarrow> start_step n x c t = start_step n x c s"
  by (simp add: start_step_def side_effect_by_id_def)

lemma start_step_update:
  assumes "effects_inv (st_side_effects s)" and "side_effect_by_id s n = Some x" and "is_start x"
    and "same_intent f" and "P x \<Longrightarrow> is_start (f x) \<and> start_budget (f x) + c \<le> start_budget x"
    and "\<not> P x \<Longrightarrow> c = 0"
  shows "start_step n x c (s\<lparr>st_side_effects := update_where P f (st_side_effects s)\<rparr>)"
  using assms unfolding start_step_def by (cases "P x") (simp_all add: effects_inv_update by_id_update)

lemma start_step_record:
  assumes "effects_inv (st_side_effects s)" and "side_effect_by_id s n = Some x" and "is_start x"
  shows "start_step n x 0 (snd (record_intent q now s))"
  using record_intent_inv [OF assms(1)] record_intent_by_id [OF _ assms(2)] assms(3)
  by (cases "record_intent q now s") (simp add: start_step_def)

lemma exec_one_store: "exec_one_side_effect P f s =
   (count_where P (st_side_effects s), s\<lparr>st_side_effects := update_where P f (st_side_effects s)\<rparr>)"
  by (simp add: exec_one_side_effect_def)

lemma compare_and_transition_effects [simp]:
  "st_side_effects (snd (compare_and_transition lost i P a b f r e h now s)) = st_side_effects s"
  by (simp add: compare_and_transition_def Let_def)

text \<open>Finishing never gives an intent back, whatever the kind.\<close>

lemma finished_budget:
  "is_start x \<Longrightarrow> result_status (se_Status q) \<Longrightarrow>
     is_start (set_result q x) \<and> start_budget (set_result q x) \<le> start_budget x"
  by (auto simp: is_start_def start_budget_def set_result_def result_status_def)

lemma budget_cleared [simp]:
  "is_start (x\<lparr>se_ClaimedAt := t\<rparr>) = is_start x" "start_budget (x\<lparr>se_ClaimedAt := t\<rparr>) = start_budget x"
  by (simp_all add: is_start_def start_budget_def)

lemma start_step_finish:
  assumes "effects_inv (st_side_effects s)" "side_effect_by_id s n = Some x" "is_start x"
  shows "start_step n x 0 (run_op (OpFinish q) s)" "start_step n x 0 (run_op (OpFinishStart q st k) s)"
    "start_step n x 0 (run_op (OpFinishReply w q now) s)"
  using start_step_same [OF assms]
  by (auto simp: FinishSideEffect_def FinishLinearIssueStartSideEffect_def FinishReviewReplySideEffect_def
      exec_one_store Let_def finished_budget [OF assms(3)] intro!: start_step_update [OF assms])

lemma start_step_retry:
  assumes "effects_inv (st_side_effects s)" "side_effect_by_id s n = Some x" "is_start x"
  shows "start_step n x 0 (run_op (OpRetryStart q) s)"
  using start_step_same [OF assms]
  by (auto simp: RetryLinearIssueStartSideEffect_def exec_one_store Let_def retry_linear_start_def
      is_start_def start_budget_def linear_start_def intro!: start_step_update [OF assms])

lemma start_step_other_kinds:
  assumes "effects_inv (st_side_effects s)" "side_effect_by_id s n = Some x" "is_start x"
  shows "start_step n x 0 (run_op (OpRetryMerge q) s)"
    "start_step n x 0 (run_op (OpRetryReply w q m now) s)"
  using start_step_same [OF assms] assms(3)
  by (auto simp: RetryMergeSideEffect_def RetryReviewReplySideEffect_def exec_one_store Let_def
      merge_effect_def is_start_def intro!: start_step_update [OF assms] split: option.split)

lemma start_step_pending:
  assumes "effects_inv (st_side_effects s)" "side_effect_by_id s n = Some x" "is_start x"
  shows "start_step n x 0 (run_op (OpPolicyPending i q h now) s)"
proof -
  have u: "start_step n x 0 (snd (store_pending i q h s))"
    using assms(3) unfolding store_pending_def exec_one_store snd_conv
    by (intro start_step_update [OF assms]) (auto simp: merge_effect_def is_start_def)
  have w: "st_side_effects (snd (wait_for_mergeability i h now t)) = st_side_effects t" for t
    by (simp add: wait_for_mergeability_def)
  obtain k s1 where sp: "store_pending i q h s = (k, s1)" by fastforce
  obtain e s2 where wf: "wait_for_mergeability i h now s1 = (e, s2)" by fastforce
  have "snd (RecordMergePolicyPending i q h now s) = s \<or> snd (RecordMergePolicyPending i q h now s) = s2"
    by (simp add: RecordMergePolicyPending_def sp wf split: option.split)
  then have "snd (RecordMergePolicyPending i q h now s) = s \<or> st_side_effects (snd (RecordMergePolicyPending i q h now s))
      = st_side_effects (snd (store_pending i q h s))"
    using w [of s1] by (auto simp: sp wf)
  then show ?thesis
  proof
    assume "snd (RecordMergePolicyPending i q h now s) = s"
    then show ?thesis using start_step_same [OF assms] by simp
  next
    assume "st_side_effects (snd (RecordMergePolicyPending i q h now s)) =
      st_side_effects (snd (store_pending i q h s))"
    from start_step_cong [OF this] u show ?thesis by simp
  qed
qed

lemma start_step_begin:
  assumes "effects_inv (st_side_effects s)" "side_effect_by_id s n = Some x" "is_start x"
  shows "start_step n x 0 (run_op (OpBegin q now) s)" "start_step n x 0 (run_op (OpBeginReply w q now) s)"
proof -
  note r = start_step_record [OF assms, of q now] start_step_same [OF assms]
  show "start_step n x 0 (run_op (OpBegin q now) s)" using r by (simp add: BeginSideEffect_def)
  show "start_step n x 0 (run_op (OpBeginReply w q now) s)"
    using r by (cases "record_intent q now s")
      (auto simp: BeginReviewReplySideEffect_def split: option.split sum.split)
qed

lemma start_step_claim:
  assumes "effects_inv (st_side_effects s)" "side_effect_by_id s n = Some x" "is_start x"
  shows "start_step n x (if claims_start n (OpClaimStart q t) s then 1 else 0) (run_op (OpClaimStart q t) s)"
proof -
  let ?P = "\<lambda>x. linear_start q x \<and> se_Status x = ''intent'' \<and> se_Attempt x = se_Attempt q"
  let ?t = "s\<lparr>st_side_effects := update_where ?P
    (\<lambda>x. x\<lparr>se_Status := ''in_flight'', se_ClaimedAt := t\<rparr>) (st_side_effects s)\<rparr>"
  have st: "snd (ClaimLinearIssueStartSideEffect q t s) = s \<or> snd (ClaimLinearIssueStartSideEffect q t s) = ?t"
    by (simp add: ClaimLinearIssueStartSideEffect_def exec_one_store Let_def)
  show ?thesis
  proof (cases "claims_start n (OpClaimStart q t) s")
    case True
    have ok: "\<not> (se_ID q < 1 \<or> se_Kind q \<noteq> ''linear_move_to_started'' \<or> se_Status q \<noteq> ''intent'' \<or>
         (se_Attempt q \<noteq> 1 \<and> se_Attempt q \<noteq> 2) \<or> is_zero_time t)"
      by (rule ccontr) (use True in \<open>simp only: claims_start_def ClaimLinearIssueStartSideEffect_def
        effect_op.case not_not if_True fst_conv sum.case simp_thms\<close>)
    then have t: "snd (ClaimLinearIssueStartSideEffect q t s) = ?t"
      unfolding ClaimLinearIssueStartSideEffect_def by (simp only: if_False exec_one_store Let_def prod.case snd_conv)
    from ok True have id: "se_ID q = n" and one: "count_where ?P (st_side_effects s) = 1"
      unfolding claims_start_def ClaimLinearIssueStartSideEffect_def
      by (simp_all only: if_False effect_op.case exec_one_store Let_def prod.case fst_conv sum.case simp_thms)
        (simp split: if_splits option.splits)
    have "?P x" by (rule count_row [OF assms(1,2) _ one]) (simp add: linear_start_def id)
    then have "start_step n x 1 ?t"
      using assms(3) by (intro start_step_update [OF assms]) (simp_all add: is_start_def start_budget_def)
    with True t show ?thesis by simp
  next
    case False
    have "start_step n x 0 ?t"
      using assms(3) by (intro start_step_update [OF assms]) (simp_all add: is_start_def start_budget_def)
    with False st start_step_same [OF assms] show ?thesis by auto
  qed
qed

lemma start_step_op:
  assumes "effects_inv (st_side_effects s)" "side_effect_by_id s n = Some x" "is_start x"
  shows "start_step n x (if claims_start n cmd s then 1 else 0) (run_op cmd s)"
proof (cases cmd)
  case (OpClaimStart q t)
  then show ?thesis using start_step_claim [OF assms] by simp
qed (simp_all only: claims_start_def effect_op.case if_False start_step_begin [OF assms]
    start_step_finish [OF assms] start_step_retry [OF assms] start_step_other_kinds [OF assms]
    start_step_pending [OF assms])

lemma start_claims_budget:
  "effects_inv (st_side_effects s) \<Longrightarrow> side_effect_by_id s n = Some x \<Longrightarrow> is_start x \<Longrightarrow>
     start_claims n cmds s \<le> start_budget x"
proof (induction cmds arbitrary: s x)
  case (Cons cmd cmds)
  from start_step_op [OF Cons.prems, of cmd] obtain x' where
    "effects_inv (st_side_effects (run_op cmd s))" "side_effect_by_id (run_op cmd s) n = Some x'" "is_start x'"
    and le: "start_budget x' + (if claims_start n cmd s then 1 else 0) \<le> start_budget x"
    unfolding start_step_def by blast
  with Cons.IH [of "run_op cmd s" x'] show ?case by simp
qed simp

section \<open>Properties\<close>


definition sample_intent :: side_effect_row where
  "sample_intent =
     zero_side_effect\<lparr>se_ID := 1, se_RunID := ''r'', se_Kind := ''linear_move_to_started'',
       se_IdempotencyKey := ''k'', se_IntentJSON := ''i'', se_Status := ''intent'', se_Attempt := 1\<rparr>"

definition sample_effects :: store where
  "sample_effects = empty_store\<lparr>st_side_effects := [sample_intent]\<rparr>"

text \<open>Two workers race for the intent, the attempt fails with the evidence for a retry, and they race
  again: two claims in all.\<close>

definition sample_race :: "effect_op list" where
  "sample_race =
     [OpClaimStart sample_intent 1, OpClaimStart sample_intent 2,
      OpFinish (sample_intent\<lparr>se_Status := ''failed'', se_ResultJSON := LinearIssueStartTodoRetryResult\<rparr>),
      OpRetryStart (sample_intent\<lparr>se_Status := ''failed'', se_ResultJSON := LinearIssueStartTodoRetryResult\<rparr>),
      OpClaimStart (sample_intent\<lparr>se_Attempt := 2\<rparr>) 3, OpClaimStart (sample_intent\<lparr>se_Attempt := 2\<rparr>) 4]"

lemma sample_race_claims: "start_claims 1 sample_race sample_effects = 2"
  by code_simp


text \<open>A recorded policy rejection matches the LIKE pattern of the retry.\<close>

lemma like_prefix_append: "like_prefix p (p @ s)"
  by (induction p) simp_all

lemma like_contains_prefix: "like_prefix p s \<Longrightarrow> like_contains p s"
  by (cases s) simp_all

lemma like_contains_append: "like_prefix p s \<Longrightarrow> like_contains p (a @ s)"
  by (induction a) (simp_all add: like_contains_prefix)

lemma sublist_like_contains: "sublist p s \<Longrightarrow> like_contains p s"
  using like_contains_append like_prefix_append by (auto simp: sublist_def)

lemma claimed_not_pending: "\<not> like_contains policy_pending policy_retry_claimed"
  by code_simp


text \<open>The retry of a merge, by the row it addresses.\<close>

definition merge_retry :: "side_effect_row \<Rightarrow> side_effect_row" where
  "merge_retry x = x\<lparr>se_Status := ''intent'', se_Attempt := se_Attempt x + 1,
     se_ResultJSON := policy_retry_claimed, se_ObservedAt := 0\<rparr>"

definition merge_retry_due :: "side_effect_row \<Rightarrow> side_effect_row \<Rightarrow> bool" where
  "merge_retry_due q x \<longleftrightarrow> merge_effect q (se_RunID q) (se_IdempotencyKey q) x \<and> se_Status x = ''failed'' \<and>
     like_contains policy_pending (se_ResultJSON x)"

definition merge_retry_ok :: "side_effect_row \<Rightarrow> bool" where
  "merge_retry_ok q \<longleftrightarrow> se_ID q \<ge> 1 \<and> se_RunID q \<noteq> [] \<and> se_Kind q = ''squash_merge'' \<and>
     se_IdempotencyKey q \<noteq> [] \<and> se_Status q = ''failed''"

lemma same_intent_merge_retry [simp]: "same_intent merge_retry"
  by (simp add: same_intent_def merge_retry_def)

lemma RetryMerge_row:
  assumes inv: "effects_inv (st_side_effects s)" and row: "side_effect_by_id s (se_ID q) = Some x"
    and ok: "merge_retry_ok q"
  shows "RetryMergeSideEffect q s =
    (if merge_retry_due q x
     then (Inr ((merge_retry x)\<lparr>se_ClaimedAt := se_ClaimedAt q\<rparr>, True),
           s\<lparr>st_side_effects := update_where (merge_retry_due q) merge_retry (st_side_effects s)\<rparr>)
     else (Inr (q, False),
           s\<lparr>st_side_effects := update_where (merge_retry_due q) merge_retry (st_side_effects s)\<rparr>))"
proof -
  let ?t = "s\<lparr>st_side_effects := update_where (merge_retry_due q) merge_retry (st_side_effects s)\<rparr>"
  have n: "count_where (merge_retry_due q) (st_side_effects s) = (if merge_retry_due q x then 1 else 0)"
    using count_by_id [OF inv, of "merge_retry_due q" "se_ID q"] row
    by (simp add: merge_retry_due_def merge_effect_def)
  have "RetryMergeSideEffect q s =
     (if count_where (merge_retry_due q) (st_side_effects s) = 0 then (Inr (q, False), ?t)
      else (case side_effect_by_id ?t (se_ID q) of None \<Rightarrow> (Inl no_rows, s)
        | Some x \<Rightarrow> (Inr (x\<lparr>se_ClaimedAt := se_ClaimedAt q\<rparr>, True), ?t)))"
    using ok unfolding RetryMergeSideEffect_def merge_retry_ok_def merge_retry_due_def [abs_def]
      merge_retry_def [abs_def] exec_one_store Let_def
    by (simp only: not_less [symmetric] refl not_True_eq_False if_False prod.case simp_thms)
  then show ?thesis by (simp only: n) (simp add: by_id_update row)
qed

lemma RetryMerge_bad: "\<not> merge_retry_ok q \<Longrightarrow> \<exists>e. RetryMergeSideEffect q s = (Inl e, s)"
  by (auto simp: RetryMergeSideEffect_def merge_retry_ok_def)

lemma RetryMerge_claimed_once:
  assumes inv: "effects_inv (st_side_effects s)" and row: "side_effect_by_id s n = Some x"
    and cleared: "\<not> like_contains policy_pending (se_ResultJSON x)" and "se_ID y = n"
  shows "fst (RetryMergeSideEffect y s) \<noteq> Inr (z, True)"
proof (cases "merge_retry_ok y")
  case True
  then show ?thesis
    using RetryMerge_row [OF inv _ True] row assms(3,4) by (simp add: merge_retry_due_def)
next
  case False
  then show ?thesis using RetryMerge_bad [of y s] by auto
qed

text \<open>What a recorded rejection leaves behind.\<close>

definition pending_row :: "side_effect_row \<Rightarrow> side_effect_row \<Rightarrow> side_effect_row" where
  "pending_row q x = (set_result q x)\<lparr>se_Status := ''failed''\<rparr>"

lemma wait_for_mergeability_None:
  assumes "wait_for_mergeability i h now t = (None, u)"
  shows "st_side_effects u = st_side_effects t \<and>
    (\<exists>r \<in> set (st_runs u). run_ID r = i \<and> run_State r = StateAwaitingGitHubMergeability)"
proof -
  let ?P = "\<lambda>r. run_ID r = i \<and> run_State r = StateMerging \<and> run_CandidateHead r = h"
  from assms have u: "u = append_transition i (next_sequence t i) StateMerging
      StateAwaitingGitHubMergeability ''GitHub merge protection awaits human thread resolution''
      ''merge_policy_pending'' h now
      (update_run_state ?P StateAwaitingGitHubMergeability (set_error ''merge_policy_pending'') now t)"
    and one: "count_where ?P (st_runs t) = 1"
    unfolding wait_for_mergeability_def compare_and_transition_None by blast+
  from one have "\<exists>r \<in> set (st_runs t). ?P r" by (subst count_where_pos [symmetric]) (simp only: zero_less_one)
  then obtain r where r: "r \<in> set (st_runs t)" "?P r" by blast
  let ?r = "(set_error ''merge_policy_pending'' r)\<lparr>run_State := StateAwaitingGitHubMergeability, run_UpdatedAt := now\<rparr>"
  have "?r \<in> set (st_runs u)" using r by (auto simp: u set_update_where image_iff intro!: bexI [of _ r])
  moreover have "run_ID ?r = i" using r(2) by (simp add: set_error_def)
  ultimately show ?thesis by (auto simp: u intro!: bexI [of _ ?r])
qed

lemma RecordMergePolicyPending_None:
  assumes inv: "effects_inv (st_side_effects s)"
    and rec: "RecordMergePolicyPending runID q head now s = (None, u)"
    and row: "side_effect_by_id s (se_ID q) = Some x"
  shows "merge_retry_ok q \<and> effects_inv (st_side_effects u) \<and>
    side_effect_by_id u (se_ID q) = Some (pending_row q x) \<and> merge_retry_due q (pending_row q x) \<and>
    (\<exists>r \<in> set (st_runs u). run_ID r = runID \<and> run_State r = StateAwaitingGitHubMergeability)"
proof -
  let ?P = "\<lambda>x. merge_effect q runID head x \<and> (se_Status x = ''intent'' \<or> se_Status x = ''failed'')"
  let ?t = "s\<lparr>st_side_effects := update_where ?P (pending_row q) (st_side_effects s)\<rparr>"
  have sp: "store_pending runID q head s = (count_where ?P (st_side_effects s), ?t)"
    by (simp add: store_pending_def exec_one_store pending_row_def [abs_def])
  obtain e v where wf: "wait_for_mergeability runID head now ?t = (e, v)" by fastforce
  have ok: "policy_record_ok runID q head"
    by (rule ccontr) (use rec in \<open>simp add: RecordMergePolicyPending_def\<close>)
  obtain run where run: "find_run s runID = Some run"
    by (cases "find_run s runID") (use rec ok in \<open>simp_all add: RecordMergePolicyPending_def\<close>)
  have st: "\<not> (run_State run \<noteq> StateMerging \<or> run_CandidateHead run \<noteq> head)"
    by (rule ccontr) (use rec ok run in \<open>simp add: RecordMergePolicyPending_def\<close>)
  have one: "count_where ?P (st_side_effects s) = 1"
  proof (rule ccontr)
    assume no: "count_where ?P (st_side_effects s) \<noteq> 1"
    show False using rec
      by (simp only: RecordMergePolicyPending_def ok run st sp no Let_def option.case prod.case
          if_True if_False not_True_eq_False simp_thms prod.inject option.distinct)
  qed
  have "e = None \<and> v = u"
    using rec by (cases e) (simp_all only: RecordMergePolicyPending_def ok run st sp one Let_def wf
      option.case prod.case if_True if_False not_True_eq_False simp_thms prod.inject option.distinct)
  then have e: "e = None" and u: "v = u" by blast+
  note auth = ok [unfolded policy_record_ok_def]
  have P: "?P x" by (rule count_row [OF inv row _ one]) (simp add: merge_effect_def)
  have same: "same_intent (pending_row q)" by (simp add: pending_row_def [abs_def])
  note w = wait_for_mergeability_None [OF wf [unfolded e u]]
  have "side_effect_by_id ?t (se_ID q) = Some (pending_row q x)"
    by (simp only: by_id_update [OF same] row option.map P if_True simp_thms)
  then have "side_effect_by_id u (se_ID q) = Some (pending_row q x)"
    using w by (simp add: side_effect_by_id_def)
  moreover have "effects_inv (st_side_effects u)" using w effects_inv_update [OF inv same] by simp
  moreover have "merge_retry_due q (pending_row q x)"
    using P auth sublist_like_contains by (simp add: merge_retry_due_def pending_row_def set_result_def merge_effect_def)
  ultimately show ?thesis using w auth by (simp add: merge_retry_ok_def)
qed

text \<open>C29: A merge that a merge policy turned away is retried exactly once per rejection: after the
  rejection is recorded (and the run has left the merging state for its read-only wait), the
  first retry claims the intent with the next attempt number, and no further retry of the same
  intent claims it until a new rejection is recorded.\<close>

theorem merge_retry_once:
  assumes inv: "effects_inv (st_side_effects s)"
    and rec: "RecordMergePolicyPending runID q head now s = (None, s1)"
    and row: "side_effect_by_id s (se_ID q) = Some x"
  shows "\<exists>x1 s2. RetryMergeSideEffect q s1 = (Inr (x1, True), s2) \<and> se_Attempt x1 = se_Attempt x + 1 \<and>
    (\<forall>y z. se_ID y = se_ID q \<longrightarrow> fst (RetryMergeSideEffect y s2) \<noteq> Inr (z, True)) \<and>
    (\<exists>r \<in> set (st_runs s1). run_ID r = runID \<and> run_State r = StateAwaitingGitHubMergeability)"
proof -
  note p = RecordMergePolicyPending_None [OF inv rec row]
  let ?x = "merge_retry (pending_row q x)"
  let ?s2 = "s1\<lparr>st_side_effects := update_where (merge_retry_due q) merge_retry (st_side_effects s1)\<rparr>"
  have first: "RetryMergeSideEffect q s1 = (Inr (?x\<lparr>se_ClaimedAt := se_ClaimedAt q\<rparr>, True), ?s2)"
    using p RetryMerge_row [of s1 q "pending_row q x"] by simp
  have "side_effect_by_id ?s2 (se_ID q) = Some ?x" using p by (simp add: by_id_update)
  moreover have "effects_inv (st_side_effects ?s2)" using p by (simp add: effects_inv_update)
  moreover have "\<not> like_contains policy_pending (se_ResultJSON ?x)"
    by (simp add: merge_retry_def claimed_not_pending)
  ultimately have "fst (RetryMergeSideEffect y ?s2) \<noteq> Inr (z, True)" if "se_ID y = se_ID q" for y z
    using RetryMerge_claimed_once [of ?s2 "se_ID q" ?x y z] that by blast
  moreover have "se_Attempt (?x\<lparr>se_ClaimedAt := se_ClaimedAt q\<rparr>) = se_Attempt x + 1"
    by (simp add: merge_retry_def pending_row_def set_result_def)
  ultimately show ?thesis using first p by blast
qed


definition sample_merge :: side_effect_row where
  "sample_merge =
     zero_side_effect\<lparr>se_ID := 1, se_RunID := ''r1'', se_Kind := ''squash_merge'',
       se_IdempotencyKey := ''h'', se_IntentJSON := ''i'', se_Status := ''failed'',
       se_ResultJSON := [CHR ''{''] @ policy_pending @ [CHR ''}''], se_Attempt := 1\<rparr>"

definition sample_merging :: store where
  "sample_merging = sample_store\<lparr>
     st_runs := [(sample_run)\<lparr>run_ID := ''r1'', run_State := StateMerging, run_CandidateHead := ''h''\<rparr>],
     st_side_effects := [sample_merge\<lparr>se_Status := ''intent'', se_ResultJSON := []\<rparr>]\<rparr>"

lemma sample_merging_recorded:
  "fst (RecordMergePolicyPending ''r1'' sample_merge ''h'' 5 sample_merging) = None"
  by code_simp

theorem merge_retry_once_witness:
  "\<exists>x1. fst (RetryMergeSideEffect sample_merge
     (snd (RecordMergePolicyPending ''r1'' sample_merge ''h'' 5 sample_merging))) = Inr (x1, True)"
proof -
  let ?r = "RecordMergePolicyPending ''r1'' sample_merge ''h'' 5 sample_merging"
  have "?r = (None, snd ?r)" using sample_merging_recorded by (metis prod.collapse)
  moreover have "effects_inv (st_side_effects sample_merging)"
    by (simp add: sample_merging_def effects_inv_def)
  moreover have "side_effect_by_id sample_merging (se_ID sample_merge) =
      Some (sample_merge\<lparr>se_Status := ''intent'', se_ResultJSON := []\<rparr>)"
    by (simp add: sample_merging_def side_effect_by_id_def select_where_def sample_merge_def)
  ultimately show ?thesis using merge_retry_once by (metis fst_conv)
qed

end
