(* ===== verification/Merge_Gate.thy ===== *)
theory Merge_Gate
  imports Trusted_Feedback Authorization Side_Effects
begin

text \<open>
  The rules of a squash merge: the pure part of \<open>application/merge.go\<close>, with
  \<open>ReconcileGitHubRead\<close> of \<open>application/github_read.go\<close> and the authority checks of
  \<open>application/services.go\<close> they use. They decide from the persisted inspection of a run and one fresh
  read of GitHub whether the pull request may be merged, and whether a merge the branch protection
  rejected may be tried again.
\<close>

section \<open>What is persisted about a run, and what GitHub reports\<close>

record installation =
  gi_AppID :: int
  gi_InstallationID :: int
  gi_Repository :: repository_identity
  gi_TokenExpiresAt :: time
  gi_PermissionsDigest :: string
  gi_ObservedAt :: time

record repository_binding =
  rb_CanonicalRepository :: string
  rb_GitHubAppID :: int
  rb_GitHubInstallationID :: int
  rb_ExpectedRepositoryID :: int
  rb_TrustedOperatorActors :: "trusted_actor list"

record request_observation =
  ro_RunID :: string
  ro_Operation :: string
  ro_HTTPStatus :: int
  ro_ErrorClass :: string
  ro_InstallationID :: int
  ro_Repository :: repository_identity
  ro_ObservedAt :: time

record reply_evidence =
  re_RunID :: string
  re_RootCommentNodeID :: string
  re_PullRequestNumber :: int
  re_RootCommentID :: int
  re_RepairedHead :: string
  re_MarkerDigest :: string
  re_ReplyDatabaseID :: int
  re_ReplyNodeID :: string
  re_AppID :: int
  re_ObservedAt :: time

record merge_record =
  mr_RunID :: string
  mr_PRNumber :: int
  mr_PreMergeSHA :: string
  mr_BaseSHA :: string
  mr_Method :: string
  mr_MergeSHA :: string
  mr_MergedAt :: time

text \<open>The fields of \<open>GitHubReadEvidence\<close> theory Github_Evidence works on, and the review threads.\<close>

record github_read =
  rd_Evidence :: github_evidence
  rd_Threads :: "review_thread list"

record inspection =
  in_Run :: run_row
  in_RepositoryBinding :: "repository_binding option"
  in_Timeline :: "transition_row list"
  in_SideEffects :: "side_effect_row list"
  in_PullRequest :: "pull_request option"
  in_TrustedFeedback :: "trusted_feedback list"
  in_ReviewReplies :: "reply_evidence list"
  in_Approval :: "human_approval option"
  in_Merge :: "merge_record option"
  in_GitHubInstallation :: "installation option"

abbreviation slash :: char where "slash \<equiv> CHR ''/''"

section \<open>Authority\<close>

definition trustedHumanActors :: "inspection \<Rightarrow> actor_identity list result" where
  "trustedHumanActors i =
     (case in_RepositoryBinding i of
        None \<Rightarrow> Inl (New ''persisted repository profile has no trusted human actor'')
      | Some b \<Rightarrow>
          (if rb_TrustedOperatorActors b = []
           then Inl (New ''persisted repository profile has no trusted human actor'')
           else Inr (map (\<lambda>a. \<lparr>actor_DatabaseID = ta_DatabaseID a, actor_NodeID = ta_NodeID a,
                   actor_Login = ta_Login a, actor_Type = ta_Type a, actor_AppID = 0\<rparr>)
                 (rb_TrustedOperatorActors b))))"

definition same_repository :: "repository_identity \<Rightarrow> int \<Rightarrow> string \<Rightarrow> string \<Rightarrow> bool" where
  "same_repository r repoID owner name \<longleftrightarrow>
     repo_ID r = repoID \<and> equal_fold (repo_Owner r) owner \<and> equal_fold (repo_Name r) name"

definition validateReaderAuthority :: "inspection \<Rightarrow> installation \<Rightarrow> go_error option" where
  "validateReaderAuthority i authority =
     (let run = in_Run i; mismatch = Some (ServiceErr ErrorConflict ''GitHub reader authority mismatch'' None) in
      case in_RepositoryBinding i of
        None \<Rightarrow> Some (ServiceErr ErrorConflict ''persisted repository profile evidence is legacy-insufficient'' None)
      | Some b \<Rightarrow>
     (if run_ProfileSnapshotVersion run < 1 \<or> run_ProfileID run = [] \<or> run_ProfileDigest run = [] \<or>
         run_ProfileSnapshotJSON run = []
      then Some (ServiceErr ErrorConflict ''persisted repository profile evidence is legacy-insufficient'' None)
      else case in_GitHubInstallation i of
        Some persisted \<Rightarrow>
          (if gi_AppID authority \<noteq> gi_AppID persisted \<or> gi_InstallationID authority \<noteq> gi_InstallationID persisted \<or>
              \<not> same_repository (gi_Repository authority) (repo_ID (gi_Repository persisted))
                  (repo_Owner (gi_Repository persisted)) (repo_Name (gi_Repository persisted))
           then mismatch else None)
      | None \<Rightarrow>
          (case split_on slash (rb_CanonicalRepository b) of
             [owner, name] \<Rightarrow>
               (if gi_AppID authority \<noteq> rb_GitHubAppID b \<or> gi_InstallationID authority \<noteq> rb_GitHubInstallationID b \<or>
                   \<not> same_repository (gi_Repository authority) (rb_ExpectedRepositoryID b) owner name
                then mismatch else None)
           | _ \<Rightarrow> mismatch)))"

definition mergeExpectedRepository :: "inspection \<Rightarrow> repository_identity result" where
  "mergeExpectedRepository i =
     (case in_GitHubInstallation i of
        Some g \<Rightarrow> Inr (gi_Repository g)
      | None \<Rightarrow>
     (case in_RepositoryBinding i of
        None \<Rightarrow> Inl (New ''persisted GitHub repository authority is required'')
      | Some b \<Rightarrow>
          (case split_on slash (rb_CanonicalRepository b) of
             [owner, name] \<Rightarrow>
               (if rb_ExpectedRepositoryID b < 1
                then Inl (New ''persisted GitHub repository authority is invalid'')
                else Inr \<lparr>repo_ID = rb_ExpectedRepositoryID b, repo_NodeID = [], repo_Owner = owner, repo_Name = name\<rparr>)
           | _ \<Rightarrow> Inl (New ''persisted GitHub repository authority is invalid''))))"

definition ReconcileGitHubRead ::
  "repository_identity \<Rightarrow> pull_request \<Rightarrow> string \<Rightarrow> string \<Rightarrow> string \<Rightarrow> string \<Rightarrow> string \<Rightarrow> string \<Rightarrow>
     github_evidence \<Rightarrow> go_error option" where
  "ReconcileGitHubRead repo expected branch base head baseSHA ownershipKey bodyDigest got =
     (let pr = ev_PullRequest got in
      if \<not> same_repository (ev_Repository got) (repo_ID repo) (repo_Owner repo) (repo_Name repo) \<or>
         (repo_NodeID repo \<noteq> [] \<and> repo_NodeID (ev_Repository got) \<noteq> repo_NodeID repo)
      then Some (New ''GitHub repository identity mismatch'')
      else if pr_Number pr \<noteq> pr_Number expected \<or> pr_NodeID pr \<noteq> pr_NodeID expected \<or>
         pr_URL pr \<noteq> pr_URL expected \<or>
         (pr_DatabaseID expected > 0 \<and> pr_DatabaseID pr \<noteq> pr_DatabaseID expected)
      then Some (New ''GitHub pull request identity mismatch'')
      else if pr_HeadSHA expected = [] \<or> pr_HeadSHA expected \<noteq> head \<or> pr_HeadSHA pr \<noteq> pr_HeadSHA expected
      then Some (New ''persisted pull request head SHA mismatch'')
      else case ValidateOwnership pr branch base head ownershipKey of
        Some e \<Rightarrow> Some e
      | None \<Rightarrow>
          (if pr_BodyDigest pr \<noteq> bodyDigest then Some (New ''pull request body digest mismatch'')
           else if pr_BaseSHA pr \<noteq> baseSHA then Some (New ''pull request base SHA drift'')
           else None))"

section \<open>The intent\<close>

record squash_request =
  sq_PullRequest :: int
  sq_HeadBranch :: string
  sq_BaseBranch :: string
  sq_ExpectedHeadSHA :: string
  sq_ExpectedBaseSHA :: string
  sq_OwnershipKey :: string

definition SquashMergeRequest_Validate :: "squash_request \<Rightarrow> go_error option" where
  "SquashMergeRequest_Validate r =
     (if sq_PullRequest r < 1 \<or> blank (sq_ExpectedHeadSHA r) \<or> blank (sq_ExpectedBaseSHA r) \<or>
         blank (sq_OwnershipKey r)
      then Some (New ''complete squash merge intent is required'')
      else and_then (ValidateGitBranch (sq_HeadBranch r)) (ValidateGitBranch (sq_BaseBranch r)))"

definition squash_request_of :: "run_row \<Rightarrow> pull_request \<Rightarrow> squash_request" where
  "squash_request_of run pr =
     \<lparr>sq_PullRequest = pr_Number pr, sq_HeadBranch = run_WorkingBranch run, sq_BaseBranch = run_BaseBranch run,
      sq_ExpectedHeadSHA = run_CandidateHead run, sq_ExpectedBaseSHA = run_BaseSHA run,
      sq_OwnershipKey = run_IdempotencyKey run\<rparr>"

definition validateObservedSquashMerge :: "squash_request \<Rightarrow> pull_request \<Rightarrow> go_error option" where
  "validateObservedSquashMerge r observed =
     (if pr_Number observed \<noteq> sq_PullRequest r \<or> pr_HeadSHA observed \<noteq> sq_ExpectedHeadSHA r \<or>
         pr_HeadBranch observed \<noteq> sq_HeadBranch r \<or> pr_BaseBranch observed \<noteq> sq_BaseBranch r \<or>
         pr_OwnershipKey observed \<noteq> sq_OwnershipKey r
      then Some (New ''merged pull request identity does not match immutable intent'')
      else if \<not> equal_fold (pr_State observed) ''closed'' \<or> \<not> pr_Merged observed \<or> blank (pr_MergeSHA observed) \<or>
         is_zero_time (pr_MergedAt observed)
      then Some (New ''GitHub did not provide a complete merged pull request observation'')
      else None)"

definition mergeSideEffect :: "side_effect_row list \<Rightarrow> string \<Rightarrow> side_effect_row option" where
  "mergeSideEffect records head =
     find (\<lambda>x. se_Kind x = ''squash_merge'' \<and> se_IdempotencyKey x = head) records"

text \<open>\<open>errors.As\<close> found a rejection: its status and operation.\<close>

definition policy_status :: "int \<Rightarrow> bool" where
  "policy_status n \<longleftrightarrow> n = 405 \<or> n = 409 \<or> n = 422"

definition mergePolicyStatus :: "(int \<times> string) option \<Rightarrow> request_observation list \<Rightarrow> bool" where
  "mergePolicyStatus rejected observations \<longleftrightarrow>
     (case rejected of
        Some (status, operation) \<Rightarrow> operation = ''squash_merge_pull_request'' \<and> policy_status status
      | None \<Rightarrow> False) \<or>
     (\<exists>ob \<in> set observations. ro_Operation ob = ''squash_merge_pull_request'' \<and> policy_status (ro_HTTPStatus ob))"

text \<open>\<open>authorizeProductionMerge\<close>; \<open>ord\<close> is the order of the map iteration in \<open>NormalizeHumanApproval\<close>.\<close>

definition authorizeProductionMerge ::
  "(github_review list \<Rightarrow> github_review list) \<Rightarrow> run_row \<Rightarrow> inspection \<Rightarrow> squash_request \<Rightarrow>
     github_evidence \<Rightarrow> go_error option" where
  "authorizeProductionMerge ord run i r ev =
     (case (in_PullRequest i, in_Approval i) of
        (Some pr, Some persisted) \<Rightarrow>
          (case mergeExpectedRepository i of
             Inl e \<Rightarrow> Some e
           | Inr repo \<Rightarrow>
          (case ReconcileGitHubRead repo pr (sq_HeadBranch r) (sq_BaseBranch r) (sq_ExpectedHeadSHA r)
                  (sq_ExpectedBaseSHA r) (sq_OwnershipKey r) (pr_BodyDigest pr) ev of
             Some e \<Rightarrow> Some e
           | None \<Rightarrow>
          (if DeliveryStatus ev \<noteq> ReconciliationPass
           then Some (New ''required checks are not passing for the exact head'')
           else case trustedHumanActors i of
             Inl e \<Rightarrow> Some e
           | Inr trusted \<Rightarrow>
          (case NormalizeHumanApproval ord (ev_PullRequest ev) (ev_Reviews ev) trusted (ev_ObservedAt ev) of
             Inl e \<Rightarrow> Some e
           | Inr (_, None) \<Rightarrow> Some (New ''trusted human approval is not currently present'')
           | Inr (_, Some approval) \<Rightarrow>
               and_then (Authorizes approval (ev_PullRequest ev) (run_CandidateHead run))
                 (wrap ''persisted human approval is no longer valid: %w'' []
                   (Authorizes persisted (ev_PullRequest ev) (run_CandidateHead run)))))))
      | _ \<Rightarrow> Some (New ''persisted pull request and approval are required''))"

section \<open>Threads the controller replied to\<close>

record merge_thread =
  mt_ThreadNodeID :: string
  mt_RootCommentNodeID :: string
  mt_RootCommentID :: int
  mt_ReplyNodeID :: string
  mt_ReplyID :: int
  mt_Resolved :: bool
  mt_Outdated :: bool
  mt_TopologyDigest :: string
  mt_ObservedAt :: time

definition hasUnresolvedMergeThread :: "merge_thread list \<Rightarrow> bool" where
  "hasUnresolvedMergeThread threads \<longleftrightarrow> (\<exists>t \<in> set threads. \<not> mt_Resolved t)"

definition mergeThreadByID :: "review_thread list \<Rightarrow> string \<Rightarrow> review_thread option" where
  "mergeThreadByID threads node =
     (case filter (\<lambda>t. rt_NodeID t = node) threads of [t] \<Rightarrow> Some t | _ \<Rightarrow> None)"

definition sameReplyActor :: "actor_identity option \<Rightarrow> actor_identity \<Rightarrow> bool" where
  "sameReplyActor observed expected \<longleftrightarrow>
     (case observed of None \<Rightarrow> False
      | Some a \<Rightarrow> actor_Type a = ''User'' \<and> actor_Type expected = ''User'' \<and>
          actor_DatabaseID a = actor_DatabaseID expected \<and> actor_NodeID a = actor_NodeID expected \<and>
          equal_fold (actor_Login a) (actor_Login expected))"

definition sameReplyLine :: "int option \<Rightarrow> int option \<Rightarrow> bool" where
  "sameReplyLine a b =
     (case (a, b) of (Some x, Some y) \<Rightarrow> x = y | _ \<Rightarrow> a = None \<and> b = None)"

text \<open>\<open>bodies\<close> is the map of the handed-over bodies by comment.\<close>

definition root_matches ::
  "(string \<times> inline_body) list \<Rightarrow> review_thread \<Rightarrow> trusted_feedback \<Rightarrow> review_comment \<Rightarrow> bool" where
  "root_matches bodies thread f comment \<longleftrightarrow>
     (case map_of bodies (rc_NodeID comment) of
        None \<Rightarrow> False
      | Some body \<Rightarrow>
          ib_ThreadNodeID body = rt_NodeID thread \<and> ib_BodyDigest body = tf_BodyDigest f \<and>
          rc_BodyDigest comment = tf_BodyDigest f \<and> rc_ReplyToDatabaseID comment = 0 \<and>
          rc_ReplyToNodeID comment = [] \<and> sameReplyActor (rc_Author comment) (tf_Author f) \<and>
          gr_DatabaseID (rc_Review comment) = tf_ReviewDatabaseID f \<and>
          gr_NodeID (rc_Review comment) = tf_ReviewNodeID f \<and>
          gr_State (rc_Review comment) = ''CHANGES_REQUESTED'' \<and>
          gr_CommitSHA (rc_Review comment) = tf_OriginalReviewHeadSHA f \<and>
          sameReplyActor (Some (gr_Actor (rc_Review comment))) (tf_Author f))"

definition mergeThreadRootMatches ::
  "review_thread \<Rightarrow> trusted_feedback \<Rightarrow> (string \<times> inline_body) list \<Rightarrow> bool" where
  "mergeThreadRootMatches thread f bodies \<longleftrightarrow>
     rt_OriginalCommitSHA thread = tf_OriginalReviewHeadSHA f \<and> rt_Path thread = tf_Path f \<and>
     sameReplyLine (rt_Line thread) (tf_Line f) \<and>
     (case find (\<lambda>c. rc_NodeID c = tf_RootCommentNodeID f \<and> rc_DatabaseID c = tf_RootCommentDatabaseID f)
             (rt_Comments thread) of
        None \<Rightarrow> False | Some c \<Rightarrow> root_matches bodies thread f c)"

definition mergeThreadContainsReply ::
  "string \<Rightarrow> review_thread \<Rightarrow> trusted_feedback \<Rightarrow> reply_evidence \<Rightarrow> (string \<times> inline_body) list \<Rightarrow> bool" where
  "mergeThreadContainsReply runID thread f reply bodies =
     (case ReviewReplyMarker runID (tf_PRNumber f) (tf_ThreadNodeID f) (tf_RootCommentDatabaseID f)
             (tf_RootCommentNodeID f) (tf_BodyDigest f) (tf_BoundRepairHead f) of
        Inl _ \<Rightarrow> False
      | Inr (marker, digest) \<Rightarrow>
     (if digest \<noteq> re_MarkerDigest reply then False
      else case ReviewReplyBody (tf_BoundRepairHead f) marker of
        Inl _ \<Rightarrow> False
      | Inr expected \<Rightarrow>
     (case find (\<lambda>c. rc_NodeID c = re_ReplyNodeID reply \<and> rc_DatabaseID c = re_ReplyDatabaseID reply)
             (rt_Comments thread) of
        None \<Rightarrow> False
      | Some c \<Rightarrow>
          (case map_of bodies (rc_NodeID c) of
             None \<Rightarrow> False
           | Some body \<Rightarrow>
               ib_ThreadNodeID body = rt_NodeID thread \<and> ib_BodyDigest body = feedbackDigest expected \<and>
               rc_BodyDigest c = feedbackDigest expected \<and> rc_ReplyToNodeID c \<noteq> [] \<and>
               rc_ReplyToDatabaseID c = re_RootCommentID reply \<and>
               ReviewReplyMarkerDigest (ib_Body body) = re_MarkerDigest reply))))"

text \<open>The digest of a thread; \<open>encode\<close> is \<open>json.Marshal\<close>. The comments of a thread have distinct node IDs,
  so the order of \<open>sort.Slice\<close> is the only one.\<close>

definition mergeThreadTopologyDigest ::
  "(string \<Rightarrow> review_comment list \<Rightarrow> string result) \<Rightarrow> review_thread \<Rightarrow> string result" where
  "mergeThreadTopologyDigest encode thread =
     (if rt_NodeID thread = [] \<or> rt_Comments thread = [] \<or> length (rt_Comments thread) > 100
      then Inl (New ''merge policy thread topology is incomplete'')
      else case encode (rt_NodeID thread) (sort_key rc_NodeID (rt_Comments thread)) of
        Inl e \<Rightarrow> Inl e | Inr payload \<Rightarrow> Inr (sha256_hex payload))"

definition reply_incomplete :: "run_row \<Rightarrow> reply_evidence \<Rightarrow> bool" where
  "reply_incomplete run reply \<longleftrightarrow>
     re_RunID reply \<noteq> run_ID run \<or> re_RootCommentNodeID reply = [] \<or> re_PullRequestNumber reply < 1 \<or>
     re_RootCommentID reply < 1 \<or> re_ReplyDatabaseID reply < 1 \<or> re_ReplyNodeID reply = [] \<or>
     re_AppID reply < 1 \<or> is_zero_time (re_ObservedAt reply)"

fun index_replies ::
  "run_row \<Rightarrow> (string \<times> reply_evidence) list \<Rightarrow> reply_evidence list \<Rightarrow> (string \<times> reply_evidence) list result" where
  "index_replies run m [] = Inr m"
| "index_replies run m (reply # rest) =
     (if reply_incomplete run reply
      then Inl (New ''persisted controller reply evidence is incomplete'')
      else if map_of m (re_RootCommentNodeID reply) \<noteq> None
      then Inl (New ''persisted controller reply evidence is ambiguous'')
      else index_replies run ((re_RootCommentNodeID reply, reply) # m) rest)"

definition reply_matches :: "trusted_feedback \<Rightarrow> reply_evidence \<Rightarrow> bool" where
  "reply_matches f reply \<longleftrightarrow>
     re_PullRequestNumber reply = tf_PRNumber f \<and> re_RootCommentID reply = tf_RootCommentDatabaseID f \<and>
     re_RepairedHead reply = tf_BoundRepairHead f \<and> re_MarkerDigest reply = tf_ReplyIntentKey f \<and>
     re_ReplyDatabaseID reply = tf_ReplyDatabaseID f \<and> re_ReplyNodeID reply = tf_ReplyNodeID f"

definition merge_thread_of :: "review_thread \<Rightarrow> trusted_feedback \<Rightarrow> reply_evidence \<Rightarrow> string \<Rightarrow> time \<Rightarrow> merge_thread" where
  "merge_thread_of thread f reply digest observedAt =
     \<lparr>mt_ThreadNodeID = rt_NodeID thread, mt_RootCommentNodeID = tf_RootCommentNodeID f,
      mt_RootCommentID = tf_RootCommentDatabaseID f, mt_ReplyNodeID = re_ReplyNodeID reply,
      mt_ReplyID = re_ReplyDatabaseID reply, mt_Resolved = rt_Resolved thread, mt_Outdated = rt_Outdated thread,
      mt_TopologyDigest = digest, mt_ObservedAt = observedAt\<rparr>"

definition replied_thread ::
  "(string \<Rightarrow> review_comment list \<Rightarrow> string result) \<Rightarrow> inspection \<Rightarrow> github_read \<Rightarrow>
     (string \<times> reply_evidence) list \<Rightarrow> (string \<times> inline_body) list \<Rightarrow> trusted_feedback \<Rightarrow> merge_thread result" where
  "replied_thread encode i read replies bodies f =
     (case map_of replies (tf_RootCommentNodeID f) of
        None \<Rightarrow> Inl (New ''persisted controller reply evidence drifted'')
      | Some reply \<Rightarrow>
     (if \<not> reply_matches f reply then Inl (New ''persisted controller reply evidence drifted'')
      else case mergeThreadByID (rd_Threads read) (tf_ThreadNodeID f) of
        None \<Rightarrow> Inl (New ''controller reply thread authority drifted'')
      | Some thread \<Rightarrow>
     (if \<not> mergeThreadRootMatches thread f bodies then Inl (New ''controller reply thread authority drifted'')
      else if \<not> mergeThreadContainsReply (run_ID (in_Run i)) thread f reply bodies
      then Inl (New ''controller reply topology drifted'')
      else case mergeThreadTopologyDigest encode thread of
        Inl e \<Rightarrow> Inl e
      | Inr digest \<Rightarrow> Inr (merge_thread_of thread f reply digest (ev_ObservedAt (rd_Evidence read))))))"

fun replied_threads :: "(trusted_feedback \<Rightarrow> merge_thread result) \<Rightarrow> trusted_feedback list \<Rightarrow> merge_thread list result" where
  "replied_threads f [] = Inr []"
| "replied_threads f (x # xs) =
     (if tf_Lifecycle x \<noteq> FeedbackReplied then replied_threads f xs
      else case f x of
        Inl e \<Rightarrow> Inl e
      | Inr t \<Rightarrow> (case replied_threads f xs of Inl e \<Rightarrow> Inl e | Inr ts \<Rightarrow> Inr (t # ts)))"

definition controllerRepliedMergeThreads ::
  "(string \<Rightarrow> review_comment list \<Rightarrow> string result) \<Rightarrow> inspection \<Rightarrow> github_read \<Rightarrow> inline_body list \<Rightarrow>
     merge_thread list result" where
  "controllerRepliedMergeThreads encode i read handoff =
     (case Handoff_Validate handoff of
        Some e \<Rightarrow> Inl e
      | None \<Rightarrow>
     (case index_replies (in_Run i) [] (in_ReviewReplies i) of
        Inl e \<Rightarrow> Inl e
      | Inr replies \<Rightarrow>
          replied_threads (replied_thread encode i read replies (body_index handoff)) (in_TrustedFeedback i)))"

section \<open>A rejection by the branch protection\<close>

text \<open>\<open>json.Unmarshal\<close> of a result: its category, head and threads, or \<open>None\<close> when it is malformed.\<close>

type_synonym policy_decoder = "string \<Rightarrow> (string \<times> string \<times> merge_thread list) option"

definition mergePolicySideEffect :: "policy_decoder \<Rightarrow> side_effect_row \<Rightarrow> bool" where
  "mergePolicySideEffect decode side \<longleftrightarrow>
     (case decode (se_ResultJSON side) of
        None \<Rightarrow> False | Some (category, _, _) \<Rightarrow> category = ''merge_policy_pending'')"

definition thread_incomplete :: "merge_thread \<Rightarrow> bool" where
  "thread_incomplete t \<longleftrightarrow>
     mt_ThreadNodeID t = [] \<or> mt_RootCommentNodeID t = [] \<or> mt_RootCommentID t < 1 \<or> mt_ReplyNodeID t = [] \<or>
     mt_ReplyID t < 1 \<or> mt_TopologyDigest t = []"

fun check_threads :: "string list \<Rightarrow> merge_thread list \<Rightarrow> go_error option" where
  "check_threads seen [] = None"
| "check_threads seen (t # ts) =
     (if thread_incomplete t then Some (New ''persisted merge policy thread topology is incomplete'')
      else if mt_ThreadNodeID t \<in> set seen
      then Some (New ''persisted merge policy thread topology is ambiguous'')
      else check_threads (mt_ThreadNodeID t # seen) ts)"

definition mergePolicyPendingThreads :: "policy_decoder \<Rightarrow> side_effect_row \<Rightarrow> string \<Rightarrow> merge_thread list result" where
  "mergePolicyPendingThreads decode side expectedHead =
     (case decode (se_ResultJSON side) of
        None \<Rightarrow> Inl (New ''persisted merge policy result is malformed'')
      | Some (category, head, threads) \<Rightarrow>
     (if category \<noteq> ''merge_policy_pending'' \<or> head \<noteq> expectedHead \<or> threads = [] \<or>
         \<not> hasUnresolvedMergeThread threads
      then Inl (New ''persisted merge policy result is incomplete'')
      else case check_threads [] threads of Some e \<Rightarrow> Inl e | None \<Rightarrow> Inr threads))"

definition same_topology :: "merge_thread \<Rightarrow> merge_thread \<Rightarrow> bool" where
  "same_topology previous t \<longleftrightarrow>
     mt_RootCommentNodeID previous = mt_RootCommentNodeID t \<and> mt_RootCommentID previous = mt_RootCommentID t \<and>
     mt_ReplyNodeID previous = mt_ReplyNodeID t \<and> mt_ReplyID previous = mt_ReplyID t \<and>
     mt_TopologyDigest previous = mt_TopologyDigest t \<and> mt_Outdated previous = mt_Outdated t \<and>
     \<not> is_zero_time (mt_ObservedAt previous) \<and> \<not> is_zero_time (mt_ObservedAt t) \<and>
     (mt_Resolved previous \<noteq> mt_Resolved t \<longrightarrow> mt_ObservedAt previous < mt_ObservedAt t)"

definition sameMergePolicyTopology :: "merge_thread list \<Rightarrow> merge_thread list \<Rightarrow> bool" where
  "sameMergePolicyTopology persisted fresh \<longleftrightarrow>
     persisted \<noteq> [] \<and> length persisted = length fresh \<and> distinct (map mt_ThreadNodeID persisted) \<and>
     (\<forall>t \<in> set fresh.
        case map_of (map (\<lambda>p. (mt_ThreadNodeID p, p)) persisted) (mt_ThreadNodeID t) of
          None \<Rightarrow> False | Some previous \<Rightarrow> same_topology previous t)"


section \<open>What the gate guarantees\<close>

lemma and_then_Some: "and_then a b = None \<Longrightarrow> a = None \<and> b = None"
  by simp

lemma authorizeProductionMerge_None:
  assumes "authorizeProductionMerge ord run i r ev = None"
  obtains pr persisted repo trusted obs approval where
    "in_PullRequest i = Some pr" "in_Approval i = Some persisted" "mergeExpectedRepository i = Inr repo"
    "ReconcileGitHubRead repo pr (sq_HeadBranch r) (sq_BaseBranch r) (sq_ExpectedHeadSHA r)
       (sq_ExpectedBaseSHA r) (sq_OwnershipKey r) (pr_BodyDigest pr) ev = None"
    "DeliveryStatus ev = ReconciliationPass" "trustedHumanActors i = Inr trusted"
    "NormalizeHumanApproval ord (ev_PullRequest ev) (ev_Reviews ev) trusted (ev_ObservedAt ev) = Inr (obs, Some approval)"
    "Authorizes approval (ev_PullRequest ev) (run_CandidateHead run) = None"
    "Authorizes persisted (ev_PullRequest ev) (run_CandidateHead run) = None"
  using assms unfolding authorizeProductionMerge_def
  by (auto split: option.splits sum.splits prod.splits if_splits)

lemma ReconcileGitHubRead_None:
  assumes "ReconcileGitHubRead repo expected branch base head baseSHA ownershipKey bodyDigest got = None"
  shows "repo_ID (ev_Repository got) = repo_ID repo" and "pr_Number (ev_PullRequest got) = pr_Number expected"
    and "pr_HeadSHA (ev_PullRequest got) = head" and "pr_HeadSHA expected = head" and "head \<noteq> []"
    and "pr_HeadBranch (ev_PullRequest got) = branch" and "pr_BaseBranch (ev_PullRequest got) = base"
    and "pr_OwnershipKey (ev_PullRequest got) = ownershipKey" and "pr_BaseSHA (ev_PullRequest got) = baseSHA"
    and "pr_BodyDigest (ev_PullRequest got) = bodyDigest"
  using assms unfolding ReconcileGitHubRead_def Let_def ValidateOwnership_def same_repository_def
  by (auto split: if_splits option.splits)


section \<open>When a rejected merge may be tried again\<close>

lemma check_threads_None: "check_threads seen ts = None \<longleftrightarrow>
  (\<forall>t \<in> set ts. \<not> thread_incomplete t \<and> mt_ThreadNodeID t \<notin> set seen) \<and> distinct (map mt_ThreadNodeID ts)"
  by (induction ts arbitrary: seen) (auto simp: image_iff)

lemma map_of_keyed:
  assumes "distinct (map k xs)"
  shows "map_of (map (\<lambda>x. (k x, x)) xs) a = Some x \<longleftrightarrow> x \<in> set xs \<and> k x = a"
proof -
  from assms have "distinct (map fst (map (\<lambda>x. (k x, x)) xs))" by (simp add: comp_def)
  then show ?thesis by (auto simp: map_of_eq_Some_iff)
qed

text \<open>A rejected merge may be retried only in the conversation it was rejected in: where the fresh threads are
  distinct, the comparison holds exactly when the stored and the fresh threads are the same
  threads with the same root, reply and content, in any order, and each one that changed between resolved
  and unresolved was observed later.\<close>

theorem same_topology_exact:
  assumes "distinct (map mt_ThreadNodeID fresh)"
  shows "sameMergePolicyTopology persisted fresh \<longleftrightarrow>
    persisted \<noteq> [] \<and> distinct (map mt_ThreadNodeID persisted) \<and>
    mt_ThreadNodeID ` set persisted = mt_ThreadNodeID ` set fresh \<and>
    (\<forall>p \<in> set persisted. \<forall>t \<in> set fresh. mt_ThreadNodeID p = mt_ThreadNodeID t \<longrightarrow> same_topology p t)"
proof (cases "distinct (map mt_ThreadNodeID persisted)")
  case True
  note look = map_of_keyed [OF True]
  have cards: "length persisted = card (mt_ThreadNodeID ` set persisted)" "length fresh = card (mt_ThreadNodeID ` set fresh)"
    using distinct_card [OF True] distinct_card [OF assms] by simp_all
  have each: "(case map_of (map (\<lambda>p. (mt_ThreadNodeID p, p)) persisted) (mt_ThreadNodeID t) of
      None \<Rightarrow> False | Some previous \<Rightarrow> same_topology previous t) \<longleftrightarrow>
    (\<exists>p \<in> set persisted. mt_ThreadNodeID p = mt_ThreadNodeID t \<and> same_topology p t)" for t
  proof (cases "map_of (map (\<lambda>p. (mt_ThreadNodeID p, p)) persisted) (mt_ThreadNodeID t)")
    case None
    have "\<not> (p \<in> set persisted \<and> mt_ThreadNodeID p = mt_ThreadNodeID t)" for p
      unfolding look [symmetric] using None by simp
    then show ?thesis unfolding None option.case by blast
  next
    case (Some q)
    then have q: "q \<in> set persisted \<and> mt_ThreadNodeID q = mt_ThreadNodeID t" unfolding look .
    have "p = q" if "p \<in> set persisted \<and> mt_ThreadNodeID p = mt_ThreadNodeID t" for p
      using that unfolding look [symmetric] Some by simp
    with q show ?thesis unfolding Some option.case by blast
  qed
  have eq: "mt_ThreadNodeID ` set persisted = mt_ThreadNodeID ` set fresh"
    if "length persisted = length fresh" "mt_ThreadNodeID ` set fresh \<subseteq> mt_ThreadNodeID ` set persisted"
    using that cards card_subset_eq [of "mt_ThreadNodeID ` set persisted" "mt_ThreadNodeID ` set fresh"] by simp
  have one: "p = p'" if "p \<in> set persisted" "p' \<in> set persisted" "mt_ThreadNodeID p = mt_ThreadNodeID p'" for p p'
    using True that by (auto simp: distinct_map inj_on_def)
  show ?thesis
  proof
    assume "sameMergePolicyTopology persisted fresh"
    then have s: "persisted \<noteq> []" "length persisted = length fresh"
      "\<forall>t \<in> set fresh. \<exists>p \<in> set persisted. mt_ThreadNodeID p = mt_ThreadNodeID t \<and> same_topology p t"
      unfolding sameMergePolicyTopology_def each by simp_all
    from s(3) have sub: "mt_ThreadNodeID ` set fresh \<subseteq> mt_ThreadNodeID ` set persisted"
      by (metis (no_types, lifting) image_eqI image_subsetI)
    have "same_topology p t" if "p \<in> set persisted" "t \<in> set fresh" "mt_ThreadNodeID p = mt_ThreadNodeID t" for p t
      using s(3) that one by metis
    with s(1) eq [OF s(2) sub] True show "persisted \<noteq> [] \<and> distinct (map mt_ThreadNodeID persisted) \<and>
      mt_ThreadNodeID ` set persisted = mt_ThreadNodeID ` set fresh \<and>
      (\<forall>p \<in> set persisted. \<forall>t \<in> set fresh. mt_ThreadNodeID p = mt_ThreadNodeID t \<longrightarrow> same_topology p t)"
      by blast
  next
    assume r: "persisted \<noteq> [] \<and> distinct (map mt_ThreadNodeID persisted) \<and>
      mt_ThreadNodeID ` set persisted = mt_ThreadNodeID ` set fresh \<and>
      (\<forall>p \<in> set persisted. \<forall>t \<in> set fresh. mt_ThreadNodeID p = mt_ThreadNodeID t \<longrightarrow> same_topology p t)"
    then have "length persisted = length fresh" using cards by simp
    moreover have "\<forall>t \<in> set fresh. \<exists>p \<in> set persisted. mt_ThreadNodeID p = mt_ThreadNodeID t \<and> same_topology p t"
      using r by (metis (no_types, lifting) imageE image_eqI)
    ultimately show "sameMergePolicyTopology persisted fresh"
      unfolding sameMergePolicyTopology_def each using r by blast
  qed
qed (simp add: sameMergePolicyTopology_def)


section \<open>Witnesses\<close>

definition merging_run :: run_row where
  "merging_run = sample_run\<lparr>run_IdempotencyKey := ''k'', run_ProfileID := ''p'', run_ProfileSnapshotVersion := 1,
     run_ProfileDigest := ''pd'', run_ProfileSnapshotJSON := ''{}'', run_WorkingBranch := ''agent/x'',
     run_BaseSHA := ''base'', run_State := StateMerging, run_CandidateHead := ''abc''\<rparr>"

definition merging_evidence :: github_evidence where
  "merging_evidence = sample_evidence\<lparr>ev_Checks := [sample_ghc ''build'' CheckSuccess],
     ev_Reviews := [sample_approval], ev_ObservedAt := 30\<rparr>"

definition merging_binding :: repository_binding where
  "merging_binding = \<lparr>rb_CanonicalRepository = ''o/n'', rb_GitHubAppID = 3, rb_GitHubInstallationID = 4,
     rb_ExpectedRepositoryID = 1, rb_TrustedOperatorActors =
       [\<lparr>ta_DatabaseID = 11, ta_NodeID = ''U_11'', ta_Login = ''ifan'', ta_Type = ''User''\<rparr>]\<rparr>"

definition merging_inspection :: inspection where
  "merging_inspection = \<lparr>in_Run = merging_run, in_RepositoryBinding = Some merging_binding, in_Timeline = [],
     in_SideEffects = [], in_PullRequest = Some sample_pr, in_TrustedFeedback = [], in_ReviewReplies = [],
     in_Approval = Some (approval_of sample_pr sample_approval 25), in_Merge = None, in_GitHubInstallation = None\<rparr>"

lemma permuting_id: "is_permuting (\<lambda>xs. xs)"
  by (simp add: is_permuting_def)

lemma merging_authorized:
  "authorizeProductionMerge (\<lambda>xs. xs) merging_run merging_inspection (squash_request_of merging_run sample_pr)
     merging_evidence = None"
  by code_simp


definition pending_thread :: merge_thread where
  "pending_thread = \<lparr>mt_ThreadNodeID = ''T'', mt_RootCommentNodeID = ''C'', mt_RootCommentID = 9,
     mt_ReplyNodeID = ''A'', mt_ReplyID = 10, mt_Resolved = False, mt_Outdated = False, mt_TopologyDigest = ''d'',
     mt_ObservedAt = 20\<rparr>"

theorem same_topology_exact_witness:
  "sameMergePolicyTopology [pending_thread] [pending_thread\<lparr>mt_Resolved := True, mt_ObservedAt := 30\<rparr>] \<and>
   \<not> sameMergePolicyTopology [pending_thread] [pending_thread\<lparr>mt_Resolved := True\<rparr>]"
  by (simp add: same_topology_exact) (simp add: same_topology_def pending_thread_def is_zero_time_def)

end
