(* ===== verification/Database.thy ===== *)
theory Database
  imports Run_Trail Side_Effects Retry
begin

text \<open>
  The store as a whole: one step relation over every modelled operation of
  \<open>internal/adapters/sqlite\<close>, started from an empty database. Each step is taken by an actor (the
  lease owner or supervisor in whose name the caller works) at a clock reading, so that properties
  can speak of what other workers do. The facts here hold in every reachable store, for any
  arguments, any order of the steps and any number of workers: SQLite runs the write transactions
  one after the other.
\<close>

section \<open>Steps\<close>

inductive db_step :: "string \<Rightarrow> time \<Rightarrow> store \<Rightarrow> store \<Rightarrow> bool" where
  step_create: "db_step w now s (snd (CreateRun dec authority admitted input now s))"
| step_transition: "db_step w now s (snd (Transition i src dst reason ev head now s))"
| step_drift: "db_step w now s (snd (MarkLinearSourceDrift i st revision ev now s))"
| step_repair: "db_step w now s (snd (BeginRepair i head ev now s))"
| step_findings: "db_step w now s (snd (PersistFreshReviewFindings v rc c i head ref now s))"
| step_reply_run: "db_step w now s (snd (TransitionReviewReplyRun i owner src dst reason ev head now s))"
| step_reconciled: "db_step w now s (snd (SaveGitHubReconciliation c i owner src dst key reason ev head now s))"
| step_target_drift: "db_step w now s (snd (SaveGitHubManualPRTargetDrift c i owner st key ev head reason now s))"
| step_feedback_drift:
    "db_step w now s (snd (RequireManualInterventionForTrustedFeedbackDrift c i owner st key digest now s))"
| step_abandon: "db_step w now s (snd (AbandonAutomaticAdmission authority journal delivery q now s))"
| step_workspace: "db_step w now s (snd (SetWorkspace i base worktree now s))"
| step_session: "db_step w now s (snd (SetImplementationSession i session now s))"
| step_head: "db_step w now s (snd (SetCandidateHead i head now s))"
| step_error: "db_step w now s (snd (SetLastError i msg now s))"
| step_acquire_lease: "db_step w now s (snd (AcquireLease i w expires now s))"
| step_renew_lease: "db_step w now s (snd (RenewLease i w expires now s))"
| step_release_lease: "db_step w now s (snd (ReleaseLease i w now s))"
| step_begin_attempt: "db_step w now s (snd (BeginAttempt i kind model dir key now s))"
| step_launch: "db_step w now s (snd (CommitAttemptProcessLaunch n s))"
| step_finish_attempt: "db_step w now s (snd (FinishAttempt a s))"
| step_verification: "db_step w now s (snd (SaveVerification v now s))"
| step_resource: "db_step w now s (snd (AddOwnedResource x s))"
| step_supervisor: "db_step w now s (snd (BindWorkerSupervisor w s))"
| step_capacity: "db_step w now s (snd (ConfigureHeavyCapacity n ident now s))"
| step_permit: "db_step w now s (snd (AcquireHeavyPermit i w now s))"
| step_release_permit: "db_step w now s (snd (ReleaseHeavyPermit p reason now s))"
| step_defer: "db_step w now s (snd (DeferSchedulingRun i at now s))"
| step_reconcile: "(\<And>xs. set (ord xs) = set xs \<and> length (ord xs) = length xs) \<Longrightarrow>
    db_step w now s (snd (ReconcileSchedulingAuthorities ord now s))"
| step_effect: "db_step w now s (run_op cmd s)"
| step_retry: "db_step w now s (snd (ApplyRetryFailure rq s))"
| step_clear_retry: "db_step w now s (snd (ClearRetrySchedule i phase n s))"

definition db_start :: "store \<Rightarrow> bool" where
  "db_start s \<longleftrightarrow> s = empty_store"

definition any_step :: "store \<Rightarrow> store \<Rightarrow> bool" where
  "any_step s t \<longleftrightarrow> (\<exists>w now. db_step w now s t)"

section \<open>Tables an operation leaves alone\<close>

lemma cat_tables [frame]:
  "st_side_effects (snd (compare_and_transition lost i P a b f r e h now s)) = st_side_effects s"
  "st_capacity (snd (compare_and_transition lost i P a b f r e h now s)) = st_capacity s"
  "st_retry (snd (compare_and_transition lost i P a b f r e h now s)) = st_retry s"
  by (simp_all add: compare_and_transition_def update_run_state_def release_terminal_def
      append_transition_def Let_def)

text \<open>The operations that only move runs or change their columns leave the intents, the capacity and,
  but for an abandonment, the schedules alone; a move can only take permits away.\<close>

definition run_frame :: "store \<Rightarrow> store \<Rightarrow> bool" where
  "run_frame s t \<longleftrightarrow> st_side_effects t = st_side_effects s \<and> st_capacity t = st_capacity s \<and>
     length (st_permits t) \<le> length (st_permits s) \<and> map row_key (st_retry t) = map row_key (st_retry s)"

lemma run_frame_refl [simp]: "run_frame s s"
  by (simp add: run_frame_def)

lemma run_frame_cat [simp]: "run_frame s (snd (compare_and_transition lost i P a b f r e h now s))"
  by (simp add: run_frame_def compare_and_transition_def update_run_state_def release_terminal_def
      append_transition_def Let_def length_delete_where)

lemma run_frame_update [simp]:
  "run_frame s (update_runs P f s)" "run_frame s (snd (exec_one_run P f s))"
  by (simp_all add: run_frame_def update_runs_def exec_one_run_def)

lemma run_frame_ops [simp]:
  "run_frame s (snd (Transition i src dst reason ev head now s))"
  "run_frame s (snd (BeginRepair i head ev now s))"
  "run_frame s (snd (TransitionReviewReplyRun i owner src dst reason ev head now s))"
  "run_frame s (snd (SaveGitHubReconciliation c i owner src dst key reason ev head now s))"
  "run_frame s (snd (SaveGitHubManualPRTargetDrift c i owner st key ev head reason now s))"
  "run_frame s (snd (RequireManualInterventionForTrustedFeedbackDrift c i owner st key digest now s))"
  "run_frame s (snd (SetWorkspace i base worktree now s))"
  "run_frame s (snd (SetImplementationSession i session now s))"
  "run_frame s (snd (SetCandidateHead i head now s))"
  "run_frame s (snd (SetLastError i msg now s))"
  "run_frame s (snd (AcquireLease i w expires now s))"
  "run_frame s (snd (RenewLease i w expires now s))"
  "run_frame s (snd (ReleaseLease i w now s))"
  unfolding Transition_def BeginRepair_def TransitionReviewReplyRun_def SaveGitHubReconciliation_def
    SaveGitHubManualPRTargetDrift_def RequireManualInterventionForTrustedFeedbackDrift_def
    SetWorkspace_def SetImplementationSession_def SetCandidateHead_def SetLastError_def
    AcquireLease_def RenewLease_def ReleaseLease_def update_lease_def Let_def
  by (simp_all split: option.split)

lemma cat_snd_run_frame:
  "compare_and_transition lost i P a b f r e h now s = (x, t) \<Longrightarrow> run_frame s t"
  using run_frame_cat [of s lost i P a b f r e h now] by simp

lemma run_frame_abandon_retry [simp]: "run_frame s t \<Longrightarrow> run_frame s (abandon_retry i now t)"
proof -
  have "map row_key (update_where P (\<lambda>x. x\<lparr>sch_FailureClass := c, sch_FailureEvidenceRef := e, sch_ReasonCode := r,
      sch_Status := st, sch_NextEligibleAt := n, sch_NextEligibleUnix := u, sch_AttentionAt := a,
      sch_UpdatedAt := w\<rparr>) rows) = map row_key rows" for P c e r st n u a w rows
    by (intro map_update_where) (simp add: row_key_def)
  then show "run_frame s t \<Longrightarrow> run_frame s (abandon_retry i now t)"
    by (simp add: run_frame_def abandon_retry_def)
qed

lemma run_frame_ops2 [simp]:
  "run_frame s (snd (MarkLinearSourceDrift i st revision ev now s))"
  "run_frame s (snd (PersistFreshReviewFindings v rc c i head ref now s))"
  "run_frame s (snd (AbandonAutomaticAdmission authority journal delivery q now s))"
  unfolding MarkLinearSourceDrift_def PersistFreshReviewFindings_def AbandonAutomaticAdmission_def
    abandon_run_def Let_def
  by (auto split: option.split prod.split dest: cat_snd_run_frame)

lemma run_frame_tables [simp]:
  "run_frame s (snd (BeginAttempt i kind model dir key now s))"
  "run_frame s (snd (CommitAttemptProcessLaunch n s))"
  "run_frame s (snd (FinishAttempt a s))"
  "run_frame s (snd (SaveVerification v now s))"
  "run_frame s (snd (AddOwnedResource x s))"
  "run_frame s (snd (BindWorkerSupervisor w s))"
  "run_frame s (snd (DeferSchedulingRun i at now s))"
  "run_frame s (snd (ReleaseHeavyPermit p reason now s))"
  by (auto simp: BeginAttempt_def CommitAttemptProcessLaunch_def FinishAttempt_def SaveVerification_def
      AddOwnedResource_def BindWorkerSupervisor_def DeferSchedulingRun_def ReleaseHeavyPermit_def
      run_frame_def Let_def length_delete_where split: option.split)

section \<open>Capacity\<close>

definition capacity_inv :: "store \<Rightarrow> bool" where
  "capacity_inv s \<longleftrightarrow>
     (\<exists>c. st_capacity s = Some c \<and> 1 \<le> cap_Effective c \<and> cap_Effective c \<le> MaxHeavyCapacity) \<and>
     int (length (st_permits s)) \<le> MaxHeavyCapacity"

text \<open>What an operation that may create a permit does to the number of permits.\<close>

definition permits_within :: "store \<Rightarrow> store \<Rightarrow> bool" where
  "permits_within s t \<longleftrightarrow> st_side_effects t = st_side_effects s \<and> st_capacity t = st_capacity s \<and>
     st_retry t = st_retry s \<and>
     (length (st_permits t) \<le> length (st_permits s) \<or>
      (\<exists>c. st_capacity s = Some c \<and> int (length (st_permits t)) \<le> cap_Effective c))"

lemma permits_within_refl [simp]: "permits_within s s"
  by (simp add: permits_within_def)

lemma permits_within_acquire [simp]: "permits_within s (snd (AcquireHeavyPermit i w now s))"
  by (auto simp: AcquireHeavyPermit_def adopt_permit_def grant_permit_def permits_within_def Let_def
      split: option.split)

lemma permits_within_reserve:
  "permits_within s (snd (reserveSchedulingAuthoritiesTx run rv owner now s))"
  by (auto simp: reserveSchedulingAuthoritiesTx_def insert_reservation_def permits_within_def Let_def
      split: option.split)

lemma permits_within_create [simp]: "permits_within s (snd (CreateRun dec a ok' q now s))"
proof -
  let ?run = "ensureRepositoryBindingDigest q"
  let ?s1 = "insert_run ?run now s"
  let ?res = "reserveSchedulingAuthoritiesTx ?run zero_reservation (defaultHeavyPermitOwner s (run_ID ?run)) now ?s1"
  have same: "st_side_effects ?s1 = st_side_effects s" "st_capacity ?s1 = st_capacity s"
    "st_permits ?s1 = st_permits s" "st_retry ?s1 = st_retry s"
    by (simp_all add: insert_run_def append_transition_def)
  then have "permits_within s ?s1" by (simp add: permits_within_def)
  moreover have "permits_within s (snd ?res)"
    using permits_within_reserve [of ?s1] same by (simp add: permits_within_def)
  ultimately show ?thesis
    by (cases ?res) (simp add: CreateRun_def Let_def split: option.split sum.split)
qed

lemma reconcile_run_tables:
  "reconcile_run counts now run s = Inr (s', x) \<Longrightarrow>
     st_side_effects s' = st_side_effects s \<and> st_capacity s' = st_capacity s \<and> st_retry s' = st_retry s \<and>
     length (st_permits s') \<le> length (st_permits s)"
  by (auto simp: reconcile_run_def quarantine_run_def record_supervisor_def reconcile_slot_def
      upsert_scheduling_def Let_def length_delete_where split: sum.splits option.splits if_splits)

lemma reconcile_runs_tables:
  "reconcile_runs counts now runs s = Inr (s', xs) \<Longrightarrow>
     st_side_effects s' = st_side_effects s \<and> st_capacity s' = st_capacity s \<and> st_retry s' = st_retry s \<and>
     length (st_permits s') \<le> length (st_permits s)"
proof (induction runs arbitrary: s xs)
  case (Cons r rs)
  then show ?case by (auto dest!: reconcile_run_tables split: sum.splits prod.splits) (metis le_trans)
qed simp

lemma permits_within_reconcile [simp]: "permits_within s (snd (ReconcileSchedulingAuthorities ord now s))"
proof -
  let ?s0 = "drop_terminal_authorities s"
  have "st_side_effects ?s0 = st_side_effects s \<and> st_capacity ?s0 = st_capacity s \<and> st_retry ?s0 = st_retry s \<and>
      length (st_permits ?s0) \<le> length (st_permits s)"
    by (simp add: drop_terminal_authorities_def length_delete_where)
  moreover have "reconcile_runs counts now runs ?s0 = Inr (s', xs) \<Longrightarrow>
      st_side_effects s' = st_side_effects ?s0 \<and> st_capacity s' = st_capacity ?s0 \<and> st_retry s' = st_retry ?s0 \<and>
      length (st_permits s') \<le> length (st_permits ?s0)" for counts runs s' xs
    by (rule reconcile_runs_tables)
  ultimately show ?thesis
    by (auto simp: ReconcileSchedulingAuthorities_def permits_within_def Let_def split: sum.split prod.split) fastforce+
qed

lemma run_op_tables:
  "st_capacity (run_op cmd s) = st_capacity s \<and> st_retry (run_op cmd s) = st_retry s \<and>
     length (st_permits (run_op cmd s)) \<le> length (st_permits s)"
proof (cases cmd)
  case (OpPolicyPending i q h now)
  have p: "st_capacity (snd (wait_for_mergeability i h now u)) = st_capacity u \<and>
      st_retry (snd (wait_for_mergeability i h now u)) = st_retry u \<and>
      length (st_permits (snd (wait_for_mergeability i h now u))) \<le> length (st_permits u)" for u
    using run_frame_cat unfolding wait_for_mergeability_def by (simp add: run_frame_def frame)
  have "st_capacity (snd (store_pending i q h s)) = st_capacity s \<and> st_retry (snd (store_pending i q h s)) = st_retry s \<and>
      st_permits (snd (store_pending i q h s)) = st_permits s"
    by (simp add: store_pending_def exec_one_store)
  with p [of "snd (store_pending i q h s)"] OpPolicyPending show ?thesis
    by (auto simp: RecordMergePolicyPending_def split: option.split prod.split)
qed (auto simp: BeginSideEffect_def record_intent_def FinishSideEffect_def RetryLinearIssueStartSideEffect_def
    FinishLinearIssueStartSideEffect_def ClaimLinearIssueStartSideEffect_def RetryMergeSideEffect_def
    BeginReviewReplySideEffect_def FinishReviewReplySideEffect_def RetryReviewReplySideEffect_def
    exec_one_store Let_def split: option.split prod.split sum.split)

lemma effects_inv_pending: "effects_inv (st_side_effects s) \<Longrightarrow>
   effects_inv (st_side_effects (snd (RecordMergePolicyPending i q h now s)))"
proof -
  assume inv: "effects_inv (st_side_effects s)"
  have "effects_inv (st_side_effects (snd (store_pending i q h s)))"
    using inv by (simp add: store_pending_def exec_one_store effects_inv_update)
  then have "effects_inv (st_side_effects (snd (wait_for_mergeability i h now (snd (store_pending i q h s)))))"
    unfolding wait_for_mergeability_def by simp
  with inv show ?thesis
    by (cases "store_pending i q h s"; cases "wait_for_mergeability i h now (snd (store_pending i q h s))")
      (auto simp: RecordMergePolicyPending_def split: option.split)
qed

lemma effects_inv_record: "effects_inv (st_side_effects s) \<Longrightarrow> effects_inv (st_side_effects (snd (record_intent q now s)))"
  by (cases "record_intent q now s") (simp add: record_intent_inv)

lemma effects_inv_begin:
  "effects_inv (st_side_effects s) \<Longrightarrow> effects_inv (st_side_effects (snd (BeginSideEffect q now s)))"
  "effects_inv (st_side_effects s) \<Longrightarrow> effects_inv (st_side_effects (snd (BeginReviewReplySideEffect w q now s)))"
  using effects_inv_record [of s q now]
  by (cases "record_intent q now s"; auto simp: BeginSideEffect_def BeginReviewReplySideEffect_def split: option.split sum.split)+

lemma effects_inv_op: "effects_inv (st_side_effects s) \<Longrightarrow> effects_inv (st_side_effects (run_op cmd s))"
  by (cases cmd)
    (auto simp: effects_inv_begin effects_inv_pending FinishSideEffect_def RetryLinearIssueStartSideEffect_def
      FinishLinearIssueStartSideEffect_def ClaimLinearIssueStartSideEffect_def RetryMergeSideEffect_def
      FinishReviewReplySideEffect_def RetryReviewReplySideEffect_def exec_one_store Let_def
      intro!: effects_inv_update split: option.split)

lemma store_inv_op: "store_inv s \<Longrightarrow> store_inv (run_op cmd s)"
proof (cases cmd)
  case (OpPolicyPending i q h now)
  assume inv: "store_inv s"
  have "store_inv (snd (store_pending i q h s))"
    by (rule store_inv_cong [OF inv]) (simp_all add: store_pending_def exec_one_store)
  then have "store_inv (snd (wait_for_mergeability i h now (snd (store_pending i q h s))))"
    unfolding wait_for_mergeability_def
    by (rule compare_and_transition_inv) (auto intro: edge_table simp: CanTransition_def)
  with inv OpPolicyPending show ?thesis
    by (cases "store_pending i q h s"; cases "wait_for_mergeability i h now (snd (store_pending i q h s))")
      (auto simp: RecordMergePolicyPending_def split: option.split)
qed (auto simp: BeginSideEffect_def record_intent_def FinishSideEffect_def RetryLinearIssueStartSideEffect_def
    FinishLinearIssueStartSideEffect_def ClaimLinearIssueStartSideEffect_def RetryMergeSideEffect_def
    BeginReviewReplySideEffect_def FinishReviewReplySideEffect_def RetryReviewReplySideEffect_def
    exec_one_store Let_def intro: store_inv_cong split: option.split prod.split sum.split)

lemma retry_store:
  "\<exists>rows. snd (ApplyRetryFailure q s) = s\<lparr>st_retry := rows\<rparr>"
  "\<exists>rows. snd (ClearRetrySchedule i ph n s) = s\<lparr>st_retry := rows\<rparr>"
proof -
  have same: "\<exists>rows. s = s\<lparr>st_retry := rows\<rparr>" by (rule exI [of _ "st_retry s"]) simp
  then show "\<exists>rows. snd (ApplyRetryFailure q s) = s\<lparr>st_retry := rows\<rparr>"
    "\<exists>rows. snd (ClearRetrySchedule i ph n s) = s\<lparr>st_retry := rows\<rparr>"
    by (auto simp: ApplyRetryFailure_def ClearRetrySchedule_def Let_def split: option.split sum.split)
qed

lemma ClearRetrySchedule_keys: "retry_keys s \<Longrightarrow> retry_keys (snd (ClearRetrySchedule i ph n s))"
  by (auto simp: ClearRetrySchedule_def retry_keys_def Let_def distinct_delete_where split: option.split)

section \<open>The invariant of the store\<close>

definition db_inv :: "store \<Rightarrow> bool" where
  "db_inv s \<longleftrightarrow> store_inv s \<and> effects_inv (st_side_effects s) \<and> retry_keys s \<and> capacity_inv s"

lemma db_inv_frame:
  "db_inv s \<Longrightarrow> (store_inv s \<Longrightarrow> store_inv t) \<Longrightarrow> run_frame s t \<or> permits_within s t \<Longrightarrow> db_inv t"
  by (auto simp: db_inv_def run_frame_def permits_within_def capacity_inv_def retry_keys_def)

lemma db_inv_configure: "db_inv s \<Longrightarrow> db_inv (snd (ConfigureHeavyCapacity n ident now s))"
proof -
  assume inv: "db_inv s"
  then have "store_inv (snd (ConfigureHeavyCapacity n ident now s))" by (simp add: db_inv_def preserve)
  with inv show ?thesis
    by (auto simp: db_inv_def ConfigureHeavyCapacity_def capacity_inv_def retry_keys_def Let_def split: option.splits)
qed

lemma db_inv_retry:
  "db_inv s \<Longrightarrow> db_inv (snd (ApplyRetryFailure q s))"
  "db_inv s \<Longrightarrow> db_inv (snd (ClearRetrySchedule i ph n s))"
proof -
  assume inv: "db_inv s"
  have upd: "db_inv t" if "t = s\<lparr>st_retry := rows\<rparr>" "retry_keys t" for t rows
    using inv that store_inv_cong [of s t] by (simp add: db_inv_def capacity_inv_def)
  show "db_inv (snd (ApplyRetryFailure q s))"
    using retry_store(1) [of q s] upd ApplyRetryFailure_keys [of s q] inv by (auto simp: db_inv_def)
  show "db_inv (snd (ClearRetrySchedule i ph n s))"
    using retry_store(2) [of i ph n s] upd ClearRetrySchedule_keys [of s i ph n] inv by (auto simp: db_inv_def)
qed

lemma db_inv_effect: "db_inv s \<Longrightarrow> db_inv (run_op cmd s)"
  using run_op_tables [of cmd s] effects_inv_op [of s cmd] store_inv_op [of s cmd]
  by (auto simp: db_inv_def capacity_inv_def retry_keys_def)

lemma db_inv_step: "db_step w now s t \<Longrightarrow> db_inv s \<Longrightarrow> db_inv t"
proof (induction rule: db_step.cases)
  case step_effect
  then show ?thesis by (simp add: db_inv_effect)
next
  case step_retry
  then show ?thesis by (simp add: db_inv_retry)
next
  case step_clear_retry
  then show ?thesis by (simp add: db_inv_retry)
next
  case step_capacity
  then show ?thesis by (simp add: db_inv_configure)
next
  case (step_reconcile ord)
  then have "store_inv s \<Longrightarrow> store_inv t" by (simp add: ReconcileSchedulingAuthorities_inv)
  with step_reconcile show ?thesis by (intro db_inv_frame [of s t]) simp_all
qed (hypsubst, rule db_inv_frame, assumption, rule preserve, assumption, simp)+

lemma db_inv_empty: "db_inv empty_store"
  by (simp add: db_inv_def store_inv_def run_inv_def sched_inv_def effects_inv_def retry_keys_def capacity_inv_def
      empty_store_def run_view_def one_active_run_def MaxHeavyCapacity_def)

interpretation db: invariant_system db_start any_step db_inv
proof unfold_locales
  show "db_start s \<Longrightarrow> db_inv s" for s by (simp add: db_start_def db_inv_empty)
  show "db_inv s \<Longrightarrow> any_step s t \<Longrightarrow> db_inv t" for s t
    by (auto simp: any_step_def intro: db_inv_step)
qed

abbreviation stored :: "store \<Rightarrow> bool" where
  "stored s \<equiv> reachable db_start any_step s"

lemma stored_run_inv: "stored s \<Longrightarrow> run_inv s"
  using db.reachable_inv by (auto simp: db_inv_def store_inv_def)

lemma stored_sched_inv: "stored s \<Longrightarrow> sched_inv s"
  using db.reachable_inv by (auto simp: db_inv_def store_inv_def)

lemma stored_step: "stored s \<Longrightarrow> db_step w now s t \<Longrightarrow> stored t"
  by (rule reachable_step) (auto simp: any_step_def)

section \<open>Stored trails\<close>

lemma trail_history: "trail_ok ts st \<Longrightarrow> history (map tr_To ts)"
  by (auto simp: trail_ok_def intro: chain_history)

text \<open>The rows of a trail before a row of it are those with smaller numbers.\<close>

lemma countdown_nth: "i < n \<Longrightarrow> countdown n ! i = int (n - i)"
  by (induction n arbitrary: i) (auto simp: nth_Cons split: nat.split)

lemma countdown_length [simp]: "length (countdown n) = n"
  by (induction n) auto

lemma trail_sequence: "trail_ok ts st \<Longrightarrow> i < length ts \<Longrightarrow> tr_Sequence (ts ! i) = int (length ts - i)"
  using countdown_nth [of i "length ts"] by (metis nth_map trail_ok_def)

lemma trail_later:
  assumes "trail_ok ts st" and "ts = xs @ t # ys" and "u \<in> set ys"
  shows "tr_Sequence u < tr_Sequence t"
proof -
  from assms(3) obtain k where k: "k < length ys" "ys ! k = u" by (auto simp: in_set_conv_nth)
  have "ts ! length xs = t" "ts ! (length xs + Suc k) = u"
    using assms(2) k by (auto simp: nth_append)
  then show ?thesis
    using trail_sequence [OF assms(1), of "length xs"] trail_sequence [OF assms(1), of "length xs + Suc k"] assms(2) k
    by simp
qed

lemma trail_earlier_rows:
  assumes "trail_ok ts st" and "ts = xs @ t # ys" and "u \<in> set ts" and "tr_Sequence u < tr_Sequence t"
  shows "u \<in> set ys"
proof -
  from assms(3) obtain k where k: "k < length ts" "ts ! k = u" by (auto simp: in_set_conv_nth)
  have t: "ts ! length xs = t" using assms(2) by simp
  have "length xs < k"
    using trail_sequence [OF assms(1) k(1)] trail_sequence [OF assms(1), of "length xs"] k t assms(2,4) by simp
  with k assms(2) show ?thesis by (auto simp: nth_append nth_Cons' split: if_splits)
qed

text \<open>What a state of a history since the last change of the code is, by row numbers.\<close>

definition since_row :: "store \<Rightarrow> transition_row \<Rightarrow> state \<Rightarrow> bool" where
  "since_row s t st \<longleftrightarrow>
     (\<exists>a \<in> set (st_transitions s). tr_RunID a = tr_RunID t \<and> tr_To a = st \<and> tr_Sequence a < tr_Sequence t \<and>
        (\<forall>u \<in> set (st_transitions s). tr_RunID u = tr_RunID t \<and> tr_Sequence a \<le> tr_Sequence u \<and>
           tr_Sequence u < tr_Sequence t \<longrightarrow> \<not> changes_code (tr_To u)))"

lemma takeWhile_split:
  "x \<in> set (takeWhile P (map f ys)) \<Longrightarrow> \<exists>as y bs. ys = as @ y # bs \<and> f y = x \<and> (\<forall>z \<in> set (as @ [y]). P (f z))"
proof (induction ys)
  case (Cons y ys)
  show ?case
  proof (cases "x = f y")
    case True
    with Cons.prems show ?thesis by (intro exI [of _ "[]"]) (auto split: if_splits)
  next
    case False
    with Cons obtain as z bs where "ys = as @ z # bs" "f z = x" "\<forall>z \<in> set (as @ [z]). P (f z)" "P (f y)"
      by (auto split: if_splits)
    then show ?thesis by (intro exI [of _ "y # as"]) auto
  qed
qed simp

lemma since_change_row:
  assumes inv: "run_inv s" and t: "t \<in> set (st_transitions s)" and split: "run_trail s (tr_RunID t) = xs @ t # ys"
    and st: "st \<in> since_change (map tr_To ys)"
  shows "since_row s t st"
proof -
  obtain r where r: "r \<in> set (st_runs s)" "run_ID r = tr_RunID t" using run_invD(5) [OF inv t] by auto
  with run_invD(3) [OF inv] have ok: "trail_ok (run_trail s (tr_RunID t)) (run_State r)" by metis
  from st obtain as a bs where ys: "ys = as @ a # bs" "tr_To a = st" "\<forall>z \<in> set (as @ [a]). \<not> changes_code (tr_To z)"
    using takeWhile_split [of st _ tr_To ys] unfolding since_change_def by blast
  have a: "a \<in> set (st_transitions s)" "tr_RunID a = tr_RunID t"
    using split ys(1) set_filter [of "\<lambda>x. tr_RunID x = tr_RunID t" "st_transitions s"]
    unfolding run_trail_def [symmetric] by auto
  have "tr_Sequence a < tr_Sequence t" using trail_later [OF ok split] ys(1) by simp
  moreover have "\<not> changes_code (tr_To u)"
    if "u \<in> set (st_transitions s)" "tr_RunID u = tr_RunID t" "tr_Sequence a \<le> tr_Sequence u" "tr_Sequence u < tr_Sequence t" for u
  proof -
    have "u \<in> set (run_trail s (tr_RunID t))" using that by (simp add: run_trail_def)
    from trail_earlier_rows [OF ok split this that(4)] have "u \<in> set (as @ a # bs)" using ys(1) by simp
    moreover have "u \<notin> set bs"
      using trail_later [OF ok, of "xs @ t # as" a bs u] split ys(1) that(3) by auto
    ultimately show ?thesis using ys(3) by auto
  qed
  ultimately show ?thesis using a ys(2) unfolding since_row_def by blast
qed

lemma stored_evidence:
  assumes s: "stored s" and t: "t \<in> set (st_transitions s)"
  obtains h where "history (tr_To t # h)" "\<And>st. st \<in> since_change h \<Longrightarrow> since_row s t st"
proof -
  note inv = stored_run_inv [OF s]
  obtain r where r: "r \<in> set (st_runs s)" "run_ID r = tr_RunID t" using run_invD(5) [OF inv t] by auto
  with run_invD(3) [OF inv] have ok: "trail_ok (run_trail s (tr_RunID t)) (run_State r)" by metis
  have "t \<in> set (run_trail s (tr_RunID t))" using t by (simp add: run_trail_def)
  then obtain xs ys where split: "run_trail s (tr_RunID t) = xs @ t # ys" by (meson split_list)
  from ok split have "chain (map tr_To xs @ tr_To t # map tr_To ys)" by (simp add: trail_ok_def)
  moreover have "chain (us @ v # vs) \<Longrightarrow> chain (v # vs)" for us v vs
    by (induction us) (auto elim: chain.elims)
  ultimately have "history (tr_To t # map tr_To ys)" by (blast intro: chain_history)
  with since_change_row [OF inv t split] show thesis by (intro that)
qed

section \<open>Properties of every reachable store\<close>

text \<open>C20: In every reachable store the rows of table \<open>transitions\<close> prove what each run has been
  through: they are numbered from 1 without a gap, each continues where the one before ended, they
  follow persisted edges from the creation of the run, and the last of them ends in the state the
  run row shows. No run is without such a trail, whatever operations ran and in which order.\<close>

theorem stored_runs_have_histories:
  assumes "stored s" and "r \<in> set (st_runs s)"
  shows "history (map tr_To (run_trail s (run_ID r))) \<and>
    hd (map tr_To (run_trail s (run_ID r))) = run_State r \<and>
    map tr_Sequence (run_trail s (run_ID r)) = countdown (length (run_trail s (run_ID r))) \<and>
    map tr_From (run_trail s (run_ID r)) = tl (map tr_To (run_trail s (run_ID r))) @ [StateOther []]"
proof -
  have "trail_ok (run_trail s (run_ID r)) (run_State r)"
    using run_invD(3) [OF stored_run_inv [OF assms(1)] assms(2)] .
  then show ?thesis using trail_history by (auto simp: trail_ok_def)
qed


text \<open>A run delivered through the operations of the store.\<close>

fun advance :: "state list \<Rightarrow> store \<Rightarrow> store" where
  "advance (a # b # rest) s =
     advance (b # rest) (snd (Transition ''r1'' a b ''reason'' ''evidence'' ''head'' 9 s))"
| "advance _ s = s"

lemma stored_advance: "stored s \<Longrightarrow> stored (advance states s)"
  by (induction states s rule: advance.induct) (auto intro: stored_step step_transition)

definition no_ownership :: "string \<Rightarrow> local_ownership option" where
  "no_ownership j = None"

definition sample_created :: store where
  "sample_created = snd (CreateRun no_ownership None True (sample_run\<lparr>run_State := StateReceived\<rparr>) 7 empty_store)"

definition sample_delivered :: store where
  "sample_delivered = advance (rev sample_history @ [StateAwaitingLinearCompletion]) sample_created"

lemma sample_created_stored: "stored sample_created"
  unfolding sample_created_def
  by (rule stored_step [OF reachable_init step_create]) (simp add: db_start_def)

lemma sample_delivered_stored: "stored sample_delivered"
  unfolding sample_delivered_def by (rule stored_advance [OF sample_created_stored])

lemma sample_delivered_rows:
  "map run_State (st_runs sample_delivered) = [StateAwaitingLinearCompletion]"
  "list_ex (\<lambda>t. tr_RunID t = ''r1'' \<and> tr_To t = StateMerging) (st_transitions sample_delivered)"
  by code_simp+

theorem stored_runs_have_histories_witness:
  "\<exists>r \<in> set (st_runs sample_delivered). history (map tr_To (run_trail sample_delivered (run_ID r))) \<and>
     hd (map tr_To (run_trail sample_delivered (run_ID r))) = StateAwaitingLinearCompletion"
proof -
  obtain r where "r \<in> set (st_runs sample_delivered)" "run_State r = StateAwaitingLinearCompletion"
    using sample_delivered_rows(1) by (cases "st_runs sample_delivered") auto
  with stored_runs_have_histories [OF sample_delivered_stored this(1)] show ?thesis by auto
qed


lemma frame_permits:
  "run_frame s t \<or> permits_within s t \<Longrightarrow> length (st_permits t) \<le> length (st_permits s) \<or>
     (\<exists>c. st_capacity s = Some c \<and> int (length (st_permits t)) \<le> cap_Effective c)"
  by (auto simp: run_frame_def permits_within_def)

lemma step_permits:
  "db_step w now s t \<Longrightarrow> length (st_permits t) \<le> length (st_permits s) \<or>
     (\<exists>c. st_capacity s = Some c \<and> int (length (st_permits t)) \<le> cap_Effective c)"
proof (induction rule: db_step.cases)
  case (step_effect w now s cmd)
  then show ?case using run_op_tables [of cmd s] by simp
next
  case (step_retry w now s q)
  then show ?case using retry_store(1) [of q s] by auto
next
  case (step_clear_retry w now s i ph n)
  then show ?case using retry_store(2) [of i ph n s] by auto
next
  case (step_capacity w now s n ident)
  then show ?case by (simp add: ConfigureHeavyCapacity_def Let_def split: option.split)
qed (hypsubst, rule frame_permits, simp)+

text \<open>C23: However many workers there are and whatever they do, at most 32 heavy permits exist, no two
  of them for one run or for two runs of the same repository, and every permit is held for a run
  that is still active; a step that adds a permit stays within the effective capacity.\<close>

theorem heavy_work_bounded:
  assumes "stored s"
  shows "length (st_permits s) \<le> 32 \<and> distinct (map hp_RunID (st_permits s)) \<and>
    (\<forall>p \<in> set (st_permits s). \<exists>r \<in> set (st_runs s). run_ID r = hp_RunID p \<and> \<not> terminal (run_State r)) \<and>
    (\<forall>p \<in> set (st_permits s). \<forall>q \<in> set (st_permits s). \<forall>r \<in> set (st_runs s). \<forall>u \<in> set (st_runs s).
       run_ID r = hp_RunID p \<and> run_ID u = hp_RunID q \<and>
       run_RepositoryBindingDigest r = run_RepositoryBindingDigest u \<longrightarrow> p = q) \<and>
    (\<forall>t. any_step s t \<and> length (st_permits s) < length (st_permits t) \<longrightarrow>
       (\<exists>c. st_capacity s = Some c \<and> int (length (st_permits t)) \<le> cap_Effective c))"
proof -
  have inv: "db_inv s" by (rule db.reachable_inv [OF assms])
  note si = sched_invD [OF stored_sched_inv [OF assms]]
  have slot: "\<exists>x \<in> set (st_slots s). slot_RunID x = hp_RunID p \<and>
      (\<exists>r \<in> set (st_runs s). run_ID r = hp_RunID p \<and> run_RepositoryBindingDigest r = slot_Binding x \<and>
         \<not> terminal (run_State r))" if "p \<in> set (st_permits s)" for p
  proof -
    from si(7) [OF that] obtain x where x: "x \<in> set (st_slots s)" "slot_RunID x = hp_RunID p" by auto
    from si(6) [OF x(1)] x(2) show ?thesis
      by (intro bexI [OF _ x(1)]) (auto simp: slot_ok_def run_view_def x(2))
  qed
  have one: "p = q" if a: "p \<in> set (st_permits s)" "q \<in> set (st_permits s)" "r \<in> set (st_runs s)" "u \<in> set (st_runs s)"
    "run_ID r = hp_RunID p" "run_ID u = hp_RunID q" "run_RepositoryBindingDigest r = run_RepositoryBindingDigest u" for p q r u
  proof -
    note ids = run_view_ids [OF si(1)]
    from slot [OF a(1)] obtain x r' where x: "x \<in> set (st_slots s)" "slot_RunID x = hp_RunID p"
      "r' \<in> set (st_runs s)" "run_ID r' = hp_RunID p" "run_RepositoryBindingDigest r' = slot_Binding x" by auto
    from slot [OF a(2)] obtain y u' where y: "y \<in> set (st_slots s)" "slot_RunID y = hp_RunID q"
      "u' \<in> set (st_runs s)" "run_ID u' = hp_RunID q" "run_RepositoryBindingDigest u' = slot_Binding y" by auto
    have "r' = r" "u' = u" using unique_row [OF ids] x(3,4) y(3,4) a(3-6) by metis+
    then have "x = y" using unique_row [OF si(2) x(1) y(1)] x(5) y(5) a(7) by simp
    then show ?thesis using unique_row [OF si(4) a(1,2)] x(2) y(2) by simp
  qed
  have step: "length (st_permits t) \<le> length (st_permits s) \<or>
      (\<exists>c. st_capacity s = Some c \<and> int (length (st_permits t)) \<le> cap_Effective c)" if "any_step s t" for t
    using that step_permits by (auto simp: any_step_def)
  have "length (st_permits s) \<le> 32"
    using inv by (simp add: db_inv_def capacity_inv_def MaxHeavyCapacity_def)
  moreover have "\<forall>p \<in> set (st_permits s). \<exists>r \<in> set (st_runs s). run_ID r = hp_RunID p \<and> \<not> terminal (run_State r)"
    using slot by blast
  moreover have "\<forall>p \<in> set (st_permits s). \<forall>q \<in> set (st_permits s). \<forall>r \<in> set (st_runs s). \<forall>u \<in> set (st_runs s).
      run_ID r = hp_RunID p \<and> run_ID u = hp_RunID q \<and>
      run_RepositoryBindingDigest r = run_RepositoryBindingDigest u \<longrightarrow> p = q"
    using one by blast
  moreover have "\<forall>t. any_step s t \<and> length (st_permits s) < length (st_permits t) \<longrightarrow>
      (\<exists>c. st_capacity s = Some c \<and> int (length (st_permits t)) \<le> cap_Effective c)"
    using step by (meson not_less)
  ultimately show ?thesis using si(4) by blast
qed

theorem heavy_work_bounded_witness:
  "length (st_permits sample_created) = 1 \<and> length (st_permits sample_created) \<le> 32"
proof -
  have "length (st_permits sample_created) = 1" by code_simp
  with heavy_work_bounded [OF sample_created_stored] show ?thesis by blast
qed

section \<open>The abstract machine of runs\<close>

text \<open>
  What the store promises about runs, without tables: a partial map from run IDs to states. A step
  changes nothing, creates a run, or moves one run along a persisted edge.
\<close>

type_synonym runs_spec = "string \<rightharpoonup> state"

inductive spec_step :: "runs_spec \<Rightarrow> runs_spec \<Rightarrow> bool" where
  spec_stutter: "spec_step m m"
| spec_create: "m i = None \<Longrightarrow> spec_step m (m(i \<mapsto> StateReceived))"
| spec_move: "m i = Some a \<Longrightarrow> persisted_edge a b \<Longrightarrow> spec_step m (m(i \<mapsto> b))"

definition runs_of :: "store \<Rightarrow> runs_spec" where
  "runs_of s i = map_option run_State (find_run s i)"

text \<open>The abstract state can be read off the trails, and a step adds at most one row.\<close>

lemma runs_of_trail:
  assumes "run_inv s"
  shows "runs_of s i = (case run_trail s i of [] \<Rightarrow> None | t # _ \<Rightarrow> Some (tr_To t))"
proof (cases "find_run s i")
  case None
  then have "\<forall>r \<in> set (st_runs s). run_ID r \<noteq> i" by (simp add: find_run_def select_where_None)
  then have "run_trail s i = []"
    using run_invD(5) [OF assms] by (fastforce simp: run_trail_def filter_empty_conv)
  with None show ?thesis by (simp add: runs_of_def)
next
  case (Some r)
  then have "trail_ok (run_trail s i) (run_State r)" using run_invD(3) [OF assms] find_run_Some by metis
  with Some show ?thesis by (auto simp: trail_ok_def runs_of_def split: list.split)
qed

definition log_grows :: "store \<Rightarrow> store \<Rightarrow> bool" where
  "log_grows s t \<longleftrightarrow> st_transitions t = st_transitions s \<or> (\<exists>x. st_transitions t = x # st_transitions s)"

lemma log_grows_refl [simp]: "log_grows s s"
  by (simp add: log_grows_def)

lemma log_grows_cat [simp]: "log_grows s (snd (compare_and_transition lost i P a b f r e h now s))"
  by (simp add: log_grows_def compare_and_transition_def append_transition_def Let_def)

lemma log_grows_cat_eq: "compare_and_transition lost i P a b f r e h now s = (x, t) \<Longrightarrow> log_grows s t"
  using log_grows_cat [of s lost i P a b f r e h now] by simp

lemma log_grows_ops [simp]:
  "log_grows s (snd (Transition i src dst reason ev head now s))"
  "log_grows s (snd (MarkLinearSourceDrift i st revision ev now s))"
  "log_grows s (snd (BeginRepair i head ev now s))"
  "log_grows s (snd (PersistFreshReviewFindings v rc c i head ref now s))"
  "log_grows s (snd (TransitionReviewReplyRun i owner src dst reason ev head now s))"
  "log_grows s (snd (SaveGitHubReconciliation c i owner src dst key reason ev head now s))"
  "log_grows s (snd (SaveGitHubManualPRTargetDrift c i owner st key ev head reason now s))"
  "log_grows s (snd (RequireManualInterventionForTrustedFeedbackDrift c i owner st key digest now s))"
  "log_grows s (snd (AbandonAutomaticAdmission authority journal delivery q now s))"
  unfolding Transition_def MarkLinearSourceDrift_def BeginRepair_def PersistFreshReviewFindings_def
    TransitionReviewReplyRun_def SaveGitHubReconciliation_def SaveGitHubManualPRTargetDrift_def
    RequireManualInterventionForTrustedFeedbackDrift_def AbandonAutomaticAdmission_def abandon_run_def
    abandon_retry_def Let_def
  by (auto split: option.split prod.split dest: log_grows_cat_eq) (auto dest!: log_grows_cat_eq simp: log_grows_def)

lemma log_grows_tables [simp]:
  "log_grows s (snd (SetWorkspace i base worktree now s))"
  "log_grows s (snd (SetImplementationSession i session now s))"
  "log_grows s (snd (SetCandidateHead i head now s))"
  "log_grows s (snd (SetLastError i msg now s))"
  "log_grows s (snd (AcquireLease i w expires now s))"
  "log_grows s (snd (RenewLease i w expires now s))"
  "log_grows s (snd (ReleaseLease i w now s))"
  "log_grows s (snd (BeginAttempt i kind model dir key now s))"
  "log_grows s (snd (CommitAttemptProcessLaunch n s))"
  "log_grows s (snd (FinishAttempt a s))"
  "log_grows s (snd (SaveVerification v now s))"
  "log_grows s (snd (AddOwnedResource x s))"
  "log_grows s (snd (BindWorkerSupervisor w s))"
  "log_grows s (snd (ConfigureHeavyCapacity m ident now s))"
  "log_grows s (snd (ReleaseHeavyPermit p reason now s))"
  "log_grows s (snd (DeferSchedulingRun i at now s))"
  "log_grows s (snd (AcquireHeavyPermit i owner now s))"
  by (auto simp: log_grows_def frame SetWorkspace_def SetImplementationSession_def SetCandidateHead_def
      SetLastError_def AcquireLease_def RenewLease_def ReleaseLease_def update_lease_def exec_one_run_def
      update_runs_def BeginAttempt_def CommitAttemptProcessLaunch_def FinishAttempt_def SaveVerification_def
      AddOwnedResource_def Let_def split: option.split)

lemma log_grows_create [simp]: "log_grows s (snd (CreateRun dec a ok' q now s))"
proof -
  let ?run = "ensureRepositoryBindingDigest q"
  let ?s1 = "insert_run ?run now s"
  let ?res = "reserveSchedulingAuthoritiesTx ?run zero_reservation (defaultHeavyPermitOwner s (run_ID ?run)) now ?s1"
  have "log_grows s ?s1" by (simp add: insert_run_def append_transition_def log_grows_def)
  moreover have "log_grows s (snd ?res)"
    using \<open>log_grows s ?s1\<close> by (simp add: log_grows_def frame)
  ultimately show ?thesis
    by (cases ?res) (simp add: CreateRun_def Let_def split: option.split sum.split)
qed

lemma log_grows_reconcile [simp]: "log_grows s (snd (ReconcileSchedulingAuthorities ord now s))"
proof -
  have "reconcile_runs counts now runs (drop_terminal_authorities s) = Inr (s', xs) \<Longrightarrow>
      st_transitions s' = st_transitions s" for counts runs s' xs
    using reconcile_runs_transitions by fastforce
  then show ?thesis
    by (auto simp: ReconcileSchedulingAuthorities_def log_grows_def Let_def split: sum.split prod.split)
qed

lemma log_grows_effect [simp]: "log_grows s (run_op cmd s)"
proof (cases cmd)
  case (OpPolicyPending i q h now)
  have "log_grows s (snd (wait_for_mergeability i h now (snd (store_pending i q h s))))"
    unfolding wait_for_mergeability_def
    using log_grows_cat [of "snd (store_pending i q h s)"] by (simp add: log_grows_def store_pending_def exec_one_store)
  with OpPolicyPending show ?thesis
    by (cases "store_pending i q h s"; cases "wait_for_mergeability i h now (snd (store_pending i q h s))")
      (auto simp: RecordMergePolicyPending_def split: option.split)
qed (auto simp: BeginSideEffect_def record_intent_def FinishSideEffect_def RetryLinearIssueStartSideEffect_def
    FinishLinearIssueStartSideEffect_def ClaimLinearIssueStartSideEffect_def RetryMergeSideEffect_def
    BeginReviewReplySideEffect_def FinishReviewReplySideEffect_def RetryReviewReplySideEffect_def log_grows_def
    exec_one_store Let_def split: option.split prod.split sum.split)

lemma log_grows_retry [simp]:
  "log_grows s (snd (ApplyRetryFailure q s))" "log_grows s (snd (ClearRetrySchedule i ph n s))"
  using retry_store(1) [of q s] retry_store(2) [of i ph n s] by (auto simp: log_grows_def)

lemma log_grows_step: "db_step w now s t \<Longrightarrow> log_grows s t"
  by (induction rule: db_step.cases) (hypsubst, simp)+

text \<open>C21: The store refines the abstract machine: every step of every operation, seen through
  \<open>runs_of\<close>, creates one run in its first state, moves one run along a persisted edge, or changes
  no state at all.\<close>

theorem store_refines_runs:
  assumes "stored s" and "any_step s t"
  shows "spec_step (runs_of s) (runs_of t)"
proof -
  have s: "run_inv s" and t: "run_inv t"
    by (rule stored_run_inv [OF assms(1)]) (rule stored_run_inv [OF reachable_step [OF assms]])
  from assms(2) have "log_grows s t" using log_grows_step by (auto simp: any_step_def)
  then consider "st_transitions t = st_transitions s" | x where "st_transitions t = x # st_transitions s"
    by (auto simp: log_grows_def)
  then show ?thesis
  proof cases
    case 1
    then have "runs_of t = runs_of s"
      by (simp add: fun_eq_iff runs_of_trail [OF s] runs_of_trail [OF t] run_trail_def)
    then show ?thesis by (simp add: spec_stutter)
  next
    case (2 x)
    let ?j = "tr_RunID x"
    have trail: "run_trail t i = (if i = ?j then x # run_trail s i else run_trail s i)" for i
      using 2 by (simp add: run_trail_def)
    then have eq: "runs_of t = (runs_of s)(?j \<mapsto> tr_To x)"
      by (simp add: fun_eq_iff runs_of_trail [OF s] runs_of_trail [OF t])
    have "?j \<in> run_ID ` set (st_runs t)" using run_invD(5) [OF t, of x] 2 by simp
    then obtain r where r: "r \<in> set (st_runs t)" "run_ID r = ?j" by auto
    then have ch: "chain (map tr_To (x # run_trail s ?j))"
      using run_invD(3) [OF t r(1)] trail [of ?j] r(2) unfolding trail_ok_def by (metis (no_types))
    show ?thesis
    proof (cases "run_trail s ?j")
      case Nil
      with ch have "tr_To x = StateReceived" "runs_of s ?j = None"
        by (simp_all add: runs_of_trail [OF s])
      with eq show ?thesis by (simp add: spec_create)
    next
      case (Cons u us)
      with ch have "persisted_edge (tr_To u) (tr_To x)" "runs_of s ?j = Some (tr_To u)"
        by (simp_all add: runs_of_trail [OF s])
      with eq show ?thesis by (simp add: spec_move)
    qed
  qed
qed

theorem store_refines_runs_witness:
  "spec_step (runs_of sample_created)
     (runs_of (snd (Transition ''r1'' StateReceived StateAdmitting ''x'' ''y'' [] 9 sample_created)))"
  by (rule store_refines_runs [OF sample_created_stored]) (auto simp: any_step_def intro: step_transition)

section \<open>Leases\<close>

definition lease_of :: "store \<Rightarrow> string \<Rightarrow> (string \<times> int) option" where
  "lease_of s i = map_option (\<lambda>r. (run_LeaseOwner r, run_LeaseExpiresUnix r)) (find_run s i)"

definition keeps_leases :: "store \<Rightarrow> store \<Rightarrow> bool" where
  "keeps_leases s t \<longleftrightarrow> (\<forall>i x. lease_of s i = Some x \<longrightarrow> lease_of t i = Some x)"

definition same_lease :: "(run_row \<Rightarrow> run_row) \<Rightarrow> bool" where
  "same_lease f \<longleftrightarrow> (\<forall>r. run_ID (f r) = run_ID r \<and> run_LeaseOwner (f r) = run_LeaseOwner r \<and>
     run_LeaseExpiresUnix (f r) = run_LeaseExpiresUnix r)"

lemma same_lease_simps [simp]:
  "same_lease (\<lambda>r. r)" "same_lease (set_error e)" "same_lease (\<lambda>r. r\<lparr>run_CandidateHead := h\<rparr>)"
  "same_lease (\<lambda>r. r\<lparr>run_BaseSHA := b, run_WorktreePath := w\<rparr>)"
  "same_lease (\<lambda>r. r\<lparr>run_ImplementationSession := x\<rparr>)"
  "same_lease f \<Longrightarrow> same_lease (touch now f)"
  "same_lease f \<Longrightarrow> same_lease (\<lambda>r. (f r)\<lparr>run_State := st, run_UpdatedAt := now\<rparr>)"
  by (simp_all add: same_lease_def set_error_def touch_def)

lemma keeps_leases_refl [simp]: "keeps_leases s s"
  by (simp add: keeps_leases_def)

lemma keeps_leases_runs: "st_runs t = st_runs s \<Longrightarrow> keeps_leases s t"
  by (simp add: keeps_leases_def lease_of_def find_run_def)

lemma find_run_update:
  assumes "\<And>r. run_ID (f r) = run_ID r" and "st_runs t = update_where P f (st_runs s)"
  shows "find_run t i = map_option (\<lambda>r. if P r then f r else r) (find_run s i)"
  unfolding find_run_def select_where_def assms(2) update_where_def
  using assms(1) by (intro find_map_same) simp

lemma keeps_leases_update:
  assumes "same_lease f" and "st_runs t = update_where P f (st_runs s)"
  shows "keeps_leases s t"
proof -
  have "find_run t i = map_option (\<lambda>r. if P r then f r else r) (find_run s i)" for i
    using assms by (intro find_run_update) (simp_all add: same_lease_def)
  then have "lease_of t i = lease_of s i" for i
    using assms(1) by (cases "find_run s i") (simp_all add: lease_of_def same_lease_def)
  then show ?thesis by (simp add: keeps_leases_def)
qed

lemma keeps_leases_cat [simp]:
  assumes "same_lease f"
  shows "keeps_leases s (snd (compare_and_transition lost i P a b f r e h now s))"
proof (cases "fst (compare_and_transition lost i P a b f r e h now s)")
  case None
  then have "st_runs (snd (compare_and_transition lost i P a b f r e h now s)) =
      update_where P (\<lambda>r. (f r)\<lparr>run_State := b, run_UpdatedAt := now\<rparr>) (st_runs s)"
    by (auto simp: compare_and_transition_def Let_def split: if_splits)
  then show ?thesis by (rule keeps_leases_update [rotated]) (simp add: assms)
next
  case (Some _)
  then show ?thesis using compare_and_transition_snd [of lost i P a b f r e h now s] by auto
qed

lemma keeps_leases_cat_eq:
  "compare_and_transition lost i P a b f r e h now s = (x, t) \<Longrightarrow> same_lease f \<Longrightarrow> keeps_leases s t"
  using keeps_leases_cat [of f s lost i P a b r e h now] by simp

lemma keeps_leases_abandon: "keeps_leases s t \<Longrightarrow> keeps_leases s (abandon_retry i now t)"
  by (simp add: keeps_leases_def lease_of_def find_run_def abandon_retry_def)

lemma keeps_leases_ops [simp]:
  "keeps_leases s (snd (Transition i src dst reason ev head now s))"
  "keeps_leases s (snd (MarkLinearSourceDrift i st revision ev now s))"
  "keeps_leases s (snd (BeginRepair i head ev now s))"
  "keeps_leases s (snd (PersistFreshReviewFindings v rc c i head ref now s))"
  "keeps_leases s (snd (TransitionReviewReplyRun i owner src dst reason ev head now s))"
  "keeps_leases s (snd (SaveGitHubReconciliation c i owner src dst key reason ev head now s))"
  "keeps_leases s (snd (SaveGitHubManualPRTargetDrift c i owner st key ev head reason now s))"
  "keeps_leases s (snd (RequireManualInterventionForTrustedFeedbackDrift c i owner st key digest now s))"
  "keeps_leases s (snd (AbandonAutomaticAdmission authority journal delivery q now s))"
  unfolding Transition_def MarkLinearSourceDrift_def BeginRepair_def PersistFreshReviewFindings_def
    TransitionReviewReplyRun_def SaveGitHubReconciliation_def SaveGitHubManualPRTargetDrift_def
    RequireManualInterventionForTrustedFeedbackDrift_def AbandonAutomaticAdmission_def abandon_run_def Let_def
  by (auto split: option.split prod.split dest: keeps_leases_cat_eq intro!: keeps_leases_abandon)

lemma keeps_leases_exec [simp]:
  "same_lease f \<Longrightarrow> keeps_leases s (snd (exec_one_run P f s))"
  by (auto simp: exec_one_run_def update_runs_def intro: keeps_leases_update)

lemma keeps_leases_tables [simp]:
  "keeps_leases s (snd (SetWorkspace i base worktree now s))"
  "keeps_leases s (snd (SetImplementationSession i session now s))"
  "keeps_leases s (snd (SetCandidateHead i head now s))"
  "keeps_leases s (snd (SetLastError i msg now s))"
  "keeps_leases s (snd (BeginAttempt i kind model dir key now s))"
  "keeps_leases s (snd (CommitAttemptProcessLaunch n s))"
  "keeps_leases s (snd (FinishAttempt a s))"
  "keeps_leases s (snd (SaveVerification v now s))"
  "keeps_leases s (snd (AddOwnedResource x s))"
  "keeps_leases s (snd (BindWorkerSupervisor w s))"
  "keeps_leases s (snd (ConfigureHeavyCapacity m ident now s))"
  "keeps_leases s (snd (ReleaseHeavyPermit p reason now s))"
  "keeps_leases s (snd (DeferSchedulingRun i at now s))"
  "keeps_leases s (snd (AcquireHeavyPermit i owner now s))"
  by (simp_all add: SetWorkspace_def SetImplementationSession_def SetCandidateHead_def SetLastError_def)
    (auto simp: frame BeginAttempt_def CommitAttemptProcessLaunch_def FinishAttempt_def SaveVerification_def
      AddOwnedResource_def Let_def intro!: keeps_leases_runs split: option.split)

lemma keeps_leases_create [simp]: "keeps_leases s (snd (CreateRun dec a ok' q now s))"
proof -
  let ?run = "ensureRepositoryBindingDigest q"
  let ?s1 = "insert_run ?run now s"
  let ?res = "reserveSchedulingAuthoritiesTx ?run zero_reservation (defaultHeavyPermitOwner s (run_ID ?run)) now ?s1"
  have s1: "keeps_leases s ?s1" if "\<not> run_constraint_fails s ?run"
  proof -
    have "find_run ?s1 i = find_run s i" if "find_run s i \<noteq> None" for i
    proof -
      from that obtain r where "r \<in> set (st_runs s)" "run_ID r = i" by (auto dest: find_run_Some)
      with \<open>\<not> run_constraint_fails s ?run\<close> have "run_ID ?run \<noteq> i" by (auto simp: run_constraint_ok)
      then show ?thesis by (simp add: find_run_def select_where_def)
    qed
    then show ?thesis by (auto simp: keeps_leases_def lease_of_def)
  qed
  moreover have "st_runs (snd ?res) = st_runs ?s1" by (simp add: frame)
  then have "keeps_leases s (snd ?res)" if "\<not> run_constraint_fails s ?run"
    using s1 [OF that] by (simp add: keeps_leases_def lease_of_def find_run_def)
  ultimately show ?thesis
    by (cases ?res) (simp add: CreateRun_def Let_def split: option.split sum.split)
qed

lemma reconcile_run_runs: "reconcile_run counts now run s = Inr (s', x) \<Longrightarrow> st_runs s' = st_runs s"
  by (auto simp: reconcile_run_def quarantine_run_def record_supervisor_def reconcile_slot_def
      upsert_scheduling_def Let_def split: sum.splits option.splits if_splits)

lemma reconcile_runs_runs:
  "reconcile_runs counts now runs s = Inr (s', xs) \<Longrightarrow> st_runs s' = st_runs s"
  by (induction runs arbitrary: s xs) (auto dest: reconcile_run_runs split: sum.splits prod.splits)

lemma keeps_leases_reconcile [simp]:
  "keeps_leases s (snd (ReconcileSchedulingAuthorities ord now s))"
proof (cases "ReconcileSchedulingAuthorities ord now s")
  case (Pair r t)
  show ?thesis
  proof (cases r)
    case (Inl e)
    with Pair show ?thesis
      by (auto simp: ReconcileSchedulingAuthorities_def Let_def split: if_splits sum.splits)
  next
    case (Inr xs)
    with Pair have "st_runs t = st_runs s"
      by (auto simp: ReconcileSchedulingAuthorities_def Let_def dest!: reconcile_runs_runs
          split: if_splits sum.splits prod.splits)
    with Pair show ?thesis by (simp add: keeps_leases_runs)
  qed
qed


lemma keeps_leases_effect [simp]: "keeps_leases s (run_op cmd s)"
proof (cases cmd)
  case (OpPolicyPending i q h now)
  have "keeps_leases (snd (store_pending i q h s)) (snd (wait_for_mergeability i h now (snd (store_pending i q h s))))"
    unfolding wait_for_mergeability_def by simp
  then have "keeps_leases s (snd (wait_for_mergeability i h now (snd (store_pending i q h s))))"
    by (simp add: keeps_leases_def lease_of_def find_run_def store_pending_def exec_one_store)
  with OpPolicyPending show ?thesis
    by (cases "store_pending i q h s"; cases "wait_for_mergeability i h now (snd (store_pending i q h s))")
      (auto simp: RecordMergePolicyPending_def split: option.split)
qed (auto simp: BeginSideEffect_def record_intent_def FinishSideEffect_def RetryLinearIssueStartSideEffect_def
    FinishLinearIssueStartSideEffect_def ClaimLinearIssueStartSideEffect_def RetryMergeSideEffect_def
    BeginReviewReplySideEffect_def FinishReviewReplySideEffect_def RetryReviewReplySideEffect_def
    exec_one_store Let_def intro!: keeps_leases_runs split: option.split prod.split sum.split)

lemma keeps_leases_retry [simp]:
  "keeps_leases s (snd (ApplyRetryFailure q s))" "keeps_leases s (snd (ClearRetrySchedule i ph n s))"
  using retry_store(1) [of q s] retry_store(2) [of i ph n s] by (auto intro: keeps_leases_runs)

text \<open>A lease operation in another name, while the lease runs, does not touch it.\<close>

lemma update_lease_other:
  assumes "lease_of s i = Some (owner, expires)" and "\<And>r. run_ID (f r) = run_ID r"
    and "\<And>r. run_ID r = i \<Longrightarrow> run_LeaseOwner r = owner \<Longrightarrow> run_LeaseExpiresUnix r = expires \<Longrightarrow> \<not> P r"
  shows "lease_of (snd (update_lease P f now s)) i = Some (owner, expires)"
proof -
  from assms(1) obtain r where r: "find_run s i = Some r" "run_LeaseOwner r = owner" "run_LeaseExpiresUnix r = expires"
    by (auto simp: lease_of_def)
  have "find_run (snd (update_lease P f now s)) i = map_option (\<lambda>r. if P r then touch now f r else r) (find_run s i)"
    by (rule find_run_update [where f = "touch now f"]) (simp add: touch_def assms(2), simp add: update_lease_def update_runs_def)
  with r assms(3) [of r] find_run_Some [OF r(1)] show ?thesis by (simp add: lease_of_def)
qed

lemma foreign_lease_op:
  assumes l: "lease_of s i = Some (owner, expires)" and "w \<noteq> owner" and "unix_nano now < expires" and "owner \<noteq> []"
  shows "lease_of (snd (AcquireLease j w e now s)) i = Some (owner, expires)"
    "lease_of (snd (RenewLease j w e now s)) i = Some (owner, expires)"
    "lease_of (snd (ReleaseLease j w now s)) i = Some (owner, expires)"
proof -
  have u: "lease_of (snd (update_lease (\<lambda>r. run_ID r = j \<and> Q r) f now s)) i = Some (owner, expires)"
    if "\<And>r. run_ID (f r) = run_ID r" "\<And>r. run_LeaseOwner r = owner \<Longrightarrow> run_LeaseExpiresUnix r = expires \<Longrightarrow> \<not> Q r"
    for Q and f :: "run_row \<Rightarrow> run_row"
    using that by (intro update_lease_other [OF l]) auto
  show "lease_of (snd (AcquireLease j w e now s)) i = Some (owner, expires)"
    using assms by (simp add: AcquireLease_def case_prod_beta) (rule impI, rule u; simp)
  show "lease_of (snd (RenewLease j w e now s)) i = Some (owner, expires)"
    using assms by (simp add: RenewLease_def case_prod_beta) (rule u; simp)
  show "lease_of (snd (ReleaseLease j w now s)) i = Some (owner, expires)"
    using assms by (simp add: ReleaseLease_def case_prod_beta) (rule u; simp)
qed

definition foreign_step :: "string \<Rightarrow> int \<Rightarrow> store \<Rightarrow> store \<Rightarrow> bool" where
  "foreign_step owner expires s t \<longleftrightarrow> (\<exists>w now. w \<noteq> owner \<and> unix_nano now < expires \<and> db_step w now s t)"

lemma foreign_step_lease:
  assumes "foreign_step owner expires s t" and l: "lease_of s i = Some (owner, expires)" and "owner \<noteq> []"
  shows "lease_of t i = Some (owner, expires)"
proof -
  from assms(1) obtain w now where w: "w \<noteq> owner" "unix_nano now < expires" and st: "db_step w now s t"
    by (auto simp: foreign_step_def)
  note foreign = foreign_lease_op [OF l w assms(3)]
  have keep: "lease_of t i = Some (owner, expires)" if "keeps_leases s t"
    using that l by (simp add: keeps_leases_def)
  from st show ?thesis
  proof cases
    case step_acquire_lease
    then show ?thesis by (simp add: foreign)
  next
    case step_renew_lease
    then show ?thesis by (simp add: foreign)
  next
    case step_release_lease
    then show ?thesis by (simp add: foreign)
  qed (rule keep, simp)+
qed

lemma lease_of_count:
  assumes "distinct (map run_ID (st_runs s))" and "find_run s i = Some r"
  shows "count_where (\<lambda>r. run_ID r = i \<and> Q r) (st_runs s) = (if Q r then 1 else 0)"
proof -
  have r: "r \<in> set (st_runs s)" "run_ID r = i" using find_run_Some [OF assms(2)] by auto
  have "count_where (\<lambda>r. run_ID r = i \<and> Q r) (st_runs s) \<le> 1"
    by (rule count_where_unique [OF assms(1), where k = i]) simp
  moreover have "0 < count_where (\<lambda>r. run_ID r = i \<and> Q r) (st_runs s) \<longleftrightarrow> Q r"
  proof -
    have "q = r" if "q \<in> set (st_runs s)" "run_ID q = i" for q
      using unique_row [OF assms(1) that(1) r(1)] that(2) r(2) by simp
    then show ?thesis using r unfolding count_where_pos by blast
  qed
  ultimately show ?thesis by (cases "Q r") simp_all
qed

text \<open>C22: A run lease excludes every other worker until it expires: whatever operations other workers
  perform on the store, and in whatever order, before the expiry, the lease stays with its owner
  until the time it was granted for, nobody else can acquire or renew it, and its owner can.\<close>

theorem lease_excludes_others:
  assumes "stored s" and "lease_of s i = Some (owner, expires)" and "owner \<noteq> []"
    and "path (foreign_step owner expires) s ts t"
  shows "lease_of t i = Some (owner, expires) \<and>
    (\<forall>w now until. unix_nano now < expires \<longrightarrow> w \<noteq> owner \<longrightarrow>
       fst (AcquireLease i w until now t) \<noteq> Inr True \<and> fst (RenewLease i w until now t) = Inr False) \<and>
    (\<forall>now until. unix_nano now < expires \<longrightarrow> fst (RenewLease i owner until now t) = Inr True)"
proof -
  have "lease_of t i = Some (owner, expires) \<and> stored t" using assms(4,1,2)
  proof (induction rule: path.induct)
    case (path_Cons s t ts u)
    have "lease_of t i = Some (owner, expires)"
      by (rule foreign_step_lease [OF path_Cons.hyps(1) path_Cons.prems(2) assms(3)])
    moreover have "stored t"
      using path_Cons.hyps(1) path_Cons.prems(1) stored_step unfolding foreign_step_def by blast
    ultimately show ?case by (intro path_Cons.IH)
  qed simp
  then have keep: "lease_of t i = Some (owner, expires)" and "stored t" by simp_all
  have d: "distinct (map run_ID (st_runs t))" by (rule run_invD(1) [OF stored_run_inv [OF \<open>stored t\<close>]])
  from keep obtain r where r: "find_run t i = Some r" "run_LeaseOwner r = owner" "run_LeaseExpiresUnix r = expires"
    by (auto simp: lease_of_def)
  note n = lease_of_count [OF d r(1)]
  have "fst (AcquireLease i w until now t) \<noteq> Inr True \<and> fst (RenewLease i w until now t) = Inr False"
    if "unix_nano now < expires" "w \<noteq> owner" for w now until
    using that assms(3) r by (simp add: AcquireLease_def RenewLease_def update_lease_def n)
  moreover have "fst (RenewLease i owner until now t) = Inr True" if "unix_nano now < expires" for now until
    using that r by (simp add: RenewLease_def update_lease_def n)
  ultimately show ?thesis using keep by blast
qed

text \<open>Another worker tries to take the lease over and to release it.\<close>

definition sample_leased :: store where
  "sample_leased = snd (AcquireLease ''r1'' ''w1'' (100 * second) (10 * second) sample_created)"

definition sample_contended :: store where
  "sample_contended = snd (ReleaseLease ''r1'' ''w2'' (12 * second)
     (snd (AcquireLease ''r1'' ''w2'' (200 * second) (11 * second) sample_leased)))"

lemma sample_leased_stored: "stored sample_leased"
  unfolding sample_leased_def by (rule stored_step [OF sample_created_stored step_acquire_lease])

lemma sample_leased_lease: "lease_of sample_leased ''r1'' = Some (''w1'', unix_nano (100 * second))"
  by code_simp

theorem lease_excludes_others_witness:
  "lease_of sample_contended ''r1'' = Some (''w1'', unix_nano (100 * second)) \<and>
   fst (AcquireLease ''r1'' ''w2'' (200 * second) (50 * second) sample_contended) \<noteq> Inr True"
proof -
  let ?s1 = "snd (AcquireLease ''r1'' ''w2'' (200 * second) (11 * second) sample_leased)"
  have "foreign_step ''w1'' (unix_nano (100 * second)) sample_leased ?s1"
    unfolding foreign_step_def
    by (intro exI [of _ "''w2''"] exI [of _ "11 * second"]) (simp add: step_acquire_lease)
  moreover have "foreign_step ''w1'' (unix_nano (100 * second)) ?s1 sample_contended"
    unfolding foreign_step_def sample_contended_def
    by (intro exI [of _ "''w2''"] exI [of _ "12 * second"]) (simp add: step_release_lease)
  ultimately have "path (foreign_step ''w1'' (unix_nano (100 * second))) sample_leased [?s1, sample_contended] sample_contended"
    by (intro path.intros)
  from lease_excludes_others [OF sample_leased_stored sample_leased_lease _ this]
  have "lease_of sample_contended ''r1'' = Some (''w1'', unix_nano (100 * second))"
    and "fst (AcquireLease ''r1'' ''w2'' (200 * second) (50 * second) sample_contended) \<noteq> Inr True"
    by simp_all
  then show ?thesis ..
qed

section \<open>Creation under an idempotency key\<close>

lemma replay_key:
  assumes "distinct (map run_IdempotencyKey (st_runs s))" and "x \<in> set (st_runs s)"
    and "run_IdempotencyKey x = run_IdempotencyKey q"
  shows "snd (CreateRun dec ca ra q now s) = s"
    and "fst (CreateRun dec ca ra q now s) = Inr (y, fresh) \<Longrightarrow> y = x \<and> \<not> fresh"
    and "ca = None \<Longrightarrow> ra \<Longrightarrow> CreateRun dec ca ra q now s = (replay_run dec s (ensureRepositoryBindingDigest q), s)"
proof -
  let ?run = "ensureRepositoryBindingDigest q"
  have k: "run_IdempotencyKey ?run = run_IdempotencyKey x" using assms(3) by simp
  then have fails: "run_constraint_fails s ?run" using assms(2) run_constraint_ok [of s ?run] by auto
  then have eq: "CreateRun dec ca ra q now s = (case ca of Some e \<Rightarrow> (Inl e, s)
      | None \<Rightarrow> if ra then (replay_run dec s ?run, s) else (Inl ErrRepositoryAdmissionConflict, s))"
    by (simp add: CreateRun_def Let_def split: option.split)
  then show "snd (CreateRun dec ca ra q now s) = s" by (simp split: option.split)
  have "select_where (\<lambda>r. run_IdempotencyKey r = run_IdempotencyKey ?run) (st_runs s) = Some x"
    unfolding k by (rule select_unique [OF assms(1,2)])
  then have "replay_run dec s ?run = Inr (y, fresh) \<Longrightarrow> y = x \<and> \<not> fresh"
    by (auto simp: replay_run_def split: if_splits)
  then show "fst (CreateRun dec ca ra q now s) = Inr (y, fresh) \<Longrightarrow> y = x \<and> \<not> fresh"
    unfolding eq by (auto split: option.splits if_splits)
  show "ca = None \<Longrightarrow> ra \<Longrightarrow> CreateRun dec ca ra q now s = (replay_run dec s ?run, s)"
    unfolding eq by simp
qed

lemma created_row:
  assumes "CreateRun dec ca ra q now s = (Inr (x, True), s')"
  shows "x = inserted_run (ensureRepositoryBindingDigest q) now \<and> st_runs s' = x # st_runs s"
proof -
  let ?run = "ensureRepositoryBindingDigest q"
  let ?s1 = "insert_run ?run now s"
  let ?res = "reserveSchedulingAuthoritiesTx ?run zero_reservation (defaultHeavyPermitOwner s (run_ID ?run)) now ?s1"
  have "st_runs (snd ?res) = st_runs ?s1" by (rule reserve_runs)
  moreover have "replay_run dec s ?run \<noteq> Inr (x, True)"
    by (auto simp: replay_run_def split: option.splits if_splits)
  ultimately show ?thesis
    using assms by (cases ?res) (auto simp: CreateRun_def Let_def split: option.splits sum.splits if_splits)
qed

text \<open>C27: A run is created at most once under its idempotency key: after a creation succeeds, no request
  with that key changes the store or returns anything but that run, whatever else it asks for, and
  repeating the request itself returns the run without creating it again.\<close>

theorem create_run_once:
  assumes "stored s" and "CreateRun dec None True q now s = (Inr (x, True), s')"
  shows "x \<in> set (st_runs s') \<and> run_State x = StateReceived \<and> length (st_runs s') = Suc (length (st_runs s)) \<and>
    (\<forall>now'. CreateRun dec None True q now' s' = (Inr (x, False), s')) \<and>
    (\<forall>q' ca ra now'. run_IdempotencyKey q' = run_IdempotencyKey q \<longrightarrow>
       snd (CreateRun dec ca ra q' now' s') = s' \<and>
       (\<forall>y fresh. fst (CreateRun dec ca ra q' now' s') = Inr (y, fresh) \<longrightarrow> y = x \<and> \<not> fresh))"
proof -
  let ?run = "ensureRepositoryBindingDigest q"
  note row = created_row [OF assms(2)]
  then have x: "x \<in> set (st_runs s')" "run_IdempotencyKey x = run_IdempotencyKey q" by auto
  have "stored s'" using stored_step [OF assms(1) step_create, of dec None True q now] assms(2) by simp
  note d = run_invD(2) [OF stored_run_inv [OF this]]
  have "select_where (\<lambda>r. run_IdempotencyKey r = run_IdempotencyKey ?run) (st_runs s') = Some x"
    using row by (simp add: select_where_def)
  then have "replay_run dec s' ?run = Inr (x, False)"
    using row by (simp add: replay_run_def profile_conflict_def legacy_conflict_def inserted_run_def
        localOwnershipConflict_def split: option.split)
  then have "CreateRun dec None True q now' s' = (Inr (x, False), s')" for now'
    using replay_key(3) [OF d x] by simp
  moreover have "snd (CreateRun dec ca ra q' now' s') = s' \<and>
      (\<forall>y fresh. fst (CreateRun dec ca ra q' now' s') = Inr (y, fresh) \<longrightarrow> y = x \<and> \<not> fresh)"
    if "run_IdempotencyKey q' = run_IdempotencyKey q" for q' ca ra now'
    using replay_key(1,2) [OF d x(1), of q' dec ca ra now'] that x(2) by (simp add: x(2)) blast
  moreover have "run_State x = StateReceived" "length (st_runs s') = Suc (length (st_runs s))"
    using row by (simp_all add: inserted_run_def)
  ultimately show ?thesis using x(1) by blast
qed

theorem create_run_once_witness:
  "fst (CreateRun no_ownership None True (sample_run\<lparr>run_State := StateReceived\<rparr>) 99 sample_created) =
     Inr (inserted_run (sample_run\<lparr>run_State := StateReceived\<rparr>) 7, False)"
proof -
  let ?q = "sample_run\<lparr>run_State := StateReceived\<rparr>"
  have "fst (CreateRun no_ownership None True ?q 7 empty_store) = Inr (inserted_run ?q 7, True)" by code_simp
  then have "CreateRun no_ownership None True ?q 7 empty_store = (Inr (inserted_run ?q 7, True), sample_created)"
    unfolding sample_created_def by (metis prod.collapse)
  moreover have "stored empty_store" by (rule reachable_init) (simp add: db_start_def)
  ultimately show ?thesis using create_run_once [of empty_store no_ownership ?q 7] by simp
qed

end
