(* ===== verification/Coordinator.thy ===== *)
theory Coordinator
  imports Merge_Gate Driver Database
begin

text \<open>
  What the coordinators behind the driver share: methods of \<open>ProductionCoordinator\<close> that
  read and write the store, call GitHub, and return early on every error. A method is a sequence of
  actions on the state of the world; an action either goes on with a value or has returned. The weakest
  precondition of a sequence is computed from those of its steps.
\<close>

section \<open>Actions with early return\<close>

type_synonym ('s, 'r, 'a) act = "'s \<Rightarrow> ('r + 'a) \<times> 's"

definition seq :: "('s, 'r, 'a) act \<Rightarrow> ('a \<Rightarrow> ('s, 'r, 'b) act) \<Rightarrow> ('s, 'r, 'b) act" where
  "seq m f s = (case m s of (Inl r, s') \<Rightarrow> (Inl r, s') | (Inr a, s') \<Rightarrow> f a s')"

definition give :: "'a \<Rightarrow> ('s, 'r, 'a) act" where
  "give a s = (Inr a, s)"

definition return_with :: "'r \<Rightarrow> ('s, 'r, 'a) act" where
  "return_with r s = (Inl r, s)"

definition unless :: "bool \<Rightarrow> 'r \<Rightarrow> ('s, 'r, unit) act" where
  "unless b r s = (if b then Inr () else Inl r, s)"

text \<open>A call whose value is used whatever it is, a read of the state, and a value that may be an error.\<close>

definition perform :: "('s \<Rightarrow> 'a \<times> 's) \<Rightarrow> ('s, 'r, 'a) act" where
  "perform f s = (case f s of (a, s') \<Rightarrow> (Inr a, s'))"

definition look :: "('s \<Rightarrow> 'a) \<Rightarrow> ('s, 'r, 'a) act" where
  "look f s = (Inr (f s), s)"

definition the_value :: "('e \<Rightarrow> 'r) \<Rightarrow> 'e + 'a \<Rightarrow> ('s, 'r, 'a) act" where
  "the_value h x s = (case x of Inl e \<Rightarrow> (Inl (h e), s) | Inr a \<Rightarrow> (Inr a, s))"

definition no_error :: "('e \<Rightarrow> 'r) \<Rightarrow> 'e option \<Rightarrow> ('s, 'r, unit) act" where
  "no_error h x s = (case x of Some e \<Rightarrow> (Inl (h e), s) | None \<Rightarrow> (Inr (), s))"

definition attempt :: "('e \<Rightarrow> 'r) \<Rightarrow> ('s \<Rightarrow> ('e + 'a) \<times> 's) \<Rightarrow> ('s, 'r, 'a) act" where
  "attempt h f = seq (perform f) (the_value h)"

definition check_error :: "('e \<Rightarrow> 'r) \<Rightarrow> ('s \<Rightarrow> 'e option \<times> 's) \<Rightarrow> ('s, 'r, unit) act" where
  "check_error h f = seq (perform f) (no_error h)"

definition return_from :: "('s \<Rightarrow> 'r \<times> 's) \<Rightarrow> ('s, 'r, 'a) act" where
  "return_from f s = (case f s of (r, s') \<Rightarrow> (Inl r, s'))"

text \<open>The end of a method: whatever was returned, or the value of its last action.\<close>

definition run_method :: "('s, 'r, 'r) act \<Rightarrow> 's \<Rightarrow> 'r \<times> 's" where
  "run_method m s = (case m s of (Inl r, s') \<Rightarrow> (r, s') | (Inr r, s') \<Rightarrow> (r, s'))"

section \<open>Weakest preconditions\<close>

definition wp :: "('s, 'r, 'a) act \<Rightarrow> ('a \<Rightarrow> 's \<Rightarrow> bool) \<Rightarrow> ('r \<Rightarrow> 's \<Rightarrow> bool) \<Rightarrow> 's \<Rightarrow> bool" where
  "wp m Q R s \<longleftrightarrow> (case m s of (Inl r, s') \<Rightarrow> R r s' | (Inr a, s') \<Rightarrow> Q a s')"

named_theorems wp_simps

lemma wp_seq [wp_simps]: "wp (seq m f) Q R s \<longleftrightarrow> wp m (\<lambda>a. wp (f a) Q R) R s"
  by (simp add: wp_def seq_def split: prod.split sum.split)

lemma wp_basic [wp_simps]:
  "wp (give a) Q R s \<longleftrightarrow> Q a s" "wp (return_with r) Q R s \<longleftrightarrow> R r s"
  "wp (unless b r) Q' R s \<longleftrightarrow> (if b then Q' () s else R r s)"
  "wp (perform f) Q R s \<longleftrightarrow> Q (fst (f s)) (snd (f s))" "wp (look g) Q R s \<longleftrightarrow> Q (g s) s"
  "wp (return_from k) Q R s \<longleftrightarrow> R (fst (k s)) (snd (k s))"
  by (simp_all add: wp_def give_def return_with_def unless_def perform_def look_def return_from_def split: prod.split)

lemma wp_value [wp_simps]:
  "wp (the_value h x) Q R s \<longleftrightarrow> (case x of Inl e \<Rightarrow> R (h e) s | Inr a \<Rightarrow> Q a s)"
  "wp (no_error h y) Q' R s \<longleftrightarrow> (case y of Some e \<Rightarrow> R (h e) s | None \<Rightarrow> Q' () s)"
  by (simp_all add: wp_def the_value_def no_error_def split: sum.split option.split)

lemma wp_call [wp_simps]:
  "wp (attempt h f) Q R s \<longleftrightarrow> (case fst (f s) of Inl e \<Rightarrow> R (h e) (snd (f s)) | Inr a \<Rightarrow> Q a (snd (f s)))"
  "wp (check_error h g) Q' R s \<longleftrightarrow> (case fst (g s) of Some e \<Rightarrow> R (h e) (snd (g s)) | None \<Rightarrow> Q' () (snd (g s)))"
  by (simp_all add: attempt_def check_error_def wp_seq wp_basic wp_value)

lemma wp_split [wp_simps]:
  "wp (if b then m else n) Q R s \<longleftrightarrow> (if b then wp m Q R s else wp n Q R s)"
  "wp (case x of None \<Rightarrow> m | Some y \<Rightarrow> k y) Q R s \<longleftrightarrow> (case x of None \<Rightarrow> wp m Q R s | Some y \<Rightarrow> wp (k y) Q R s)"
  "wp (case z of Inl e \<Rightarrow> f e | Inr a \<Rightarrow> g a) Q R s \<longleftrightarrow> (case z of Inl e \<Rightarrow> wp (f e) Q R s | Inr a \<Rightarrow> wp (g a) Q R s)"
  by (simp_all split: option.split sum.split)

lemma wp_mono:
  assumes "wp m Q R s" and "\<And>a t. Q a t \<Longrightarrow> Q' a t" and "\<And>r t. R r t \<Longrightarrow> R' r t"
  shows "wp m Q' R' s"
  using assms by (auto simp: wp_def split: prod.splits sum.splits)

lemma wp_conj: "wp m Q R s \<Longrightarrow> wp m Q' R' s \<Longrightarrow> wp m (\<lambda>a t. Q a t \<and> Q' a t) (\<lambda>r t. R r t \<and> R' r t) s"
  by (auto simp: wp_def split: prod.splits sum.splits)

lemma method_wp: "wp m R R s \<Longrightarrow> run_method m s = (r, t) \<Longrightarrow> R r t"
  by (auto simp: wp_def run_method_def split: prod.splits sum.splits)

lemma run_check_error:
  "run_method (seq (check_error h f) g) x =
     (case f x of (Some e, y) \<Rightarrow> (h e, y) | (None, y) \<Rightarrow> run_method (g ()) y)"
  by (simp add: run_method_def seq_def check_error_def perform_def no_error_def split: prod.split option.split)

section \<open>What every action keeps\<close>

definition keeps_act :: "('s \<Rightarrow> bool) \<Rightarrow> ('s, 'r, 'a) act \<Rightarrow> bool" where
  "keeps_act P m \<longleftrightarrow> (\<forall>s. P s \<longrightarrow> P (snd (m s)))"

named_theorems keep_rules

lemma keeps_actD: "keeps_act P m \<Longrightarrow> P s \<Longrightarrow> P (snd (m s))"
  by (simp add: keeps_act_def)

lemma keeps_seq [keep_rules]: "keeps_act P m \<Longrightarrow> (\<And>a. keeps_act P (f a)) \<Longrightarrow> keeps_act P (seq m f)"
  unfolding keeps_act_def seq_def by (auto split: prod.split sum.split)

lemma keeps_basic [keep_rules]:
  "keeps_act P (give a)" "keeps_act P (return_with r)" "keeps_act P (unless b r)" "keeps_act P (look g)"
  "keeps_act P (the_value h x)" "keeps_act P (no_error k y)"
  by (simp_all add: keeps_act_def give_def return_with_def unless_def look_def the_value_def no_error_def
      split: sum.split option.split)

lemma keeps_perform [keep_rules]: "(\<And>s. P s \<Longrightarrow> P (snd (f s))) \<Longrightarrow> keeps_act P (perform f)"
  by (simp add: keeps_act_def perform_def split: prod.split) (metis snd_conv)

lemma keeps_return_from [keep_rules]: "(\<And>s. P s \<Longrightarrow> P (snd (f s))) \<Longrightarrow> keeps_act P (return_from f)"
  by (simp add: keeps_act_def return_from_def split: prod.split) (metis snd_conv)

lemma keeps_call [keep_rules]:
  "(\<And>s. P s \<Longrightarrow> P (snd (f s))) \<Longrightarrow> keeps_act P (attempt h f)"
  "(\<And>s. P s \<Longrightarrow> P (snd (g s))) \<Longrightarrow> keeps_act P (check_error k g)"
  unfolding attempt_def check_error_def by (intro keep_rules; assumption)+

lemma keeps_split [keep_rules]:
  "keeps_act P m \<Longrightarrow> keeps_act P n \<Longrightarrow> keeps_act P (if b then m else n)"
  "keeps_act P m' \<Longrightarrow> (\<And>y. keeps_act P (k y)) \<Longrightarrow> keeps_act P (case x of None \<Rightarrow> m' | Some y \<Rightarrow> k y)"
  by (simp_all split: option.split)

lemma keeps_method: "keeps_act P m \<Longrightarrow> P s \<Longrightarrow> P (snd (run_method m s))"
  by (auto simp: keeps_act_def run_method_def split: prod.split sum.split)

lemma wp_keeps: "keeps_act P m \<Longrightarrow> P s \<Longrightarrow> wp m (\<lambda>_. P) (\<lambda>_. P) s"
  by (auto simp: keeps_act_def wp_def split: prod.split sum.split)

lemma wp_after: "P (snd (f s)) \<Longrightarrow> (\<And>a. keeps_act P (g a)) \<Longrightarrow> wp (seq (perform f) g) (\<lambda>_. P) (\<lambda>_. P) s"
  by (simp add: wp_seq wp_basic wp_keeps)

section \<open>The world of a coordinator\<close>

text \<open>The store, the table of merges, and everything else: GitHub, Linear, the other tables.\<close>

record 'w world =
  wd_store :: store
  wd_merges :: "merge_record list"
  wd_outside :: 'w

definition on_store :: "(store \<Rightarrow> 'a \<times> store) \<Rightarrow> 'w world \<Rightarrow> 'a \<times> 'w world" where
  "on_store f x = (case f (wd_store x) of (a, s) \<Rightarrow> (a, x\<lparr>wd_store := s\<rparr>))"

definition outside :: "('w \<Rightarrow> 'a \<times> 'w) \<Rightarrow> 'w world \<Rightarrow> 'a \<times> 'w world" where
  "outside f x = (case f (wd_outside x) of (a, w) \<Rightarrow> (a, x\<lparr>wd_outside := w\<rparr>))"

lemma on_store_simps [simp]:
  "fst (on_store f x) = fst (f (wd_store x))" "wd_store (snd (on_store f x)) = snd (f (wd_store x))"
  "wd_merges (snd (on_store f x)) = wd_merges x" "wd_outside (snd (on_store f x)) = wd_outside x"
  by (simp_all add: on_store_def split: prod.split)

lemma outside_simps [simp]:
  "fst (outside f x) = fst (f (wd_outside x))" "wd_outside (snd (outside f x)) = snd (f (wd_outside x))"
  "wd_merges (snd (outside f x)) = wd_merges x" "wd_store (snd (outside f x)) = wd_store x"
  by (simp_all add: outside_def split: prod.split)

definition GetRun :: "string \<Rightarrow> 'w world \<Rightarrow> run_row result" where
  "GetRun r x = (case find_run (wd_store x) r of None \<Rightarrow> Inl run_not_found | Some run \<Rightarrow> Inr run)"

text \<open>The table of merges has one row per run.\<close>

definition validFullSHA :: "string \<Rightarrow> bool" where
  "validFullSHA value \<longleftrightarrow> length value = 40 \<and> (\<forall>c \<in> set value. is_lower_hex c)"

definition MergeRecord_ValidateAuthority :: "merge_record \<Rightarrow> go_error option" where
  "MergeRecord_ValidateAuthority m =
     (if blank (mr_RunID m) \<or> mr_PRNumber m < 1 then Some (New ''merge evidence identity is incomplete'')
      else if \<not> validFullSHA (mr_PreMergeSHA m) \<or> \<not> validFullSHA (mr_BaseSHA m) \<or> \<not> validFullSHA (mr_MergeSHA m)
      then Some (New ''merge evidence requires full lowercase commit SHAs'')
      else if mr_Method m \<noteq> ''squash'' \<and> mr_Method m \<noteq> ''external''
      then Some (New ''unsupported merge evidence method'')
      else if is_zero_time (mr_MergedAt m) then Some (New ''merge evidence timestamp is required'')
      else None)"

definition SaveMerge :: "merge_record \<Rightarrow> 'w world \<Rightarrow> go_error option \<times> 'w world" where
  "SaveMerge m x =
     (case MergeRecord_ValidateAuthority m of
        Some e \<Rightarrow> (Some e, x)
      | None \<Rightarrow>
     (case find (\<lambda>y. mr_RunID y = mr_RunID m) (wd_merges x) of
        Some y \<Rightarrow>
          (if y \<noteq> m then Some (New ''conflicting immutable merge evidence'') else None, x)
      | None \<Rightarrow>
          (if find_run (wd_store x) (mr_RunID m) = None
           then (Some (New ''FOREIGN KEY constraint failed''), x)
           else (None, x\<lparr>wd_merges := m # wd_merges x\<rparr>))))"


section \<open>What the store operations do to states and intents\<close>

lemma runs_of_same: "st_runs t = st_runs s \<Longrightarrow> runs_of t = runs_of s"
  by (simp add: fun_eq_iff runs_of_def find_run_def)

lemma runs_of_update:
  assumes "\<And>r. run_ID (f r) = run_ID r" and "\<And>r. run_State (f r) = run_State r"
    and "st_runs t = update_where P f (st_runs s)"
  shows "runs_of t = runs_of s"
proof
  fix j
  have "find_run t j = map_option (\<lambda>r. if P r then f r else r) (find_run s j)"
    by (rule find_run_update [OF assms(1,3)])
  then show "runs_of t j = runs_of s j" using assms(2) by (cases "find_run s j") (simp_all add: runs_of_def)
qed

lemma runs_of_cat:
  assumes "compare_and_transition lost i P a b f reason ev head now s = (None, t)" and "keeps f"
    and "\<And>r. P r \<Longrightarrow> run_ID r = i" and "find_run s i = Some run" and "P run"
  shows "runs_of t = (runs_of s)(i \<mapsto> b)"
proof
  fix j
  let ?g = "\<lambda>r. (f r)\<lparr>run_State := b, run_UpdatedAt := now\<rparr>"
  have "st_runs t = update_where P ?g (st_runs s)"
    using assms(1) unfolding compare_and_transition_None
    by (simp add: append_transition_def update_run_state_def release_terminal_def Let_def)
  then have look: "find_run t j = map_option (\<lambda>r. if P r then ?g r else r) (find_run s j)"
    using assms(2) by (intro find_run_update) (simp_all add: keeps_def)
  show "runs_of t j = ((runs_of s)(i \<mapsto> b)) j"
  proof (cases "j = i")
    case True
    with look assms(4,5) show ?thesis by (simp add: runs_of_def)
  next
    case False
    have "\<not> P r" if "find_run s j = Some r" for r using find_run_Some [OF that] False assms(3) by blast
    with look False show ?thesis by (cases "find_run s j") (simp_all add: runs_of_def)
  qed
qed

text \<open>A transition that fails changes nothing; one that succeeds leaves the run in the state asked for.\<close>

lemma Transition_result:
  assumes "Transition i a b reason ev head now s = (res, t)"
  obtains e where "res = Some e" and "t = s"
    | "res = None" and "t = s" and "runs_of s i = Some b"
    | "res = None" and "runs_of s i = Some a" and "runs_of t = (runs_of s)(i \<mapsto> b)"
proof (cases res)
  case (Some e)
  with assms have "t = s"
    by (auto simp: Transition_def split: option.splits if_splits dest: compare_and_transition_Some)
  with Some that(1) show thesis by blast
next
  case None
  then obtain run where run: "find_run s i = Some run"
    using assms by (auto simp: Transition_def split: option.splits)
  show thesis
  proof (cases "run_State run = b")
    case True
    with assms run None have "t = s" by (auto simp: Transition_def split: option.splits)
    with True run None that(2) show thesis by (simp add: runs_of_def)
  next
    case False
    with assms run None have a: "run_State run = a"
      and c: "compare_and_transition (New ''state compare update lost'') i
        (\<lambda>r. run_ID r = i \<and> run_State r = a) a b (set_error []) reason ev head now s = (None, t)"
      by (auto simp: Transition_def split: option.splits if_splits)
    have "keeps (set_error [])" by (simp add: keeps_def set_error_def)
    from runs_of_cat [OF c this _ run] a find_run_Some [OF run] have "runs_of t = (runs_of s)(i \<mapsto> b)" by simp
    with a run None that(3) show thesis by (simp add: runs_of_def)
  qed
qed

lemma RecordMergePolicyPending_result:
  assumes "RecordMergePolicyPending i q head now s = (res, t)"
  obtains e where "res = Some e" and "runs_of t = runs_of s"
    | "res = None" and "runs_of s i = Some StateMerging" and "runs_of t = (runs_of s)(i \<mapsto> StateAwaitingGitHubMergeability)"
proof (cases res)
  case (Some e)
  have "st_runs (snd (store_pending i q head s)) = st_runs s"
    by (simp add: store_pending_def exec_one_side_effect_def)
  with assms Some have "st_runs t = st_runs s"
    by (auto simp: RecordMergePolicyPending_def split: option.splits if_splits prod.splits)
  with Some that(1) runs_of_same show thesis by blast
next
  case None
  obtain n s1 where p: "store_pending i q head s = (n, s1)" by fastforce
  then have runs: "st_runs s1 = st_runs s" by (auto simp: store_pending_def exec_one_side_effect_def)
  from assms None p obtain run where run: "find_run s i = Some run" "run_State run = StateMerging"
      "run_CandidateHead run = head" and w: "wait_for_mergeability i head now s1 = (None, t)"
    by (auto simp: RecordMergePolicyPending_def split: option.splits if_splits prod.splits)
  have k: "keeps (set_error ''merge_policy_pending'')" by (simp add: keeps_def set_error_def)
  have "find_run s1 i = Some run" using run(1) runs by (simp add: find_run_def)
  from runs_of_cat [OF w [unfolded wait_for_mergeability_def] k _ this] run find_run_Some [OF run(1)]
  have "runs_of t = (runs_of s1)(i \<mapsto> StateAwaitingGitHubMergeability)" by simp
  then show thesis using run None runs_of_same [OF runs] that(2) by (simp add: runs_of_def)
qed

lemma runs_of_ops [simp]:
  "runs_of (snd (SetLastError i msg now s)) = runs_of s"
  "runs_of (snd (BeginSideEffect q now s)) = runs_of s"
  "runs_of (snd (FinishSideEffect q s)) = runs_of s"
  "runs_of (snd (RetryMergeSideEffect q s)) = runs_of s"
proof -
  show "runs_of (snd (SetLastError i msg now s)) = runs_of s"
    unfolding SetLastError_def exec_one_run_def Let_def
    by (rule runs_of_update [where f = "touch now (set_error msg)" and P = "\<lambda>r. run_ID r = i"])
      (simp_all add: touch_def set_error_def update_runs_def)
  have "st_runs (snd (BeginSideEffect q now s)) = st_runs s"
    by (simp add: BeginSideEffect_def record_intent_def split: option.split)
  then show "runs_of (snd (BeginSideEffect q now s)) = runs_of s" by (rule runs_of_same)
  have "st_runs (snd (FinishSideEffect q s)) = st_runs s"
    by (simp add: FinishSideEffect_def exec_one_side_effect_def Let_def)
  then show "runs_of (snd (FinishSideEffect q s)) = runs_of s" by (rule runs_of_same)
  have "st_runs (snd (RetryMergeSideEffect q s)) = st_runs s"
    by (simp add: RetryMergeSideEffect_def exec_one_side_effect_def Let_def split: option.split)
  then show "runs_of (snd (RetryMergeSideEffect q s)) = runs_of s" by (rule runs_of_same)
qed

text \<open>An intent, once stored, stays.\<close>

definition has_intent :: "string \<Rightarrow> string \<Rightarrow> string \<Rightarrow> store \<Rightarrow> bool" where
  "has_intent i kind key s \<longleftrightarrow> side_effect_of s i kind key \<noteq> None"

lemma has_intent_set: "has_intent i kind key s \<longleftrightarrow> (i, kind, key) \<in> effect_key ` set (st_side_effects s)"
  by (auto simp: has_intent_def side_effect_of_def select_where_None effect_key_def)

lemma has_intent_ops [simp]:
  "has_intent i kind key (snd (SetLastError j msg now s)) = has_intent i kind key s"
  "has_intent i kind key (snd (Transition j a b reason ev head now s)) = has_intent i kind key s"
  "has_intent i kind key (snd (FinishSideEffect q s)) = has_intent i kind key s"
  "has_intent i kind key (snd (RetryMergeSideEffect q s)) = has_intent i kind key s"
  "has_intent i kind key (snd (RecordMergePolicyPending j q head now s)) = has_intent i kind key s"
proof -
  have upd: "effect_key ` set (update_where P f rows) = effect_key ` set rows" if "same_intent f" for P f rows
  proof -
    have "map effect_key (update_where P f rows) = map effect_key rows"
      by (rule map_update_where) (simp add: same_intentD(3) [OF that])
    then show ?thesis by (metis list.set_map)
  qed
  have one: "effect_key ` set (st_side_effects (snd (exec_one_side_effect P f s))) =
      effect_key ` set (st_side_effects s)" if "same_intent f" for P f s
    using upd [OF that] by (simp add: exec_one_side_effect_def)
  have retry: "same_intent (\<lambda>x. x\<lparr>se_Status := ''intent'', se_Attempt := se_Attempt x + 1,
      se_ResultJSON := policy_retry_claimed, se_ObservedAt := 0\<rparr>)" by simp
  show "has_intent i kind key (snd (SetLastError j msg now s)) = has_intent i kind key s"
    by (simp add: has_intent_set SetLastError_def exec_one_run_def update_runs_def)
  show "has_intent i kind key (snd (Transition j a b reason ev head now s)) = has_intent i kind key s"
    by (simp add: has_intent_set Transition_def frame split: option.split)
  show "has_intent i kind key (snd (FinishSideEffect q s)) = has_intent i kind key s"
    using one by (simp add: has_intent_set FinishSideEffect_def case_prod_unfold Let_def)
  show "has_intent i kind key (snd (RetryMergeSideEffect q s)) = has_intent i kind key s"
    using one [OF retry] by (simp add: has_intent_set RetryMergeSideEffect_def case_prod_unfold Let_def split: option.split)
  have "effect_key ` set (st_side_effects (snd (wait_for_mergeability j head now (snd (store_pending j q head s))))) =
      effect_key ` set (st_side_effects s)"
    unfolding wait_for_mergeability_def store_pending_def using one by (simp add: frame)
  then show "has_intent i kind key (snd (RecordMergePolicyPending j q head now s)) = has_intent i kind key s"
    by (auto simp: has_intent_set RecordMergePolicyPending_def case_prod_unfold Let_def split: option.split prod.split)
qed

lemma BeginSideEffect_intent:
  assumes "BeginSideEffect q now s = (Inr (side, fresh), t)"
  shows "has_intent (se_RunID q) (se_Kind q) (se_IdempotencyKey q) t" and "fresh \<Longrightarrow> se_Status side = ''intent''"
  using assms
  by (auto simp: BeginSideEffect_def record_intent_def has_intent_def side_effect_of_def select_where_def new_intent_def
      split: if_splits option.splits)

section \<open>Reachable stores\<close>

lemma stored_ops [intro]:
  assumes "stored s"
  shows "stored (snd (SetLastError i msg now s))" and "stored (snd (Transition i a b reason ev head now s))"
    and "stored (snd (BeginSideEffect q now s))" and "stored (snd (FinishSideEffect q s))"
    and "stored (snd (RetryMergeSideEffect q s))" and "stored (snd (RecordMergePolicyPending i q head now s))"
  using stored_step [OF assms step_error] stored_step [OF assms step_transition]
    stored_step [OF assms step_effect [where cmd = "OpBegin q now"]] stored_step [OF assms step_effect [where cmd = "OpFinish q"]]
    stored_step [OF assms step_effect [where cmd = "OpRetryMerge q"]]
    stored_step [OF assms step_effect [where cmd = "OpPolicyPending i q head now"]]
  by simp_all

end
