(* ===== verification/Merge.thy ===== *)
theory Merge
  imports Coordinator
begin

text \<open>
  \<open>MergePullRequest\<close> of \<open>application/merge.go\<close>: the only coordinator that merges. It reads all of
  GitHub's gates again, stores its intent, issues one conditional squash merge, and records what GitHub
  reports. The clock readings of one call are one argument \<open>now\<close>.
\<close>

section \<open>Ports\<close>

record read_reply =
  rr_Read :: github_read
  rr_Handoff :: "inline_body list"
  rr_Observations :: "request_observation list"
  rr_Metadata :: installation
  rr_Error :: "go_error option"

text \<open>The error of a merge call, with the status and operation if it is a \<open>MergeRejectedError\<close>.\<close>

record squash_reply =
  sr_PullRequest :: pull_request
  sr_Observations :: "request_observation list"
  sr_Metadata :: installation
  sr_Error :: "(go_error \<times> (int \<times> string) option) option"

text \<open>\<open>json.Marshal\<close> and \<open>json.Unmarshal\<close> of the documents the coordinator stores.\<close>

record merge_codec =
  mc_intent :: "run_row \<Rightarrow> squash_request \<Rightarrow> string"
  mc_intent_pr :: "string \<Rightarrow> int"
  mc_pending :: "string \<Rightarrow> merge_thread list \<Rightarrow> string result"
  mc_decode :: policy_decoder
  mc_observed :: "merge_record \<Rightarrow> string"
  mc_thread :: "string \<Rightarrow> review_comment list \<Rightarrow> string result"

definition json_category :: "string \<Rightarrow> string" where
  "json_category c = [CHR ''{'', CHR 0x22] @ ''category'' @ [CHR 0x22, CHR '':'', CHR 0x22] @ c @
     [CHR 0x22, CHR ''}'']"

text \<open>\<open>mg_Revalidate\<close> is the admission service, which may move the run; \<open>mg_Authority\<close> to
  \<open>mg_SquashMerge\<close> are GitHub; the rest are tables outside the model.\<close>

record 'w merge_ports =
  mg_Revalidate :: "production_command \<Rightarrow> 'w world \<Rightarrow> run_row result \<times> 'w world"
  mg_ApprovalReady :: "string \<Rightarrow> 'w world \<Rightarrow> go_error option"
  mg_Inspect :: "string \<Rightarrow> 'w world \<Rightarrow> inspection result"
  mg_Authority :: "'w world \<Rightarrow> installation"
  mg_Read :: "int \<Rightarrow> string \<Rightarrow> 'w \<Rightarrow> read_reply \<times> 'w"
  mg_SquashMerge :: "squash_request \<Rightarrow> 'w \<Rightarrow> squash_reply \<times> 'w"
  mg_SaveInstallation :: "string \<Rightarrow> installation \<Rightarrow> 'w \<Rightarrow> go_error option \<times> 'w"
  mg_SaveRequest :: "request_observation \<Rightarrow> 'w \<Rightarrow> go_error option \<times> 'w"
  mg_SaveEvidence :: "string \<Rightarrow> github_read \<Rightarrow> 'w \<Rightarrow> go_error option \<times> 'w"
  mg_manual_event :: "run_row \<Rightarrow> transition_row \<Rightarrow> attention_event result"
  mg_Append :: "attention_event \<Rightarrow> 'w \<Rightarrow> go_error option \<times> 'w"

record merge_result =
  pm_Action :: production_action
  pm_Run :: run_row
  pm_PullRequest :: int
  pm_MergeSHA :: string
  pm_Idempotent :: bool

text \<open>What the method returns: its result, \<open>None\<close> for the zero value, and its error.\<close>

type_synonym merge_outcome = "merge_result option \<times> go_error option"

definition failed :: "go_error \<Rightarrow> merge_outcome" where
  "failed e = (None, Some e)"

definition failed_service :: "go_error \<Rightarrow> merge_outcome" where
  "failed_service e = failed (classifyServiceError e)"

section \<open>Recording\<close>

fun save_requests ::
  "'w merge_ports \<Rightarrow> string \<Rightarrow> request_observation list \<Rightarrow> 'w \<Rightarrow> go_error option \<times> 'w" where
  "save_requests p runID [] w = (None, w)"
| "save_requests p runID (ob # obs) w =
     (case mg_SaveRequest p (ob\<lparr>ro_RunID := runID\<rparr>) w of
        (Some e, w') \<Rightarrow> (Some e, w') | (None, w') \<Rightarrow> save_requests p runID obs w')"

definition persistMergeRequests ::
  "'w merge_ports \<Rightarrow> string \<Rightarrow> request_observation list \<Rightarrow> installation \<Rightarrow> 'w \<Rightarrow> go_error option \<times> 'w" where
  "persistMergeRequests p runID obs meta w =
     (case (if gi_AppID meta > 0 then mg_SaveInstallation p runID meta w else (None, w)) of
        (Some e, w') \<Rightarrow> (Some e, w') | (None, w') \<Rightarrow> save_requests p runID obs w')"

definition persistMergeRead ::
  "'w merge_ports \<Rightarrow> string \<Rightarrow> read_reply \<Rightarrow> 'w \<Rightarrow> go_error option \<times> 'w" where
  "persistMergeRead p runID r w =
     (case persistMergeRequests p runID (rr_Observations r) (rr_Metadata r) w of
        (Some e, w') \<Rightarrow> (Some e, w')
      | (None, w') \<Rightarrow>
          (if repo_ID (ev_Repository (rd_Evidence (rr_Read r))) = 0 then (None, w')
           else mg_SaveEvidence p runID (rr_Read r) w'))"

definition rejectMergeConflict ::
  "run_row \<Rightarrow> string \<Rightarrow> go_error option \<Rightarrow> time \<Rightarrow> 'w world \<Rightarrow> merge_outcome \<times> 'w world" where
  "rejectMergeConflict run reason cause now =
     run_method
       (seq (perform (on_store (SetLastError (run_ID run) reason now))) (\<lambda>_.
        seq (check_error failed_service (on_store (Transition (run_ID run) StateMerging StateManualIntervention reason
               ''squash_merge'' (run_CandidateHead run) now))) (\<lambda>_.
        give (failed (ServiceErr ErrorConflict reason cause)))))"

text \<open>The result of an intent that is not observed yet is replaced by a failure.\<close>

definition fail_side :: "side_effect_row \<Rightarrow> string \<Rightarrow> time \<Rightarrow> side_effect_row" where
  "fail_side side category now =
     side\<lparr>se_Status := ''failed'', se_ResultJSON := json_category category, se_ObservedAt := now\<rparr>"

definition finish_failed ::
  "side_effect_row \<Rightarrow> string \<Rightarrow> time \<Rightarrow> ('w world, merge_outcome, unit) act" where
  "finish_failed side category now =
     (if se_Status side = ''observed'' then give ()
      else check_error failed_service (on_store (FinishSideEffect (fail_side side category now))))"

definition recordMergeUncertain ::
  "run_row \<Rightarrow> side_effect_row \<Rightarrow> go_error \<Rightarrow> time \<Rightarrow> 'w world \<Rightarrow> merge_outcome \<times> 'w world" where
  "recordMergeUncertain run side cause now =
     run_method
       (seq (finish_failed side ''merge_response_unavailable'' now) (\<lambda>_.
        seq (perform (on_store (SetLastError (run_ID run)
               ''squash merge outcome requires GitHub reconciliation before retry'' now))) (\<lambda>_.
        give (failed (ServiceErr ErrorUnavailable
               ''squash merge was not observed; retry must re-read GitHub state'' (Some cause))))))"

definition recordMergeRejected ::
  "run_row \<Rightarrow> side_effect_row \<Rightarrow> go_error \<Rightarrow> time \<Rightarrow> 'w world \<Rightarrow> merge_outcome \<times> 'w world" where
  "recordMergeRejected run side cause now =
     run_method
       (seq (finish_failed side ''merge_rejected'' now) (\<lambda>_.
        return_from (rejectMergeConflict run ''GitHub rejected or invalidated the squash merge'' (Some cause) now)))"

definition recordMergePolicyPending ::
  "merge_codec \<Rightarrow> run_row \<Rightarrow> side_effect_row \<Rightarrow> merge_thread list \<Rightarrow> time \<Rightarrow> 'w world \<Rightarrow> merge_outcome \<times> 'w world" where
  "recordMergePolicyPending cd run side threads now =
     run_method
       (seq (the_value (\<lambda>e. failed (ServiceErr ErrorInternal ''encode pending merge policy observation'' (Some e)))
               (mc_pending cd (run_CandidateHead run) threads)) (\<lambda>result.
        seq (check_error failed_service (on_store (RecordMergePolicyPending (run_ID run)
               (side\<lparr>se_Status := ''failed'', se_ResultJSON := result, se_ObservedAt := now\<rparr>)
               (run_CandidateHead run) now))) (\<lambda>_.
        seq (seq (look (GetRun (run_ID run))) (the_value failed_service)) (\<lambda>next_run.
        give (Some \<lparr>pm_Action = ProductionReconcileGitHub, pm_Run = next_run,
                pm_PullRequest = mc_intent_pr cd (se_IntentJSON side), pm_MergeSHA = [], pm_Idempotent = False\<rparr>,
              Some (ServiceErr ErrorUnavailable
                ''GitHub merge protection is awaiting human thread resolution'' None))))))"

text \<open>A merge GitHub reports is recorded before the run moves on.\<close>

definition observed_merge :: "run_row \<Rightarrow> squash_request \<Rightarrow> pull_request \<Rightarrow> merge_record" where
  "observed_merge run r observed =
     \<lparr>mr_RunID = run_ID run, mr_PRNumber = sq_PullRequest r, mr_PreMergeSHA = sq_ExpectedHeadSHA r,
      mr_BaseSHA = sq_ExpectedBaseSHA r, mr_Method = ''squash'', mr_MergeSHA = pr_MergeSHA observed,
      mr_MergedAt = pr_MergedAt observed\<rparr>"

definition record_merge ::
  "merge_codec \<Rightarrow> run_row \<Rightarrow> squash_request \<Rightarrow> merge_record \<Rightarrow> side_effect_row \<Rightarrow> bool \<Rightarrow> time \<Rightarrow> 'w world \<Rightarrow>
     merge_outcome \<times> 'w world" where
  "record_merge cd run r merge side idempotent now =
     run_method
       (seq (check_error failed_service (SaveMerge merge)) (\<lambda>_.
        seq (if se_Status side = ''observed'' then give ()
             else check_error failed_service (on_store (FinishSideEffect
               (side\<lparr>se_Status := ''observed'', se_ResultJSON := mc_observed cd merge, se_ObservedAt := now\<rparr>)))) (\<lambda>_.
        seq (check_error failed_service (on_store (Transition (run_ID run) StateMerging
               StateAwaitingLinearCompletion ''GitHub squash merge observed; awaiting Linear completion''
               (mr_MergeSHA merge) (run_CandidateHead run) now))) (\<lambda>_.
        seq (seq (look (GetRun (run_ID run))) (the_value failed_service)) (\<lambda>next_run.
        give (Some \<lparr>pm_Action = ProductionStop, pm_Run = next_run, pm_PullRequest = sq_PullRequest r,
                pm_MergeSHA = mr_MergeSHA merge, pm_Idempotent = idempotent\<rparr>, None))))))"

definition completeObservedMerge ::
  "merge_codec \<Rightarrow> run_row \<Rightarrow> inspection \<Rightarrow> squash_request \<Rightarrow> pull_request \<Rightarrow> side_effect_row \<Rightarrow> bool \<Rightarrow> time \<Rightarrow>
     'w world \<Rightarrow> merge_outcome \<times> 'w world" where
  "completeObservedMerge cd run i r observed side idempotent now =
     (let merge = observed_merge run r observed in
      case validateObservedSquashMerge r observed of
        Some e \<Rightarrow> rejectMergeConflict run ''merged pull request conflicts with immutable intent'' (Some e) now
      | None \<Rightarrow>
          (if in_Merge i \<noteq> None \<and> in_Merge i \<noteq> Some merge
           then rejectMergeConflict run ''persisted merge evidence conflicts with GitHub observation'' None now
           else record_merge cd run r merge side idempotent now))"

definition reconcileObservedMerge ::
  "merge_codec \<Rightarrow> run_row \<Rightarrow> inspection \<Rightarrow> squash_request \<Rightarrow> pull_request \<Rightarrow> time \<Rightarrow> 'w world \<Rightarrow>
     merge_outcome \<times> 'w world" where
  "reconcileObservedMerge cd run i r observed now =
     (case mergeSideEffect (in_SideEffects i) (run_CandidateHead run) of
        None \<Rightarrow> rejectMergeConflict run ''pull request merged without controller merge intent'' None now
      | Some side \<Rightarrow> completeObservedMerge cd run i r observed side True now)"


section \<open>The merge\<close>

text \<open>The reading after a rejection: only unresolved threads the controller replied to let the run wait.\<close>

definition awaitMergePolicyResolution ::
  "'w merge_ports \<Rightarrow> merge_codec \<Rightarrow> (github_review list \<Rightarrow> github_review list) \<Rightarrow> run_row \<Rightarrow> inspection \<Rightarrow>
     squash_request \<Rightarrow> side_effect_row \<Rightarrow> time \<Rightarrow> 'w world \<Rightarrow> merge_outcome \<times> 'w world" where
  "awaitMergePolicyResolution p cd ord run i r side now =
     run_method
       (seq (perform (outside (mg_Read p (sq_PullRequest r) (sq_ExpectedHeadSHA r)))) (\<lambda>reply.
        case rr_Error reply of
          Some e \<Rightarrow>
            seq (perform (outside (persistMergeRequests p (run_ID run) (rr_Observations reply) (rr_Metadata reply)))) (\<lambda>err.
            return_from (recordMergeUncertain run side (case err of Some e' \<Rightarrow> e' | None \<Rightarrow> e) now))
        | None \<Rightarrow>
            (case Handoff_Validate (rr_Handoff reply) of
               Some e \<Rightarrow> return_from (recordMergeRejected run side e now)
             | None \<Rightarrow>
            seq (perform (outside (persistMergeRead p (run_ID run) reply))) (\<lambda>err.
            case and_then err (and_then (validateReaderAuthority i (rr_Metadata reply))
                   (authorizeProductionMerge ord run i r (rd_Evidence (rr_Read reply)))) of
              Some e \<Rightarrow> return_from (recordMergeRejected run side e now)
            | None \<Rightarrow>
                (case controllerRepliedMergeThreads (mc_thread cd) i (rr_Read reply) (rr_Handoff reply) of
                   Inl e \<Rightarrow> return_from (recordMergeRejected run side e now)
                 | Inr threads \<Rightarrow>
                     (if threads = [] \<or> \<not> hasUnresolvedMergeThread threads
                      then return_from (recordMergeRejected run side
                             (New ''merge rejection has no tracked unresolved controller reply'') now)
                      else return_from (recordMergePolicyPending cd run side threads now)))))))"

text \<open>An intent that an earlier call left as a policy rejection: the threads must be the same and resolved.
  The value is the intent to merge under and whether it is fresh.\<close>

definition retry_policy_rejection ::
  "'w merge_ports \<Rightarrow> merge_codec \<Rightarrow> run_row \<Rightarrow> inspection \<Rightarrow> read_reply \<Rightarrow> side_effect_row \<Rightarrow> time \<Rightarrow>
     ('w world, merge_outcome, side_effect_row \<times> bool) act" where
  "retry_policy_rejection p cd run i reply side now =
     (let reject = (\<lambda>e. return_from (recordMergeRejected run side e now)) in
      case mergePolicyPendingThreads (mc_decode cd) side (run_CandidateHead run) of
        Inl e \<Rightarrow> reject e
      | Inr persisted \<Rightarrow>
     (case controllerRepliedMergeThreads (mc_thread cd) i (rr_Read reply) (rr_Handoff reply) of
        Inl e \<Rightarrow> reject e
      | Inr threads \<Rightarrow>
     (if threads = [] then reject (New ''merge policy retry has no tracked controller reply'')
      else if \<not> sameMergePolicyTopology persisted threads
      then reject (New ''controller reply topology changed since merge policy rejection'')
      else if hasUnresolvedMergeThread threads then return_from (recordMergePolicyPending cd run side threads now)
      else seq (attempt failed_service (on_store (RetryMergeSideEffect side))) (\<lambda>(side', created).
           if \<not> created
           then return_with (failed (ServiceErr ErrorUnavailable
                  ''merge policy retry is already claimed; reconcile GitHub before retrying'' None))
           else give (side', created)))))"

text \<open>The write itself, and what its answer leads to.\<close>

definition squash_merge ::
  "'w merge_ports \<Rightarrow> merge_codec \<Rightarrow> (github_review list \<Rightarrow> github_review list) \<Rightarrow> run_row \<Rightarrow> inspection \<Rightarrow>
     squash_request \<Rightarrow> side_effect_row \<Rightarrow> time \<Rightarrow> ('w world, merge_outcome, merge_outcome) act" where
  "squash_merge p cd ord run i r side now =
     seq (perform (outside (mg_SquashMerge p r))) (\<lambda>reply.
     seq (perform (outside (persistMergeRequests p (run_ID run) (sr_Observations reply) (sr_Metadata reply)))) (\<lambda>saved.
     case sr_Error reply of
       Some (e, None) \<Rightarrow> return_from (recordMergeUncertain run side e now)
     | Some (e, Some rejected) \<Rightarrow>
         (case saved of
            Some e' \<Rightarrow> return_from (recordMergeRejected run side e' now)
          | None \<Rightarrow>
              (if mergePolicyStatus (Some rejected) (sr_Observations reply)
               then return_from (awaitMergePolicyResolution p cd ord run i r side now)
               else return_from (recordMergeRejected run side e now)))
     | None \<Rightarrow>
         (case saved of
            Some e \<Rightarrow> return_with (failed_service e)
          | None \<Rightarrow> return_from (completeObservedMerge cd run i r (sr_PullRequest reply) side False now))))"

text \<open>From the stored intent on.\<close>

definition merge_under_intent ::
  "'w merge_ports \<Rightarrow> merge_codec \<Rightarrow> (github_review list \<Rightarrow> github_review list) \<Rightarrow> run_row \<Rightarrow> inspection \<Rightarrow>
     squash_request \<Rightarrow> read_reply \<Rightarrow> time \<Rightarrow> ('w world, merge_outcome, merge_outcome) act" where
  "merge_under_intent p cd ord run i r reply now =
     seq (attempt failed_service (on_store (BeginSideEffect
            (zero_side_effect\<lparr>se_RunID := run_ID run, se_Kind := ''squash_merge'',
               se_IdempotencyKey := run_CandidateHead run, se_IntentJSON := mc_intent cd run r, se_Attempt := 1\<rparr>) now)))
       (\<lambda>(side, created).
     seq (if \<not> created \<and> se_Status side = ''failed'' \<and> mergePolicySideEffect (mc_decode cd) side
          then retry_policy_rejection p cd run i reply side now
          else give (side, created))
       (\<lambda>(side, created).
     if \<not> created \<and> se_Status side = ''intent''
     then return_from (recordMergeRejected run side
            (New ''persisted squash merge intent has no durable outcome'') now)
     else squash_merge p cd ord run i r side now))"

text \<open>The fresh read and its gates.\<close>

definition merge_after_read ::
  "'w merge_ports \<Rightarrow> merge_codec \<Rightarrow> (github_review list \<Rightarrow> github_review list) \<Rightarrow> run_row \<Rightarrow> inspection \<Rightarrow>
     squash_request \<Rightarrow> time \<Rightarrow> ('w world, merge_outcome, merge_outcome) act" where
  "merge_after_read p cd ord run i r now =
     seq (perform (outside (mg_Read p (sq_PullRequest r) (sq_ExpectedHeadSHA r)))) (\<lambda>reply.
     seq (no_error (\<lambda>e. failed (ServiceErr ErrorUnavailable ''inline review body handoff is incomplete'' (Some e)))
            (Handoff_Validate (rr_Handoff reply))) (\<lambda>_.
     seq (check_error failed_service (outside (persistMergeRead p (run_ID run) reply))) (\<lambda>_.
     seq (no_error (\<lambda>e. failed (ServiceErr ErrorUnavailable ''unable to re-read GitHub merge gates'' (Some e)))
            (rr_Error reply)) (\<lambda>_.
     let ev = rd_Evidence (rr_Read reply); pr = ev_PullRequest ev in
     if pr_Merged pr then return_from (reconcileObservedMerge cd run i r pr now)
     else if \<not> equal_fold (pr_State pr) ''open''
     then return_from (rejectMergeConflict run ''pull request closed without merge'' None now)
     else case authorizeProductionMerge ord run i r ev of
       Some e \<Rightarrow> return_from (rejectMergeConflict run ''fresh GitHub merge gate failed'' (Some e) now)
     | None \<Rightarrow> merge_under_intent p cd ord run i r reply now))))"

definition merge_pull_request ::
  "'w merge_ports \<Rightarrow> merge_codec \<Rightarrow> (github_review list \<Rightarrow> github_review list) \<Rightarrow> production_command \<Rightarrow> time \<Rightarrow>
     ('w world, merge_outcome, merge_outcome) act" where
  "merge_pull_request p cd ord c now =
     seq (attempt failed (mg_Revalidate p c)) (\<lambda>run.
     let (action, reason) = productionNextAction (run_State run) in
     seq (unless (action = ProductionMerge)
            (Some \<lparr>pm_Action = action, pm_Run = run, pm_PullRequest = 0, pm_MergeSHA = [], pm_Idempotent = False\<rparr>,
             Some (ServiceErr ErrorConflict reason None))) (\<lambda>_.
     seq (seq (look (mg_ApprovalReady p (run_ID run)))
            (no_error (\<lambda>e. failed (ServiceErr ErrorConflict
               ''fresh exact-HEAD local evidence is no longer valid'' (Some e))))) (\<lambda>_.
     seq (seq (look (mg_Inspect p (run_ID run))) (the_value failed_service)) (\<lambda>i.
     case (in_PullRequest i, in_Approval i) of
       (Some pr, Some _) \<Rightarrow>
         seq (seq (look (mg_Authority p)) (\<lambda>authority. no_error failed (validateReaderAuthority i authority))) (\<lambda>_.
         let r = squash_request_of run pr in
         seq (no_error (\<lambda>e. failed (ServiceErr ErrorInternal ''build immutable squash merge intent'' (Some e)))
                (SquashMergeRequest_Validate r)) (\<lambda>_.
         merge_after_read p cd ord run i r now))
     | _ \<Rightarrow> return_with (failed (ServiceErr ErrorConflict
              ''persisted pull request and trusted human approval are required'' None))))))"

text \<open>\<open>publishManualInterventionOnReturn\<close>, deferred on every return.\<close>

definition publish_manual ::
  "(string \<Rightarrow> 'w world \<Rightarrow> inspection result) \<Rightarrow> (run_row \<Rightarrow> transition_row \<Rightarrow> attention_event result) \<Rightarrow>
     (attention_event \<Rightarrow> 'w \<Rightarrow> go_error option \<times> 'w) \<Rightarrow> string \<Rightarrow> 'r \<times> go_error option \<Rightarrow> 'w world \<Rightarrow>
     ('r \<times> go_error option) \<times> 'w world" where
  "publish_manual inspect event publish runID out x =
     (let failing = (\<lambda>e. (fst out, join_error (snd out) (ServiceErr ErrorInternal
            ''manual intervention attention publication failed'' (Some e)))) in
      if runID = [] then (out, x)
      else case GetRun runID x of
        Inl e \<Rightarrow> ((fst out, join_error (snd out) (classifyServiceError e)), x)
      | Inr run \<Rightarrow>
     (if run_State run \<noteq> StateManualIntervention then (out, x)
      else case inspect runID x of
        Inl e \<Rightarrow> (failing e, x)
      | Inr i \<Rightarrow>
     (if run_ID (in_Run i) \<noteq> [] \<and> run_ID (in_Run i) \<noteq> run_ID run
      then (failing (New ''manual intervention attention dependencies are invalid''), x)
      else case latestManualInterventionTransition (in_Timeline i) of
        Inl e \<Rightarrow> (failing e, x)
      | Inr t \<Rightarrow>
     (case event run t of
        Inl e \<Rightarrow> (failing e, x)
      | Inr ae \<Rightarrow>
     (case outside (publish ae) x of
        (Some e, y) \<Rightarrow> (failing e, y) | (None, y) \<Rightarrow> (out, y))))))"

definition publishManualInterventionOnReturn ::
  "'w merge_ports \<Rightarrow> string \<Rightarrow> merge_outcome \<Rightarrow> 'w world \<Rightarrow> merge_outcome \<times> 'w world" where
  "publishManualInterventionOnReturn p = publish_manual (mg_Inspect p) (mg_manual_event p) (mg_Append p)"

definition MergePullRequest ::
  "'w merge_ports \<Rightarrow> merge_codec \<Rightarrow> (github_review list \<Rightarrow> github_review list) \<Rightarrow> production_command \<Rightarrow> time \<Rightarrow>
     'w world \<Rightarrow> merge_outcome \<times> 'w world" where
  "MergePullRequest p cd ord c now x =
     (case run_method (merge_pull_request p cd ord c now) x of
        (out, y) \<Rightarrow> publishManualInterventionOnReturn p (pc_RunID c) out y)"


section \<open>What the recording steps keep\<close>

text \<open>A property of the world that every step keeps but the merge call, the admission service and the
  completion of a merge.\<close>

locale merge_observer =
  fixes P :: "'w world \<Rightarrow> bool" and p :: "'w merge_ports"
  assumes on_error: "P x \<Longrightarrow> P (snd (on_store (SetLastError i msg now) x))"
    and on_manual: "P x \<Longrightarrow>
      P (snd (on_store (Transition i StateMerging StateManualIntervention reason ev head now) x))"
    and on_begin: "P x \<Longrightarrow> P (snd (on_store (BeginSideEffect q now) x))"
    and on_finish: "P x \<Longrightarrow> P (snd (on_store (FinishSideEffect q) x))"
    and on_retry: "P x \<Longrightarrow> P (snd (on_store (RetryMergeSideEffect q) x))"
    and on_pending: "P x \<Longrightarrow> P (snd (on_store (RecordMergePolicyPending i q head now) x))"
    and on_read: "P x \<Longrightarrow> P (snd (outside (mg_Read p n h) x))"
    and on_installation: "P x \<Longrightarrow> P (snd (outside (mg_SaveInstallation p i meta) x))"
    and on_request: "P x \<Longrightarrow> P (snd (outside (mg_SaveRequest p ob) x))"
    and on_evidence: "P x \<Longrightarrow> P (snd (outside (mg_SaveEvidence p i rd) x))"
    and on_append: "P x \<Longrightarrow> P (snd (outside (mg_Append p ae) x))"
begin

lemmas keep_steps = on_error on_manual on_begin on_finish on_retry on_pending on_read on_installation
  on_request on_evidence on_append

lemma keep_save_requests: "P (x\<lparr>wd_outside := w\<rparr>) \<Longrightarrow> P (x\<lparr>wd_outside := snd (save_requests p i obs w)\<rparr>)"
proof (induction obs arbitrary: w)
  case (Cons ob obs)
  obtain r w' where s: "mg_SaveRequest p (ob\<lparr>ro_RunID := i\<rparr>) w = (r, w')" by fastforce
  have "P (x\<lparr>wd_outside := w'\<rparr>)"
    using on_request [OF Cons.prems, of "ob\<lparr>ro_RunID := i\<rparr>"] s by (simp add: outside_def)
  with Cons.IH s show ?case by (cases r) simp_all
qed simp

lemma keep_persist_requests:
  assumes "P x"
  shows "P (snd (outside (persistMergeRequests p i obs meta) x))"
proof -
  obtain r w where s: "(if gi_AppID meta > 0 then mg_SaveInstallation p i meta (wd_outside x)
      else (None, wd_outside x)) = (r, w)" by (metis surj_pair)
  have "P (x\<lparr>wd_outside := w\<rparr>)"
    using s assms on_installation [OF assms, of i meta] by (auto simp: outside_def split: if_splits)
  with s keep_save_requests [OF this, of i obs] show ?thesis
    by (cases r; cases "save_requests p i obs w") (auto simp: outside_def persistMergeRequests_def)
qed

lemma keep_persist_read:
  assumes "P x"
  shows "P (snd (outside (persistMergeRead p i r) x))"
proof -
  obtain e w where s: "persistMergeRequests p i (rr_Observations r) (rr_Metadata r) (wd_outside x) = (e, w)"
    by fastforce
  then have w: "P (x\<lparr>wd_outside := w\<rparr>)"
    using keep_persist_requests [OF assms, of i "rr_Observations r" "rr_Metadata r"] by (simp add: outside_def)
  from on_evidence [OF this, of i "rr_Read r"] w s show ?thesis
    by (cases e) (auto simp: outside_def persistMergeRead_def split: prod.splits)
qed

lemma keep_reject: "P x \<Longrightarrow> P (snd (rejectMergeConflict run reason cause now x))"
  unfolding rejectMergeConflict_def
  by (rule keeps_method) (intro keep_rules keep_steps; assumption)

lemma keep_finish_failed: "keeps_act P (finish_failed side category now)"
  unfolding finish_failed_def by (intro keep_rules keep_steps; assumption)

lemma keep_rejected: "P x \<Longrightarrow> P (snd (recordMergeRejected run side cause now x))"
  unfolding recordMergeRejected_def
  by (rule keeps_method) (intro keep_rules keep_finish_failed keep_reject; assumption)

lemma keep_uncertain: "P x \<Longrightarrow> P (snd (recordMergeUncertain run side cause now x))"
  unfolding recordMergeUncertain_def
  by (rule keeps_method) (intro keep_rules keep_finish_failed keep_steps; assumption)

lemma keep_policy_pending: "P x \<Longrightarrow> P (snd (recordMergePolicyPending cd run side threads now x))"
  unfolding recordMergePolicyPending_def
  by (rule keeps_method) (intro keep_rules keep_steps; assumption)

lemmas keep_recording = keep_reject keep_rejected keep_uncertain keep_policy_pending keep_persist_requests
  keep_persist_read

lemma keep_await: "P x \<Longrightarrow> P (snd (awaitMergePolicyResolution p cd ord run i r side now x))"
  unfolding awaitMergePolicyResolution_def
  by (rule keeps_method)
    (auto intro!: keep_rules keep_steps keep_recording split: option.split sum.split)

lemma keep_retry_rejection: "keeps_act P (retry_policy_rejection p cd run i reply side now)"
  unfolding retry_policy_rejection_def Let_def
  by (auto intro!: keep_rules keep_steps keep_recording split: option.split sum.split)

lemma keep_publication: "P x \<Longrightarrow> P (snd (publishManualInterventionOnReturn p i out x))"
proof -
  assume x: "P x"
  have "P (snd (case outside (mg_Append p ae) x of (Some e, y) \<Rightarrow> (f e, y) | (None, y) \<Rightarrow> (out, y)))" for ae f
    using on_append [OF x, of ae] by (auto split: prod.split option.split)
  with x show ?thesis
    by (simp add: publishManualInterventionOnReturn_def publish_manual_def Let_def split: sum.split)
qed

end


text \<open>A property that a completed merge keeps as well.\<close>

locale merge_completer = merge_observer +
  assumes on_merge: "P x \<Longrightarrow> P (snd (SaveMerge m x))"
    and on_complete: "P x \<Longrightarrow>
      P (snd (on_store (Transition i StateMerging StateAwaitingLinearCompletion reason ev head now) x))"
begin

lemma keep_record_merge: "P x \<Longrightarrow> P (snd (record_merge cd run r merge side idempotent now x))"
  unfolding record_merge_def
  by (rule keeps_method) (intro keep_rules keep_steps on_merge on_complete; assumption)

lemma keep_complete: "P x \<Longrightarrow> P (snd (completeObservedMerge cd run i r observed side idempotent now x))"
  by (simp add: completeObservedMerge_def Let_def keep_reject keep_record_merge split: option.split)

lemma keep_observed: "P x \<Longrightarrow> P (snd (reconcileObservedMerge cd run i r observed now x))"
  by (simp add: reconcileObservedMerge_def keep_reject keep_complete split: option.split)

lemma keep_squash_merge:
  assumes "\<And>x r. P x \<Longrightarrow> P (snd (outside (mg_SquashMerge p r) x))"
  shows "keeps_act P (squash_merge p cd ord run i r side now)"
  unfolding squash_merge_def
  by (auto intro!: keep_rules keep_steps keep_recording keep_await keep_complete assms split: option.split)

end

section \<open>Reachable stores and stored intents\<close>

interpretation merging_stored: merge_completer "\<lambda>x. stored (wd_store x)" p for p
  by unfold_locales (auto simp: SaveMerge_def split: option.split)

interpretation merging_intent: merge_completer "\<lambda>x. has_intent i kind key (wd_store x)" p for i kind key p
proof unfold_locales
  show "has_intent i kind key (wd_store x) \<Longrightarrow> has_intent i kind key (wd_store (snd (on_store (BeginSideEffect q now) x)))"
    for x q now
    by (auto simp: BeginSideEffect_def record_intent_def has_intent_set split: option.split)
qed (auto simp: SaveMerge_def split: option.split)


section \<open>Watching the merges\<close>

text \<open>The ports with a log of the merges asked for, newest first.\<close>

definition plain :: "('w \<times> 'l) world \<Rightarrow> 'w world" where
  "plain x = \<lparr>wd_store = wd_store x, wd_merges = wd_merges x, wd_outside = fst (wd_outside x)\<rparr>"

definition with_log :: "'l \<Rightarrow> 'w world \<Rightarrow> ('w \<times> 'l) world" where
  "with_log l x = \<lparr>wd_store = wd_store x, wd_merges = wd_merges x, wd_outside = (wd_outside x, l)\<rparr>"

definition unlogged :: "('w \<Rightarrow> 'a \<times> 'w) \<Rightarrow> 'w \<times> 'l \<Rightarrow> 'a \<times> ('w \<times> 'l)" where
  "unlogged f w = (fst (f (fst w)), (snd (f (fst w)), snd w))"

definition logged_merge :: "'w merge_ports \<Rightarrow> ('w \<times> squash_request list) merge_ports" where
  "logged_merge p =
     \<lparr>mg_Revalidate = (\<lambda>c x. case mg_Revalidate p c (plain x) of (r, y) \<Rightarrow> (r, with_log (snd (wd_outside x)) y)),
      mg_ApprovalReady = (\<lambda>i x. mg_ApprovalReady p i (plain x)), mg_Inspect = (\<lambda>i x. mg_Inspect p i (plain x)),
      mg_Authority = (\<lambda>x. mg_Authority p (plain x)), mg_Read = (\<lambda>n h. unlogged (mg_Read p n h)),
      mg_SquashMerge = (\<lambda>r w. (fst (mg_SquashMerge p r (fst w)), (snd (mg_SquashMerge p r (fst w)), r # snd w))),
      mg_SaveInstallation = (\<lambda>i meta. unlogged (mg_SaveInstallation p i meta)),
      mg_SaveRequest = (\<lambda>ob. unlogged (mg_SaveRequest p ob)), mg_SaveEvidence = (\<lambda>i rd. unlogged (mg_SaveEvidence p i rd)),
      mg_manual_event = mg_manual_event p, mg_Append = (\<lambda>ae. unlogged (mg_Append p ae))\<rparr>"

abbreviation merge_log :: "('w \<times> squash_request list) world \<Rightarrow> squash_request list" where
  "merge_log x \<equiv> snd (wd_outside x)"

lemma unlogged_simps [simp]: "snd (snd (unlogged f w)) = snd w" "fst (unlogged f w) = fst (f (fst w))"
  by (simp_all add: unlogged_def)

interpretation merging_log: merge_completer "\<lambda>x. merge_log x = l" "logged_merge p" for l p
  by unfold_locales (auto simp: logged_merge_def SaveMerge_def split: option.split)

text \<open>The write logs exactly its request, and the stored intent stays.\<close>

lemma squash_merge_wp:
  assumes "merge_log x = l" and "has_intent j ''squash_merge'' h (wd_store x)"
  shows "wp (squash_merge (logged_merge p) cd ord run i r side now)
    (\<lambda>_ y. merge_log y = r # l \<and> has_intent j ''squash_merge'' h (wd_store y))
    (\<lambda>_ y. merge_log y = r # l \<and> has_intent j ''squash_merge'' h (wd_store y)) x"
proof -
  have "wp (squash_merge (logged_merge p) cd ord run i r side now) (\<lambda>_ y. merge_log y = r # l) (\<lambda>_ y. merge_log y = r # l) x"
    unfolding squash_merge_def
  proof (rule wp_after)
    show "merge_log (snd (outside (mg_SquashMerge (logged_merge p) r) x)) = r # l"
      using assms(1) by (simp add: logged_merge_def)
  qed (auto intro!: keep_rules merging_log.keep_recording merging_log.keep_await merging_log.keep_complete split: option.split)
  moreover have "wp (squash_merge (logged_merge p) cd ord run i r side now)
      (\<lambda>_ y. has_intent j ''squash_merge'' h (wd_store y)) (\<lambda>_ y. has_intent j ''squash_merge'' h (wd_store y)) x"
    by (rule wp_keeps [OF merging_intent.keep_squash_merge]) (simp_all add: assms(2))
  ultimately show ?thesis by (rule wp_conj)
qed


definition resolved_since ::
  "merge_codec \<Rightarrow> run_row \<Rightarrow> inspection \<Rightarrow> read_reply \<Rightarrow> side_effect_row \<Rightarrow> bool" where
  "resolved_since cd run i reply side \<longleftrightarrow>
     (\<exists>persisted threads. mergePolicyPendingThreads (mc_decode cd) side (run_CandidateHead run) = Inr persisted \<and>
        controllerRepliedMergeThreads (mc_thread cd) i (rr_Read reply) (rr_Handoff reply) = Inr threads \<and>
        sameMergePolicyTopology persisted threads \<and> \<not> hasUnresolvedMergeThread threads)"

text \<open>What an intent stored by an earlier call must look like for the merge to be asked for again.\<close>

definition prior_intent_ok ::
  "merge_codec \<Rightarrow> run_row \<Rightarrow> inspection \<Rightarrow> read_reply \<Rightarrow> side_effect_row option \<Rightarrow> bool" where
  "prior_intent_ok cd run i reply prior \<longleftrightarrow>
     (case prior of None \<Rightarrow> True
      | Some side \<Rightarrow> se_Status side \<noteq> ''intent'' \<and>
          (se_Status side = ''failed'' \<and> mergePolicySideEffect (mc_decode cd) side \<longrightarrow>
             resolved_since cd run i reply side))"

lemma retry_policy_wp:
  "wp (retry_policy_rejection p cd run i reply side now)
     (\<lambda>(side', created) _. created \<and> resolved_since cd run i reply side) (\<lambda>_ _. True) x"
  unfolding retry_policy_rejection_def Let_def resolved_since_def
  by (auto simp: wp_simps split: sum.split if_splits prod.split)

lemma merge_under_intent_wp:
  fixes p :: "'a merge_ports"
  assumes "merge_log x = l"
  shows "wp (merge_under_intent (logged_merge p) cd ord run i r reply now)
    (\<lambda>_ y. merge_log y = l \<or> merge_log y = r # l \<and> has_intent (run_ID run) ''squash_merge'' (run_CandidateHead run) (wd_store y) \<and>
       prior_intent_ok cd run i reply (side_effect_of (wd_store x) (run_ID run) ''squash_merge'' (run_CandidateHead run)))
    (\<lambda>_ y. merge_log y = l \<or> merge_log y = r # l \<and> has_intent (run_ID run) ''squash_merge'' (run_CandidateHead run) (wd_store y) \<and>
       prior_intent_ok cd run i reply (side_effect_of (wd_store x) (run_ID run) ''squash_merge'' (run_CandidateHead run))) x"
  (is "wp _ ?R ?R x")
proof -
  let ?q = "zero_side_effect\<lparr>se_RunID := run_ID run, se_Kind := ''squash_merge'',
       se_IdempotencyKey := run_CandidateHead run, se_IntentJSON := mc_intent cd run r, se_Attempt := 1\<rparr>"
  let ?prior = "side_effect_of (wd_store x) (run_ID run) ''squash_merge'' (run_CandidateHead run)"
  let ?intent = "\<lambda>y. has_intent (run_ID run) ''squash_merge'' (run_CandidateHead run) (wd_store y)"
  obtain res s1 where b: "BeginSideEffect ?q now (wd_store x) = (res, s1)" by fastforce
  let ?x1 = "x\<lparr>wd_store := s1\<rparr>"
  show ?thesis
  proof (cases res)
    case (Inl e)
    with b assms show ?thesis by (simp add: merge_under_intent_def wp_simps on_store_def)
  next
    case (Inr sc)
    obtain side fresh where sc: "sc = (side, fresh)" by fastforce
    have stored: "?intent ?x1" and fresh: "fresh \<Longrightarrow> se_Status side = ''intent''"
      using BeginSideEffect_intent [OF b [unfolded Inr sc]] by simp_all
    have prior: "if fresh then ?prior = None else ?prior = Some side"
      using b [unfolded Inr sc] by (auto simp: BeginSideEffect_def record_intent_def split: if_splits option.splits)
    let ?m = "if \<not> fresh \<and> se_Status side = ''failed'' \<and> mergePolicySideEffect (mc_decode cd) side
          then retry_policy_rejection (logged_merge p) cd run i reply side now else give (side, fresh)"
    have keeps: "keeps_act (\<lambda>y. merge_log y = l) ?m" "keeps_act ?intent ?m"
      by (auto intro!: keep_rules merging_log.keep_retry_rejection merging_intent.keep_retry_rejection)
    have value_ok: "wp ?m (\<lambda>(side', created) _. (\<not> created \<and> se_Status side' = ''intent'') \<or>
        prior_intent_ok cd run i reply ?prior) (\<lambda>_ _. True) ?x1"
    proof (cases "\<not> fresh \<and> se_Status side = ''failed'' \<and> mergePolicySideEffect (mc_decode cd) side")
      case True
      then have "resolved_since cd run i reply side \<Longrightarrow> prior_intent_ok cd run i reply ?prior"
        using prior by (simp add: prior_intent_ok_def)
      with True show ?thesis
        by (auto intro!: wp_mono [OF retry_policy_wp])
    next
      case False
      with prior fresh show ?thesis
        by (cases fresh) (auto simp: wp_simps prior_intent_ok_def)
    qed
    have k1: "wp ?m (\<lambda>_ y. merge_log y = l) (\<lambda>_ y. merge_log y = l) ?x1"
      by (rule wp_keeps [OF keeps(1)]) (simp add: assms)
    have k2: "wp ?m (\<lambda>_. ?intent) (\<lambda>_. ?intent) ?x1" using keeps(2) stored by (rule wp_keeps)
    note both = wp_conj [OF wp_conj [OF k1 k2] value_ok]
    have "wp (seq ?m (\<lambda>(side, created).
        if \<not> created \<and> se_Status side = ''intent''
        then return_from (recordMergeRejected run side (New ''persisted squash merge intent has no durable outcome'') now)
        else squash_merge (logged_merge p) cd ord run i r side now)) ?R ?R ?x1"
      unfolding wp_seq
    proof (rule wp_mono [OF both])
      fix sc :: "side_effect_row \<times> bool" and y :: "('a \<times> squash_request list) world"
      assume y: "(merge_log y = l \<and> ?intent y) \<and> (case sc of (side', created) \<Rightarrow> \<lambda>_.
          (\<not> created \<and> se_Status side' = ''intent'') \<or> prior_intent_ok cd run i reply ?prior) y"
      obtain side' created where sc: "sc = (side', created)" by fastforce
      have "merge_log (snd (recordMergeRejected run side' e now y)) = l" for e
        using y merging_log.keep_rejected by blast
      moreover have "wp (squash_merge (logged_merge p) cd ord run i r side' now) ?R ?R y"
        if "prior_intent_ok cd run i reply ?prior"
        by (rule wp_mono [OF squash_merge_wp]) (use y that in auto)
      ultimately show "wp (case sc of (side, created) \<Rightarrow>
          if \<not> created \<and> se_Status side = ''intent''
          then return_from (recordMergeRejected run side (New ''persisted squash merge intent has no durable outcome'') now)
          else squash_merge (logged_merge p) cd ord run i r side now) ?R ?R y"
        using y sc by (auto simp: wp_simps)
    qed auto
    with b Inr sc show ?thesis by (simp add: merge_under_intent_def wp_seq wp_call on_store_def)
  qed
qed


text \<open>All that holds when a merge has been asked for: what was read before, and what is stored.\<close>

definition merge_granted ::
  "'w merge_ports \<Rightarrow> merge_codec \<Rightarrow> (github_review list \<Rightarrow> github_review list) \<Rightarrow> run_row \<Rightarrow> 'w world \<Rightarrow>
     inspection \<Rightarrow> pull_request \<Rightarrow> read_reply \<Rightarrow> bool" where
  "merge_granted p cd ord run x1 i pr reply \<longleftrightarrow>
     run_State run = StateMerging \<and> mg_ApprovalReady p (run_ID run) x1 = None \<and>
     mg_Inspect p (run_ID run) x1 = Inr i \<and> in_PullRequest i = Some pr \<and>
     validateReaderAuthority i (mg_Authority p x1) = None \<and>
     fst (mg_Read p (pr_Number pr) (run_CandidateHead run) (wd_outside x1)) = reply \<and> rr_Error reply = None \<and>
     authorizeProductionMerge ord run i (squash_request_of run pr) (rd_Evidence (rr_Read reply)) = None \<and>
     prior_intent_ok cd run i reply
       (side_effect_of (wd_store x1) (run_ID run) ''squash_merge'' (run_CandidateHead run))"

lemma merge_after_read_wp:
  assumes "merge_log x = l"
  shows "wp (merge_after_read (logged_merge p) cd ord run i r now)
    (\<lambda>_ y. merge_log y = l \<or> merge_log y = r # l \<and> has_intent (run_ID run) ''squash_merge'' (run_CandidateHead run) (wd_store y) \<and>
       (\<exists>reply. fst (mg_Read p (sq_PullRequest r) (sq_ExpectedHeadSHA r) (fst (wd_outside x))) = reply \<and> rr_Error reply = None \<and>
          authorizeProductionMerge ord run i r (rd_Evidence (rr_Read reply)) = None \<and>
          prior_intent_ok cd run i reply (side_effect_of (wd_store x) (run_ID run) ''squash_merge'' (run_CandidateHead run))))
    (\<lambda>_ y. merge_log y = l \<or> merge_log y = r # l \<and> has_intent (run_ID run) ''squash_merge'' (run_CandidateHead run) (wd_store y) \<and>
       (\<exists>reply. fst (mg_Read p (sq_PullRequest r) (sq_ExpectedHeadSHA r) (fst (wd_outside x))) = reply \<and> rr_Error reply = None \<and>
          authorizeProductionMerge ord run i r (rd_Evidence (rr_Read reply)) = None \<and>
          prior_intent_ok cd run i reply (side_effect_of (wd_store x) (run_ID run) ''squash_merge'' (run_CandidateHead run)))) x"
  (is "wp _ ?R ?R x")
proof -
  let ?reply = "fst (mg_Read p (sq_PullRequest r) (sq_ExpectedHeadSHA r) (fst (wd_outside x)))"
  let ?x1 = "snd (outside (mg_Read (logged_merge p) (sq_PullRequest r) (sq_ExpectedHeadSHA r)) x)"
  let ?x2 = "snd (outside (persistMergeRead (logged_merge p) (run_ID run) ?reply) ?x1)"
  have read: "fst (outside (mg_Read (logged_merge p) (sq_PullRequest r) (sq_ExpectedHeadSHA r)) x) = ?reply"
    by (simp add: logged_merge_def)
  have l1: "merge_log ?x1 = l" using assms by (intro merging_log.on_read)
  have l2: "merge_log ?x2 = l" by (rule merging_log.keep_persist_read [OF l1])
  have st: "wd_store ?x2 = wd_store x" by simp
  have quiet: "merge_log (snd (rejectMergeConflict run reason cause now ?x2)) = l"
      "merge_log (snd (reconcileObservedMerge cd run i r observed now ?x2)) = l" for reason cause observed
    using merging_log.keep_reject [OF l2] merging_log.keep_observed [OF l2] by blast+
  have "wp (merge_under_intent (logged_merge p) cd ord run i r ?reply now) ?R ?R ?x2"
    if "rr_Error ?reply = None" "authorizeProductionMerge ord run i r (rd_Evidence (rr_Read ?reply)) = None"
    by (rule wp_mono [OF merge_under_intent_wp [OF l2]]) (use that st in auto)
  with read l1 l2 quiet show ?thesis
    unfolding merge_after_read_def
    by (auto simp: wp_simps Let_def split: option.split)
qed

text \<open>The whole method, on ports that log.\<close>

lemma with_log_simps [simp]:
  "plain (with_log l x) = x" "wd_store (with_log l x) = wd_store x" "wd_outside (with_log l x) = (wd_outside x, l)"
  by (simp_all add: plain_def with_log_def)

lemma merge_pull_request_wp:
  assumes "mg_Revalidate p c x0 = (res, x1)"
  shows "wp (merge_pull_request (logged_merge p) cd ord c now)
    (\<lambda>_ y. merge_log y = [] \<or> (\<exists>run i pr reply. res = Inr run \<and> merge_log y = [squash_request_of run pr] \<and>
       has_intent (run_ID run) ''squash_merge'' (run_CandidateHead run) (wd_store y) \<and> merge_granted p cd ord run x1 i pr reply))
    (\<lambda>_ y. merge_log y = [] \<or> (\<exists>run i pr reply. res = Inr run \<and> merge_log y = [squash_request_of run pr] \<and>
       has_intent (run_ID run) ''squash_merge'' (run_CandidateHead run) (wd_store y) \<and> merge_granted p cd ord run x1 i pr reply))
    (with_log [] x0)"
  (is "wp _ (\<lambda>_. ?Q) (\<lambda>_. ?Q) _")
proof -
  let ?x1 = "with_log [] x1"
  have rev: "mg_Revalidate (logged_merge p) c (with_log [] x0) = (res, ?x1)"
    using assms by (simp add: logged_merge_def)
  have ports: "mg_ApprovalReady (logged_merge p) i ?x1 = mg_ApprovalReady p i x1"
      "mg_Inspect (logged_merge p) i ?x1 = mg_Inspect p i x1" "mg_Authority (logged_merge p) ?x1 = mg_Authority p x1" for i
    by (simp_all add: logged_merge_def)
  have quiet: "merge_log ?x1 = []" by simp
  have read: "wp (merge_after_read (logged_merge p) cd ord run i (squash_request_of run pr) now) (\<lambda>_. ?Q) (\<lambda>_. ?Q) ?x1"
    if "res = Inr run" "run_State run = StateMerging" "mg_ApprovalReady p (run_ID run) x1 = None"
      "mg_Inspect p (run_ID run) x1 = Inr i" "in_PullRequest i = Some pr"
      "validateReaderAuthority i (mg_Authority p x1) = None" for run i pr
    by (rule wp_mono [OF merge_after_read_wp [OF quiet]])
      (use that in \<open>auto simp: merge_granted_def squash_request_of_def\<close>)
  have merging: "run_State run = StateMerging" if "productionNextAction (run_State run) = (ProductionMerge, reason)" for run reason
    using that by (cases "run_State run") simp_all
  define R where "R = (\<lambda>_ :: merge_outcome. ?Q)"
  have R: "R out ?x1" for out by (simp add: R_def)
  show ?thesis
    unfolding merge_pull_request_def R_def [symmetric]
    by (auto simp: wp_simps rev ports Let_def R simp del: productionNextAction.simps
        intro!: read [folded R_def] dest: merging split: sum.split option.split prod.split)
qed

text \<open>C7: The merge coordinator asks GitHub for at most one merge per call, and only for the run that
  admission returned, at the head of its stored candidate; the intent is in the store by then, the run is
  merging, its local evidence is ready, the inspected authority is the one that reads, the fresh reading of
  GitHub passes every gate of \<open>authorizeProductionMerge\<close>, and an intent left by an earlier call is either
  settled or a policy rejection whose threads are the same and all resolved. The ports are arbitrary.\<close>

theorem merge_is_gated:
  "let (res, x1) = mg_Revalidate p c x0; y = snd (MergePullRequest (logged_merge p) cd ord c now (with_log [] x0)) in
     merge_log y = [] \<or>
     (\<exists>run i pr reply. res = Inr run \<and> merge_log y = [squash_request_of run pr] \<and>
        has_intent (run_ID run) ''squash_merge'' (run_CandidateHead run) (wd_store y) \<and>
        merge_granted p cd ord run x1 i pr reply)"
proof -
  obtain res x1 where rev: "mg_Revalidate p c x0 = (res, x1)" by (metis surj_pair)
  obtain out z where z: "run_method (merge_pull_request (logged_merge p) cd ord c now) (with_log [] x0) = (out, z)"
    by (metis surj_pair)
  let ?y = "snd (publishManualInterventionOnReturn (logged_merge p) (pc_RunID c) out z)"
  have y: "snd (MergePullRequest (logged_merge p) cd ord c now (with_log [] x0)) = ?y"
    by (simp add: MergePullRequest_def z)
  have log: "merge_log ?y = merge_log z" by (rule merging_log.keep_publication) (rule refl)
  have intent: "has_intent i k h (wd_store ?y)" if "has_intent i k h (wd_store z)" for i k h
    using that by (rule merging_intent.keep_publication)
  from method_wp [OF merge_pull_request_wp [OF rev] z] show ?thesis
    unfolding rev y Let_def prod.case log using intent by blast
qed

section \<open>Where a merge leaves a run\<close>

text \<open>The run \<open>j\<close> is where it was in \<open>s0\<close>, or was merging and has stopped, waits for GitHub, or is merged: then
  its merge is in the table.\<close>

definition settled :: "store \<Rightarrow> string \<Rightarrow> 'w world \<Rightarrow> bool" where
  "settled s0 j y \<longleftrightarrow>
     runs_of (wd_store y) j = runs_of s0 j \<or>
     runs_of s0 j = Some StateMerging \<and>
       (runs_of (wd_store y) j = Some StateManualIntervention \<or>
        runs_of (wd_store y) j = Some StateAwaitingGitHubMergeability \<or>
        runs_of (wd_store y) j = Some StateAwaitingLinearCompletion \<and>
          (\<exists>m. m \<in> set (wd_merges y) \<and> mr_RunID m = j \<and> mr_Method m = ''squash'' \<and>
             MergeRecord_ValidateAuthority m = None))"

lemma settled_same: "runs_of (wd_store y) = runs_of (wd_store x) \<Longrightarrow> set (wd_merges x) \<subseteq> set (wd_merges y) \<Longrightarrow>
    settled s0 j x \<Longrightarrow> settled s0 j y"
  unfolding settled_def by auto

lemma settled_move:
  assumes "settled s0 j x" and "runs_of (wd_store x) i = Some StateMerging"
    and "runs_of (wd_store y) = (runs_of (wd_store x))(i \<mapsto> b)" and "wd_merges y = wd_merges x"
    and "b = StateManualIntervention \<or> b = StateAwaitingGitHubMergeability \<or> b = StateAwaitingLinearCompletion \<and>
      (\<exists>m. m \<in> set (wd_merges x) \<and> mr_RunID m = i \<and> mr_Method m = ''squash'' \<and> MergeRecord_ValidateAuthority m = None)"
  shows "settled s0 j y"
  using assms unfolding settled_def by (cases "j = i") auto

lemma settled_manual:
  assumes "settled s0 j x"
  shows "settled s0 j (snd (on_store (Transition i StateMerging StateManualIntervention reason ev head now) x))"
proof -
  obtain res t where t: "Transition i StateMerging StateManualIntervention reason ev head now (wd_store x) = (res, t)"
    by (metis surj_pair)
  from t show ?thesis
  proof (cases rule: Transition_result)
    case 3
    with t show ?thesis by (intro settled_move [OF assms 3(2), where b = StateManualIntervention]) (simp_all add: on_store_def)
  qed (use t assms in \<open>simp_all add: on_store_def settled_def\<close>)
qed

lemma settled_pending:
  assumes "settled s0 j x"
  shows "settled s0 j (snd (on_store (RecordMergePolicyPending i q head now) x))"
proof -
  obtain res t where t: "RecordMergePolicyPending i q head now (wd_store x) = (res, t)" by (metis surj_pair)
  from t show ?thesis
  proof (cases rule: RecordMergePolicyPending_result)
    case 2
    with t show ?thesis by (intro settled_move [OF assms 2(2), where b = StateAwaitingGitHubMergeability]) (simp_all add: on_store_def)
  qed (use t in \<open>auto intro!: settled_same [OF _ _ assms] simp: on_store_def\<close>)
qed

lemma settled_complete:
  assumes "settled s0 j x"
    and "\<exists>m. m \<in> set (wd_merges x) \<and> mr_RunID m = i \<and> mr_Method m = ''squash'' \<and> MergeRecord_ValidateAuthority m = None"
  shows "settled s0 j (snd (on_store (Transition i StateMerging StateAwaitingLinearCompletion reason ev head now) x))"
proof -
  obtain res t where t: "Transition i StateMerging StateAwaitingLinearCompletion reason ev head now (wd_store x) = (res, t)"
    by (metis surj_pair)
  from t show ?thesis
  proof (cases rule: Transition_result)
    case 3
    with t assms(2) show ?thesis by (intro settled_move [OF assms(1) 3(2), where b = StateAwaitingLinearCompletion]) (simp_all add: on_store_def)
  qed (use t assms in \<open>simp_all add: on_store_def settled_def\<close>)
qed

interpretation merging_settled: merge_observer "settled s0 j" p for s0 j p
proof unfold_locales
  fix x :: "'a world" assume x: "settled s0 j x"
  show "settled s0 j (snd (on_store (Transition i StateMerging StateManualIntervention reason ev head now) x))"
    for i reason ev head now by (rule settled_manual [OF x])
  show "settled s0 j (snd (on_store (RecordMergePolicyPending i q head now) x))" for i q head now
    by (rule settled_pending [OF x])
qed (auto intro: settled_same [rotated 2])

lemma SaveMerge_kept:
  "SaveMerge m x = (None, y) \<Longrightarrow>
     wd_store y = wd_store x \<and> set (wd_merges x) \<subseteq> set (wd_merges y) \<and> m \<in> set (wd_merges y) \<and>
     MergeRecord_ValidateAuthority m = None" (is "_ \<Longrightarrow> ?kept")
proof -
  assume y: "SaveMerge m x = (None, y)"
  then have ok: "MergeRecord_ValidateAuthority m = None" by (auto simp: SaveMerge_def split: option.splits)
  show ?kept
  proof (cases "find (\<lambda>z. mr_RunID z = mr_RunID m) (wd_merges x)")
    case None
    with y ok show ?kept by (auto simp: SaveMerge_def split: if_splits)
  next
    case (Some z)
    then have "z \<in> set (wd_merges x)" by (auto simp: find_Some_iff)
    with Some y ok show ?kept by (auto simp: SaveMerge_def split: if_splits)
  qed
qed

lemma settled_record_merge:
  fixes x :: "'w world"
  assumes "settled s0 j x" and "mr_RunID m = run_ID run" and "mr_Method m = ''squash''"
  shows "settled s0 j (snd (record_merge cd run r m side idempotent now x))"
proof -
  obtain res x1 where s: "SaveMerge m x = (res, x1)" by (metis surj_pair)
  show ?thesis
  proof (cases res)
    case (Some e)
    with s have "x1 = x" by (auto simp: SaveMerge_def split: option.splits if_splits)
    with s Some assms show ?thesis
      by (simp add: record_merge_def run_check_error)
  next
    case None
    let ?P = "\<lambda>z :: 'w world. settled s0 j z \<and> m \<in> set (wd_merges z)"
    from s None have x1: "?P x1" and m: "MergeRecord_ValidateAuthority m = None"
      using SaveMerge_kept [of m x x1] settled_same [OF _ _ assms(1), of x1] by simp_all
    have fin: "?P (snd (on_store (FinishSideEffect q) z))" if "?P z" for q and z :: "'w world"
      using that by (auto intro: merging_settled.on_finish)
    have complete: "?P (snd (on_store (Transition (run_ID run) StateMerging StateAwaitingLinearCompletion reason ev head now) z))"
      if "?P z" for reason ev head and z :: "'w world"
      using that m assms by (auto intro!: settled_complete)
    let ?rest = "\<lambda>_ :: unit. seq (if se_Status side = ''observed'' then give ()
             else check_error failed_service (on_store (FinishSideEffect
               (side\<lparr>se_Status := ''observed'', se_ResultJSON := mc_observed cd m, se_ObservedAt := now\<rparr>)))) (\<lambda>_.
        seq (check_error failed_service (on_store (Transition (run_ID run) StateMerging
               StateAwaitingLinearCompletion ''GitHub squash merge observed; awaiting Linear completion''
               (mr_MergeSHA m) (run_CandidateHead run) now))) (\<lambda>_.
        seq (seq (look (GetRun (run_ID run))) (the_value failed_service)) (\<lambda>next_run.
        give (Some \<lparr>pm_Action = ProductionStop, pm_Run = next_run, pm_PullRequest = sq_PullRequest r,
                pm_MergeSHA = mr_MergeSHA m, pm_Idempotent = idempotent\<rparr>, None))))"
    have "keeps_act ?P (?rest ())" by (intro keep_rules fin complete; assumption)
    from keeps_method [OF this x1] have "settled s0 j (snd (run_method (?rest ()) x1))" by blast
    moreover have "record_merge cd run r m side idempotent now x = run_method (?rest ()) x1"
      using s None by (simp add: record_merge_def run_check_error)
    ultimately show ?thesis by simp
  qed
qed

lemma settled_completed:
  assumes "settled s0 j x"
  shows "settled s0 j (snd (completeObservedMerge cd run i r observed side idempotent now x))"
proof -
  have "settled s0 j (snd (record_merge cd run r (observed_merge run r observed) side idempotent now x))"
    by (rule settled_record_merge [OF assms]) (simp_all add: observed_merge_def)
  moreover have "settled s0 j (snd (rejectMergeConflict run reason cause now x))" for reason cause
    using assms by (rule merging_settled.keep_reject)
  ultimately show ?thesis by (simp add: completeObservedMerge_def Let_def split: option.split)
qed

lemma settled_outside: "settled s0 j x \<Longrightarrow> settled s0 j (snd (outside f x))"
  by (rule settled_same) simp_all

lemmas settled_steps = merging_settled.keep_steps merging_settled.keep_recording merging_settled.keep_await
  merging_settled.keep_retry_rejection settled_completed settled_outside

lemma settled_merge: "keeps_act (settled s0 j) (merge_after_read p cd ord run i r now)"
proof -
  have "settled s0 j (snd (reconcileObservedMerge cd run i r observed now x))" if "settled s0 j x" for observed x
    using that by (auto simp: reconcileObservedMerge_def intro: settled_steps split: option.split)
  moreover have "keeps_act (settled s0 j) (merge_under_intent p cd ord run i r reply now)" for reply
    unfolding merge_under_intent_def squash_merge_def
    by (auto intro!: keep_rules settled_steps split: option.split prod.split)
  ultimately show ?thesis
    unfolding merge_after_read_def Let_def
    by (auto intro!: keep_rules settled_steps split: option.split)
qed


text \<open>A reachable store stays reachable.\<close>

lemma merge_keeps_stored:
  assumes "stored (wd_store (snd (mg_Revalidate p c x0)))"
  shows "stored (wd_store (snd (MergePullRequest p cd ord c now x0)))"
proof -
  have "keeps_act (\<lambda>x. stored (wd_store x)) (merge_after_read p cd ord run i r now)" for run i r
    unfolding merge_after_read_def merge_under_intent_def Let_def
    by (auto intro!: keep_rules merging_stored.keep_steps merging_stored.keep_recording merging_stored.keep_observed
        merging_stored.keep_squash_merge merging_stored.keep_retry_rejection split: option.split prod.split)
  then have "wp (merge_pull_request p cd ord c now) (\<lambda>_ x. stored (wd_store x)) (\<lambda>_ x. stored (wd_store x)) x0"
    using assms
    unfolding merge_pull_request_def attempt_def wp_seq Let_def
    by (auto simp: wp_basic wp_value simp del: productionNextAction.simps
        intro!: wp_keeps keep_rules split: sum.split prod.split option.split)
  then have "stored (wd_store (snd (run_method (merge_pull_request p cd ord c now) x0)))"
    by (rule method_wp) (rule prod.collapse [symmetric])
  then show ?thesis
    by (auto simp: MergePullRequest_def intro: merging_stored.keep_publication split: prod.splits)
qed

end
