(* ===== verification/Reconcile.thy ===== *)
theory Reconcile
  imports Merge Repair
begin

text \<open>
  Reconciliation with GitHub: \<open>withReconcileLease\<close>, \<open>ReconcileFromGitHub\<close> and \<open>reconcileLocked\<close> of
  \<open>application/services.go\<close>. A call holds the lease of its run, reads GitHub once, and saves what it read
  together with the one state change it decides. The clock readings of a call are one argument \<open>now\<close>;
  renewing the lease while the call runs is left to the context, whose end is the port \<open>rp_Cause\<close>.
\<close>

section \<open>Commands, results and ports\<close>

record reconcile_authority =
  rq_Requester :: requester
  rq_RunID :: string
  rq_Repository :: string
  rq_ExpectedState :: state
  rq_IdempotencyKey :: string

record reconcile_command = reconcile_authority +
  rq_Read :: github_read
  rq_Findings :: "normalized_finding list"
  rq_Observations :: "request_observation list"
  rq_Metadata :: installation
  rq_Feedback :: "trusted_feedback list"
  rq_Unsupported :: bool
  rq_UnsupportedReason :: topology_reason
  rq_Drift :: bool
  rq_LinearCompleted :: bool

record github_command = reconcile_authority +
  gq_PullRequest :: int
  gq_ExpectedHead :: string
  gq_LinearCompleted :: bool

record reconcile_result =
  rc_Head :: string
  rc_Status :: reconciliation_status
  rc_State :: state
  rc_Reason :: string

type_synonym reconcile_outcome = "reconcile_result result"

text \<open>What a successful reading hands to the store, and the state it moves the run to.\<close>

record saved_read =
  sv_RunID :: string
  sv_Owner :: string
  sv_Expected :: state
  sv_Key :: string
  sv_Observations :: "request_observation list"
  sv_Metadata :: installation
  sv_Read :: github_read
  sv_Findings :: "normalized_finding list"
  sv_Feedback :: "trusted_feedback list"
  sv_Observed :: "approval_observation option"
  sv_Approval :: "human_approval option"
  sv_Next :: state
  sv_Reason :: string

text \<open>\<open>rp_SaveRead\<close>, \<open>rp_SaveFailure\<close>, \<open>rp_SaveDrift\<close> and \<open>rp_SaveTarget\<close> are the checks and rows of a
  transaction outside the tables of the model; \<open>rp_Digest\<close> is the digest of the JSON of a reading.\<close>

record 'w reconcile_ports =
  rp_Encode :: scope_encoder
  rp_Decode :: frozen_decoder
  rp_Quote :: "string \<Rightarrow> string"
  rp_Owner :: "'w \<Rightarrow> string result \<times> 'w"
  rp_Inspect :: "string \<Rightarrow> 'w world \<Rightarrow> inspection result"
  rp_Cause :: "'w world \<Rightarrow> go_error option"
  rp_Authority :: "'w world \<Rightarrow> installation"
  rp_Read :: "int \<Rightarrow> string \<Rightarrow> 'w \<Rightarrow> read_reply \<times> 'w"
  rp_SaveRead :: "saved_read \<Rightarrow> 'w \<Rightarrow> go_error option \<times> 'w"
  rp_SaveFailure :: "string \<Rightarrow> request_observation list \<Rightarrow> 'w \<Rightarrow> go_error option \<times> 'w"
  rp_SaveDrift :: "string \<Rightarrow> read_reply \<Rightarrow> string \<Rightarrow> 'w \<Rightarrow> go_error option \<times> 'w"
  rp_SaveTarget :: "string \<Rightarrow> repository_identity \<Rightarrow> pull_request \<Rightarrow> read_reply \<Rightarrow> 'w \<Rightarrow> go_error option \<times> 'w"
  rp_Digest :: "github_read \<Rightarrow> normalized_finding list \<Rightarrow> string"

definition reconcileLeaseTTL :: duration where
  "reconcileLeaseTTL = 45 * 1000000000"

section \<open>Saving\<close>

text \<open>A transaction over the store and the tables outside: both change, or neither does.\<close>

definition together ::
  "('w \<Rightarrow> go_error option \<times> 'w) \<Rightarrow> (go_error option \<Rightarrow> store \<Rightarrow> go_error option \<times> store) \<Rightarrow> 'w world \<Rightarrow>
     go_error option \<times> 'w world" where
  "together rows op x =
     (case rows (wd_outside x) of (checks, w) \<Rightarrow>
      (case op checks (wd_store x) of
         (None, s) \<Rightarrow> (None, x\<lparr>wd_store := s, wd_outside := w\<rparr>) | (Some e, _) \<Rightarrow> (Some e, x)))"

definition SaveGitHubReadSuccess :: "'w reconcile_ports \<Rightarrow> saved_read \<Rightarrow> time \<Rightarrow> 'w world \<Rightarrow> go_error option \<times> 'w world" where
  "SaveGitHubReadSuccess p v now =
     together (rp_SaveRead p v) (\<lambda>checks.
       SaveGitHubReconciliation checks (sv_RunID v) (sv_Owner v) (sv_Expected v) (sv_Next v) (sv_Key v) (sv_Reason v)
         (''github_read_evidence:'' @ rp_Digest p (sv_Read v) (sv_Findings v))
         (pr_HeadSHA (ev_PullRequest (rd_Evidence (sv_Read v)))) now)"

definition read_failure_guard :: "string \<Rightarrow> string \<Rightarrow> state \<Rightarrow> string \<Rightarrow> time \<Rightarrow> go_error option \<Rightarrow> store \<Rightarrow>
    go_error option \<times> store" where
  "read_failure_guard runID owner expected key now checks s =
     (case checks of Some e \<Rightarrow> (Some e, s)
      | None \<Rightarrow>
     (case find_run s runID of None \<Rightarrow> (Some no_rows, s)
      | Some run \<Rightarrow>
          (if \<not> reconcile_guard run expected key owner now
           then (Some (New ''GitHub reconciliation run authority changed''), s) else (None, s))))"

definition SaveGitHubReadFailure ::
  "'w reconcile_ports \<Rightarrow> string \<Rightarrow> string \<Rightarrow> state \<Rightarrow> string \<Rightarrow> request_observation list \<Rightarrow> time \<Rightarrow> 'w world \<Rightarrow>
     go_error option \<times> 'w world" where
  "SaveGitHubReadFailure p runID owner expected key observations now =
     together (rp_SaveFailure p runID observations) (read_failure_guard runID owner expected key now)"

definition save_feedback_drift ::
  "'w reconcile_ports \<Rightarrow> string \<Rightarrow> string \<Rightarrow> state \<Rightarrow> string \<Rightarrow> read_reply \<Rightarrow> string \<Rightarrow> string \<Rightarrow> time \<Rightarrow> 'w world \<Rightarrow>
     go_error option \<times> 'w world" where
  "save_feedback_drift p runID owner expected key reply root digest now =
     together (rp_SaveDrift p runID reply root) (\<lambda>checks.
       RequireManualInterventionForTrustedFeedbackDrift
         (if validTrustedReviewFeedbackNodeID root then checks
          else Some (New ''trusted feedback drift identity is incomplete'')) runID owner expected key digest now)"

section \<open>The lease\<close>

definition validateReconcileInspection ::
  "'w reconcile_ports \<Rightarrow> ('z) reconcile_authority_scheme \<Rightarrow> inspection \<Rightarrow> go_error option" where
  "validateReconcileInspection p q i =
     (let run = in_Run i in
      case authorizePersistedRequester (rp_Encode p) (rp_Decode p) run (rq_Requester q) of
        Some e \<Rightarrow> Some e
      | None \<Rightarrow>
          (if rq_Repository q = [] \<or> run_Repository run \<noteq> rq_Repository q \<or> rq_ExpectedState q = StateOther [] \<or>
              run_State run \<noteq> rq_ExpectedState q \<or> rq_IdempotencyKey q = [] \<or>
              run_IdempotencyKey run \<noteq> rq_IdempotencyKey q
           then Some (ServiceErr ErrorConflict ''run authority or state changed before reconciliation'' None)
           else if in_PullRequest i = None
           then Some (ServiceErr ErrorConflict ''persisted pull request identity is required'' None)
           else None))"

definition classified :: "go_error \<Rightarrow> 'a result" where
  "classified e = Inl (classifyServiceError e)"

definition conflict :: "string \<Rightarrow> 'a result" where
  "conflict reason = Inl (ServiceErr ErrorConflict reason None)"

text \<open>What runs under the lease, which is released whatever comes of it.\<close>

definition under_lease ::
  "'w reconcile_ports \<Rightarrow> string \<Rightarrow> string \<Rightarrow> time \<Rightarrow>
     (inspection \<Rightarrow> ('w world, reconcile_outcome, reconcile_outcome) act) \<Rightarrow> 'w world \<Rightarrow> reconcile_outcome \<times> 'w world" where
  "under_lease p runID owner now body x =
     (case run_method (seq (seq (look (rp_Inspect p runID)) (the_value classified)) body) x of (out, y) \<Rightarrow>
        (case out of
           Inl e \<Rightarrow> Inl e
         | Inr v \<Rightarrow> (case rp_Cause p y of Some e \<Rightarrow> classified e | None \<Rightarrow> Inr v),
         snd (on_store (ReleaseLease runID owner now) y)))"

definition withReconcileLease ::
  "'w reconcile_ports \<Rightarrow> ('z) reconcile_authority_scheme \<Rightarrow> time \<Rightarrow>
     (inspection \<Rightarrow> string \<Rightarrow> ('w world, reconcile_outcome, reconcile_outcome) act) \<Rightarrow>
     ('w world, reconcile_outcome, reconcile_outcome) act" where
  "withReconcileLease p q now body =
     seq (unless (rq_RunID q \<noteq> [] \<and> rq_Repository q \<noteq> [] \<and> rq_ExpectedState q \<noteq> StateOther [] \<and> rq_IdempotencyKey q \<noteq> [])
            (Inl (ServiceErr ErrorInvalidInput
               ''run, expected state, repository, and idempotency key are required'' None))) (\<lambda>_.
     seq (seq (look (GetRun (rq_RunID q))) (the_value classified)) (\<lambda>run.
     seq (no_error Inl (authorizePersistedRequester (rp_Encode p) (rp_Decode p) run (rq_Requester q))) (\<lambda>_.
     seq (unless (run_Repository run = rq_Repository q \<and> run_State run = rq_ExpectedState q \<and>
              run_IdempotencyKey run = rq_IdempotencyKey q)
            (conflict ''run authority or state changed before reconciliation'')) (\<lambda>_.
     seq (attempt classified (outside (rp_Owner p))) (\<lambda>owner.
     seq (attempt classified (on_store (AcquireLease (rq_RunID q) owner (now + reconcileLeaseTTL) now))) (\<lambda>acquired.
     seq (unless acquired (conflict ''run is actively leased'')) (\<lambda>_.
     return_from (under_lease p (rq_RunID q) owner now (\<lambda>i. body i owner)))))))))"

section \<open>The decision\<close>

definition selectedFeedbackForAdmission :: "trusted_feedback list \<Rightarrow> trusted_feedback list" where
  "selectedFeedbackForAdmission observed = map (\<lambda>f. f\<lparr>tf_Lifecycle := FeedbackSelectedForRepair\<rparr>) observed"

definition trustedFeedbackConflicts :: "trusted_feedback list \<Rightarrow> trusted_feedback list \<Rightarrow> bool" where
  "trustedFeedbackConflicts existing observed \<longleftrightarrow>
     list_ex (\<lambda>f. case map_of (trusted_index existing) (tf_RootCommentNodeID f) of
        None \<Rightarrow> False | Some prior \<Rightarrow> \<not> ImmutableEqual prior f) observed"

definition hasOutstandingReviewReply :: "trusted_feedback list \<Rightarrow> string \<Rightarrow> bool" where
  "hasOutstandingReviewReply items head \<longleftrightarrow>
     list_ex (\<lambda>f. (tf_Lifecycle f = FeedbackRepairVerified \<or> tf_Lifecycle f = FeedbackReplyPending) \<and>
        \<not> tf_Resolved f \<and> tf_BoundRepairHead f = head) items"

definition shouldEnterReviewReply :: "state \<Rightarrow> reconciliation_status \<Rightarrow> trusted_feedback list \<Rightarrow> string \<Rightarrow> bool" where
  "shouldEnterReviewReply current status items head \<longleftrightarrow>
     status = ReconciliationPass \<and> CanTransition current StateReplyingReviewFeedback \<and>
     hasOutstandingReviewReply items head"

definition nextGitHubReconciliationState ::
  "state \<Rightarrow> github_evidence \<Rightarrow> reconciliation_status \<Rightarrow> state \<times> string" where
  "nextGitHubReconciliationState current ev status =
     (if current \<notin> {StatePROpen, StateReconcilingReviews, StateAwaitingHumanApproval, StateAwaitingGitHubMergeability}
      then (current, ''GitHub evidence recorded outside the production delivery gate'')
      else if \<not> equal_fold (pr_State (ev_PullRequest ev)) ''open'' \<or> pr_Merged (ev_PullRequest ev)
      then (StateManualIntervention, ''GitHub pull request closed or merged outside the controller gate'')
      else if current = StatePROpen
      then (StateReconcilingReviews, ''GitHub evidence collection started'')
      else case status of
        ReconciliationPass \<Rightarrow> (StateAwaitingHumanApproval, ''required checks passed'')
      | ReconciliationActionable \<Rightarrow> (StateRepairing, ''GitHub evidence has actionable review or check findings'')
      | ReconciliationPending \<Rightarrow> (StateReconcilingReviews, ''GitHub evidence is pending or incomplete'')
      | ReconciliationInfrastructure \<Rightarrow> (StateReconcilingReviews, ''GitHub evidence is pending or incomplete'')
      | ReconciliationTimeout \<Rightarrow> (StateReconcilingReviews, ''GitHub evidence has an unknown reconciliation status''))"

text \<open>The evidence a command carries, and the findings a repair of it would get.\<close>

abbreviation rq_Evidence :: "('z) reconcile_command_scheme \<Rightarrow> github_evidence" where
  "rq_Evidence q \<equiv> rd_Evidence (rq_Read q)"

definition admitted_findings ::
  "(string \<Rightarrow> string) \<Rightarrow> reconcile_command \<Rightarrow> normalized_finding list \<Rightarrow> string \<Rightarrow>
     (normalized_finding list \<times> finding_record list) result" where
  "admitted_findings quote q findings head =
     repairableEvidenceFindings quote (rq_Evidence q) findings head (selectedFeedbackForAdmission (rq_Feedback q))"

definition topology_reason_string :: "topology_reason \<Rightarrow> string" where
  "topology_reason_string r =
     (if r = TopologySplitReview then ''trusted_review_topology_split_review'' else ''trusted_review_topology_unsupported'')"

text \<open>The stops for a human, from the least to the most specific diagnosis.\<close>

definition stop_rules :: "reconcile_command \<Rightarrow> inspection \<Rightarrow> state \<times> string \<Rightarrow> state \<times> string" where
  "stop_rules q i t0 =
     (let t1 = (if rq_LinearCompleted q \<and> \<not> pr_Merged (ev_PullRequest (rq_Evidence q))
                then (StateManualIntervention, ''Linear issue completed before a controller-owned merge was observed'')
                else t0);
          t2 = (if rq_Unsupported q
                then (StateManualIntervention, topology_reason_string (rq_UnsupportedReason q)) else t1);
          t3 = (if rq_Drift q then (StateManualIntervention, ''trusted_review_feedback_drift'') else t2)
      in if trustedFeedbackConflicts (in_TrustedFeedback i) (rq_Feedback q)
         then (StateManualIntervention, ''trusted_review_feedback_conflict'') else t3)"

definition repair_rules ::
  "(string \<Rightarrow> string) \<Rightarrow> reconcile_command \<Rightarrow> inspection \<Rightarrow> reconciliation_status \<Rightarrow> normalized_finding list \<Rightarrow>
     state \<times> string \<Rightarrow> state \<times> string" where
  "repair_rules quote q i status findings t0 =
     (let run = in_Run i;
          t1 = (if rq_Feedback q \<noteq> [] \<and> fst t0 \<noteq> StateManualIntervention \<and>
                   run_State run \<in> {StateReconcilingReviews, StateAwaitingHumanApproval, StateAwaitingGitHubMergeability}
                then (StateRepairing, ''trusted exact-head inline change request requires repair'') else t0)
      in if status = ReconciliationActionable \<and> fst t1 = StateRepairing \<and>
            (case admitted_findings quote q findings (run_CandidateHead run) of Inl _ \<Rightarrow> True | Inr _ \<Rightarrow> False)
         then (StateManualIntervention, ''GitHub evidence has unsupported actionable findings'') else t1)"

definition reply_rule :: "inspection \<Rightarrow> reconciliation_status \<Rightarrow> state \<times> string \<Rightarrow> state \<times> string" where
  "reply_rule i status t =
     (if fst t \<noteq> StateManualIntervention \<and>
         shouldEnterReviewReply (run_State (in_Run i)) status (in_TrustedFeedback i) (run_CandidateHead (in_Run i))
      then (StateReplyingReviewFeedback, ''verified trusted inline repair requires a controller reply'') else t)"

definition reconcile_target ::
  "(string \<Rightarrow> string) \<Rightarrow> reconcile_command \<Rightarrow> inspection \<Rightarrow> reconciliation_status \<Rightarrow> normalized_finding list \<Rightarrow>
     state \<times> string" where
  "reconcile_target quote q i status findings =
     reply_rule i status (repair_rules quote q i status findings
       (stop_rules q i (nextGitHubReconciliationState (run_State (in_Run i)) (rq_Evidence q) status)))"

definition expected_repository :: "inspection \<Rightarrow> repository_identity result" where
  "expected_repository i =
     (case in_GitHubInstallation i of
        Some g \<Rightarrow> Inr (gi_Repository g)
      | None \<Rightarrow>
     (case in_RepositoryBinding i of
        None \<Rightarrow> conflict ''persisted repository authority is required''
      | Some b \<Rightarrow>
          (case split_on slash (rb_CanonicalRepository b) of
             [owner, name] \<Rightarrow> Inr \<lparr>repo_ID = rb_ExpectedRepositoryID b, repo_NodeID = [], repo_Owner = owner, repo_Name = name\<rparr>
           | _ \<Rightarrow> conflict ''persisted repository identity is invalid'')))"

definition same_installation :: "inspection \<Rightarrow> installation \<Rightarrow> repository_identity \<Rightarrow> bool" where
  "same_installation i meta observed \<longleftrightarrow>
     (case in_GitHubInstallation i of
        Some g \<Rightarrow> gi_AppID meta = gi_AppID g \<and> gi_InstallationID meta = gi_InstallationID g \<and>
          gi_Repository meta = gi_Repository g
      | None \<Rightarrow>
     (case in_RepositoryBinding i of
        None \<Rightarrow> False
      | Some b \<Rightarrow> gi_AppID meta = rb_GitHubAppID b \<and> gi_InstallationID meta = rb_GitHubInstallationID b \<and>
          gi_Repository meta = observed))"

text \<open>The observed approval is normalized only where one is awaited.\<close>

definition observed_approval ::
  "(github_review list \<Rightarrow> github_review list) \<Rightarrow> inspection \<Rightarrow> github_evidence \<Rightarrow>
     (approval_observation option \<times> human_approval option) result" where
  "observed_approval ord i ev =
     (if run_State (in_Run i) \<noteq> StateAwaitingHumanApproval then Inr (None, None)
      else case trustedHumanActors i of
        Inl e \<Rightarrow> Inl (ServiceErr ErrorConflict ''trusted human approval identity is unavailable'' (Some e))
      | Inr trusted \<Rightarrow>
     (case NormalizeHumanApproval ord (ev_PullRequest ev) (ev_Reviews ev) trusted (ev_ObservedAt ev) of
        Inl e \<Rightarrow> Inl (ServiceErr ErrorConflict ''human approval evidence is ambiguous'' (Some e))
      | Inr (observed, approval) \<Rightarrow> Inr (Some observed, approval)))"

text \<open>The last rule: an approval of the exact head moves the run to merging.\<close>

definition merge_rule ::
  "reconcile_command \<Rightarrow> inspection \<Rightarrow> reconciliation_status \<Rightarrow> approval_observation option \<Rightarrow> human_approval option \<Rightarrow>
     state \<times> string \<Rightarrow> (state \<times> string) result" where
  "merge_rule q i status observed approval t =
     (let run = in_Run i in
      case (observed, approval) of
        (Some ob, Some a) \<Rightarrow>
          (if \<not> rq_LinearCompleted q \<and> fst t \<noteq> StateReplyingReviewFeedback \<and>
              run_State run = StateAwaitingHumanApproval \<and> status = ReconciliationPass \<and>
              obs_Status ob = HumanApprovalApproved
           then (case Authorizes a (ev_PullRequest (rq_Evidence q)) (run_CandidateHead run) of
                   Some e \<Rightarrow> Inl (ServiceErr ErrorConflict ''human approval is not bound to the exact final head'' (Some e))
                 | None \<Rightarrow> Inr (StateMerging, ''trusted human approval is bound to the exact final head''))
           else Inr t)
      | _ \<Rightarrow> Inr t)"

section \<open>Reconciling\<close>

definition with_check_findings ::
  "(string \<Rightarrow> string) \<Rightarrow> reconcile_command \<Rightarrow> reconciliation_status \<Rightarrow> string \<Rightarrow> normalized_finding list" where
  "with_check_findings quote q status head =
     (if status \<noteq> ReconciliationActionable then rq_Findings q
      else case admitted_findings quote q (rq_Findings q) head of Inl _ \<Rightarrow> rq_Findings q | Inr (all_findings, _) \<Rightarrow> all_findings)"

definition read_to_save ::
  "reconcile_command \<Rightarrow> run_row \<Rightarrow> string \<Rightarrow> normalized_finding list \<Rightarrow> approval_observation option \<Rightarrow>
     human_approval option \<Rightarrow> state \<times> string \<Rightarrow> saved_read" where
  "read_to_save q run owner findings observed approval t =
     \<lparr>sv_RunID = run_ID run, sv_Owner = owner, sv_Expected = rq_ExpectedState q, sv_Key = rq_IdempotencyKey q,
      sv_Observations = rq_Observations q, sv_Metadata = rq_Metadata q, sv_Read = rq_Read q, sv_Findings = findings,
      sv_Feedback = rq_Feedback q, sv_Observed = observed, sv_Approval = approval, sv_Next = fst t, sv_Reason = snd t\<rparr>"

definition reconcileLocked ::
  "'w reconcile_ports \<Rightarrow> (github_review list \<Rightarrow> github_review list) \<Rightarrow> reconcile_command \<Rightarrow> inspection \<Rightarrow> string \<Rightarrow> time \<Rightarrow>
     ('w world, reconcile_outcome, reconcile_outcome) act" where
  "reconcileLocked p ord q i owner now =
     (let run = in_Run i; ev = rq_Evidence q; head = run_CandidateHead run in
      seq (no_error Inl (validateReconcileInspection p q i)) (\<lambda>_.
      seq (the_value Inl (expected_repository i)) (\<lambda>repo.
      case in_PullRequest i of
        None \<Rightarrow> return_with (conflict ''persisted pull request identity is required'')
      | Some pr \<Rightarrow>
      seq (no_error (\<lambda>e. Inl (ServiceErr ErrorConflict ''external evidence does not match the expected run'' (Some e)))
             (ReconcileGitHubRead repo pr (run_WorkingBranch run) (run_BaseBranch run) head (run_BaseSHA run)
                (run_IdempotencyKey run) (pr_BodyDigest pr) ev)) (\<lambda>_.
      seq (unless (same_installation i (rq_Metadata q) (ev_Repository ev))
             (conflict ''GitHub installation authority mismatch'')) (\<lambda>_.
      let status = DeliveryStatus ev in
      seq (the_value Inl (observed_approval ord i ev)) (\<lambda>(observed, approval).
      let findings = with_check_findings (rp_Quote p) q status head in
      seq (the_value Inl (merge_rule q i status observed approval
             (reconcile_target (rp_Quote p) q i status findings))) (\<lambda>t.
      seq (check_error classified
             (SaveGitHubReadSuccess p (read_to_save q run owner findings observed approval t) now)) (\<lambda>_.
      give (Inr \<lparr>rc_Head = head, rc_Status = status, rc_State = fst t, rc_Reason = snd t\<rparr>)))))))))"

definition trustedFeedbackDriftReference :: "trusted_feedback list \<Rightarrow> inline_body list \<Rightarrow> string \<times> string" where
  "trustedFeedbackDriftReference existing handoff =
     (case find (\<lambda>f. tf_Lifecycle f = FeedbackObserved \<or> tf_Lifecycle f = FeedbackSelectedForRepair) existing of
        None \<Rightarrow> ([], [])
      | Some f \<Rightarrow>
          (tf_RootCommentNodeID f,
           case map_of (body_index handoff) (tf_RootCommentNodeID f) of
             None \<Rightarrow> tf_BodyDigest f
           | Some b \<Rightarrow> (if ib_BodyDigest b = [] then tf_BodyDigest f else ib_BodyDigest b)))"

definition no_changes :: trusted_changes where
  "no_changes = \<lparr>tc_Feedback = [], tc_Findings = [], tc_Unsupported = False, tc_Reason = TopologyNone\<rparr>"

text \<open>The change requests of a reading, normalized where there is one.\<close>

definition trusted_changes_of :: "inspection \<Rightarrow> read_reply \<Rightarrow> trusted_changes result" where
  "trusted_changes_of i reply =
     (let ev = rd_Evidence (rr_Read reply) in
      case trustedHumanActors i of
        Inl e \<Rightarrow> Inl (ServiceErr ErrorConflict ''trusted human feedback identity is unavailable'' (Some e))
      | Inr trusted \<Rightarrow>
     (case NormalizeTrustedChangesRequested (ev_PullRequest ev) (ev_Reviews ev) (rd_Threads (rr_Read reply))
             (rr_Handoff reply) trusted (ev_ObservedAt ev) of
        Inl e \<Rightarrow> Inl (ServiceErr ErrorUnavailable ''inline review evidence is incomplete'' (Some e))
      | Inr changes \<Rightarrow> Inr changes))"

definition reading_drifted :: "inspection \<Rightarrow> read_reply \<Rightarrow> bool" where
  "reading_drifted i reply =
     TrustedFeedbackDrift (in_TrustedFeedback i) (ev_PullRequest (rd_Evidence (rr_Read reply)))
       (ev_Reviews (rd_Evidence (rr_Read reply))) (rd_Threads (rr_Read reply)) (rr_Handoff reply)"

definition full_command ::
  "('z) reconcile_authority_scheme \<Rightarrow> inspection \<Rightarrow> read_reply \<Rightarrow> trusted_changes \<Rightarrow> bool \<Rightarrow> reconcile_command" where
  "full_command q i reply changes linearCompleted =
     \<lparr>rq_Requester = rq_Requester q, rq_RunID = rq_RunID q, rq_Repository = rq_Repository q,
      rq_ExpectedState = rq_ExpectedState q, rq_IdempotencyKey = rq_IdempotencyKey q,
      rq_Read = rr_Read reply, rq_Findings = tc_Findings changes, rq_Observations = rr_Observations reply,
      rq_Metadata = rr_Metadata reply, rq_Feedback = tc_Feedback changes, rq_Unsupported = tc_Unsupported changes,
      rq_UnsupportedReason = tc_Reason changes, rq_Drift = reading_drifted i reply,
      rq_LinearCompleted = linearCompleted\<rparr>"

definition reconcile_reading ::
  "'w reconcile_ports \<Rightarrow> (github_review list \<Rightarrow> github_review list) \<Rightarrow> github_command \<Rightarrow> inspection \<Rightarrow> string \<Rightarrow>
     read_reply \<Rightarrow> time \<Rightarrow> ('w world, reconcile_outcome, reconcile_outcome) act" where
  "reconcile_reading p ord q i owner reply now =
     (let ev = rd_Evidence (rr_Read reply) in
      if reading_drifted i reply
      then (case trustedFeedbackDriftReference (in_TrustedFeedback i) (rr_Handoff reply) of (root, digest) \<Rightarrow>
        seq (check_error classified (save_feedback_drift p (rq_RunID q) owner (rq_ExpectedState q) (rq_IdempotencyKey q)
               reply root digest now)) (\<lambda>_.
        give (Inr \<lparr>rc_Head = run_CandidateHead (in_Run i), rc_Status = ReconciliationInfrastructure,
                   rc_State = StateManualIntervention, rc_Reason = []\<rparr>)))
      else
        seq (no_error (\<lambda>e. Inl (ServiceErr ErrorUnavailable ''inline review body handoff is incomplete'' (Some e)))
               (Handoff_Validate (rr_Handoff reply))) (\<lambda>_.
        seq (the_value Inl (if list_ex (\<lambda>r. gr_State r = ''CHANGES_REQUESTED'') (ev_Reviews ev)
               then trusted_changes_of i reply else Inr no_changes)) (\<lambda>changes.
        reconcileLocked p ord (full_command q i reply changes (gq_LinearCompleted q)) i owner now)))"

definition reconcile_from_github ::
  "'w reconcile_ports \<Rightarrow> (github_review list \<Rightarrow> github_review list) \<Rightarrow> github_command \<Rightarrow> time \<Rightarrow>
     inspection \<Rightarrow> string \<Rightarrow> ('w world, reconcile_outcome, reconcile_outcome) act" where
  "reconcile_from_github p ord q now i owner =
     seq (no_error Inl (validateReconcileInspection p q i)) (\<lambda>_.
     seq (unless (map_option pr_Number (in_PullRequest i) = Some (gq_PullRequest q) \<and>
              run_CandidateHead (in_Run i) = gq_ExpectedHead q)
            (conflict ''requested PR or head does not match persisted evidence'')) (\<lambda>_.
     seq (seq (look (rp_Authority p)) (\<lambda>authority. no_error Inl (validateReaderAuthority i authority))) (\<lambda>_.
     seq (perform (outside (rp_Read p (gq_PullRequest q) (gq_ExpectedHead q)))) (\<lambda>reply.
     case rr_Error reply of
       Some e \<Rightarrow>
         seq (check_error classified (SaveGitHubReadFailure p (rq_RunID q) owner (rq_ExpectedState q)
                (rq_IdempotencyKey q) (rr_Observations reply) now)) (\<lambda>_.
         return_with (classified e))
     | None \<Rightarrow> reconcile_reading p ord q i owner reply now))))"

definition ReconcileFromGitHub ::
  "'w reconcile_ports \<Rightarrow> (github_review list \<Rightarrow> github_review list) \<Rightarrow> github_command \<Rightarrow> time \<Rightarrow> 'w world \<Rightarrow>
     reconcile_outcome \<times> 'w world" where
  "ReconcileFromGitHub p ord q now =
     run_method
       (seq (unless (gq_PullRequest q \<ge> 1 \<and> gq_ExpectedHead q \<noteq> [])
               (Inl (ServiceErr ErrorInvalidInput ''GitHub reader, pull request, and expected head are required'' None))) (\<lambda>_.
        withReconcileLease p q now (reconcile_from_github p ord q now)))"

definition Reconcile ::
  "'w reconcile_ports \<Rightarrow> (github_review list \<Rightarrow> github_review list) \<Rightarrow> reconcile_command \<Rightarrow> time \<Rightarrow> 'w world \<Rightarrow>
     reconcile_outcome \<times> 'w world" where
  "Reconcile p ord q now = run_method (withReconcileLease p q now (\<lambda>i owner. reconcileLocked p ord q i owner now))"

section \<open>What saving does to the runs\<close>

lemma runs_of_lease_ops [simp]:
  "runs_of (snd (AcquireLease i owner expires now s)) = runs_of s"
  "runs_of (snd (ReleaseLease i owner now s)) = runs_of s"
proof -
  have upd: "runs_of (snd (update_lease P f now s)) = runs_of s"
    if "\<And>r. run_ID (f r) = run_ID r" "\<And>r. run_State (f r) = run_State r" for P f
    by (rule runs_of_update [where P = P and f = "touch now f"]) (simp_all add: touch_def that update_lease_def update_runs_def)
  show "runs_of (snd (AcquireLease i owner expires now s)) = runs_of s"
    by (simp add: AcquireLease_def case_prod_beta) (rule impI, rule upd; simp)
  show "runs_of (snd (ReleaseLease i owner now s)) = runs_of s"
    by (simp add: ReleaseLease_def case_prod_beta) (rule upd; simp)
qed

text \<open>The one run that a call may move. A drift of feedback stops a run from any state.\<close>

definition moved_to :: "store \<Rightarrow> string \<Rightarrow> state \<Rightarrow> state \<Rightarrow> store \<Rightarrow> bool" where
  "moved_to s i a b t \<longleftrightarrow>
     runs_of s i = Some a \<and> (CanTransition a b \<or> b = StateManualIntervention) \<and> runs_of t = (runs_of s)(i \<mapsto> b)"

lemma guarded_move:
  assumes "compare_and_transition lost i (\<lambda>r. run_ID r = i \<and> reconcile_guard r a key owner now) a b f reason ev head now s = (res, t)"
    and "keeps f" and "find_run s i = Some run" and "reconcile_guard run a key owner now"
    and "CanTransition a b \<or> b = StateManualIntervention"
  shows "t = s \<or> moved_to s i a b t"
proof (cases res)
  case (Some e)
  with assms(1) show ?thesis by (auto dest: compare_and_transition_Some)
next
  case None
  note c = assms(1) [unfolded None]
  have "runs_of t = (runs_of s)(i \<mapsto> b)"
    by (rule runs_of_cat [OF c assms(2) _ assms(3)]) (use assms(4) find_run_Some [OF assms(3)] in auto)
  with assms(3,4,5) show ?thesis by (simp add: moved_to_def runs_of_def reconcile_guard_def)
qed

lemma keeps_plain: "keeps (\<lambda>r. r)" "keeps (set_error e)"
  by (simp_all add: keeps_def set_error_def)

lemma SaveGitHubReconciliation_moves:
  assumes "SaveGitHubReconciliation checks i owner a b key reason ev head now s = (res, t)"
  shows "t = s \<or> a \<noteq> b \<and> moved_to s i a b t"
proof (cases "find_run s i")
  case (Some run)
  show ?thesis
  proof (cases "reconcile_guard run a key owner now \<and> checks = None \<and> a \<noteq> b \<and> ValidateTransition a b = None")
    case True
    then have g: "reconcile_guard run a key owner now" "checks = None" "b \<noteq> a" "ValidateTransition a b = None" by auto
    with assms Some have "compare_and_transition (New ''atomic GitHub reconciliation state update mismatch'') i
        (\<lambda>r. run_ID r = i \<and> reconcile_guard r a key owner now) a b (\<lambda>r. r) reason ev head now s = (res, t)"
      by (simp add: SaveGitHubReconciliation_def)
    moreover have "CanTransition a b" using True by (auto simp: ValidateTransition_def split: if_splits)
    ultimately show ?thesis using guarded_move [OF _ keeps_plain(1) Some] True by blast
  next
    case False
    with assms Some show ?thesis by (auto simp: SaveGitHubReconciliation_def split: option.splits if_splits)
  qed
qed (use assms in \<open>simp add: SaveGitHubReconciliation_def\<close>)

lemma feedback_drift_moves:
  assumes "RequireManualInterventionForTrustedFeedbackDrift checks i owner a key digest now s = (res, t)"
  shows "t = s \<or> moved_to s i a StateManualIntervention t"
proof (cases "find_run s i")
  case (Some run)
  show ?thesis
  proof (cases "\<not> blank i \<and> \<not> blank digest \<and> reconcile_guard run a key owner now \<and> checks = None")
    case True
    with assms Some have "compare_and_transition (New ''trusted feedback drift state update lost'') i
        (\<lambda>r. run_ID r = i \<and> reconcile_guard r a key owner now) a StateManualIntervention (\<lambda>r. r)
        ''trusted_review_feedback_drift'' (''trusted_feedback_conflict:'' @ digest) [] now s = (res, t)"
      by (simp add: RequireManualInterventionForTrustedFeedbackDrift_def)
    then show ?thesis using guarded_move [OF _ keeps_plain(1) Some] True by blast
  next
    case False
    with assms Some show ?thesis
      by (auto simp: RequireManualInterventionForTrustedFeedbackDrift_def split: option.splits if_splits)
  qed
qed (use assms in \<open>auto simp: RequireManualInterventionForTrustedFeedbackDrift_def split: if_splits\<close>)

lemma target_drift_moves:
  assumes "SaveGitHubManualPRTargetDrift checks i owner a key ev head reason now s = (res, t)"
  shows "t = s \<or> moved_to s i a StateManualIntervention t"
proof (cases "find_run s i")
  case (Some run)
  show ?thesis
  proof (cases "a = StateAwaitingGitHubMergeability \<and> \<not> blank reason \<and> reconcile_guard run a key owner now \<and> checks = None")
    case True
    then have g: "a = StateAwaitingGitHubMergeability" "\<not> blank reason" "checks = None"
        "reconcile_guard run StateAwaitingGitHubMergeability key owner now" by auto
    with assms Some have "compare_and_transition (New ''atomic GitHub target-drift state update mismatch'') i
        (\<lambda>r. run_ID r = i \<and> reconcile_guard r a key owner now) a StateManualIntervention (set_error reason)
        reason ev head now s = (res, t)"
      by (simp add: SaveGitHubManualPRTargetDrift_def)
    then show ?thesis using guarded_move [OF _ keeps_plain(2) Some] True by blast
  next
    case False
    with assms Some show ?thesis by (auto simp: SaveGitHubManualPRTargetDrift_def split: option.splits if_splits)
  qed
qed (use assms in \<open>auto simp: SaveGitHubManualPRTargetDrift_def split: if_splits option.splits\<close>)

lemma together_moves:
  assumes "\<And>c s res t. op c s = (res, t) \<Longrightarrow> t = s \<or> Q s t"
  shows "wd_store (snd (together rows op x)) = wd_store x \<or> Q (wd_store x) (wd_store (snd (together rows op x)))"
proof -
  obtain c w where r: "rows (wd_outside x) = (c, w)" by (metis surj_pair)
  obtain res t where o: "op c (wd_store x) = (res, t)" by (metis surj_pair)
  from assms [OF o] show ?thesis by (cases res) (auto simp: together_def r o)
qed

lemma together_merges [simp]: "wd_merges (snd (together rows op x)) = wd_merges x"
  by (auto simp: together_def split: prod.split option.split)

lemma save_read_moves:
  "wd_store (snd (SaveGitHubReadSuccess p v now x)) = wd_store x \<or>
     sv_Expected v \<noteq> sv_Next v \<and>
     moved_to (wd_store x) (sv_RunID v) (sv_Expected v) (sv_Next v) (wd_store (snd (SaveGitHubReadSuccess p v now x)))"
  unfolding SaveGitHubReadSuccess_def
  by (rule together_moves [where Q = "\<lambda>s t. sv_Expected v \<noteq> sv_Next v \<and> moved_to s (sv_RunID v) (sv_Expected v) (sv_Next v) t"])
    (rule SaveGitHubReconciliation_moves)

lemma save_failure_store [simp]: "wd_store (snd (SaveGitHubReadFailure p i owner a key obs now x)) = wd_store x"
proof -
  have "t = s \<or> False" if "read_failure_guard i owner a key now c s = (res, t)" for c s res t
    using that by (auto simp: read_failure_guard_def split: option.splits if_splits)
  then have "wd_store (snd (SaveGitHubReadFailure p i owner a key obs now x)) = wd_store x \<or> False"
    unfolding SaveGitHubReadFailure_def by (rule together_moves)
  then show ?thesis by simp
qed

lemma save_drift_moves:
  "wd_store (snd (save_feedback_drift p i owner a key reply root digest now x)) = wd_store x \<or>
     moved_to (wd_store x) i a StateManualIntervention (wd_store (snd (save_feedback_drift p i owner a key reply root digest now x)))"
  unfolding save_feedback_drift_def
  by (rule together_moves [where Q = "\<lambda>s t. moved_to s i a StateManualIntervention t"]) (rule feedback_drift_moves)

section \<open>Where reconciliation moves a run\<close>

definition delivery_states :: "state list" where
  "delivery_states = [StateReconcilingReviews, StateAwaitingHumanApproval, StateRepairing, StateReplyingReviewFeedback,
     StateManualIntervention]"

lemma reconcile_target_range:
  "fst (reconcile_target quote q i status findings) = run_State (in_Run i) \<or>
     fst (reconcile_target quote q i status findings) \<in> set delivery_states"
proof -
  let ?ok = "\<lambda>t :: state \<times> string. fst t = run_State (in_Run i) \<or> fst t \<in> set delivery_states"
  have n: "?ok (nextGitHubReconciliationState (run_State (in_Run i)) (rq_Evidence q) status)"
    by (simp add: nextGitHubReconciliationState_def delivery_states_def split: reconciliation_status.split)
  have s: "?ok (stop_rules q i t)" if "?ok t" for t
    using that by (simp add: stop_rules_def Let_def delivery_states_def)
  have r: "?ok (repair_rules quote q i status findings t)" if "?ok t" for t
    using that by (simp add: repair_rules_def Let_def delivery_states_def)
  have a: "?ok (reply_rule i status t)" if "?ok t" for t
    using that by (simp add: reply_rule_def delivery_states_def)
  show ?thesis unfolding reconcile_target_def by (rule a [OF r [OF s [OF n]]])
qed

text \<open>A reading that shows the approval merging needs.\<close>

definition approval_observed ::
  "(github_review list \<Rightarrow> github_review list) \<Rightarrow> inspection \<Rightarrow> github_evidence \<Rightarrow> bool" where
  "approval_observed ord i ev \<longleftrightarrow>
     run_State (in_Run i) = StateAwaitingHumanApproval \<and> DeliveryStatus ev = ReconciliationPass \<and>
     (\<exists>pr repo trusted ob a.
        in_PullRequest i = Some pr \<and> expected_repository i = Inr repo \<and>
        ReconcileGitHubRead repo pr (run_WorkingBranch (in_Run i)) (run_BaseBranch (in_Run i)) (run_CandidateHead (in_Run i))
          (run_BaseSHA (in_Run i)) (run_IdempotencyKey (in_Run i)) (pr_BodyDigest pr) ev = None \<and>
        trustedHumanActors i = Inr trusted \<and>
        NormalizeHumanApproval ord (ev_PullRequest ev) (ev_Reviews ev) trusted (ev_ObservedAt ev) = Inr (ob, Some a) \<and>
        obs_Status ob = HumanApprovalApproved \<and>
        Authorizes a (ev_PullRequest ev) (run_CandidateHead (in_Run i)) = None)"

lemma observed_approval_Some:
  "observed_approval ord i ev = Inr (Some ob, Some a) \<Longrightarrow>
     run_State (in_Run i) = StateAwaitingHumanApproval \<and>
     (\<exists>trusted. trustedHumanActors i = Inr trusted \<and>
        NormalizeHumanApproval ord (ev_PullRequest ev) (ev_Reviews ev) trusted (ev_ObservedAt ev) = Inr (ob, Some a))"
  by (auto simp: observed_approval_def split: if_splits sum.splits)

lemma merge_rule_result:
  assumes "merge_rule q i status observed approval t = Inr u"
  obtains "u = t"
    | ob a where "fst u = StateMerging" and "observed = Some ob" and "approval = Some a" and "status = ReconciliationPass"
        and "obs_Status ob = HumanApprovalApproved"
        and "Authorizes a (ev_PullRequest (rq_Evidence q)) (run_CandidateHead (in_Run i)) = None"
  using assms by (auto simp: merge_rule_def Let_def split: option.splits if_splits)

definition reconciled_to ::
  "(github_review list \<Rightarrow> github_review list) \<Rightarrow> inspection \<Rightarrow> github_evidence \<Rightarrow> string list \<Rightarrow> store \<Rightarrow> 'w world \<Rightarrow> bool" where
  "reconciled_to ord i ev ids s0 y \<longleftrightarrow>
     runs_of (wd_store y) = runs_of s0 \<or>
     (\<exists>j a b. j \<in> set ids \<and> moved_to s0 j a b (wd_store y) \<and>
        (b \<in> set delivery_states \<or> b = StateMerging \<and> approval_observed ord i ev))"

lemma reconciled_same: "runs_of (wd_store y) = runs_of s0 \<Longrightarrow> reconciled_to ord i ev ids s0 y"
  by (simp add: reconciled_to_def)

lemma moved_to_same: "runs_of s = runs_of s0 \<Longrightarrow> moved_to s j a b t \<longleftrightarrow> moved_to s0 j a b t"
  by (simp add: moved_to_def)

lemma reconcileLocked_wp:
  assumes same: "runs_of (wd_store x) = runs_of s0" and j: "run_ID (in_Run i) \<in> set ids"
  shows "wp (reconcileLocked p ord q i owner now) (\<lambda>_. reconciled_to ord i (rq_Evidence q) ids s0)
    (\<lambda>_. reconciled_to ord i (rq_Evidence q) ids s0) x"
proof -
  let ?R = "reconciled_to ord i (rq_Evidence q) ids s0"
  let ?ev = "rq_Evidence q" and ?run = "in_Run i"
  have stay: "?R x" by (rule reconciled_same [OF same])
  have save: "?R (snd (SaveGitHubReadSuccess p (read_to_save q ?run owner findings observed approval t) now x))"
    if v: "validateReconcileInspection p q i = None" and e: "expected_repository i = Inr repo" and pr: "in_PullRequest i = Some pr"
      and g: "ReconcileGitHubRead repo pr (run_WorkingBranch ?run) (run_BaseBranch ?run) (run_CandidateHead ?run)
        (run_BaseSHA ?run) (run_IdempotencyKey ?run) (pr_BodyDigest pr) ?ev = None"
      and o: "observed_approval ord i ?ev = Inr (observed, approval)"
      and m: "merge_rule q i (DeliveryStatus ?ev) observed approval
        (reconcile_target (rp_Quote p) q i (DeliveryStatus ?ev) findings) = Inr t"
    for repo pr observed approval findings t
  proof -
    let ?y = "snd (SaveGitHubReadSuccess p (read_to_save q ?run owner findings observed approval t) now x)"
    have state: "rq_ExpectedState q = run_State ?run"
      using v by (auto simp: validateReconcileInspection_def Let_def split: option.splits if_splits)
    have goal: "fst t = run_State ?run \<or> fst t \<in> set delivery_states \<or> fst t = StateMerging \<and> approval_observed ord i ?ev"
      using m
    proof (cases rule: merge_rule_result)
      case 1
      with reconcile_target_range show ?thesis by blast
    next
      case (2 ob a)
      with o have "approval_observed ord i ?ev"
        using observed_approval_Some pr e g unfolding approval_observed_def by blast
      with 2 show ?thesis by simp
    qed
    have moves: "wd_store ?y = wd_store x \<or> rq_ExpectedState q \<noteq> fst t \<and>
        moved_to (wd_store x) (run_ID ?run) (rq_ExpectedState q) (fst t) (wd_store ?y)"
      using save_read_moves [of p "read_to_save q ?run owner findings observed approval t" now x]
      by (simp add: read_to_save_def)
    show "?R ?y"
    proof (cases "wd_store ?y = wd_store x")
      case True
      then show ?thesis by (simp add: reconciled_to_def same)
    next
      case False
      with moves have "rq_ExpectedState q \<noteq> fst t"
        and "moved_to s0 (run_ID ?run) (rq_ExpectedState q) (fst t) (wd_store ?y)"
        using moved_to_same [OF same] by blast+
      with goal state j show ?thesis unfolding reconciled_to_def by metis
    qed
  qed
  show ?thesis
    unfolding reconcileLocked_def Let_def
    by (auto simp: wp_simps stay save split: option.split sum.split prod.split)
qed

lemma rq_full_command [simp]:
  "rq_Read (full_command q i reply changes done) = rr_Read reply"
  by (simp add: full_command_def)

lemma reconcile_reading_wp:
  assumes same: "runs_of (wd_store x) = runs_of s0"
  shows "wp (reconcile_reading p ord q i owner reply now)
    (\<lambda>_. reconciled_to ord i (rd_Evidence (rr_Read reply)) [rq_RunID q, run_ID (in_Run i)] s0)
    (\<lambda>_. reconciled_to ord i (rd_Evidence (rr_Read reply)) [rq_RunID q, run_ID (in_Run i)] s0) x"
proof -
  let ?R = "reconciled_to ord i (rd_Evidence (rr_Read reply)) [rq_RunID q, run_ID (in_Run i)] s0"
  have stay: "?R x" by (rule reconciled_same [OF same])
  have drift: "?R (snd (save_feedback_drift p (rq_RunID q) owner (rq_ExpectedState q) (rq_IdempotencyKey q) reply root digest now x))"
    for root digest
  proof -
   let ?y = "snd (save_feedback_drift p (rq_RunID q) owner (rq_ExpectedState q) (rq_IdempotencyKey q) reply root digest now x)"
   show "?R ?y"
   proof (cases "wd_store ?y = wd_store x")
    case True
    then show ?thesis by (simp add: reconciled_to_def same)
  next
    case False
    with save_drift_moves [of p "rq_RunID q" owner "rq_ExpectedState q" "rq_IdempotencyKey q" reply root digest now x]
    have "moved_to s0 (rq_RunID q) (rq_ExpectedState q) StateManualIntervention (wd_store ?y)"
      using moved_to_same [OF same] by blast
    moreover have "StateManualIntervention \<in> set delivery_states" by (simp add: delivery_states_def)
    ultimately show ?thesis unfolding reconciled_to_def by (metis list.set_intros(1))
   qed
  qed
  have locked: "wp (reconcileLocked p ord (full_command q i reply changes b) i owner now) (\<lambda>_. ?R) (\<lambda>_. ?R) x" for changes b
    using reconcileLocked_wp [OF same, of i "[rq_RunID q, run_ID (in_Run i)]" p ord "full_command q i reply changes b" owner now]
    by simp
  show ?thesis
    unfolding reconcile_reading_def Let_def
    by (auto simp: wp_simps stay drift locked split: option.split sum.split prod.split)
qed

lemma reconcile_from_github_wp:
  assumes same: "runs_of (wd_store x) = runs_of s0"
  shows "wp (reconcile_from_github p ord q now i owner)
    (\<lambda>_ y. runs_of (wd_store y) = runs_of s0 \<or>
       (\<exists>reply. fst (rp_Read p (gq_PullRequest q) (gq_ExpectedHead q) (wd_outside x)) = reply \<and> rr_Error reply = None \<and>
          reconciled_to ord i (rd_Evidence (rr_Read reply)) [rq_RunID q, run_ID (in_Run i)] s0 y))
    (\<lambda>_ y. runs_of (wd_store y) = runs_of s0 \<or>
       (\<exists>reply. fst (rp_Read p (gq_PullRequest q) (gq_ExpectedHead q) (wd_outside x)) = reply \<and> rr_Error reply = None \<and>
          reconciled_to ord i (rd_Evidence (rr_Read reply)) [rq_RunID q, run_ID (in_Run i)] s0 y)) x"
  (is "wp _ (\<lambda>_. ?R) (\<lambda>_. ?R) x")
proof -
  let ?reply = "fst (rp_Read p (gq_PullRequest q) (gq_ExpectedHead q) (wd_outside x))"
  let ?x1 = "snd (outside (rp_Read p (gq_PullRequest q) (gq_ExpectedHead q)) x)"
  define R where "R = ?R"
  have stay: "R x" "R ?x1" by (simp_all add: same R_def)
  have fail: "R (snd (SaveGitHubReadFailure p j owner a key obs now ?x1))" for j a key obs by (simp add: same R_def)
  have same1: "runs_of (wd_store ?x1) = runs_of s0" by (simp add: same)
  have reading: "wp (reconcile_reading p ord q i owner ?reply now) (\<lambda>_. R) (\<lambda>_. R) ?x1" if "rr_Error ?reply = None"
    unfolding R_def by (rule wp_mono [OF reconcile_reading_wp [OF same1]]) (use that in blast)+
  show ?thesis
    unfolding reconcile_from_github_def R_def [symmetric]
    by (simp add: wp_simps stay fail reading split: option.split)
qed

lemma method_wp_snd: "wp m (\<lambda>_. R) (\<lambda>_. R) s \<Longrightarrow> R (snd (run_method m s))"
  by (rule method_wp [where R = "\<lambda>_. R"]) (assumption, rule prod.collapse [symmetric])

text \<open>The lease around a call changes no state.\<close>

lemma under_lease_wp:
  assumes "\<And>i. rp_Inspect p runID x = Inr i \<Longrightarrow> wp (body i) (\<lambda>_. R) (\<lambda>_. R) x" and "R x"
    and "\<And>y. R y \<Longrightarrow> R (snd (on_store (ReleaseLease runID owner now) y))"
  shows "R (snd (under_lease p runID owner now body x))"
proof -
  obtain out y where m: "run_method (seq (seq (look (rp_Inspect p runID)) (the_value classified)) body) x = (out, y)"
    by (metis surj_pair)
  have "wp (seq (seq (look (rp_Inspect p runID)) (the_value classified)) body) (\<lambda>_. R) (\<lambda>_. R) x"
    using assms(1,2) by (auto simp: wp_simps split: sum.split)
  from method_wp [OF this m] assms(3) m show ?thesis by (simp add: under_lease_def)
qed

lemma withReconcileLease_wp:
  assumes "R x" and "R (snd (outside (rp_Owner p) x))"
    and "\<And>owner. fst (AcquireLease (rq_RunID q) owner (now + reconcileLeaseTTL) now (wd_store x)) \<noteq> Inr True \<Longrightarrow>
      R (snd (on_store (AcquireLease (rq_RunID q) owner (now + reconcileLeaseTTL) now) (snd (outside (rp_Owner p) x))))"
    and "\<And>owner. fst (rp_Owner p (wd_outside x)) = Inr owner \<Longrightarrow>
      fst (AcquireLease (rq_RunID q) owner (now + reconcileLeaseTTL) now (wd_store x)) = Inr True \<Longrightarrow>
      R (snd (under_lease p (rq_RunID q) owner now (\<lambda>i. body i owner)
        (snd (on_store (AcquireLease (rq_RunID q) owner (now + reconcileLeaseTTL) now) (snd (outside (rp_Owner p) x))))))"
  shows "wp (withReconcileLease p q now body) (\<lambda>_. R) (\<lambda>_. R) x"
  unfolding withReconcileLease_def
  using assms by (auto simp: wp_simps split: option.split sum.split)

lemma from_github_runs:
  fixes p :: "'w reconcile_ports"
  shows "runs_of (wd_store (snd (ReconcileFromGitHub p ord q now x))) = runs_of (wd_store x) \<or>
     (\<exists>i z reply. rp_Inspect p (rq_RunID q) z = Inr i \<and>
        fst (rp_Read p (gq_PullRequest q) (gq_ExpectedHead q) (wd_outside z)) = reply \<and> rr_Error reply = None \<and>
        reconciled_to ord i (rd_Evidence (rr_Read reply)) [rq_RunID q, run_ID (in_Run i)] (wd_store x)
          (snd (ReconcileFromGitHub p ord q now x)))"
proof -
  let ?s0 = "wd_store x"
  define R where "R = (\<lambda>y :: 'w world. runs_of (wd_store y) = runs_of ?s0 \<or>
     (\<exists>i z reply. rp_Inspect p (rq_RunID q) z = Inr i \<and>
        fst (rp_Read p (gq_PullRequest q) (gq_ExpectedHead q) (wd_outside z)) = reply \<and> rr_Error reply = None \<and>
        reconciled_to ord i (rd_Evidence (rr_Read reply)) [rq_RunID q, run_ID (in_Run i)] ?s0 y))"
  have same: "R y" if "runs_of (wd_store y) = runs_of ?s0" for y using that by (simp add: R_def)
  have release: "R (snd (on_store (ReleaseLease i owner now) y))" if "R y" for i owner y
    using that by (simp add: R_def reconciled_to_def moved_to_def)
  have body: "wp (reconcile_from_github p ord q now i owner) (\<lambda>_. R) (\<lambda>_. R) z"
    if "rp_Inspect p (rq_RunID q) z = Inr i" and "runs_of (wd_store z) = runs_of ?s0" for i owner z
    unfolding R_def by (rule wp_mono [OF reconcile_from_github_wp [OF that(2)]]) (use that(1) in blast)+
  have leased: "R (snd (under_lease p (rq_RunID q) owner now (\<lambda>i. reconcile_from_github p ord q now i owner) z))"
    if "runs_of (wd_store z) = runs_of ?s0" for owner z
    by (rule under_lease_wp [where R = R]) (use that in \<open>auto intro: body same release\<close>)
  have "wp (withReconcileLease p q now (reconcile_from_github p ord q now)) (\<lambda>_. R) (\<lambda>_. R) x"
    by (rule withReconcileLease_wp) (auto intro!: same leased)
  then have "R (snd (ReconcileFromGitHub p ord q now x))"
    unfolding ReconcileFromGitHub_def
    by (intro method_wp_snd [where R = R]) (simp add: wp_simps same)
  then show ?thesis unfolding R_def .
qed


section \<open>The lease is given back\<close>

lemma lease_of_update:
  assumes "same_lease f" and "st_runs t = update_where P f (st_runs s)"
  shows "lease_of t = lease_of s"
proof
  fix i
  have "find_run t i = map_option (\<lambda>r. if P r then f r else r) (find_run s i)"
    using assms by (intro find_run_update) (simp_all add: same_lease_def)
  then show "lease_of t i = lease_of s i"
    using assms(1) by (cases "find_run s i") (simp_all add: lease_of_def same_lease_def)
qed

lemma lease_of_cat [simp]:
  assumes "same_lease f"
  shows "lease_of (snd (compare_and_transition lost i P a b f r e h now s)) = lease_of s"
proof (cases "fst (compare_and_transition lost i P a b f r e h now s)")
  case None
  then have "st_runs (snd (compare_and_transition lost i P a b f r e h now s)) =
      update_where P (\<lambda>r. (f r)\<lparr>run_State := b, run_UpdatedAt := now\<rparr>) (st_runs s)"
    by (auto simp: compare_and_transition_def Let_def split: if_splits)
  then show ?thesis by (rule lease_of_update [rotated]) (simp add: assms)
next
  case (Some _)
  then show ?thesis using compare_and_transition_snd [of lost i P a b f r e h now s] by auto
qed

lemma lease_of_ops [simp]:
  "lease_of (snd (SaveGitHubReconciliation c i owner src dst key reason ev head now s)) = lease_of s"
  "lease_of (snd (SaveGitHubManualPRTargetDrift c i owner st key ev head reason now s)) = lease_of s"
  "lease_of (snd (RequireManualInterventionForTrustedFeedbackDrift c i owner st key digest now s)) = lease_of s"
  "lease_of (snd (Transition i src dst reason ev head now s)) = lease_of s"
  "lease_of (snd (SetLastError i msg now s)) = lease_of s"
proof -
  show "lease_of (snd (SetLastError i msg now s)) = lease_of s"
    unfolding SetLastError_def exec_one_run_def Let_def
    by (rule lease_of_update [where f = "touch now (set_error msg)" and P = "\<lambda>r. run_ID r = i"])
      (simp_all add: update_runs_def)
qed (simp_all add: SaveGitHubReconciliation_def SaveGitHubManualPRTargetDrift_def Transition_def
    RequireManualInterventionForTrustedFeedbackDrift_def split: option.split)

lemma together_lease [simp]:
  assumes "\<And>c s. lease_of (snd (op c s)) = lease_of s"
  shows "lease_of (wd_store (snd (together rows op x))) = lease_of (wd_store x)"
  using assms [of "fst (rows (wd_outside x))" "wd_store x"]
  by (auto simp: together_def split: prod.split option.split)

lemma lease_saves [simp]:
  "lease_of (wd_store (snd (SaveGitHubReadSuccess p v now x))) = lease_of (wd_store x)"
  "lease_of (wd_store (snd (save_feedback_drift p i owner a key reply root digest now x))) = lease_of (wd_store x)"
  by (simp_all add: SaveGitHubReadSuccess_def save_feedback_drift_def)

text \<open>A body under the lease that leaves leases alone.\<close>

lemma lease_after_under:
  assumes "\<And>i. keeps_act (\<lambda>y. lease_of (wd_store y) = L) (body i)" and "lease_of (wd_store x) = L"
  shows "lease_of (wd_store (snd (under_lease p runID owner now body x))) j =
    (if j = runID \<and> map_option fst (L j) = Some owner then Some ([], 0) else L j)"
proof -
  let ?m = "seq (seq (look (rp_Inspect p runID)) (the_value classified)) body"
  have "keeps_act (\<lambda>y. lease_of (wd_store y) = L) ?m" by (intro keep_rules assms(1))
  from keeps_method [OF this assms(2)] have y: "lease_of (wd_store (snd (run_method ?m x))) = L" .
  obtain out y where m: "run_method ?m x = (out, y)" by (metis surj_pair)
  let ?t = "snd (ReleaseLease runID owner now (wd_store y))"
  have "find_run ?t j = map_option (\<lambda>r. if run_ID r = runID \<and> run_LeaseOwner r = owner
      then touch now (\<lambda>r. r\<lparr>run_LeaseOwner := [], run_LeaseExpiresUnix := 0\<rparr>) r else r) (find_run (wd_store y) j)"
    by (rule find_run_update) (simp add: touch_def, simp add: ReleaseLease_def update_lease_def update_runs_def Let_def)
  moreover have "run_ID r = j" if "find_run (wd_store y) j = Some r" for r using find_run_Some [OF that] by simp
  ultimately show ?thesis
    using y m by (cases "find_run (wd_store y) j") (auto simp: under_lease_def lease_of_def touch_def)
qed

text \<open>What reading and saving keep, every body under the lease keeps.\<close>

locale reconcile_observer =
  fixes P :: "'w world \<Rightarrow> bool" and p :: "'w reconcile_ports"
  assumes on_reading: "P x \<Longrightarrow> P (snd (outside (rp_Read p n h) x))"
    and on_save: "P x \<Longrightarrow> P (snd (SaveGitHubReadSuccess p v now x))"
    and on_failure: "P x \<Longrightarrow> P (snd (SaveGitHubReadFailure p i owner a key obs now x))"
    and on_drift: "P x \<Longrightarrow> P (snd (save_feedback_drift p i owner a key reply root digest now x))"
begin

lemmas keep_saves = on_reading on_save on_failure on_drift

lemma keep_locked: "keeps_act P (reconcileLocked p ord q i owner now)"
  unfolding reconcileLocked_def Let_def
  by (auto intro!: keep_rules keep_saves split: option.split prod.split)

lemma keep_reading: "keeps_act P (reconcile_reading p ord q i owner reply now)"
  unfolding reconcile_reading_def Let_def
  by (auto intro!: keep_rules keep_saves keep_locked split: prod.split)

lemma keep_from_github: "keeps_act P (reconcile_from_github p ord q now i owner)"
  unfolding reconcile_from_github_def
  by (auto intro!: keep_rules keep_saves keep_reading split: option.split)

end

interpretation reconcile_leases: reconcile_observer "\<lambda>y. lease_of (wd_store y) = L" p for L p
  by unfold_locales simp_all

lemma together_stored:
  assumes "\<And>c s. stored s \<Longrightarrow> stored (snd (op c s))" and "stored (wd_store x)"
  shows "stored (wd_store (snd (together rows op x)))"
  using assms(1) [OF assms(2), of "fst (rows (wd_outside x))"] assms(2)
  by (auto simp: together_def split: prod.split option.split)

interpretation reconcile_stored: reconcile_observer "\<lambda>y. stored (wd_store y)" p for p
proof unfold_locales
  fix x :: "'a world" assume x: "stored (wd_store x)"
  show "stored (wd_store (snd (SaveGitHubReadSuccess p v now x)))" for v now
    unfolding SaveGitHubReadSuccess_def using x by (intro together_stored stored_step [OF _ step_reconciled])
  show "stored (wd_store (snd (save_feedback_drift p i owner a key reply root digest now x)))"
    for i owner a key reply root digest now
    unfolding save_feedback_drift_def using x by (intro together_stored stored_step [OF _ step_feedback_drift])
qed simp_all

lemma acquire_lease_of:
  assumes d: "distinct (map run_ID (st_runs s))" and a: "AcquireLease i owner expires now s = (res, t)"
  shows "res = Inr True \<Longrightarrow> lease_of t = (lease_of s)(i \<mapsto> (owner, unix_nano expires)) \<and>
      (\<exists>w e. lease_of s i = Some (w, e) \<and> (w = [] \<or> e \<le> unix_nano now \<or> w = owner))"
    and "res \<noteq> Inr True \<Longrightarrow> lease_of t = lease_of s"
proof -
  let ?free = "\<lambda>r. run_LeaseOwner r = [] \<or> run_LeaseExpiresUnix r \<le> unix_nano now \<or> run_LeaseOwner r = owner"
  let ?f = "\<lambda>r. r\<lparr>run_LeaseOwner := owner, run_LeaseExpiresUnix := unix_nano expires\<rparr>"
  have blank: "res \<noteq> Inr True \<and> t = s" if "blank owner" using a that by (auto simp: AcquireLease_def)
  have look: "find_run t j = map_option (\<lambda>r. if run_ID r = i \<and> ?free r then touch now ?f r else r) (find_run s j)"
    if "\<not> blank owner" for j
    by (rule find_run_update [where f = "touch now ?f" and P = "\<lambda>r. run_ID r = i \<and> ?free r"])
      (simp add: touch_def, use a that in \<open>auto simp: AcquireLease_def update_lease_def update_runs_def Let_def\<close>)
  have id: "run_ID r = j" if "find_run s j = Some r" for r j using find_run_Some [OF that] by simp
  have count: "res = Inr True \<longleftrightarrow> (\<exists>r. find_run s i = Some r \<and> ?free r)" if "\<not> blank owner"
  proof (cases "find_run s i")
    case None
    then have "\<not> (run_ID r = i \<and> ?free r)" if "r \<in> set (st_runs s)" for r
      using that by (auto simp: find_run_def select_where_None)
    then have "count_where (\<lambda>r. run_ID r = i \<and> ?free r) (st_runs s) = 0" by (simp add: count_where_def filter_empty_conv)
    with a None \<open>\<not> blank owner\<close> show ?thesis by (auto simp: AcquireLease_def update_lease_def)
  next
    case (Some r)
    from lease_of_count [OF d Some, of ?free] a Some \<open>\<not> blank owner\<close> show ?thesis
      by (auto simp: AcquireLease_def update_lease_def split: if_splits)
  qed
  show "lease_of t = (lease_of s)(i \<mapsto> (owner, unix_nano expires)) \<and>
      (\<exists>w e. lease_of s i = Some (w, e) \<and> (w = [] \<or> e \<le> unix_nano now \<or> w = owner))" if r: "res = Inr True"
  proof -
    have nb: "\<not> blank owner" using blank r by blast
    with count r obtain row where row: "find_run s i = Some row" "?free row" by blast
    have "lease_of t j = ((lease_of s)(i \<mapsto> (owner, unix_nano expires))) j" for j
      using look [OF nb, of j] row id by (cases "find_run s j") (auto simp: lease_of_def touch_def)
    with row show ?thesis by (auto simp: lease_of_def fun_eq_iff)
  qed
  show "lease_of t = lease_of s" if r: "res \<noteq> Inr True"
  proof (cases "blank owner")
    case True
    with blank show ?thesis by simp
  next
    case False
    have "lease_of t j = lease_of s j" for j
    proof (cases "find_run s j")
      case (Some row)
      have "\<not> (run_ID row = i \<and> ?free row)" using count [OF False] r Some id [OF Some] by auto
      with look [OF False, of j] Some show ?thesis by (simp add: lease_of_def)
    qed (simp add: look [OF False] lease_of_def)
    then show ?thesis by (simp add: fun_eq_iff)
  qed
qed

text \<open>C16: A reconciliation gives back the lease it takes, on every path: afterwards each run's lease is what it
  was, or it is the run of the command and free, and then it had been free, expired, or already in the name
  the call drew. No lease of another worker that still runs is touched.\<close>

theorem reconcile_returns_its_lease:
  fixes p :: "'w reconcile_ports"
  assumes "distinct (map run_ID (st_runs (wd_store x)))"
  shows "lease_of (wd_store (snd (ReconcileFromGitHub p ord q now x))) j = lease_of (wd_store x) j \<or>
    j = rq_RunID q \<and> lease_of (wd_store (snd (ReconcileFromGitHub p ord q now x))) j = Some ([], 0) \<and>
    (\<exists>w e. lease_of (wd_store x) j = Some (w, e) \<and>
       (w = [] \<or> e \<le> unix_nano now \<or> fst (rp_Owner p (wd_outside x)) = Inr w))"
proof -
  define R where "R = (\<lambda>y :: 'w world. lease_of (wd_store y) j = lease_of (wd_store x) j \<or>
    j = rq_RunID q \<and> lease_of (wd_store y) j = Some ([], 0) \<and>
    (\<exists>w e. lease_of (wd_store x) j = Some (w, e) \<and>
       (w = [] \<or> e \<le> unix_nano now \<or> fst (rp_Owner p (wd_outside x)) = Inr w)))"
  have same: "R y" if "lease_of (wd_store y) = lease_of (wd_store x)" for y using that by (simp add: R_def)
  have leased: "R (snd (under_lease p (rq_RunID q) owner now (\<lambda>i. reconcile_from_github p ord q now i owner) y))"
    if o: "fst (rp_Owner p (wd_outside x)) = Inr owner"
      and a: "fst (AcquireLease (rq_RunID q) owner (now + reconcileLeaseTTL) now (wd_store x)) = Inr True"
      and y: "wd_store y = snd (AcquireLease (rq_RunID q) owner (now + reconcileLeaseTTL) now (wd_store x))" for owner y
  proof -
    note acquired = acquire_lease_of(1) [OF assms prod.collapse [symmetric] a]
    have "lease_of (wd_store (snd (under_lease p (rq_RunID q) owner now (\<lambda>i. reconcile_from_github p ord q now i owner) y))) j =
      (if j = rq_RunID q \<and> map_option fst (lease_of (wd_store y) j) = Some owner then Some ([], 0) else lease_of (wd_store y) j)"
      by (rule lease_after_under [OF reconcile_leases.keep_from_github refl])
    with acquired y o show ?thesis unfolding R_def by (cases "j = rq_RunID q") auto
  qed
  have "wp (withReconcileLease p q now (reconcile_from_github p ord q now)) (\<lambda>_. R) (\<lambda>_. R) x"
  proof (rule withReconcileLease_wp)
    fix owner assume "fst (AcquireLease (rq_RunID q) owner (now + reconcileLeaseTTL) now (wd_store x)) \<noteq> Inr True"
    from acquire_lease_of(2) [OF assms prod.collapse [symmetric] this]
    show "R (snd (on_store (AcquireLease (rq_RunID q) owner (now + reconcileLeaseTTL) now) (snd (outside (rp_Owner p) x))))"
      by (intro same) simp
  next
    fix owner assume "fst (rp_Owner p (wd_outside x)) = Inr owner"
      and "fst (AcquireLease (rq_RunID q) owner (now + reconcileLeaseTTL) now (wd_store x)) = Inr True"
    then show "R (snd (under_lease p (rq_RunID q) owner now (\<lambda>i. reconcile_from_github p ord q now i owner)
        (snd (on_store (AcquireLease (rq_RunID q) owner (now + reconcileLeaseTTL) now) (snd (outside (rp_Owner p) x))))))"
      by (rule leased) simp
  qed (simp_all add: same)
  then have "R (snd (ReconcileFromGitHub p ord q now x))"
    unfolding ReconcileFromGitHub_def
    by (intro method_wp_snd [where R = R]) (simp add: wp_simps same)
  then show ?thesis unfolding R_def .
qed

section \<open>An example\<close>

text \<open>A run that waits for an approval, and a reading that shows one of the trusted operator for the exact head.\<close>

definition awaiting_run :: run_row where
  "awaiting_run = merging_run\<lparr>run_ID := ''run-1'', run_Repository := ''o/n'', run_State := StateAwaitingHumanApproval,
     run_RepositoryBindingDigest := replicate 64 (CHR ''b''), run_CreatedAt := 1\<rparr>"

definition awaiting_inspection :: inspection where
  "awaiting_inspection = merging_inspection\<lparr>in_Run := awaiting_run, in_Approval := None\<rparr>"

definition approved_reply :: read_reply where
  "approved_reply = \<lparr>rr_Read = \<lparr>rd_Evidence = merging_evidence, rd_Threads = []\<rparr>, rr_Handoff = [],
     rr_Observations = [], rr_Metadata = \<lparr>gi_AppID = 3, gi_InstallationID = 4,
       gi_Repository = ev_Repository merging_evidence, gi_TokenExpiresAt = 40, gi_PermissionsDigest = ''d'', gi_ObservedAt = 30\<rparr>,
     rr_Error = None\<rparr>"

definition approving_ports :: "unit reconcile_ports" where
  "approving_ports =
     \<lparr>rp_Encode = (\<lambda>_ _. []), rp_Decode = (\<lambda>_. Inr sample_frozen), rp_Quote = (\<lambda>s. s),
      rp_Owner = (\<lambda>w. (Inr ''reconcile-1'', w)), rp_Inspect = (\<lambda>_ _. Inr awaiting_inspection), rp_Cause = (\<lambda>_. None),
      rp_Authority = (\<lambda>_. rr_Metadata approved_reply), rp_Read = (\<lambda>_ _ w. (approved_reply, w)),
      rp_SaveRead = (\<lambda>_ w. (None, w)), rp_SaveFailure = (\<lambda>_ _ w. (None, w)), rp_SaveDrift = (\<lambda>_ _ _ w. (None, w)),
      rp_SaveTarget = (\<lambda>_ _ _ _ w. (None, w)), rp_Digest = (\<lambda>_ _. ''d'')\<rparr>"

definition awaiting_world :: "unit world" where
  "awaiting_world = \<lparr>wd_store = empty_store\<lparr>st_runs := [awaiting_run]\<rparr>, wd_merges = [], wd_outside = ()\<rparr>"

definition approving_command :: github_command where
  "approving_command = \<lparr>rq_Requester = sample_operator, rq_RunID = ''run-1'', rq_Repository = ''o/n'',
     rq_ExpectedState = StateAwaitingHumanApproval, rq_IdempotencyKey = ''k'', gq_PullRequest = pr_Number sample_pr,
     gq_ExpectedHead = ''abc'', gq_LinearCompleted = False\<rparr>"

lemma reconcile_returns_its_lease_witness:
  "lease_of (wd_store awaiting_world) ''run-1'' = Some ([], 0) \<and>
   lease_of (wd_store (snd (ReconcileFromGitHub approving_ports (\<lambda>xs. xs) approving_command 50 awaiting_world))) ''run-1'' =
     Some ([], 0)"
proof -
  have "distinct (map run_ID (st_runs (wd_store awaiting_world)))" by (simp add: awaiting_world_def)
  moreover have "lease_of (wd_store awaiting_world) ''run-1'' = Some ([], 0)" by code_simp
  ultimately show ?thesis
    using reconcile_returns_its_lease [of awaiting_world approving_ports "\<lambda>xs. xs" approving_command 50 "''run-1''"] by auto
qed

text \<open>C17: An approval of the exact head overrides a stop. When a passing reading of a run that awaits the human
  approval has both feedback of an unsupported topology and an approval that authorizes the head, the stop rules
  choose the manual intervention, and the approval rule then replaces their choice by merging; without the
  approval the choice is kept.\<close>

theorem approval_overrides_stop:
  assumes "run_State (in_Run i) = StateAwaitingHumanApproval" and "rq_Unsupported q" and "\<not> rq_LinearCompleted q"
    and "obs_Status ob = HumanApprovalApproved"
    and "Authorizes a (ev_PullRequest (rq_Evidence q)) (run_CandidateHead (in_Run i)) = None"
  shows "fst (reconcile_target quote q i ReconciliationPass findings) = StateManualIntervention \<and>
    merge_rule q i ReconciliationPass (Some ob) (Some a) (reconcile_target quote q i ReconciliationPass findings) =
      Inr (StateMerging, ''trusted human approval is bound to the exact final head'') \<and>
    merge_rule q i ReconciliationPass observed None (reconcile_target quote q i ReconciliationPass findings) =
      Inr (reconcile_target quote q i ReconciliationPass findings)"
proof -
  have "fst (stop_rules q i t) = StateManualIntervention" for t
    using assms by (simp add: stop_rules_def Let_def)
  then have manual: "fst (reconcile_target quote q i ReconciliationPass findings) = StateManualIntervention"
    by (simp add: reconcile_target_def repair_rules_def reply_rule_def Let_def)
  with assms show ?thesis by (simp add: merge_rule_def Let_def split: option.split)
qed

definition unsupported_command :: reconcile_command where
  "unsupported_command = full_command approving_command awaiting_inspection approved_reply
     (no_changes\<lparr>tc_Unsupported := True\<rparr>) False"

lemma approval_overrides_stop_witness:
  "\<exists>ob a. observed_approval (\<lambda>xs. xs) awaiting_inspection merging_evidence = Inr (Some ob, Some a) \<and>
     merge_rule unsupported_command awaiting_inspection ReconciliationPass (Some ob) (Some a)
       (reconcile_target (\<lambda>s. s) unsupported_command awaiting_inspection ReconciliationPass []) =
     Inr (StateMerging, ''trusted human approval is bound to the exact final head'')"
proof -
  have "case observed_approval (\<lambda>xs. xs) awaiting_inspection merging_evidence of
      Inr (Some ob, Some a) \<Rightarrow> obs_Status ob = HumanApprovalApproved \<and>
        Authorizes a (ev_PullRequest (rq_Evidence unsupported_command)) (run_CandidateHead (in_Run awaiting_inspection)) = None
    | _ \<Rightarrow> False" by code_simp
  then obtain ob a where observed: "observed_approval (\<lambda>xs. xs) awaiting_inspection merging_evidence = Inr (Some ob, Some a)"
    and ok: "obs_Status ob = HumanApprovalApproved"
      "Authorizes a (ev_PullRequest (rq_Evidence unsupported_command)) (run_CandidateHead (in_Run awaiting_inspection)) = None"
    by (auto split: sum.splits prod.splits option.splits)
  have "run_State (in_Run awaiting_inspection) = StateAwaitingHumanApproval" "rq_Unsupported unsupported_command"
    "\<not> rq_LinearCompleted unsupported_command" by code_simp+
  from approval_overrides_stop [OF this ok] observed show ?thesis by blast
qed

end
