(* ===== verification/Mergeability.thy ===== *)
theory Mergeability
  imports Reconcile
begin

text \<open>
  The wait for GitHub to allow a rejected merge, \<open>reconcileMergeability\<close> of \<open>application/merge.go\<close>, and
  \<open>ReconcileGitHub\<close> of \<open>application/production.go\<close>, which chooses between it and the reconciliation of
  theory \<open>Reconcile\<close>. The wait reads GitHub under the lease of the run and asks it for nothing: the run goes
  back to merging only when the threads that held the merge back are the same and resolved.
\<close>

section \<open>Saving under the wait\<close>

text \<open>The reader reports no findings of its own; they are normalized from its threads.\<close>

definition mergeability_read ::
  "run_row \<Rightarrow> string \<Rightarrow> read_reply \<Rightarrow> approval_observation option \<Rightarrow> human_approval option \<Rightarrow> state \<Rightarrow> string \<Rightarrow>
     saved_read" where
  "mergeability_read run owner reply observed approval next_state reason =
     \<lparr>sv_RunID = run_ID run, sv_Owner = owner, sv_Expected = StateAwaitingGitHubMergeability,
      sv_Key = run_IdempotencyKey run, sv_Observations = rr_Observations reply, sv_Metadata = rr_Metadata reply,
      sv_Read = rr_Read reply, sv_Findings = [], sv_Feedback = [], sv_Observed = observed, sv_Approval = approval,
      sv_Next = next_state, sv_Reason = reason\<rparr>"

definition saveMergeabilityRead ::
  "'w reconcile_ports \<Rightarrow> run_row \<Rightarrow> string \<Rightarrow> read_reply \<Rightarrow> approval_observation option \<Rightarrow> human_approval option \<Rightarrow>
     state \<Rightarrow> string \<Rightarrow> time \<Rightarrow> 'w world \<Rightarrow> go_error option \<times> 'w world" where
  "saveMergeabilityRead p run owner reply observed approval next_state reason now x =
     (case SaveGitHubReadSuccess p (mergeability_read run owner reply observed approval next_state reason) now x of
        (Some e, y) \<Rightarrow> (Some (classifyServiceError e), y)
      | (None, y) \<Rightarrow>
          (None, if next_state = StateAwaitingGitHubMergeability
                 then snd (on_store (SetLastError (run_ID run) ''merge_policy_pending'' now) y) else y))"

definition saveMergeabilityReadFailure ::
  "'w reconcile_ports \<Rightarrow> run_row \<Rightarrow> string \<Rightarrow> request_observation list \<Rightarrow> time \<Rightarrow> 'w world \<Rightarrow>
     go_error option \<times> 'w world" where
  "saveMergeabilityReadFailure p run owner observations now x =
     (case SaveGitHubReadFailure p (run_ID run) owner StateAwaitingGitHubMergeability (run_IdempotencyKey run)
             observations now x of
        (e, y) \<Rightarrow> (map_option classifyServiceError e, y))"

definition requires_manual :: "reconcile_outcome" where
  "requires_manual = conflict ''GitHub mergeability requires manual intervention''"

definition mergeabilityManual ::
  "run_row \<Rightarrow> string \<Rightarrow> time \<Rightarrow> ('w world, reconcile_outcome, reconcile_outcome) act" where
  "mergeabilityManual run reason now =
     seq (perform (on_store (SetLastError (run_ID run) reason now))) (\<lambda>_.
     seq (check_error classified (on_store (Transition (run_ID run) StateAwaitingGitHubMergeability
            StateManualIntervention reason ''merge_policy_pending'' (run_CandidateHead run) now))) (\<lambda>_.
     return_with requires_manual))"

definition mergeabilityManualAfterRead ::
  "'w reconcile_ports \<Rightarrow> run_row \<Rightarrow> string \<Rightarrow> read_reply \<Rightarrow> string \<Rightarrow> time \<Rightarrow>
     ('w world, reconcile_outcome, reconcile_outcome) act" where
  "mergeabilityManualAfterRead p run owner reply reason now =
     seq (check_error Inl (saveMergeabilityRead p run owner reply None None StateManualIntervention reason now)) (\<lambda>_.
     return_with requires_manual)"

text \<open>The pull request itself is unchanged, but not what it merges into what.\<close>

definition pullRequestTargetDrift :: "pull_request \<Rightarrow> pull_request \<Rightarrow> bool" where
  "pullRequestTargetDrift persisted observed \<longleftrightarrow>
     pr_Number observed = pr_Number persisted \<and> pr_NodeID observed = pr_NodeID persisted \<and>
     pr_URL observed = pr_URL persisted \<and>
     (pr_DatabaseID persisted > 0 \<longrightarrow> pr_DatabaseID observed = pr_DatabaseID persisted) \<and>
     pr_BodyDigest observed = pr_BodyDigest persisted \<and>
     (pr_HeadBranch observed \<noteq> pr_HeadBranch persisted \<or> pr_BaseBranch observed \<noteq> pr_BaseBranch persisted \<or>
      pr_HeadSHA observed \<noteq> pr_HeadSHA persisted \<or> pr_BaseSHA observed \<noteq> pr_BaseSHA persisted \<or>
      pr_OwnershipKey observed \<noteq> pr_OwnershipKey persisted)"

definition sameMergeabilityRepository :: "repository_identity \<Rightarrow> repository_identity \<Rightarrow> bool" where
  "sameMergeabilityRepository expected observed \<longleftrightarrow>
     repo_ID expected = repo_ID observed \<and> (repo_NodeID expected = [] \<or> repo_NodeID expected = repo_NodeID observed) \<and>
     equal_fold (repo_Owner expected) (repo_Owner observed) \<and> equal_fold (repo_Name expected) (repo_Name observed)"

definition samePullRequestIdentity :: "pull_request \<Rightarrow> pull_request \<Rightarrow> bool" where
  "samePullRequestIdentity expected observed \<longleftrightarrow>
     pr_Number expected = pr_Number observed \<and> pr_NodeID expected = pr_NodeID observed \<and>
     pr_URL expected = pr_URL observed \<and>
     (pr_DatabaseID expected = 0 \<or> pr_DatabaseID expected = pr_DatabaseID observed)"

text \<open>The comparison of the store, which reads the drift without the identity.\<close>

definition stored_target_drift :: "pull_request \<Rightarrow> pull_request \<Rightarrow> bool" where
  "stored_target_drift expected observed \<longleftrightarrow>
     pr_BodyDigest expected = pr_BodyDigest observed \<and>
     (pr_HeadBranch expected \<noteq> pr_HeadBranch observed \<or> pr_BaseBranch expected \<noteq> pr_BaseBranch observed \<or>
      pr_HeadSHA expected \<noteq> pr_HeadSHA observed \<or> pr_BaseSHA expected \<noteq> pr_BaseSHA observed \<or>
      pr_OwnershipKey expected \<noteq> pr_OwnershipKey observed)"

definition save_target_drift ::
  "'w reconcile_ports \<Rightarrow> run_row \<Rightarrow> string \<Rightarrow> pull_request \<Rightarrow> repository_identity \<Rightarrow> read_reply \<Rightarrow> string \<Rightarrow> time \<Rightarrow>
     'w world \<Rightarrow> go_error option \<times> 'w world" where
  "save_target_drift p run owner persisted repo reply reason now =
     (let observed = ev_PullRequest (rd_Evidence (rr_Read reply)) in
      together (rp_SaveTarget p (run_ID run) repo persisted reply) (\<lambda>checks.
        SaveGitHubManualPRTargetDrift
          (if samePullRequestIdentity persisted observed \<and> stored_target_drift persisted observed then checks
           else Some (New ''manual GitHub target-drift evidence is incomplete''))
          (run_ID run) owner StateAwaitingGitHubMergeability (run_IdempotencyKey run)
          (''github_read_evidence:'' @ rp_Digest p (rr_Read reply) []) (pr_HeadSHA persisted) reason now))"

definition mergeabilityManualTargetDriftAfterRead ::
  "'w reconcile_ports \<Rightarrow> run_row \<Rightarrow> string \<Rightarrow> pull_request \<Rightarrow> repository_identity \<Rightarrow> read_reply \<Rightarrow> time \<Rightarrow>
     ('w world, reconcile_outcome, reconcile_outcome) act" where
  "mergeabilityManualTargetDriftAfterRead p run owner persisted repo reply now =
     seq (check_error classified (save_target_drift p run owner persisted repo reply
            ''GitHub pull request target drifted while awaiting thread resolution'' now)) (\<lambda>_.
     return_with requires_manual)"

section \<open>The wait\<close>

text \<open>A change request seen during the wait directs a repair as it does in the other states.\<close>

definition reconcileMergeabilityChangesRequested ::
  "'w reconcile_ports \<Rightarrow> (github_review list \<Rightarrow> github_review list) \<Rightarrow> ('z) reconcile_authority_scheme \<Rightarrow> inspection \<Rightarrow>
     string \<Rightarrow> read_reply \<Rightarrow> time \<Rightarrow> ('w world, reconcile_outcome, reconcile_outcome) act" where
  "reconcileMergeabilityChangesRequested p ord q i owner reply now =
     seq (the_value Inl (trusted_changes_of i reply)) (\<lambda>changes.
     reconcileLocked p ord (full_command q i reply changes False) i owner now)"

definition save_and_stay ::
  "'w reconcile_ports \<Rightarrow> run_row \<Rightarrow> string \<Rightarrow> read_reply \<Rightarrow> approval_observation option \<Rightarrow> human_approval option \<Rightarrow>
     state \<Rightarrow> string \<Rightarrow> time \<Rightarrow> ('w world, reconcile_outcome, reconcile_outcome) act" where
  "save_and_stay p run owner reply observed approval next_state reason now =
     seq (check_error Inl (saveMergeabilityRead p run owner reply observed approval next_state reason now)) (\<lambda>_.
     return_with (Inr \<lparr>rc_Head = run_CandidateHead run, rc_Status = DeliveryStatus (rd_Evidence (rr_Read reply)),
       rc_State = next_state, rc_Reason = []\<rparr>))"

text \<open>The last gates: the merge must still be authorized, and the threads those of the rejection.\<close>

definition mergeability_gates ::
  "'w reconcile_ports \<Rightarrow> merge_codec \<Rightarrow> (github_review list \<Rightarrow> github_review list) \<Rightarrow> inspection \<Rightarrow> string \<Rightarrow>
     squash_request \<Rightarrow> merge_thread list \<Rightarrow> read_reply \<Rightarrow> approval_observation \<Rightarrow> human_approval option \<Rightarrow> time \<Rightarrow>
     ('w world, reconcile_outcome, reconcile_outcome) act" where
  "mergeability_gates p cd ord i owner r persisted reply ob approval now =
     (let run = in_Run i; ev = rd_Evidence (rr_Read reply);
          manual = (\<lambda>reason. mergeabilityManualAfterRead p run owner reply reason now) in
      if approval = None \<or> obs_Status ob \<noteq> HumanApprovalApproved
      then manual ''GitHub mergeability approval is incomplete''
      else if authorizeProductionMerge ord run i r ev \<noteq> None
      then manual ''GitHub mergeability approval authority drifted''
      else case controllerRepliedMergeThreads (mc_thread cd) i (rr_Read reply) (rr_Handoff reply) of
        Inl _ \<Rightarrow> manual ''controller reply topology is ambiguous''
      | Inr threads \<Rightarrow>
          (if threads = [] then manual ''controller reply topology is ambiguous''
           else if \<not> sameMergePolicyTopology persisted threads
           then manual ''controller reply topology drifted while awaiting resolution''
           else if hasUnresolvedMergeThread threads
           then save_and_stay p run owner reply (Some ob) approval StateAwaitingGitHubMergeability
                  ''controller-replied thread remains unresolved'' now
           else save_and_stay p run owner reply (Some ob) approval StateMerging
                  ''controller-replied threads resolved; guarded merge may be retried'' now))"

definition mergeability_approval ::
  "'w reconcile_ports \<Rightarrow> merge_codec \<Rightarrow> (github_review list \<Rightarrow> github_review list) \<Rightarrow> ('z) reconcile_authority_scheme \<Rightarrow>
     inspection \<Rightarrow> string \<Rightarrow> squash_request \<Rightarrow> merge_thread list \<Rightarrow> read_reply \<Rightarrow> time \<Rightarrow>
     ('w world, reconcile_outcome, reconcile_outcome) act" where
  "mergeability_approval p cd ord q i owner r persisted reply now =
     (let run = in_Run i; ev = rd_Evidence (rr_Read reply);
          manual = (\<lambda>reason. mergeabilityManualAfterRead p run owner reply reason now) in
      case trustedHumanActors i of
        Inl _ \<Rightarrow> manual ''trusted human approval identity is unavailable''
      | Inr trusted \<Rightarrow>
     (case NormalizeHumanApproval ord (ev_PullRequest ev) (ev_Reviews ev) trusted (ev_ObservedAt ev) of
        Inl _ \<Rightarrow> manual ''GitHub mergeability approval is ambiguous''
      | Inr (ob, approval) \<Rightarrow>
          (if obs_Status ob \<in> {HumanApprovalAmbiguous, HumanApprovalUntrustedActor}
           then manual ''GitHub mergeability approval is ambiguous''
           else if obs_Status ob = HumanApprovalChangesRequested
           then reconcileMergeabilityChangesRequested p ord q i owner reply now
           else if obs_Status ob \<in> {HumanApprovalDismissed, HumanApprovalPending, HumanApprovalStaleHead}
           then save_and_stay p run owner reply (Some ob) approval StateAwaitingHumanApproval
                  ''GitHub approval changed while awaiting thread resolution'' now
           else mergeability_gates p cd ord i owner r persisted reply ob approval now)))"

definition mergeability_after_read ::
  "'w reconcile_ports \<Rightarrow> merge_codec \<Rightarrow> (github_review list \<Rightarrow> github_review list) \<Rightarrow> ('z) reconcile_authority_scheme \<Rightarrow>
     inspection \<Rightarrow> string \<Rightarrow> pull_request \<Rightarrow> merge_thread list \<Rightarrow> read_reply \<Rightarrow> time \<Rightarrow>
     ('w world, reconcile_outcome, reconcile_outcome) act" where
  "mergeability_after_read p cd ord q i owner pr persisted reply now =
     (let run = in_Run i; ev = rd_Evidence (rr_Read reply); r = squash_request_of run pr;
          manual = (\<lambda>reason. mergeabilityManualAfterRead p run owner reply reason now) in
      if Handoff_Validate (rr_Handoff reply) \<noteq> None then manual ''GitHub mergeability topology is incomplete''
      else if validateReaderAuthority i (rr_Metadata reply) \<noteq> None
      then manual ''GitHub mergeability metadata authority drifted''
      else
        seq (no_error (\<lambda>e. Inl (ServiceErr ErrorInternal ''build immutable squash merge intent'' (Some e)))
               (SquashMergeRequest_Validate r)) (\<lambda>_.
        case mergeExpectedRepository i of
          Inl _ \<Rightarrow> manual ''GitHub mergeability authority drifted''
        | Inr repo \<Rightarrow>
            (if ReconcileGitHubRead repo pr (sq_HeadBranch r) (sq_BaseBranch r) (sq_ExpectedHeadSHA r)
                  (sq_ExpectedBaseSHA r) (sq_OwnershipKey r) (pr_BodyDigest pr) ev \<noteq> None
             then (if sameMergeabilityRepository repo (ev_Repository ev) \<and> pullRequestTargetDrift pr (ev_PullRequest ev)
                   then mergeabilityManualTargetDriftAfterRead p run owner pr repo reply now
                   else manual ''GitHub mergeability authority drifted'')
             else if DeliveryStatus ev \<noteq> ReconciliationPass
             then save_and_stay p run owner reply None None StateReconcilingReviews
                    ''GitHub merge gates changed while awaiting thread resolution'' now
             else mergeability_approval p cd ord q i owner r persisted reply now)))"

definition reconcile_mergeability ::
  "'w reconcile_ports \<Rightarrow> merge_codec \<Rightarrow> (github_review list \<Rightarrow> github_review list) \<Rightarrow> ('z) reconcile_authority_scheme \<Rightarrow>
     time \<Rightarrow> inspection \<Rightarrow> string \<Rightarrow> ('w world, reconcile_outcome, reconcile_outcome) act" where
  "reconcile_mergeability p cd ord q now i owner =
     (let run = in_Run i; manual = (\<lambda>reason. mergeabilityManual run reason now) in
      seq (no_error Inl (validateReconcileInspection p q i)) (\<lambda>_.
      seq (unless (run_State run = StateAwaitingGitHubMergeability)
             (conflict ''run is not awaiting GitHub mergeability'')) (\<lambda>_.
      case mergeSideEffect (in_SideEffects i) (run_CandidateHead run) of
        None \<Rightarrow> manual ''merge policy wait lacks a durable failed side effect''
      | Some side \<Rightarrow>
     (if se_Status side \<noteq> ''failed'' then manual ''merge policy wait lacks a durable failed side effect''
      else case mergePolicyPendingThreads (mc_decode cd) side (run_CandidateHead run) of
        Inl _ \<Rightarrow> manual ''merge policy wait lacks durable topology evidence''
      | Inr persisted \<Rightarrow>
      seq (look (rp_Authority p)) (\<lambda>authority.
      case (validateReaderAuthority i authority, in_PullRequest i) of
        (None, Some pr) \<Rightarrow>
          seq (perform (outside (rp_Read p (pr_Number pr) (run_CandidateHead run)))) (\<lambda>reply.
          case rr_Error reply of
            Some e \<Rightarrow>
              seq (check_error Inl (saveMergeabilityReadFailure p run owner (rr_Observations reply) now)) (\<lambda>_.
              return_with (Inl (ServiceErr ErrorUnavailable ''GitHub mergeability read is unavailable'' (Some e))))
          | None \<Rightarrow> mergeability_after_read p cd ord q i owner pr persisted reply now)
      | _ \<Rightarrow> manual ''GitHub mergeability reader authority drifted'')))))"

section \<open>ReconcileGitHub\<close>

record production_result =
  po_Action :: production_action
  po_Run :: run_row
  po_Head :: string
  po_Reason :: string

type_synonym production_outcome = "production_result option \<times> go_error option"

record 'w github_ports =
  gp_Reconcile :: "'w reconcile_ports"
  gp_Codec :: merge_codec
  gp_Progress :: "run_row \<Rightarrow> 'w world \<Rightarrow> bool result"
  gp_Revalidate :: "production_command \<Rightarrow> 'w world \<Rightarrow> (run_row \<times> bool) result \<times> 'w world"
  gp_manual_event :: "run_row \<Rightarrow> transition_row \<Rightarrow> attention_event result"
  gp_Append :: "attention_event \<Rightarrow> 'w \<Rightarrow> go_error option \<times> 'w"

definition production_failed :: "go_error \<Rightarrow> production_outcome" where
  "production_failed e = (None, Some e)"

definition authority_of :: "production_command \<Rightarrow> reconcile_authority" where
  "authority_of c =
     \<lparr>rq_Requester = pc_Requester c, rq_RunID = pc_RunID c, rq_Repository = pc_Repository c,
      rq_ExpectedState = pc_ExpectedState c, rq_IdempotencyKey = pc_IdempotencyKey c\<rparr>"

definition reconcileMergeability ::
  "'w github_ports \<Rightarrow> (github_review list \<Rightarrow> github_review list) \<Rightarrow> production_command \<Rightarrow> run_row \<Rightarrow> time \<Rightarrow> 'w world \<Rightarrow>
     production_outcome \<times> 'w world" where
  "reconcileMergeability p ord c run now =
     run_method
       (seq (attempt production_failed (run_method (withReconcileLease (gp_Reconcile p) (authority_of c) now
               (reconcile_mergeability (gp_Reconcile p) (gp_Codec p) ord (authority_of c) now)))) (\<lambda>outcome.
        let (action, reason) = productionNextAction (rc_State outcome) in
        seq (seq (look (GetRun (run_ID run))) (the_value (\<lambda>e. production_failed (classifyServiceError e)))) (\<lambda>updated.
        give (Some \<lparr>po_Action = action, po_Run = updated, po_Head = rc_Head outcome, po_Reason = reason\<rparr>, None))))"

definition requireRunProgressAdmission :: "'w github_ports \<Rightarrow> string \<Rightarrow> 'w world \<Rightarrow> go_error option" where
  "requireRunProgressAdmission p runID x =
     (if runID = [] then None
      else case GetRun runID x of
        Inl e \<Rightarrow> Some (classifyServiceError e)
      | Inr run \<Rightarrow>
     (case gp_Progress p run x of
        Inl e \<Rightarrow> Some (classifyServiceError e)
      | Inr allowed \<Rightarrow>
          (if allowed then None
           else Some (ServiceErr ErrorConflict
             ''run progress is blocked by unresolved historical recovery evidence'' None))))"

definition github_command_of :: "production_command \<Rightarrow> run_row \<Rightarrow> pull_request \<Rightarrow> bool \<Rightarrow> github_command" where
  "github_command_of c run pr linearCompleted =
     \<lparr>rq_Requester = pc_Requester c, rq_RunID = run_ID run, rq_Repository = run_Repository run,
      rq_ExpectedState = run_State run, rq_IdempotencyKey = run_IdempotencyKey run,
      gq_PullRequest = pr_Number pr, gq_ExpectedHead = run_CandidateHead run, gq_LinearCompleted = linearCompleted\<rparr>"

definition reconcile_github ::
  "'w github_ports \<Rightarrow> (github_review list \<Rightarrow> github_review list) \<Rightarrow> production_command \<Rightarrow> time \<Rightarrow>
     ('w world, production_outcome, production_outcome) act" where
  "reconcile_github p ord c now =
     seq (attempt production_failed (gp_Revalidate p c)) (\<lambda>(run, linearCompleted).
     let (action, reason) = productionNextAction (run_State run) in
     if action \<noteq> ProductionReconcileGitHub
     then return_with (Some \<lparr>po_Action = action, po_Run = run, po_Head = [], po_Reason = reason\<rparr>, None)
     else if run_State run = StateAwaitingGitHubMergeability
     then return_from (reconcileMergeability p ord c run now)
     else
       seq (seq (look (rp_Inspect (gp_Reconcile p) (run_ID run)))
              (the_value (\<lambda>e. production_failed (classifyServiceError e)))) (\<lambda>i.
       case in_PullRequest i of
         None \<Rightarrow> return_with (production_failed (ServiceErr ErrorConflict
                    ''persisted pull request identity is required'' None))
       | Some pr \<Rightarrow>
           seq (attempt production_failed (ReconcileFromGitHub (gp_Reconcile p) ord
                  (github_command_of c run pr linearCompleted) now)) (\<lambda>outcome.
           let (next_action, next_reason) = productionNextAction (rc_State outcome) in
           give (Some \<lparr>po_Action = next_action, po_Run = run\<lparr>run_State := rc_State outcome\<rparr>, po_Head = rc_Head outcome,
                   po_Reason = (if rc_Reason outcome \<noteq> [] \<and> rc_State outcome = StateManualIntervention
                                then rc_Reason outcome else next_reason)\<rparr>, None))))"

definition ReconcileGitHub ::
  "'w github_ports \<Rightarrow> (github_review list \<Rightarrow> github_review list) \<Rightarrow> production_command \<Rightarrow> time \<Rightarrow> 'w world \<Rightarrow>
     production_outcome \<times> 'w world" where
  "ReconcileGitHub p ord c now x =
     (case requireRunProgressAdmission p (pc_RunID c) x of
        Some e \<Rightarrow> (production_failed e, x)
      | None \<Rightarrow>
     (case run_method (reconcile_github p ord c now) x of
        (out, y) \<Rightarrow> publish_manual (rp_Inspect (gp_Reconcile p)) (gp_manual_event p) (gp_Append p) (pc_RunID c) out y))"

section \<open>What the wait requires for a merge\<close>

text \<open>A reading that lets the rejected merge be tried again: every gate of the merge passes, and the threads
  GitHub held it back for are those recorded with the rejection, now resolved.\<close>

definition restored ::
  "merge_codec \<Rightarrow> (github_review list \<Rightarrow> github_review list) \<Rightarrow> inspection \<Rightarrow> squash_request \<Rightarrow> merge_thread list \<Rightarrow>
     read_reply \<Rightarrow> bool" where
  "restored cd ord i r persisted reply \<longleftrightarrow>
     authorizeProductionMerge ord (in_Run i) i r (rd_Evidence (rr_Read reply)) = None \<and>
     (\<exists>threads. controllerRepliedMergeThreads (mc_thread cd) i (rr_Read reply) (rr_Handoff reply) = Inr threads \<and>
        threads \<noteq> [] \<and> sameMergePolicyTopology persisted threads \<and> \<not> hasUnresolvedMergeThread threads)"

definition merge_restored ::
  "merge_codec \<Rightarrow> (github_review list \<Rightarrow> github_review list) \<Rightarrow> inspection \<Rightarrow> pull_request \<Rightarrow> read_reply \<Rightarrow> bool" where
  "merge_restored cd ord i pr reply \<longleftrightarrow>
     run_State (in_Run i) = StateAwaitingGitHubMergeability \<and> in_PullRequest i = Some pr \<and> rr_Error reply = None \<and>
     DeliveryStatus (rd_Evidence (rr_Read reply)) = ReconciliationPass \<and>
     (\<exists>side persisted.
        mergeSideEffect (in_SideEffects i) (run_CandidateHead (in_Run i)) = Some side \<and> se_Status side = ''failed'' \<and>
        mergePolicyPendingThreads (mc_decode cd) side (run_CandidateHead (in_Run i)) = Inr persisted \<and>
        restored cd ord i (squash_request_of (in_Run i) pr) persisted reply)"

definition waited_to ::
  "'w reconcile_ports \<Rightarrow> merge_codec \<Rightarrow> (github_review list \<Rightarrow> github_review list) \<Rightarrow> inspection \<Rightarrow> string list \<Rightarrow>
     store \<Rightarrow> 'w world \<Rightarrow> bool" where
  "waited_to p cd ord i ids s0 y \<longleftrightarrow>
     runs_of (wd_store y) = runs_of s0 \<or>
     (\<exists>j a b. j \<in> set ids \<and> moved_to s0 j a b (wd_store y) \<and>
        (b \<in> set delivery_states \<or>
         b = StateMerging \<and>
         (\<exists>pr w. merge_restored cd ord i pr (fst (rp_Read p (pr_Number pr) (run_CandidateHead (in_Run i)) w)))))"

lemma save_mergeability_moves:
  "runs_of (wd_store (snd (saveMergeabilityRead p run owner reply ob ap b reason now x))) = runs_of (wd_store x) \<or>
     b \<noteq> StateAwaitingGitHubMergeability \<and>
     moved_to (wd_store x) (run_ID run) StateAwaitingGitHubMergeability b
       (wd_store (snd (saveMergeabilityRead p run owner reply ob ap b reason now x)))"
proof -
  let ?v = "mergeability_read run owner reply ob ap b reason"
  obtain e y where s: "SaveGitHubReadSuccess p ?v now x = (e, y)" by fastforce
  have v: "sv_Expected ?v = StateAwaitingGitHubMergeability" "sv_Next ?v = b" "sv_RunID ?v = run_ID run"
    by (simp_all add: mergeability_read_def)
  have m: "wd_store y = wd_store x \<or> StateAwaitingGitHubMergeability \<noteq> b \<and>
      moved_to (wd_store x) (run_ID run) StateAwaitingGitHubMergeability b (wd_store y)"
    using save_read_moves [of p ?v now x] unfolding s v by simp
  show ?thesis
    unfolding saveMergeabilityRead_def s using m by (auto split: option.split)
qed

lemma manual_transition_moves:
  "runs_of (snd (Transition i StateAwaitingGitHubMergeability StateManualIntervention reason ev head now s)) = runs_of s \<or>
     moved_to s i StateAwaitingGitHubMergeability StateManualIntervention
       (snd (Transition i StateAwaitingGitHubMergeability StateManualIntervention reason ev head now s))"
proof -
  obtain res t where t: "Transition i StateAwaitingGitHubMergeability StateManualIntervention reason ev head now s = (res, t)"
    by fastforce
  then show ?thesis by (cases rule: Transition_result) (simp_all add: moved_to_def t)
qed

lemma save_target_moves:
  "wd_store (snd (save_target_drift p run owner persisted repo reply reason now x)) = wd_store x \<or>
     moved_to (wd_store x) (run_ID run) StateAwaitingGitHubMergeability StateManualIntervention
       (wd_store (snd (save_target_drift p run owner persisted repo reply reason now x)))"
  unfolding save_target_drift_def Let_def
  by (rule together_moves [where Q = "\<lambda>s t. moved_to s (run_ID run) StateAwaitingGitHubMergeability StateManualIntervention t"])
    (rule target_drift_moves)

section \<open>Where the wait moves a run\<close>

text \<open>The steps after the reading save once, and then return.\<close>

lemma mergeability_gates_wp:
  assumes save: "\<And>ob ap b reason. b \<in> set delivery_states \<or> b = StateAwaitingGitHubMergeability \<or>
      b = StateMerging \<and> restored cd ord i r persisted reply \<Longrightarrow>
      R (snd (saveMergeabilityRead p (in_Run i) owner reply ob ap b reason now x))"
  shows "wp (mergeability_gates p cd ord i owner r persisted reply ob approval now) (\<lambda>_. R) (\<lambda>_. R) x"
proof -
  have manual: "R (snd (saveMergeabilityRead p (in_Run i) owner reply ob ap StateManualIntervention reason now x))" for ob ap reason
    by (rule save) (simp add: delivery_states_def)
  have wait: "R (snd (saveMergeabilityRead p (in_Run i) owner reply ob ap StateAwaitingGitHubMergeability reason now x))" for ob ap reason
    by (rule save) simp
  have merge: "R (snd (saveMergeabilityRead p (in_Run i) owner reply ob ap StateMerging reason now x))"
    if "restored cd ord i r persisted reply" for ob ap reason
    by (rule save) (use that in simp)
  show ?thesis
    unfolding mergeability_gates_def Let_def mergeabilityManualAfterRead_def save_and_stay_def
    by (auto simp: wp_simps manual wait restored_def intro!: merge split: option.split sum.split)
qed

lemma mergeability_approval_wp:
  assumes save: "\<And>ob ap b reason. b \<in> set delivery_states \<or> b = StateAwaitingGitHubMergeability \<or>
      b = StateMerging \<and> restored cd ord i r persisted reply \<Longrightarrow>
      R (snd (saveMergeabilityRead p (in_Run i) owner reply ob ap b reason now x))"
    and x: "R x"
    and locked: "\<And>changes. wp (reconcileLocked p ord (full_command q i reply changes False) i owner now) (\<lambda>_. R) (\<lambda>_. R) x"
  shows "wp (mergeability_approval p cd ord q i owner r persisted reply now) (\<lambda>_. R) (\<lambda>_. R) x"
proof -
  have saved: "R (snd (saveMergeabilityRead p (in_Run i) owner reply ob ap b reason now x))"
    if "b \<in> {StateManualIntervention, StateAwaitingHumanApproval}" for ob ap b reason
    by (rule save) (use that in \<open>auto simp: delivery_states_def\<close>)
  have gates: "wp (mergeability_gates p cd ord i owner r persisted reply ob approval now) (\<lambda>_. R) (\<lambda>_. R) x" for ob approval
    by (rule mergeability_gates_wp) (rule save)
  show ?thesis
    unfolding mergeability_approval_def Let_def mergeabilityManualAfterRead_def save_and_stay_def
      reconcileMergeabilityChangesRequested_def
    by (auto simp: wp_simps x saved gates locked split: option.split sum.split prod.split)
qed

lemma mergeability_after_read_wp:
  assumes save: "\<And>ob ap b reason. b \<in> set delivery_states \<or> b = StateAwaitingGitHubMergeability \<or>
      b = StateMerging \<and> DeliveryStatus (rd_Evidence (rr_Read reply)) = ReconciliationPass \<and>
        restored cd ord i (squash_request_of (in_Run i) pr) persisted reply \<Longrightarrow>
      R (snd (saveMergeabilityRead p (in_Run i) owner reply ob ap b reason now x))"
    and x: "R x"
    and drift: "\<And>repo reason. R (snd (save_target_drift p (in_Run i) owner pr repo reply reason now x))"
    and locked: "\<And>changes. wp (reconcileLocked p ord (full_command q i reply changes False) i owner now) (\<lambda>_. R) (\<lambda>_. R) x"
  shows "wp (mergeability_after_read p cd ord q i owner pr persisted reply now) (\<lambda>_. R) (\<lambda>_. R) x"
proof -
  have saved: "R (snd (saveMergeabilityRead p (in_Run i) owner reply ob ap b reason now x))"
    if "b \<in> {StateManualIntervention, StateReconcilingReviews}" for ob ap b reason
    by (rule save) (use that in \<open>auto simp: delivery_states_def\<close>)
  have approval: "wp (mergeability_approval p cd ord q i owner (squash_request_of (in_Run i) pr) persisted reply now) (\<lambda>_. R) (\<lambda>_. R) x"
    if "DeliveryStatus (rd_Evidence (rr_Read reply)) = ReconciliationPass"
    by (rule mergeability_approval_wp, rule save) (use that x locked in blast)+
  show ?thesis
    unfolding mergeability_after_read_def Let_def mergeabilityManualAfterRead_def save_and_stay_def
      mergeabilityManualTargetDriftAfterRead_def
    by (auto simp: wp_simps x saved approval drift split: option.split sum.split)
qed

lemma waited_to_moves:
  assumes "runs_of (wd_store y) = runs_of s \<or> moved_to s j a b (wd_store y)" and "runs_of s = runs_of s0"
    and "j \<in> set ids" and "b \<in> set delivery_states"
  shows "waited_to p cd ord i ids s0 y"
  using assms moved_to_same [OF assms(2)] unfolding waited_to_def by metis

lemma reconcile_mergeability_wp:
  assumes same: "runs_of (wd_store x) = runs_of s0"
  shows "wp (reconcile_mergeability p cd ord q now i owner)
    (\<lambda>_. waited_to p cd ord i [run_ID (in_Run i)] s0) (\<lambda>_. waited_to p cd ord i [run_ID (in_Run i)] s0) x"
proof -
  let ?run = "in_Run i"
  define R where "R = waited_to p cd ord i [run_ID ?run] s0"
  have stays: "R y" if "runs_of (wd_store y) = runs_of s0" for y using that by (simp add: R_def waited_to_def)
  have manual: "R (snd (on_store (Transition (run_ID ?run) StateAwaitingGitHubMergeability StateManualIntervention reason ev
      head now) (snd (on_store (SetLastError (run_ID ?run) reason now) x))))" for reason ev head
    unfolding R_def
    by (rule waited_to_moves [where s = "snd (SetLastError (run_ID ?run) reason now (wd_store x))" and j = "run_ID ?run"
          and a = StateAwaitingGitHubMergeability and b = StateManualIntervention])
      (simp_all only: on_store_simps manual_transition_moves, simp_all add: same delivery_states_def)
  have after: "wp (mergeability_after_read p cd ord q i owner pr persisted reply now) (\<lambda>_. R) (\<lambda>_. R) y"
    if y: "y = snd (outside (rp_Read p (pr_Number pr) (run_CandidateHead ?run)) x)"
      and reply: "reply = fst (rp_Read p (pr_Number pr) (run_CandidateHead ?run) (wd_outside x))"
      and "rr_Error reply = None" "run_State ?run = StateAwaitingGitHubMergeability" "in_PullRequest i = Some pr"
        "mergeSideEffect (in_SideEffects i) (run_CandidateHead ?run) = Some side" "se_Status side = ''failed''"
        "mergePolicyPendingThreads (mc_decode cd) side (run_CandidateHead ?run) = Inr persisted"
    for pr persisted reply side y
  proof -
    have sy: "runs_of (wd_store y) = runs_of s0" by (simp add: y same)
    show ?thesis
    proof (rule mergeability_after_read_wp)
      fix ob ap b reason
      let ?y = "snd (saveMergeabilityRead p ?run owner reply ob ap b reason now y)"
      assume b: "b \<in> set delivery_states \<or> b = StateAwaitingGitHubMergeability \<or>
        b = StateMerging \<and> DeliveryStatus (rd_Evidence (rr_Read reply)) = ReconciliationPass \<and>
          restored cd ord i (squash_request_of ?run pr) persisted reply"
      have m: "runs_of (wd_store ?y) = runs_of s0 \<or> b \<noteq> StateAwaitingGitHubMergeability \<and>
          moved_to s0 (run_ID ?run) StateAwaitingGitHubMergeability b (wd_store ?y)"
        using save_mergeability_moves [of p ?run owner reply ob ap b reason now y] sy moved_to_same [OF sy] by simp
      have "merge_restored cd ord i pr reply" if "b = StateMerging"
        using b that that(1) \<open>rr_Error reply = None\<close> \<open>run_State ?run = _\<close> \<open>in_PullRequest i = _\<close> \<open>mergeSideEffect _ _ = _\<close>
          \<open>se_Status side = _\<close> \<open>mergePolicyPendingThreads _ _ _ = _\<close>
        by (auto simp: merge_restored_def delivery_states_def)
      with b m reply show "R ?y" unfolding R_def waited_to_def by (metis list.set_intros(1))
    next
      show "R y" by (rule stays [OF sy])
    next
      show "R (snd (save_target_drift p ?run owner pr repo reply reason now y))" for repo reason
        unfolding R_def
        by (rule waited_to_moves [OF _ sy, where j = "run_ID ?run" and a = StateAwaitingGitHubMergeability
              and b = StateManualIntervention])
          (use save_target_moves [of p ?run owner pr repo reply reason now y] in \<open>auto simp: delivery_states_def\<close>)
    next
      fix changes
      let ?q = "full_command q i reply changes False"
      have "waited_to p cd ord i [run_ID ?run] s0 z"
        if "reconciled_to ord i (rq_Evidence ?q) [run_ID ?run] s0 z" for z
        using that \<open>run_State ?run = _\<close> unfolding reconciled_to_def approval_observed_def waited_to_def by auto
      then show "wp (reconcileLocked p ord ?q i owner now) (\<lambda>_. R) (\<lambda>_. R) y"
        unfolding R_def by (intro wp_mono [OF reconcileLocked_wp [OF sy, where ids = "[run_ID ?run]"]]) simp_all
    qed
  qed
  have failure: "R (snd (saveMergeabilityReadFailure p ?run owner obs now (snd (outside f x))))" for obs f
    by (rule stays) (simp add: saveMergeabilityReadFailure_def case_prod_beta same)
  show ?thesis
    unfolding reconcile_mergeability_def mergeabilityManual_def Let_def R_def [symmetric]
    by (auto simp: wp_simps stays same manual failure intro!: after split: option.split sum.split)
qed

section \<open>Where ReconcileGitHub moves a run\<close>

lemma publish_manual_store [simp]: "wd_store (snd (publish_manual inspect event publish i out x)) = wd_store x"
  by (auto simp: publish_manual_def Let_def split: sum.split option.split prod.split)
    (metis outside_simps(4) snd_conv)+

text \<open>A reading that opens the way to a merge: a fresh approval, or the resolution of what held a merge back.\<close>

definition merge_opened ::
  "'w reconcile_ports \<Rightarrow> merge_codec \<Rightarrow> (github_review list \<Rightarrow> github_review list) \<Rightarrow> inspection \<Rightarrow> bool" where
  "merge_opened p cd ord i \<longleftrightarrow>
     (\<exists>n h w. let reply = fst (rp_Read p n h w) in
        rr_Error reply = None \<and>
        (approval_observed ord i (rd_Evidence (rr_Read reply)) \<or> (\<exists>pr. merge_restored cd ord i pr reply)))"

definition github_moves ::
  "'w reconcile_ports \<Rightarrow> merge_codec \<Rightarrow> (github_review list \<Rightarrow> github_review list) \<Rightarrow> string list \<Rightarrow> store \<Rightarrow>
     'w world \<Rightarrow> bool" where
  "github_moves p cd ord ids s0 y \<longleftrightarrow>
     runs_of (wd_store y) = runs_of s0 \<or>
     (\<exists>k u i j a b. k \<in> set ids \<and> rp_Inspect p k u = Inr i \<and> j \<in> {k, run_ID (in_Run i)} \<and>
        moved_to s0 j a b (wd_store y) \<and>
        (b \<in> set delivery_states \<or> b = StateMerging \<and> merge_opened p cd ord i))"

lemma github_moves_same: "runs_of (wd_store y) = runs_of s0 \<Longrightarrow> github_moves p cd ord ids s0 y"
  by (simp add: github_moves_def)

lemma github_movesI:
  assumes "k \<in> set ids" and "rp_Inspect p k u = Inr i" and "j \<in> {k, run_ID (in_Run i)}"
    and "moved_to s0 j a b (wd_store y)" and "b \<in> set delivery_states \<or> b = StateMerging \<and> merge_opened p cd ord i"
  shows "github_moves p cd ord ids s0 y"
  unfolding github_moves_def by (rule disjI2, intro exI conjI) (rule assms)+

lemma github_moves_reconciled:
  assumes "rp_Inspect p k u = Inr i" and "k \<in> set ids" and "rr_Error (fst (rp_Read p n h w)) = None"
    and "reconciled_to ord i (rd_Evidence (rr_Read (fst (rp_Read p n h w)))) [k, run_ID (in_Run i)] s0 y"
  shows "github_moves p cd ord ids s0 y"
proof -
  have "merge_opened p cd ord i" if "approval_observed ord i (rd_Evidence (rr_Read (fst (rp_Read p n h w))))"
    using that assms(3) unfolding merge_opened_def Let_def by blast
  with assms(4) consider "runs_of (wd_store y) = runs_of s0"
    | j a b where "j \<in> set [k, run_ID (in_Run i)]" "moved_to s0 j a b (wd_store y)"
        "b \<in> set delivery_states \<or> b = StateMerging \<and> merge_opened p cd ord i"
    unfolding reconciled_to_def by blast
  then show ?thesis
  proof cases
    case 1
    then show ?thesis by (rule github_moves_same)
  next
    case 2
    show ?thesis by (rule github_movesI [OF assms(2,1) _ 2(2,3)]) (use 2(1) in simp)
  qed
qed

lemma github_moves_waited:
  assumes "rp_Inspect p k u = Inr i" and "k \<in> set ids" and "waited_to p cd ord i [run_ID (in_Run i)] s0 y"
  shows "github_moves p cd ord ids s0 y"
proof -
  have "merge_opened p cd ord i" if "merge_restored cd ord i pr (fst (rp_Read p n h w))" for pr n h w
    using that unfolding merge_opened_def Let_def merge_restored_def by blast
  with assms(3) consider "runs_of (wd_store y) = runs_of s0"
    | j a b where "j \<in> set [run_ID (in_Run i)]" "moved_to s0 j a b (wd_store y)"
        "b \<in> set delivery_states \<or> b = StateMerging \<and> merge_opened p cd ord i"
    unfolding waited_to_def by blast
  then show ?thesis
  proof cases
    case 1
    then show ?thesis by (rule github_moves_same)
  next
    case 2
    show ?thesis by (rule github_movesI [OF assms(2,1) _ 2(2,3)]) (use 2(1) in simp)
  qed
qed

lemma mergeability_runs:
  fixes p :: "'w github_ports"
  shows "github_moves (gp_Reconcile p) (gp_Codec p) ord [pc_RunID c, j] (wd_store x)
    (snd (reconcileMergeability p ord c run now x))"
proof -
  let ?p = "gp_Reconcile p" and ?q = "authority_of c"
  have id: "rq_RunID ?q = pc_RunID c" by (simp add: authority_of_def)
  define R where "R = github_moves ?p (gp_Codec p) ord [pc_RunID c, j] (wd_store x)"
  have same: "R y" if "runs_of (wd_store y) = runs_of (wd_store x)" for y
    using that by (simp add: R_def github_moves_same)
  have release: "R (snd (on_store (ReleaseLease i owner now) y))" if "R y" for i owner y
    using that by (simp add: R_def github_moves_def moved_to_def)
  have body: "wp (reconcile_mergeability ?p (gp_Codec p) ord ?q now i owner) (\<lambda>_. R) (\<lambda>_. R) z"
    if "rp_Inspect ?p (pc_RunID c) z = Inr i" and "runs_of (wd_store z) = runs_of (wd_store x)" for i owner z
    unfolding R_def
    by (rule wp_mono [OF reconcile_mergeability_wp [OF that(2)]]) (erule github_moves_waited [OF that(1), rotated], simp)+
  have leased: "R (snd (under_lease ?p (pc_RunID c) owner now
      (\<lambda>i. reconcile_mergeability ?p (gp_Codec p) ord ?q now i owner) z))"
    if "runs_of (wd_store z) = runs_of (wd_store x)" for owner z
    by (rule under_lease_wp [where R = R]) (use that in \<open>auto intro: body same release\<close>)
  have "wp (withReconcileLease ?p ?q now (reconcile_mergeability ?p (gp_Codec p) ord ?q now)) (\<lambda>_. R) (\<lambda>_. R) x"
    by (rule withReconcileLease_wp) (auto simp: id intro!: same leased)
  from method_wp_snd [OF this] show ?thesis
    unfolding reconcileMergeability_def R_def [symmetric] Let_def
    by (intro method_wp_snd [where R = R]) (simp add: wp_simps del: productionNextAction.simps split: sum.split prod.split)
qed


end
