(* ===== verification/Publish.thy ===== *)
theory Publish
  imports Mergeability
begin

text \<open>
  Publication: \<open>Push\<close> of \<open>application/push.go\<close> and \<open>OpenPullRequest\<close> of \<open>application/pull_request.go\<close>.
  Both store an immutable intent before they reach outside, look at what is there already, and move the run
  on only when what they observe is what the intent says. Git, GitHub, the other tables and JSON are ports.
\<close>

section \<open>Requests, results and ports\<close>

record push_request =
  ps_Worktree :: string
  ps_Branch :: string
  ps_Candidate :: string
  ps_Expected :: string

record push_evidence =
  pe_RemoteRef :: string
  pe_SHA :: string
  pe_ExitCode :: int
  pe_StdoutPath :: string
  pe_StderrPath :: string

record push_result =
  pu_Action :: production_action
  pu_Run :: run_row
  pu_RemoteSHA :: string
  pu_Idempotent :: bool

record open_request =
  or_Title :: string
  or_HeadBranch :: string
  or_BaseBranch :: string
  or_CandidateSHA :: string
  or_BaseSHA :: string
  or_Body :: string
  or_BodyDigest :: string
  or_OwnershipKey :: string

record open_result =
  op_Action :: production_action
  op_Run :: run_row
  op_PullRequest :: int
  op_Idempotent :: bool

text \<open>\<open>pb_Task\<close> decodes the task snapshot of a run, \<open>pb_Nonce\<close> and \<open>pb_OwnershipMode\<close> the evidence a resource
  was created with.\<close>

record 'w publish_ports =
  pb_Revalidate :: "production_command \<Rightarrow> 'w world \<Rightarrow> run_row result \<times> 'w world"
  pb_ApprovalReady :: "string \<Rightarrow> 'w world \<Rightarrow> go_error option"
  pb_Inspect :: "string \<Rightarrow> 'w world \<Rightarrow> inspection result"
  pb_RemoteSHA :: "string \<Rightarrow> string \<Rightarrow> 'w \<Rightarrow> string result \<times> 'w"
  pb_Push :: "push_request \<Rightarrow> 'w \<Rightarrow> (push_evidence \<times> go_error option) \<times> 'w"
  pb_Open :: "open_request \<Rightarrow> 'w \<Rightarrow> pull_request result \<times> 'w"
  pb_SavePullRequest :: "string \<Rightarrow> pull_request \<Rightarrow> 'w \<Rightarrow> go_error option \<times> 'w"
  pb_Nonce :: "resource_row \<Rightarrow> (string \<times> bool) result"
  pb_OwnershipMode :: "run_row \<Rightarrow> resource_row \<Rightarrow> bool \<Rightarrow> go_error option"
  pb_Task :: "run_row \<Rightarrow> coding_task result"
  pb_ReviewModel :: "run_row \<Rightarrow> string"
  pb_manual_event :: "run_row \<Rightarrow> transition_row \<Rightarrow> attention_event result"
  pb_Append :: "attention_event \<Rightarrow> 'w \<Rightarrow> go_error option \<times> 'w"

text \<open>\<open>json.Marshal\<close> of the intents and results that are stored.\<close>

record publish_codec =
  pj_push :: "string \<Rightarrow> string \<Rightarrow> string"
  pj_pushed :: "push_evidence \<Rightarrow> string"
  pj_diverged :: "string \<Rightarrow> string \<Rightarrow> string"
  pj_failed :: "string \<Rightarrow> int \<Rightarrow> string"
  pj_open :: "run_row \<Rightarrow> open_request \<Rightarrow> string"
  pj_opened :: "pull_request \<Rightarrow> string"

definition stopped :: "go_error \<Rightarrow> 'r option \<times> go_error option" where
  "stopped e = (None, Some e)"

definition stopped_service :: "go_error \<Rightarrow> 'r option \<times> go_error option" where
  "stopped_service e = stopped (classifyServiceError e)"

section \<open>Recording\<close>

text \<open>An intent whose outcome was observed is not written again.\<close>

definition finish_effect ::
  "side_effect_row \<Rightarrow> side_effect_row \<Rightarrow> ('w world, 'r option \<times> go_error option, unit) act" where
  "finish_effect side finished =
     (if se_Status side = ''observed'' then give ()
      else check_error stopped_service (on_store (FinishSideEffect finished)))"

definition branch_ref :: "run_row \<Rightarrow> string" where
  "branch_ref run = ''refs/heads/'' @ run_WorkingBranch run"

definition rejectDivergentPush ::
  "publish_codec \<Rightarrow> run_row \<Rightarrow> side_effect_row \<Rightarrow> string \<Rightarrow> time \<Rightarrow>
     ('w world, push_result option \<times> go_error option, push_result option \<times> go_error option) act" where
  "rejectDivergentPush cd run side remote now =
     seq (finish_effect side (side\<lparr>se_Status := ''failed'', se_ResultJSON := pj_diverged cd (branch_ref run) remote,
            se_ObservedAt := now\<rparr>)) (\<lambda>_.
     seq (perform (on_store (SetLastError (run_ID run) ''remote branch diverged from the verified candidate'' now))) (\<lambda>_.
     seq (check_error stopped_service (on_store (Transition (run_ID run) StatePushingBranch StateManualIntervention
            ''remote branch diverged'' ''push reconciliation'' (run_CandidateHead run) now))) (\<lambda>_.
     return_with (stopped (ServiceErr ErrorConflict ''remote branch diverged from the verified candidate'' None)))))"

definition recordPushFailure ::
  "publish_codec \<Rightarrow> run_row \<Rightarrow> side_effect_row \<Rightarrow> push_evidence \<Rightarrow> string \<Rightarrow> go_error \<Rightarrow> time \<Rightarrow>
     ('w world, push_result option \<times> go_error option, push_result option \<times> go_error option) act" where
  "recordPushFailure cd run side evidence category cause now =
     seq (finish_effect side (side\<lparr>se_Status := ''failed'', se_ResultJSON := pj_failed cd category (pe_ExitCode evidence),
            se_StdoutPath := pe_StdoutPath evidence, se_StderrPath := pe_StderrPath evidence, se_ObservedAt := now\<rparr>)) (\<lambda>_.
     seq (perform (on_store (SetLastError (run_ID run) ''push requires reconciliation before retry'' now))) (\<lambda>_.
     return_with (stopped (ServiceErr ErrorUnavailable ''push did not produce matching remote evidence'' (Some cause)))))"

section \<open>Push\<close>

text \<open>A pull request the run already has must be its own and open, or nothing may be pushed under it.\<close>

definition retainedOwnedPullRequest :: "inspection \<Rightarrow> run_row \<Rightarrow> pull_request option result" where
  "retainedOwnedPullRequest i run =
     (case in_PullRequest i of
        None \<Rightarrow> Inr None
      | Some pr \<Rightarrow>
          (if pr_DatabaseID pr < 1 \<or> blank (pr_URL pr) \<or> \<not> equal_fold (pr_State pr) ''open'' \<or> pr_Merged pr \<or>
              pr_HeadBranch pr \<noteq> run_WorkingBranch run \<or> pr_BaseBranch pr \<noteq> run_BaseBranch run \<or>
              pr_BaseSHA pr \<noteq> run_BaseSHA run \<or> pr_OwnershipKey pr \<noteq> run_IdempotencyKey run \<or> blank (pr_BodyDigest pr)
           then Inl (New ''persisted pull request is not an owned open update target'')
           else Inr (Some pr)))"

definition owned_branch :: "run_row \<Rightarrow> resource_row \<Rightarrow> bool" where
  "owned_branch run q \<longleftrightarrow>
     res_RunID q = run_ID run \<and> res_Kind q = ''branch'' \<and> res_Name q = run_WorkingBranch run \<and> res_Status q = ''owned''"

text \<open>The table has one row for each kind and name, so the order of the loop does not matter.\<close>

definition remoteBranchOwnershipEvidence :: "'w publish_ports \<Rightarrow> run_row \<Rightarrow> 'w world \<Rightarrow> string result" where
  "remoteBranchOwnershipEvidence p run x =
     (case pb_Inspect p (run_ID run) x of
        Inl e \<Rightarrow> Inl e
      | Inr _ \<Rightarrow>
     (case find (owned_branch run) (st_resources (wd_store x)) of
        None \<Rightarrow> Inl (New ''owned local branch evidence is required before remote ownership is recorded'')
      | Some q \<Rightarrow>
     (case pb_Nonce p q of
        Inl e \<Rightarrow> Inl e
      | Inr (_, legacy) \<Rightarrow>
          (case pb_OwnershipMode p run q legacy of Some e \<Rightarrow> Inl e | None \<Rightarrow> Inr (res_CreationEvidence q)))))"

definition completePush ::
  "'w publish_ports \<Rightarrow> publish_codec \<Rightarrow> run_row \<Rightarrow> side_effect_row \<Rightarrow> pull_request option \<Rightarrow> push_evidence \<Rightarrow> bool \<Rightarrow>
     time \<Rightarrow> ('w world, push_result option \<times> go_error option, push_result option \<times> go_error option) act" where
  "completePush p cd run side existing evidence0 idempotent now =
     (let head = run_CandidateHead run;
          evidence = (if pe_SHA evidence0 = [] then evidence0\<lparr>pe_SHA := head\<rparr> else evidence0) in
      if pe_SHA evidence \<noteq> head \<or> pe_RemoteRef evidence \<noteq> branch_ref run
      then recordPushFailure cd run side evidence ''invalid_push_evidence''
             (New ''publisher returned mismatched evidence'') now
      else
        seq (case existing of
               None \<Rightarrow> give None
             | Some pr \<Rightarrow>
                 (if pr_HeadSHA pr = head then give None
                  else perform (outside (pb_SavePullRequest p (run_ID run) (pr\<lparr>pr_HeadSHA := head\<rparr>))))) (\<lambda>err.
        case err of
          Some e \<Rightarrow> recordPushFailure cd run side evidence ''persist_repaired_pull_request_head_failed'' e now
        | None \<Rightarrow>
        seq (finish_effect side (side\<lparr>se_Status := ''observed'', se_ResultJSON := pj_pushed cd evidence,
               se_StdoutPath := pe_StdoutPath evidence, se_StderrPath := pe_StderrPath evidence,
               se_ObservedAt := now\<rparr>)) (\<lambda>_.
        seq (seq (look (remoteBranchOwnershipEvidence p run)) (the_value stopped_service)) (\<lambda>ownership.
        seq (check_error stopped_service (on_store (AddOwnedResource
               \<lparr>res_Kind = ''remote_branch'', res_Name = run_WorkingBranch run, res_RunID = run_ID run,
                res_CreationEvidence = ownership, res_Status = ''owned''\<rparr>))) (\<lambda>_.
        seq (check_error stopped_service (on_store (Transition (run_ID run) StatePushingBranch StateBranchPushed
               ''remote exact SHA observed'' ''push evidence'' head now))) (\<lambda>_.
        seq (seq (look (GetRun (run_ID run))) (the_value stopped_service)) (\<lambda>next_run.
        give (Some \<lparr>pu_Action = ProductionStop, pu_Run = next_run, pu_RemoteSHA = head, pu_Idempotent = idempotent\<rparr>,
              None))))))))"

definition push_request_of :: "run_row \<Rightarrow> string \<Rightarrow> push_request" where
  "push_request_of run remote =
     \<lparr>ps_Worktree = run_WorktreePath run, ps_Branch = run_WorkingBranch run, ps_Candidate = run_CandidateHead run,
      ps_Expected = remote\<rparr>"

definition remote_sha ::
  "'w publish_ports \<Rightarrow> run_row \<Rightarrow> ('w world, push_result option \<times> go_error option, string result) act" where
  "remote_sha p run = perform (outside (pb_RemoteSHA p (run_WorktreePath run) (run_WorkingBranch run)))"

text \<open>The push itself, and the remote read again after it, whatever it returned.\<close>

definition push_remote ::
  "'w publish_ports \<Rightarrow> publish_codec \<Rightarrow> run_row \<Rightarrow> side_effect_row \<Rightarrow> pull_request option \<Rightarrow> string \<Rightarrow> time \<Rightarrow>
     ('w world, push_result option \<times> go_error option, push_result option \<times> go_error option) act" where
  "push_remote p cd run side existing remote now =
     seq (perform (outside (pb_Push p (push_request_of run remote)))) (\<lambda>(evidence, failure).
     seq (remote_sha p run) (\<lambda>again.
     let head = run_CandidateHead run in
     case failure of
       Some e \<Rightarrow>
         (case again of
            Inl _ \<Rightarrow> recordPushFailure cd run side evidence ''push_failed'' e now
          | Inr sha \<Rightarrow>
              (if sha = head then completePush p cd run side existing evidence True now
               else if sha \<noteq> [] then rejectDivergentPush cd run side sha now
               else recordPushFailure cd run side evidence ''push_failed'' e now))
     | None \<Rightarrow>
         (case again of
            Inl e \<Rightarrow> recordPushFailure cd run side evidence ''post_push_reconciliation_failed'' e now
          | Inr sha \<Rightarrow>
              (if sha = head then completePush p cd run side existing evidence False now
               else if sha \<noteq> [] then rejectDivergentPush cd run side sha now
               else recordPushFailure cd run side evidence ''post_push_remote_missing''
                      (New ''remote branch is absent after push'') now))))"

definition zero_evidence :: push_evidence where
  "zero_evidence = \<lparr>pe_RemoteRef = [], pe_SHA = [], pe_ExitCode = 0, pe_StdoutPath = [], pe_StderrPath = []\<rparr>"

text \<open>The remote branch is looked up first: what is there already is adopted, what is not the run's is kept.\<close>

definition push_reconciled ::
  "'w publish_ports \<Rightarrow> publish_codec \<Rightarrow> run_row \<Rightarrow> side_effect_row \<Rightarrow> pull_request option \<Rightarrow> time \<Rightarrow>
     ('w world, push_result option \<times> go_error option, push_result option \<times> go_error option) act" where
  "push_reconciled p cd run side existing now =
     seq (remote_sha p run) (\<lambda>observed.
     let head = run_CandidateHead run in
     case observed of
       Inl e \<Rightarrow> recordPushFailure cd run side zero_evidence ''remote_lookup_failed'' e now
     | Inr remote \<Rightarrow>
         (if remote = head
          then completePush p cd run side existing
                 (zero_evidence\<lparr>pe_RemoteRef := branch_ref run, pe_SHA := head\<rparr>) True now
          else if remote \<noteq> [] \<and> map_option pr_HeadSHA existing \<noteq> Some remote
          then rejectDivergentPush cd run side remote now
          else push_remote p cd run side existing remote now))"

definition push_intent :: "publish_codec \<Rightarrow> run_row \<Rightarrow> side_effect_row" where
  "push_intent cd run =
     zero_side_effect\<lparr>se_RunID := run_ID run, se_Kind := ''push'', se_IdempotencyKey := run_CandidateHead run,
       se_IntentJSON := pj_push cd (branch_ref run) (run_CandidateHead run), se_Attempt := 1\<rparr>"

definition push_under_intent ::
  "'w publish_ports \<Rightarrow> publish_codec \<Rightarrow> run_row \<Rightarrow> time \<Rightarrow>
     ('w world, push_result option \<times> go_error option, push_result option \<times> go_error option) act" where
  "push_under_intent p cd run now =
     seq (attempt stopped_service (on_store (BeginSideEffect (push_intent cd run) now))) (\<lambda>(side, _).
     seq (seq (look (pb_Inspect p (run_ID run))) (the_value stopped_service)) (\<lambda>i.
     case retainedOwnedPullRequest i run of
       Inl _ \<Rightarrow> rejectDivergentPush cd run side [] now
     | Inr existing \<Rightarrow> push_reconciled p cd run side existing now))"

text \<open>The intent is a state of the run as well; the run is read again after that change.\<close>

definition enter_state ::
  "run_row \<Rightarrow> state \<Rightarrow> state \<Rightarrow> string \<Rightarrow> string \<Rightarrow> time \<Rightarrow>
     ('w world, 'r option \<times> go_error option, run_row) act" where
  "enter_state run a b reason evidence now =
     (if run_State run = a
      then seq (check_error stopped_service (on_store (Transition (run_ID run) a b reason evidence (run_CandidateHead run) now))) (\<lambda>_.
           seq (look (GetRun (run_ID run))) (the_value stopped_service))
      else give run)"

definition push_act ::
  "'w publish_ports \<Rightarrow> publish_codec \<Rightarrow> production_command \<Rightarrow> time \<Rightarrow>
     ('w world, push_result option \<times> go_error option, push_result option \<times> go_error option) act" where
  "push_act p cd c now =
     seq (attempt stopped (pb_Revalidate p c)) (\<lambda>run.
     let (action, reason) = productionNextAction (run_State run) in
     seq (unless (action = ProductionPush)
            (Some \<lparr>pu_Action = action, pu_Run = run, pu_RemoteSHA = [], pu_Idempotent = False\<rparr>,
             Some (ServiceErr ErrorConflict reason None))) (\<lambda>_.
     seq (seq (look (pb_ApprovalReady p (run_ID run)))
            (no_error (\<lambda>e. stopped (ServiceErr ErrorConflict
               ''exact-HEAD approval evidence is no longer valid'' (Some e))))) (\<lambda>_.
     seq (enter_state run StateApprovalReady StatePushingBranch ''persist push intent'' ''verified candidate branch'' now) (\<lambda>run.
     push_under_intent p cd run now))))"

definition Push ::
  "'w publish_ports \<Rightarrow> publish_codec \<Rightarrow> production_command \<Rightarrow> time \<Rightarrow> 'w world \<Rightarrow>
     (push_result option \<times> go_error option) \<times> 'w world" where
  "Push p cd c now x =
     (case run_method (push_act p cd c now) x of
        (out, y) \<Rightarrow> publish_manual (pb_Inspect p) (pb_manual_event p) (pb_Append p) (pc_RunID c) out y)"

section \<open>What a push keeps\<close>

text \<open>What the remote branch must be for a push: absent, or the head of the open pull request of the run.\<close>

definition push_allowed :: "'w publish_ports \<Rightarrow> run_row \<Rightarrow> inspection \<Rightarrow> string \<Rightarrow> bool" where
  "push_allowed p run i remote \<longleftrightarrow>
     (\<exists>existing w. retainedOwnedPullRequest i run = Inr existing \<and>
        fst (pb_RemoteSHA p (run_WorktreePath run) (run_WorkingBranch run) w) = Inr remote \<and>
        remote \<noteq> run_CandidateHead run \<and> (remote = [] \<or> map_option pr_HeadSHA existing = Some remote))"

text \<open>The runs a call may push: admitted, in the state of the push, with its local evidence ready; a run that is
  only ready enters that state first and is read again.\<close>

definition pushable :: "'w publish_ports \<Rightarrow> production_command \<Rightarrow> time \<Rightarrow> 'w world \<Rightarrow> run_row \<Rightarrow> bool" where
  "pushable p c now x run \<longleftrightarrow>
     (\<exists>run0 x1. pb_Revalidate p c x = (Inr run0, x1) \<and> pb_ApprovalReady p (run_ID run0) x1 = None \<and>
        (run_State run0 = StatePushingBranch \<and> run = run0 \<or>
         run_State run0 = StateApprovalReady \<and>
         GetRun (run_ID run0) (snd (on_store (Transition (run_ID run0) StateApprovalReady StatePushingBranch
           ''persist push intent'' ''verified candidate branch'' (run_CandidateHead run0) now) x1)) = Inr run))"

text \<open>A property \<open>Q\<close> of the world that every step keeps, which holds where \<open>P\<close> does; \<open>P\<close> is kept until the push.
  \<open>V\<close> are the runs a call may publish.\<close>

locale push_observer =
  fixes P Q :: "'w world \<Rightarrow> bool" and V :: "run_row \<Rightarrow> bool" and rid :: string and p :: "'w publish_ports"
  assumes start: "P x \<Longrightarrow> Q x"
    and on_enter: "P x \<Longrightarrow>
      P (snd (on_store (Transition rid StateApprovalReady StatePushingBranch reason ev head now) x))"
    and on_begin: "P x \<Longrightarrow> P (snd (on_store (BeginSideEffect q now) x))"
    and on_look: "P x \<Longrightarrow> P (snd (outside (pb_RemoteSHA p wt br) x))"
    and on_look_again: "Q x \<Longrightarrow> Q (snd (outside (pb_RemoteSHA p wt br) x))"
    and on_finish: "Q x \<Longrightarrow> Q (snd (on_store (FinishSideEffect q) x))"
    and on_error: "Q x \<Longrightarrow> Q (snd (on_store (SetLastError j msg now) x))"
    and on_resource: "Q x \<Longrightarrow> Q (snd (on_store (AddOwnedResource res) x))"
    and on_pull_request: "Q x \<Longrightarrow> Q (snd (outside (pb_SavePullRequest p j pr) x))"
    and on_diverged: "V run \<Longrightarrow> Q x \<Longrightarrow>
      Q (snd (on_store (Transition (run_ID run) StatePushingBranch StateManualIntervention reason ev head now) x))"
    and on_published: "V run \<Longrightarrow>
      fst (pb_RemoteSHA p (run_WorktreePath run) (run_WorkingBranch run) w) = Inr (run_CandidateHead run) \<Longrightarrow> Q x \<Longrightarrow>
      Q (snd (on_store (Transition (run_ID run) StatePushingBranch StateBranchPushed reason ev head now) x))"
    and on_push: "V run \<Longrightarrow> P x \<Longrightarrow> has_intent (run_ID run) ''push'' (run_CandidateHead run) (wd_store x) \<Longrightarrow>
      push_allowed p run i remote \<Longrightarrow> Q (snd (outside (pb_Push p (push_request_of run remote)) x))"
begin

lemmas keep_steps = on_finish on_error on_resource on_pull_request

lemma keep_finish_effect: "keeps_act Q (finish_effect side finished)"
  unfolding finish_effect_def by (auto intro!: keep_rules keep_steps)

lemma keep_divergent: "V run \<Longrightarrow> keeps_act Q (rejectDivergentPush cd run side remote now)"
  unfolding rejectDivergentPush_def by (intro keep_rules keep_finish_effect keep_steps on_diverged; assumption)

lemma keep_failure: "keeps_act Q (recordPushFailure cd run side evidence category cause now)"
  unfolding recordPushFailure_def by (intro keep_rules keep_finish_effect keep_steps; assumption)

lemma keep_complete:
  assumes "V run" and "fst (pb_RemoteSHA p (run_WorktreePath run) (run_WorkingBranch run) w) = Inr (run_CandidateHead run)"
  shows "keeps_act Q (completePush p cd run side existing evidence idempotent now)"
  unfolding completePush_def Let_def
  by (auto intro!: keep_rules keep_failure keep_finish_effect keep_steps on_published assms split: option.split)

lemma push_remote_wp:
  assumes "V run" and "P x" and "has_intent (run_ID run) ''push'' (run_CandidateHead run) (wd_store x)"
    and "push_allowed p run i remote"
  shows "wp (push_remote p cd run side existing remote now) (\<lambda>_. Q) (\<lambda>_. Q) x"
proof -
  let ?y = "snd (outside (pb_Push p (push_request_of run remote)) x)"
  let ?z = "snd (outside (pb_RemoteSHA p (run_WorktreePath run) (run_WorkingBranch run)) ?y)"
  have q: "Q ?z" by (rule on_look_again [OF on_push [OF assms]])
  note ends = wp_keeps [OF keep_failure q] wp_keeps [OF keep_divergent [OF assms(1)] q]
    wp_keeps [OF keep_complete [OF assms(1)] q]
  show ?thesis
    unfolding push_remote_def remote_sha_def Let_def
    by (auto simp: wp_simps intro!: ends split: prod.split option.split sum.split)
qed

lemma push_reconciled_wp:
  assumes "V run" and "P x" and "has_intent (run_ID run) ''push'' (run_CandidateHead run) (wd_store x)"
    and "retainedOwnedPullRequest i run = Inr existing"
  shows "wp (push_reconciled p cd run side existing now) (\<lambda>_. Q) (\<lambda>_. Q) x"
proof -
  let ?read = "pb_RemoteSHA p (run_WorktreePath run) (run_WorkingBranch run)"
  let ?y = "snd (outside ?read x)"
  have y: "P ?y" "has_intent (run_ID run) ''push'' (run_CandidateHead run) (wd_store ?y)"
    using on_look [OF assms(2)] assms(3) by simp_all
  note q = start [OF y(1)]
  show ?thesis
  proof (cases "fst (?read (wd_outside x))")
    case (Inl e)
    then show ?thesis
      using wp_keeps [OF keep_failure q] by (simp add: push_reconciled_def remote_sha_def wp_simps)
  next
    case (Inr remote)
    note read = this
    show ?thesis
    proof (cases "remote = run_CandidateHead run")
      case True
      with read have "fst (?read (wd_outside x)) = Inr (run_CandidateHead run)" by simp
      with wp_keeps [OF keep_complete [OF assms(1) this] q] show ?thesis
        by (simp add: push_reconciled_def remote_sha_def wp_simps)
    next
      case False
      have "wp (push_remote p cd run side existing remote now) (\<lambda>_. Q) (\<lambda>_. Q) ?y"
        if "remote = [] \<or> map_option pr_HeadSHA existing = Some remote"
        by (rule push_remote_wp [OF assms(1) y, where i = i])
          (use assms(4) read False that in \<open>auto simp: push_allowed_def\<close>)
      with wp_keeps [OF keep_divergent [OF assms(1)] q] read False show ?thesis
        by (auto simp: push_reconciled_def remote_sha_def wp_simps)
    qed
  qed
qed

lemma push_under_intent_wp:
  assumes "V run" and "P x"
  shows "wp (push_under_intent p cd run now) (\<lambda>_. Q) (\<lambda>_. Q) x"
proof -
  let ?x1 = "snd (on_store (BeginSideEffect (push_intent cd run) now) x)"
  have p1: "P ?x1" by (rule on_begin [OF assms(2)])
  have intent: "has_intent (run_ID run) ''push'' (run_CandidateHead run) (wd_store ?x1)"
    if "fst (BeginSideEffect (push_intent cd run) now (wd_store x)) = Inr (side, fresh)" for side fresh
    using BeginSideEffect_intent(1) [of "push_intent cd run" now "wd_store x" side fresh] that
    by (cases "BeginSideEffect (push_intent cd run) now (wd_store x)") (simp add: push_intent_def)
  note reconciled = push_reconciled_wp [OF assms(1) p1 intent]
  have divergent: "wp (rejectDivergentPush cd run side remote now) (\<lambda>_. Q) (\<lambda>_. Q) ?x1" for side remote
    using keep_divergent [OF assms(1)] start [OF p1] by (rule wp_keeps)
  show ?thesis
    unfolding push_under_intent_def
    by (auto simp: wp_simps start [OF p1] divergent intro: reconciled split: sum.split)
qed

lemma push_act_wp:
  assumes r: "pb_Revalidate p c x = (res, x1)" and "P x1" and id: "\<And>run. res = Inr run \<Longrightarrow> run_ID run = rid"
    and v: "\<And>run. pushable p c now x run \<Longrightarrow> V run"
  shows "wp (push_act p cd c now) (\<lambda>_. Q) (\<lambda>_. Q) x"
proof (cases res)
  case (Inl e)
  with r start [OF assms(2)] show ?thesis by (simp add: push_act_def wp_simps)
next
  case (Inr run)
  obtain action reason where a: "productionNextAction (run_State run) = (action, reason)" by fastforce
  let ?enter = "Transition (run_ID run) StateApprovalReady StatePushingBranch ''persist push intent''
      ''verified candidate branch'' (run_CandidateHead run) now"
  have p2: "P (snd (on_store ?enter x1))" using on_enter [OF assms(2)] id [OF Inr] by simp
  have state: "run_State run = StateApprovalReady \<or> run_State run = StatePushingBranch" if "action = ProductionPush"
    using a that by (cases "run_State run") simp_all
  have entered: "wp (push_under_intent p cd again now) (\<lambda>_. Q) (\<lambda>_. Q) (snd (on_store ?enter x1))"
    if "pb_ApprovalReady p (run_ID run) x1 = None" "run_State run = StateApprovalReady"
      "GetRun (run_ID run) (snd (on_store ?enter x1)) = Inr again" for again
    by (rule push_under_intent_wp [OF v p2]) (use that r Inr in \<open>simp add: pushable_def\<close>)
  have entered_before: "wp (push_under_intent p cd run now) (\<lambda>_. Q) (\<lambda>_. Q) x1"
    if "pb_ApprovalReady p (run_ID run) x1 = None" "run_State run = StatePushingBranch"
    by (rule push_under_intent_wp [OF v assms(2)]) (use that r Inr in \<open>simp add: pushable_def\<close>)
  show ?thesis
    unfolding push_act_def enter_state_def
    using state by (auto simp: wp_simps r Inr a start [OF assms(2)] start [OF p2] entered entered_before
        simp del: productionNextAction.simps split: option.split sum.split)
qed

end

section \<open>What a push requires\<close>

text \<open>Calls that reach outside are logged by ports that behave as the given ones do.\<close>

datatype publish_call = Pushed push_request | Opened open_request

definition logged_publish :: "'w publish_ports \<Rightarrow> ('w \<times> publish_call list) publish_ports" where
  "logged_publish p =
     \<lparr>pb_Revalidate = (\<lambda>c x. case pb_Revalidate p c (plain x) of (r, y) \<Rightarrow> (r, with_log (snd (wd_outside x)) y)),
      pb_ApprovalReady = (\<lambda>i x. pb_ApprovalReady p i (plain x)), pb_Inspect = (\<lambda>i x. pb_Inspect p i (plain x)),
      pb_RemoteSHA = (\<lambda>wt br. unlogged (pb_RemoteSHA p wt br)),
      pb_Push = (\<lambda>q w. (fst (pb_Push p q (fst w)), (snd (pb_Push p q (fst w)), Pushed q # snd w))),
      pb_Open = (\<lambda>q w. (fst (pb_Open p q (fst w)), (snd (pb_Open p q (fst w)), Opened q # snd w))),
      pb_SavePullRequest = (\<lambda>i pr. unlogged (pb_SavePullRequest p i pr)), pb_Nonce = pb_Nonce p,
      pb_OwnershipMode = pb_OwnershipMode p, pb_Task = pb_Task p, pb_ReviewModel = pb_ReviewModel p,
      pb_manual_event = pb_manual_event p, pb_Append = (\<lambda>ae. unlogged (pb_Append p ae))\<rparr>"

abbreviation publish_log :: "('w \<times> publish_call list) world \<Rightarrow> publish_call list" where
  "publish_log x \<equiv> snd (wd_outside x)"

lemma push_allowed_logged [simp]: "push_allowed (logged_publish p) run i remote = push_allowed p run i remote"
  by (auto simp: push_allowed_def logged_publish_def)

lemma pushable_logged [simp]: "pushable (logged_publish p) c now (with_log l x) run = pushable p c now x run"
  by (auto simp: pushable_def logged_publish_def GetRun_def split: prod.splits)

definition pushed_once :: "(run_row \<Rightarrow> bool) \<Rightarrow> 'w publish_ports \<Rightarrow> ('w \<times> publish_call list) world \<Rightarrow> bool" where
  "pushed_once V p y \<longleftrightarrow>
     publish_log y = [] \<or>
     (\<exists>run i remote. V run \<and> publish_log y = [Pushed (push_request_of run remote)] \<and>
        has_intent (run_ID run) ''push'' (run_CandidateHead run) (wd_store y) \<and> push_allowed p run i remote)"

lemma pushed_once_same:
  "pushed_once V p x \<Longrightarrow> publish_log y = publish_log x \<Longrightarrow>
     (\<And>i k h. has_intent i k h (wd_store y) = has_intent i k h (wd_store x)) \<Longrightarrow> pushed_once V p y"
  by (simp add: pushed_once_def)

lemma has_intent_resource [simp]: "has_intent i k h (snd (AddOwnedResource q s)) = has_intent i k h s"
  by (simp add: has_intent_set AddOwnedResource_def split: option.split)

interpretation push_log: push_observer "\<lambda>y. publish_log y = []" "pushed_once V p" V rid "logged_publish p" for V rid p
proof unfold_locales
  fix run i remote and x :: "('a \<times> publish_call list) world"
  let ?y = "snd (outside (pb_Push (logged_publish p) (push_request_of run remote)) x)"
  assume v: "V run" "publish_log x = []" "has_intent (run_ID run) ''push'' (run_CandidateHead run) (wd_store x)"
    "push_allowed (logged_publish p) run i remote"
  have "publish_log ?y = Pushed (push_request_of run remote) # publish_log x" by (simp add: logged_publish_def)
  moreover have "push_allowed p run i remote" using v(4) by simp
  ultimately show "pushed_once V p ?y" using v(1,2,3) unfolding pushed_once_def by auto
qed (auto simp: pushed_once_def [where y = x for x] logged_publish_def elim!: pushed_once_same)

lemma publish_manual_log [simp]:
  "publish_log (snd (publish_manual (pb_Inspect (logged_publish p)) event (pb_Append (logged_publish p)) i out x)) = publish_log x"
  by (auto simp: publish_manual_def Let_def logged_publish_def outside_def unlogged_def split: sum.split option.split prod.split)


section \<open>Where a push leaves a run\<close>

text \<open>A stage takes a run from \<open>a\<close> over \<open>via\<close> to \<open>b\<close>: the run \<open>i\<close> waits in the stage, has stopped, or is through,
  if \<open>published\<close>; no other run has moved.\<close>

definition stage_moved :: "state \<Rightarrow> state \<Rightarrow> state \<Rightarrow> store \<Rightarrow> string \<Rightarrow> bool \<Rightarrow> store \<Rightarrow> bool" where
  "stage_moved a via b s0 i published s \<longleftrightarrow>
     runs_of s = runs_of s0 \<or>
     (\<exists>c. (runs_of s0 i = Some a \<or> runs_of s0 i = Some via) \<and> runs_of s = (runs_of s0)(i \<mapsto> c) \<and>
        (c = via \<or> c = StateManualIntervention \<or> c = b \<and> published))"

lemma stage_moved_same: "stage_moved a via b s0 i published s \<Longrightarrow> runs_of t = runs_of s \<Longrightarrow> stage_moved a via b s0 i published t"
  by (simp add: stage_moved_def)

lemma stage_moved_transition:
  assumes "stage_moved a via b s0 i published s" and "c = a \<or> c = via"
    and "d = via \<or> d = StateManualIntervention \<or> d = b \<and> published"
    and "StateManualIntervention \<notin> {a, via}" and "b \<notin> {a, via}"
  shows "stage_moved a via b s0 i published (snd (Transition i c d reason ev head now s))"
proof -
  obtain res t where t: "Transition i c d reason ev head now s = (res, t)" by fastforce
  then show ?thesis
  proof (cases rule: Transition_result)
    case 3
    have "runs_of s0 i = Some a \<or> runs_of s0 i = Some via"
      using assms(1,2,4,5) 3(2) by (auto simp: stage_moved_def)
    moreover have "runs_of t = (runs_of s0)(i \<mapsto> d)"
      using assms(1) 3(3) by (auto simp: stage_moved_def)
    ultimately show ?thesis using assms(3) unfolding stage_moved_def t by auto
  qed (use assms(1) t in simp_all)
qed

lemma runs_of_resource [simp]: "runs_of (snd (AddOwnedResource q s)) = runs_of s"
  by (rule runs_of_same) (simp add: AddOwnedResource_def split: option.split)

text \<open>The remote branch of a run was read as the candidate of the run.\<close>

definition candidate_observed :: "'w publish_ports \<Rightarrow> run_row \<Rightarrow> bool" where
  "candidate_observed p run \<longleftrightarrow>
     (\<exists>w. fst (pb_RemoteSHA p (run_WorktreePath run) (run_WorkingBranch run) w) = Inr (run_CandidateHead run))"

lemma push_observer_moves:
  fixes p :: "'w publish_ports" and s0 :: store and rid :: string and V :: "run_row \<Rightarrow> bool"
  assumes "\<And>run. V run \<Longrightarrow> run_ID run = rid"
  defines "R \<equiv> \<lambda>y :: 'w world. stage_moved StateApprovalReady StatePushingBranch StateBranchPushed s0 rid (\<exists>run. V run \<and> candidate_observed p run) (wd_store y)"
  shows "push_observer R R V rid p"
proof unfold_locales
  fix run w and x :: "'w world" and reason ev head now
  assume "V run" and w: "fst (pb_RemoteSHA p (run_WorktreePath run) (run_WorkingBranch run) w) = Inr (run_CandidateHead run)"
    and "R x"
  have "\<exists>run. V run \<and> candidate_observed p run" using \<open>V run\<close> w unfolding candidate_observed_def by blast
  with \<open>R x\<close> assms(1) [OF \<open>V run\<close>]
  show "R (snd (on_store (Transition (run_ID run) StatePushingBranch StateBranchPushed reason ev head now) x))"
    unfolding R_def by (auto intro!: stage_moved_transition)
next
  fix run and x :: "'w world" and reason ev head now
  assume "V run" and "R x"
  with assms(1) [OF \<open>V run\<close>]
  show "R (snd (on_store (Transition (run_ID run) StatePushingBranch StateManualIntervention reason ev head now) x))"
    unfolding R_def by (auto intro!: stage_moved_transition)
next
  fix x :: "'w world" and reason ev head now
  assume "R x"
  then show "R (snd (on_store (Transition rid StateApprovalReady StatePushingBranch reason ev head now) x))"
    unfolding R_def by (auto intro!: stage_moved_transition)
qed (auto simp: R_def elim!: stage_moved_same)

text \<open>C12: A call of \<open>Push\<close> moves at most the run it was admitted for, from the states before and in the push;
  it calls it published only when git, asked for the remote branch, answered with exactly the run's candidate.
  All ports are arbitrary.\<close>

theorem push_settles:
  "let (res, x1) = pb_Revalidate p c x; y = snd (Push p cd c now x) in
     case res of Inl _ \<Rightarrow> runs_of (wd_store y) = runs_of (wd_store x1)
     | Inr run0 \<Rightarrow> stage_moved StateApprovalReady StatePushingBranch StateBranchPushed (wd_store x1) (run_ID run0)
         (\<exists>run. pushable p c now x run \<and> run_ID run = run_ID run0 \<and> candidate_observed p run) (wd_store y)"
proof -
  obtain res x1 where r: "pb_Revalidate p c x = (res, x1)" by fastforce
  have store: "wd_store (snd (Push p cd c now x)) = wd_store (snd (run_method (push_act p cd c now) x))"
    by (simp add: Push_def case_prod_beta)
  show ?thesis
  proof (cases res)
    case (Inl e)
    then have "run_method (push_act p cd c now) x = (stopped e, x1)"
      by (simp add: run_method_def push_act_def seq_def attempt_def perform_def the_value_def r)
    with r Inl store show ?thesis by simp
  next
    case (Inr run0)
    let ?V = "\<lambda>run. pushable p c now x run \<and> run_ID run = run_ID run0"
    define published where "published \<longleftrightarrow> (\<exists>run. ?V run \<and> candidate_observed p run)"
    have id: "run_ID run = run_ID run0" if "pushable p c now x run" for run
      using that r Inr by (auto simp: pushable_def GetRun_def dest: find_run_Some split: option.splits)
    note observer = push_observer_moves [of ?V "run_ID run0" "wd_store x1" p, folded published_def]
    have "wp (push_act p cd c now) (\<lambda>_ y. stage_moved StateApprovalReady StatePushingBranch StateBranchPushed (wd_store x1) (run_ID run0) published (wd_store y))
        (\<lambda>_ y. stage_moved StateApprovalReady StatePushingBranch StateBranchPushed (wd_store x1) (run_ID run0) published (wd_store y)) x"
      by (rule push_observer.push_act_wp [OF observer r]) (use Inr id in \<open>auto simp: stage_moved_def\<close>)
    from method_wp_snd [OF this] r Inr store show ?thesis by (simp add: published_def)
  qed
qed

end
