(* ===== verification/Pull_Request.thy ===== *)
theory Pull_Request
  imports Publish
begin

text \<open>
  Opening the pull request: \<open>OpenPullRequest\<close> of \<open>application/pull_request.go\<close>. Its one write creates or adopts a
  pull request for an immutable intent; the run moves on only when what was observed is that pull request.
\<close>

section \<open>The intent\<close>

definition OpenRequest_Validate :: "open_request \<Rightarrow> go_error option" where
  "OpenRequest_Validate r =
     (if blank (or_Title r) \<or> blank (or_CandidateSHA r) \<or> blank (or_BaseSHA r) \<or> blank (or_Body r) \<or>
         blank (or_BodyDigest r) \<or> blank (or_OwnershipKey r)
      then Some (New ''complete pull request intent is required'')
      else case ValidateGitBranch (or_HeadBranch r) of Some e \<Rightarrow> Some e
      | None \<Rightarrow>
     (case ValidateGitBranch (or_BaseBranch r) of Some e \<Rightarrow> Some e
      | None \<Rightarrow>
          (if or_BodyDigest r \<noteq> sha256_hex (or_Body r)
           then Some (New ''pull request body digest does not match body'') else None)))"

definition pullRequestIntent :: "'w publish_ports \<Rightarrow> run_row \<Rightarrow> open_request result" where
  "pullRequestIntent p run =
     (case pb_Task p run of
        Inl e \<Rightarrow> Inl e
      | Inr task \<Rightarrow>
     (case CodingTask_Validate task of
        Some e \<Rightarrow> Inl e
      | None \<Rightarrow>
     (case PRBody task (''Controller verification passed for exact candidate '' @ run_CandidateHead run @ ''.'')
             (''Fresh '' @ pb_ReviewModel p run @ '' review passed for exact candidate '' @ run_CandidateHead run @ ''.'')
             (run_IdempotencyKey run) of
        Inl e \<Rightarrow> Inl e
      | Inr body \<Rightarrow>
          (let r = \<lparr>or_Title = task_IssueID task @ '': '' @ task_Title task, or_HeadBranch = run_WorkingBranch run,
                 or_BaseBranch = run_BaseBranch run, or_CandidateSHA = run_CandidateHead run,
                 or_BaseSHA = run_BaseSHA run, or_Body = body, or_BodyDigest = sha256_hex body,
                 or_OwnershipKey = run_IdempotencyKey run\<rparr>
           in case OpenRequest_Validate r of Some e \<Rightarrow> Inl e | None \<Rightarrow> Inr r))))"

definition pull_request_unusable :: "pull_request \<Rightarrow> bool" where
  "pull_request_unusable pr \<longleftrightarrow>
     pr_DatabaseID pr < 1 \<or> blank (pr_URL pr) \<or> \<not> equal_fold (pr_State pr) ''open'' \<or> pr_Merged pr"

definition validateRetainedOwnedPullRequest :: "pull_request \<Rightarrow> run_row \<Rightarrow> go_error option" where
  "validateRetainedOwnedPullRequest pr run =
     (if pull_request_unusable pr then Some (New ''persisted pull request is incomplete or not open'')
      else case ValidateOwnership pr (run_WorkingBranch run) (run_BaseBranch run) (run_CandidateHead run)
                  (run_IdempotencyKey run) of
        Some e \<Rightarrow> Some e
      | None \<Rightarrow>
          (if pr_BaseSHA pr \<noteq> run_BaseSHA run
           then Some (New ''persisted pull request base SHA does not match the run'') else None))"

definition validateOpenedPullRequest :: "pull_request \<Rightarrow> open_request \<Rightarrow> go_error option" where
  "validateOpenedPullRequest pr r =
     (case OpenRequest_Validate r of
        Some e \<Rightarrow> Some e
      | None \<Rightarrow>
          (if pull_request_unusable pr then Some (New ''pull request response is incomplete or not open'')
           else case ValidateOwnership pr (or_HeadBranch r) (or_BaseBranch r) (or_CandidateSHA r) (or_OwnershipKey r) of
             Some e \<Rightarrow> Some e
           | None \<Rightarrow>
               (if pr_BaseSHA pr \<noteq> or_BaseSHA r \<or> pr_BodyDigest pr \<noteq> or_BodyDigest r
                then Some (New ''pull request response does not match immutable intent'') else None)))"

section \<open>OpenPullRequest\<close>

definition fail_open ::
  "side_effect_row \<Rightarrow> string \<Rightarrow> time \<Rightarrow> ('w world, 'r option \<times> go_error option, unit) act" where
  "fail_open side category now =
     finish_effect side (side\<lparr>se_Status := ''failed'', se_ResultJSON := json_category category, se_ObservedAt := now\<rparr>)"

definition recordPullRequestFailure ::
  "run_row \<Rightarrow> side_effect_row \<Rightarrow> string \<Rightarrow> go_error \<Rightarrow> time \<Rightarrow>
     ('w world, open_result option \<times> go_error option, open_result option \<times> go_error option) act" where
  "recordPullRequestFailure run side category cause now =
     seq (fail_open side category now) (\<lambda>_.
     seq (perform (on_store (SetLastError (run_ID run) ''pull request creation requires reconciliation before retry'' now))) (\<lambda>_.
     return_with (stopped (ServiceErr ErrorUnavailable
       ''pull request was not observed; retry must reconcile immutable intent'' (Some cause)))))"

definition rejectPullRequestConflict ::
  "run_row \<Rightarrow> side_effect_row \<Rightarrow> string \<Rightarrow> go_error \<Rightarrow> time \<Rightarrow>
     ('w world, open_result option \<times> go_error option, open_result option \<times> go_error option) act" where
  "rejectPullRequestConflict run side category cause now =
     seq (fail_open side category now) (\<lambda>_.
     seq (perform (on_store (SetLastError (run_ID run) ''pull request evidence conflicts with immutable intent'' now))) (\<lambda>_.
     seq (check_error stopped_service (on_store (Transition (run_ID run) StateOpeningPR StateManualIntervention
            ''pull request evidence conflict'' ''open_pull_request'' (run_CandidateHead run) now))) (\<lambda>_.
     return_with (stopped (ServiceErr ErrorConflict
       ''pull request evidence conflicts with immutable intent'' (Some cause))))))"

definition completePullRequest ::
  "'w publish_ports \<Rightarrow> publish_codec \<Rightarrow> run_row \<Rightarrow> side_effect_row \<Rightarrow> pull_request \<Rightarrow> bool \<Rightarrow> time \<Rightarrow>
     ('w world, open_result option \<times> go_error option, open_result option \<times> go_error option) act" where
  "completePullRequest p cd run side pr idempotent now =
     seq (perform (outside (pb_SavePullRequest p (run_ID run) pr))) (\<lambda>err.
     case err of
       Some e \<Rightarrow> recordPullRequestFailure run side ''persist_pull_request_failed'' e now
     | None \<Rightarrow>
     seq (finish_effect side (side\<lparr>se_Status := ''observed'', se_ResultJSON := pj_opened cd pr, se_ObservedAt := now\<rparr>)) (\<lambda>_.
     seq (check_error stopped_service (on_store (AddOwnedResource
            \<lparr>res_Kind = ''pull_request'', res_Name = dec_int (pr_Number pr), res_RunID = run_ID run,
             res_CreationEvidence = ''open_pull_request:'' @ dec_int (se_ID side), res_Status = ''owned''\<rparr>))) (\<lambda>_.
     seq (check_error stopped_service (on_store (Transition (run_ID run) StateOpeningPR StatePROpen
            ''owned pull request observed'' (dec_int (pr_Number pr)) (run_CandidateHead run) now))) (\<lambda>_.
     seq (seq (look (GetRun (run_ID run))) (the_value stopped_service)) (\<lambda>next_run.
     give (Some \<lparr>op_Action = ProductionReconcileGitHub, op_Run = next_run, op_PullRequest = pr_Number pr,
             op_Idempotent = idempotent\<rparr>, None))))))"

definition open_intent :: "publish_codec \<Rightarrow> run_row \<Rightarrow> open_request \<Rightarrow> side_effect_row" where
  "open_intent cd run r =
     zero_side_effect\<lparr>se_RunID := run_ID run, se_Kind := ''open_pull_request'', se_IdempotencyKey := run_CandidateHead run,
       se_IntentJSON := pj_open cd run r, se_Attempt := 1\<rparr>"

definition open_new ::
  "'w publish_ports \<Rightarrow> publish_codec \<Rightarrow> run_row \<Rightarrow> side_effect_row \<Rightarrow> open_request \<Rightarrow> time \<Rightarrow>
     ('w world, open_result option \<times> go_error option, open_result option \<times> go_error option) act" where
  "open_new p cd run side r now =
     seq (perform (outside (pb_Open p r))) (\<lambda>opened.
     case opened of
       Inl e \<Rightarrow> recordPullRequestFailure run side ''open_or_adopt_failed'' e now
     | Inr pr \<Rightarrow>
     (case validateOpenedPullRequest pr r of
        Some e \<Rightarrow> rejectPullRequestConflict run side ''pull_request_mismatch'' e now
      | None \<Rightarrow> completePullRequest p cd run side pr False now))"

definition open_under_intent ::
  "'w publish_ports \<Rightarrow> publish_codec \<Rightarrow> run_row \<Rightarrow> open_request \<Rightarrow> time \<Rightarrow>
     ('w world, open_result option \<times> go_error option, open_result option \<times> go_error option) act" where
  "open_under_intent p cd run r now =
     seq (attempt stopped_service (on_store (BeginSideEffect (open_intent cd run r) now))) (\<lambda>(side, _).
     seq (seq (look (pb_Inspect p (run_ID run))) (the_value stopped_service)) (\<lambda>i.
     case in_PullRequest i of
       Some pr \<Rightarrow>
         (case validateRetainedOwnedPullRequest pr run of
            Some e \<Rightarrow> rejectPullRequestConflict run side ''persisted_pull_request_mismatch'' e now
          | None \<Rightarrow> completePullRequest p cd run side pr True now)
     | None \<Rightarrow> open_new p cd run side r now))"

definition open_act ::
  "'w publish_ports \<Rightarrow> publish_codec \<Rightarrow> production_command \<Rightarrow> time \<Rightarrow>
     ('w world, open_result option \<times> go_error option, open_result option \<times> go_error option) act" where
  "open_act p cd c now =
     seq (attempt stopped (pb_Revalidate p c)) (\<lambda>run.
     let (action, reason) = productionNextAction (run_State run) in
     seq (unless (action = ProductionOpenPullRequest)
            (Some \<lparr>op_Action = action, op_Run = run, op_PullRequest = 0, op_Idempotent = False\<rparr>,
             Some (ServiceErr ErrorConflict reason None))) (\<lambda>_.
     seq (seq (look (pb_ApprovalReady p (run_ID run)))
            (no_error (\<lambda>e. stopped (ServiceErr ErrorConflict
               ''exact-HEAD approval evidence is no longer valid'' (Some e))))) (\<lambda>_.
     seq (the_value (\<lambda>e. stopped (ServiceErr ErrorInternal ''build immutable pull request intent'' (Some e)))
            (pullRequestIntent p run)) (\<lambda>r.
     seq (enter_state run StateBranchPushed StateOpeningPR ''persist pull request intent'' ''exact pushed candidate'' now) (\<lambda>run.
     open_under_intent p cd run r now)))))"

definition OpenPullRequest ::
  "'w publish_ports \<Rightarrow> publish_codec \<Rightarrow> production_command \<Rightarrow> time \<Rightarrow> 'w world \<Rightarrow>
     (open_result option \<times> go_error option) \<times> 'w world" where
  "OpenPullRequest p cd c now x =
     (case run_method (open_act p cd c now) x of
        (out, y) \<Rightarrow> publish_manual (pb_Inspect p) (pb_manual_event p) (pb_Append p) (pc_RunID c) out y)"

section \<open>What opening requires\<close>

text \<open>The run a call works on, and the intent it built for it: from the admitted row, before the run is read
  again.\<close>

definition openable :: "'w publish_ports \<Rightarrow> production_command \<Rightarrow> time \<Rightarrow> 'w world \<Rightarrow> run_row \<Rightarrow> open_request \<Rightarrow> bool" where
  "openable p c now x run r \<longleftrightarrow>
     (\<exists>run0 x1. pb_Revalidate p c x = (Inr run0, x1) \<and> pb_ApprovalReady p (run_ID run0) x1 = None \<and>
        pullRequestIntent p run0 = Inr r \<and>
        (run_State run0 = StateOpeningPR \<and> run = run0 \<or>
         run_State run0 = StateBranchPushed \<and>
         GetRun (run_ID run0) (snd (on_store (Transition (run_ID run0) StateBranchPushed StateOpeningPR
           ''persist pull request intent'' ''exact pushed candidate'' (run_CandidateHead run0) now) x1)) = Inr run))"

text \<open>The pull request a run may end with: the one stored for it, or the answer to its intent, each checked.\<close>

definition own_pull_request :: "'w publish_ports \<Rightarrow> run_row \<Rightarrow> open_request \<Rightarrow> pull_request \<Rightarrow> bool" where
  "own_pull_request p run r pr \<longleftrightarrow>
     (\<exists>i z. pb_Inspect p (run_ID run) z = Inr i \<and> in_PullRequest i = Some pr \<and>
        validateRetainedOwnedPullRequest pr run = None) \<or>
     (\<exists>w. fst (pb_Open p r w) = Inr pr \<and> validateOpenedPullRequest pr r = None)"

locale open_observer =
  fixes P Q :: "'w world \<Rightarrow> bool" and V :: "run_row \<Rightarrow> open_request \<Rightarrow> bool" and rid :: string and p :: "'w publish_ports"
  assumes start: "P x \<Longrightarrow> Q x"
    and on_enter: "P x \<Longrightarrow> P (snd (on_store (Transition rid StateBranchPushed StateOpeningPR reason ev head now) x))"
    and on_begin: "P x \<Longrightarrow> P (snd (on_store (BeginSideEffect q now) x))"
    and on_finish: "Q x \<Longrightarrow> Q (snd (on_store (FinishSideEffect q) x))"
    and on_error: "Q x \<Longrightarrow> Q (snd (on_store (SetLastError j msg now) x))"
    and on_resource: "Q x \<Longrightarrow> Q (snd (on_store (AddOwnedResource res) x))"
    and on_pull_request: "Q x \<Longrightarrow> Q (snd (outside (pb_SavePullRequest p j pr) x))"
    and on_conflict: "V run r \<Longrightarrow> Q x \<Longrightarrow>
      Q (snd (on_store (Transition (run_ID run) StateOpeningPR StateManualIntervention reason ev head now) x))"
    and on_observed: "V run r \<Longrightarrow> own_pull_request p run r pr \<Longrightarrow> Q x \<Longrightarrow>
      Q (snd (on_store (Transition (run_ID run) StateOpeningPR StatePROpen reason ev head now) x))"
    and on_open: "V run r \<Longrightarrow> P x \<Longrightarrow> has_intent (run_ID run) ''open_pull_request'' (run_CandidateHead run) (wd_store x) \<Longrightarrow>
      pb_Inspect p (run_ID run) x = Inr i \<Longrightarrow> in_PullRequest i = None \<Longrightarrow> Q (snd (outside (pb_Open p r) x))"
begin

lemmas keep_steps = on_finish on_error on_resource on_pull_request

lemma keep_finish_effect: "keeps_act Q (finish_effect side finished)"
  unfolding finish_effect_def by (auto intro!: keep_rules keep_steps)

lemma keep_fail_open: "keeps_act Q (fail_open side category now)"
  unfolding fail_open_def by (rule keep_finish_effect)

lemma keep_conflict: "V run r \<Longrightarrow> keeps_act Q (rejectPullRequestConflict run side category cause now)"
  unfolding rejectPullRequestConflict_def by (intro keep_rules keep_fail_open keep_steps on_conflict; assumption)

lemma keep_failure: "keeps_act Q (recordPullRequestFailure run side category cause now)"
  unfolding recordPullRequestFailure_def by (intro keep_rules keep_fail_open keep_steps; assumption)

lemma keep_complete:
  assumes "V run r" and "own_pull_request p run r pr"
  shows "keeps_act Q (completePullRequest p cd run side pr idempotent now)"
  unfolding completePullRequest_def
  by (auto intro!: keep_rules keep_failure keep_finish_effect keep_steps on_observed assms split: option.split)

lemma open_new_wp:
  assumes "V run r" and "P x" and "has_intent (run_ID run) ''open_pull_request'' (run_CandidateHead run) (wd_store x)"
    and "pb_Inspect p (run_ID run) x = Inr i" and "in_PullRequest i = None"
  shows "wp (open_new p cd run side r now) (\<lambda>_. Q) (\<lambda>_. Q) x"
proof -
  let ?y = "snd (outside (pb_Open p r) x)"
  have q: "Q ?y" by (rule on_open [OF assms])
  have complete: "wp (completePullRequest p cd run side pr idempotent now) (\<lambda>_. Q) (\<lambda>_. Q) ?y"
    if "fst (pb_Open p r (wd_outside x)) = Inr pr" "validateOpenedPullRequest pr r = None" for side pr idempotent
    by (rule wp_keeps [OF keep_complete [OF assms(1)] q]) (use that in \<open>auto simp: own_pull_request_def\<close>)
  show ?thesis
    unfolding open_new_def
    using wp_keeps [OF keep_failure q] wp_keeps [OF keep_conflict [OF assms(1)] q] complete
    by (simp add: wp_simps split: sum.split option.split)
qed

lemma open_under_intent_wp:
  assumes "V run r" and "P x"
  shows "wp (open_under_intent p cd run r now) (\<lambda>_. Q) (\<lambda>_. Q) x"
proof -
  let ?x1 = "snd (on_store (BeginSideEffect (open_intent cd run r) now) x)"
  have p1: "P ?x1" by (rule on_begin [OF assms(2)])
  note q1 = start [OF p1]
  have intent: "has_intent (run_ID run) ''open_pull_request'' (run_CandidateHead run) (wd_store ?x1)"
    if "fst (BeginSideEffect (open_intent cd run r) now (wd_store x)) = Inr (side, fresh)" for side fresh
    using BeginSideEffect_intent(1) [of "open_intent cd run r" now "wd_store x" side fresh] that
    by (cases "BeginSideEffect (open_intent cd run r) now (wd_store x)") (simp add: open_intent_def)
  have complete: "wp (completePullRequest p cd run side pr True now) (\<lambda>_. Q) (\<lambda>_. Q) ?x1"
    if "pb_Inspect p (run_ID run) ?x1 = Inr i" "in_PullRequest i = Some pr" "validateRetainedOwnedPullRequest pr run = None"
    for side pr i
    by (rule wp_keeps [OF keep_complete [OF assms(1)] q1]) (use that in \<open>auto simp: own_pull_request_def\<close>)
  have conflict: "wp (rejectPullRequestConflict run side category cause now) (\<lambda>_. Q) (\<lambda>_. Q) ?x1" for side category cause
    using keep_conflict [OF assms(1)] q1 by (rule wp_keeps)
  show ?thesis
    unfolding open_under_intent_def
    by (auto simp: wp_simps q1 conflict intro: complete open_new_wp [OF assms(1) p1 intent] split: sum.split option.split)
qed

lemma open_act_wp:
  assumes r: "pb_Revalidate p c x = (res, x1)" and "P x1" and id: "\<And>run. res = Inr run \<Longrightarrow> run_ID run = rid"
    and v: "\<And>run r. openable p c now x run r \<Longrightarrow> V run r"
  shows "wp (open_act p cd c now) (\<lambda>_. Q) (\<lambda>_. Q) x"
proof (cases res)
  case (Inl e)
  with r start [OF assms(2)] show ?thesis by (simp add: open_act_def wp_simps)
next
  case (Inr run)
  obtain action reason where a: "productionNextAction (run_State run) = (action, reason)" by fastforce
  let ?enter = "Transition (run_ID run) StateBranchPushed StateOpeningPR ''persist pull request intent''
      ''exact pushed candidate'' (run_CandidateHead run) now"
  have p2: "P (snd (on_store ?enter x1))" using on_enter [OF assms(2)] id [OF Inr] by simp
  have state: "run_State run = StateBranchPushed \<or> run_State run = StateOpeningPR" if "action = ProductionOpenPullRequest"
    using a that by (cases "run_State run") simp_all
  have entered: "wp (open_under_intent p cd again q now) (\<lambda>_. Q) (\<lambda>_. Q) (snd (on_store ?enter x1))"
    if "pb_ApprovalReady p (run_ID run) x1 = None" "pullRequestIntent p run = Inr q" "run_State run = StateBranchPushed"
      "GetRun (run_ID run) (snd (on_store ?enter x1)) = Inr again" for again q
    by (rule open_under_intent_wp [OF v p2]) (use that r Inr in \<open>simp add: openable_def\<close>)
  have entered_before: "wp (open_under_intent p cd run q now) (\<lambda>_. Q) (\<lambda>_. Q) x1"
    if "pb_ApprovalReady p (run_ID run) x1 = None" "pullRequestIntent p run = Inr q" "run_State run = StateOpeningPR" for q
    by (rule open_under_intent_wp [OF v assms(2)]) (use that r Inr in \<open>simp add: openable_def\<close>)
  show ?thesis
    unfolding open_act_def enter_state_def
    using state by (auto simp: wp_simps r Inr a start [OF assms(2)] start [OF p2] entered entered_before
        simp del: productionNextAction.simps split: option.split sum.split)
qed

end

lemma pullRequestIntent_logged [simp]: "pullRequestIntent (logged_publish p) run = pullRequestIntent p run"
proof -
  have "pb_Task (logged_publish p) = pb_Task p" "pb_ReviewModel (logged_publish p) = pb_ReviewModel p"
    by (simp_all add: logged_publish_def)
  then show ?thesis by (simp only: pullRequestIntent_def)
qed

lemma openable_logged [simp]: "openable (logged_publish p) c now (with_log l x) run r = openable p c now x run r"
proof -
  have "pb_Revalidate (logged_publish p) c (with_log l x) =
      (fst (pb_Revalidate p c x), with_log l (snd (pb_Revalidate p c x)))"
    by (simp add: logged_publish_def case_prod_beta)
  moreover have "pb_ApprovalReady (logged_publish p) i (with_log l y) = pb_ApprovalReady p i y" for i y
    by (simp add: logged_publish_def)
  ultimately show ?thesis
    by (cases "pb_Revalidate p c x") (auto simp: openable_def GetRun_def)
qed

definition opened_once ::
  "(run_row \<Rightarrow> open_request \<Rightarrow> bool) \<Rightarrow> 'w publish_ports \<Rightarrow> ('w \<times> publish_call list) world \<Rightarrow> bool" where
  "opened_once V p y \<longleftrightarrow>
     publish_log y = [] \<or>
     (\<exists>run r. V run r \<and> publish_log y = [Opened r] \<and>
        has_intent (run_ID run) ''open_pull_request'' (run_CandidateHead run) (wd_store y) \<and>
        (\<exists>i z. pb_Inspect p (run_ID run) z = Inr i \<and> in_PullRequest i = None))"

lemma opened_once_same:
  "opened_once V p x \<Longrightarrow> publish_log y = publish_log x \<Longrightarrow>
     (\<And>i k h. has_intent i k h (wd_store y) = has_intent i k h (wd_store x)) \<Longrightarrow> opened_once V p y"
  by (simp add: opened_once_def)

interpretation open_log: open_observer "\<lambda>y. publish_log y = []" "opened_once V p" V rid "logged_publish p" for V rid p
proof unfold_locales
  fix run r i and x :: "('a \<times> publish_call list) world"
  let ?y = "snd (outside (pb_Open (logged_publish p) r) x)"
  assume v: "V run r" "publish_log x = []"
    "has_intent (run_ID run) ''open_pull_request'' (run_CandidateHead run) (wd_store x)"
    "pb_Inspect (logged_publish p) (run_ID run) x = Inr i" "in_PullRequest i = None"
  have "publish_log ?y = Opened r # publish_log x" by (simp add: logged_publish_def)
  moreover have "pb_Inspect p (run_ID run) (plain x) = Inr i" using v(4) by (simp add: logged_publish_def)
  ultimately show "opened_once V p ?y" using v(1,2,3,5) unfolding opened_once_def by auto
qed (auto simp: opened_once_def [where y = x for x] logged_publish_def elim!: opened_once_same)

text \<open>C13: A call of \<open>OpenPullRequest\<close> asks GitHub at most once to open a pull request, and only for a run that
  admission returned in the state of a pushed branch, with its local evidence ready and without a stored pull
  request; the request is the intent built from the row that was admitted, its body carries the run's key and
  its digest, and the intent of the run is in the store by then. All ports are arbitrary.\<close>

theorem open_is_gated:
  "let y = snd (OpenPullRequest (logged_publish p) cd c now (with_log [] x)) in
     publish_log y = [] \<or>
     (\<exists>run r. openable p c now x run r \<and> publish_log y = [Opened r] \<and>
        has_intent (run_ID run) ''open_pull_request'' (run_CandidateHead run) (wd_store y) \<and>
        (\<exists>i z. pb_Inspect p (run_ID run) z = Inr i \<and> in_PullRequest i = None))"
proof -
  let ?p = "logged_publish p" and ?V = "openable p c now x"
  obtain res x1 where r: "pb_Revalidate p c x = (res, x1)" by fastforce
  then have lr: "pb_Revalidate ?p c (with_log [] x) = (res, with_log [] x1)" by (simp add: logged_publish_def)
  have "wp (open_act ?p cd c now) (\<lambda>_. opened_once ?V p) (\<lambda>_. opened_once ?V p) (with_log [] x)"
    by (rule open_log.open_act_wp [OF lr, where rid = "run_ID (projr res)"]) auto
  from method_wp_snd [OF this] have "opened_once ?V p (snd (OpenPullRequest ?p cd c now (with_log [] x)))"
    by (rule opened_once_same) (simp_all add: OpenPullRequest_def case_prod_beta)
  then show ?thesis unfolding opened_once_def Let_def .
qed

section \<open>Where opening leaves a run\<close>

lemma open_observer_moves:
  fixes p :: "'w publish_ports" and s0 :: store and rid :: string and V :: "run_row \<Rightarrow> open_request \<Rightarrow> bool"
  assumes "\<And>run r. V run r \<Longrightarrow> run_ID run = rid"
  defines "R \<equiv> \<lambda>y :: 'w world. stage_moved StateBranchPushed StateOpeningPR StatePROpen s0 rid
    (\<exists>run r pr. V run r \<and> own_pull_request p run r pr) (wd_store y)"
  shows "open_observer R R V rid p"
proof unfold_locales
  fix run r pr and x :: "'w world" and reason ev head now
  assume "V run r" and "own_pull_request p run r pr" and "R x"
  then have "\<exists>run r pr. V run r \<and> own_pull_request p run r pr" by blast
  with \<open>R x\<close> assms(1) [OF \<open>V run r\<close>]
  show "R (snd (on_store (Transition (run_ID run) StateOpeningPR StatePROpen reason ev head now) x))"
    unfolding R_def by (auto intro!: stage_moved_transition)
next
  fix run r and x :: "'w world" and reason ev head now
  assume "V run r" and "R x"
  with assms(1) [OF \<open>V run r\<close>]
  show "R (snd (on_store (Transition (run_ID run) StateOpeningPR StateManualIntervention reason ev head now) x))"
    unfolding R_def by (auto intro!: stage_moved_transition)
next
  fix x :: "'w world" and reason ev head now
  assume "R x"
  then show "R (snd (on_store (Transition rid StateBranchPushed StateOpeningPR reason ev head now) x))"
    unfolding R_def by (auto intro!: stage_moved_transition)
qed (auto simp: R_def elim!: stage_moved_same)


end
