(* ===== verification/Linear_Completion.thy ===== *)
theory Linear_Completion
  imports Publish
begin

text \<open>
  The wait for Linear: \<open>ReconcileLinearCompletion\<close> of \<open>application/linear_completion.go\<close>. A merged run waits until
  Linear itself completes the issue; each call reads the issue once, stores what it saw, and the run is cleaned up
  only when Linear completed exactly its issue after the merge. The table of observations is modelled; the
  reader, the sealed source of the run, RFC 3339 and the other tables are ports.
\<close>

section \<open>Observations\<close>

text \<open>The fields of \<open>LinearTaskSource\<close> the wait reads.\<close>

record linear_source =
  ls_Provider :: string
  ls_IssueID :: string
  ls_Identifier :: string
  ls_TeamKey :: string
  ls_StateID :: string
  ls_StateName :: string
  ls_StateType :: string
  ls_SourceRevision :: string
  ls_UpdatedAt :: time
  ls_ObservedAt :: time

record completion_observation =
  lo_RunID :: string
  lo_MergeSHA :: string
  lo_IssueID :: string
  lo_Identifier :: string
  lo_SourceRevision :: string
  lo_StateID :: string
  lo_StateName :: string
  lo_StateType :: string
  lo_Status :: string
  lo_ErrorClass :: string
  lo_ObservedAt :: time

text \<open>The table of observations beside everything else.\<close>

record 'w linear_tables =
  lt_Observations :: "completion_observation list"
  lt_Rest :: 'w

record completion_result =
  lr_Action :: production_action
  lr_Run :: run_row
  lr_Status :: string
  lr_Observations :: nat

type_synonym completion_outcome = "completion_result option \<times> go_error option"

text \<open>\<open>lc_Read\<close> returns the error classes of its requests beside the source or its error; \<open>lc_SaveRequests\<close> stores
  the requests of that call.\<close>

record 'w completion_ports =
  lc_Encode :: scope_encoder
  lc_Decode :: frozen_decoder
  lc_Inspect :: "string \<Rightarrow> 'w linear_tables world \<Rightarrow> inspection result"
  lc_SealedIssue :: "run_row \<Rightarrow> string result"
  lc_Read :: "string \<Rightarrow> 'w \<Rightarrow> (linear_source result \<times> string list) \<times> 'w"
  lc_SaveRequests :: "string \<Rightarrow> string list \<Rightarrow> 'w \<Rightarrow> go_error option \<times> 'w"
  lc_Format :: "time \<Rightarrow> string"
  lc_Parse :: "string \<Rightarrow> time option"
  lc_manual_event :: "run_row \<Rightarrow> transition_row \<Rightarrow> attention_event result"
  lc_Append :: "attention_event \<Rightarrow> 'w \<Rightarrow> go_error option \<times> 'w"

definition MaxLinearCompletionObservations :: nat where
  "MaxLinearCompletionObservations = 10"

definition observations_of :: "string \<Rightarrow> 'w linear_tables world \<Rightarrow> completion_observation list" where
  "observations_of i x = filter (\<lambda>ob. lo_RunID ob = i) (lt_Observations (wd_outside x))"

definition SaveLinearCompletionObservation ::
  "completion_observation \<Rightarrow> 'w linear_tables world \<Rightarrow> go_error option \<times> 'w linear_tables world" where
  "SaveLinearCompletionObservation ob x =
     (if lo_RunID ob = [] \<or> lo_MergeSHA ob = [] \<or> lo_Identifier ob = [] \<or> lo_Status ob = [] \<or> is_zero_time (lo_ObservedAt ob)
      then (Some (New ''incomplete Linear completion observation''), x)
      else if find_run (wd_store x) (lo_RunID ob) = None then (Some (New ''FOREIGN KEY constraint failed''), x)
      else (None, x\<lparr>wd_outside := (wd_outside x)\<lparr>lt_Observations := lt_Observations (wd_outside x) @ [ob]\<rparr>\<rparr>))"

text \<open>A port of the rest, run beside the table.\<close>

definition beside :: "('w \<Rightarrow> 'a \<times> 'w) \<Rightarrow> 'w linear_tables \<Rightarrow> 'a \<times> 'w linear_tables" where
  "beside f t = (case f (lt_Rest t) of (a, w) \<Rightarrow> (a, t\<lparr>lt_Rest := w\<rparr>))"

section \<open>The verdict\<close>

definition classifyLinearCompletion ::
  "'w completion_ports \<Rightarrow> run_row \<Rightarrow> merge_record \<Rightarrow> string \<Rightarrow> linear_source \<Rightarrow> string \<times> string" where
  "classifyLinearCompletion p run merge expected source =
     (if ls_Provider source \<noteq> ''linear'' \<or> ls_Identifier source \<noteq> run_IssueID run \<or> ls_IssueID source \<noteq> expected \<or>
         ls_TeamKey source \<noteq> ''IFAN'' \<or> blank (ls_SourceRevision source) \<or> is_zero_time (ls_UpdatedAt source) \<or>
         is_zero_time (ls_ObservedAt source) \<or> ls_SourceRevision source \<noteq> lc_Format p (ls_UpdatedAt source)
      then (''invalid'', ''Linear completion identity, team, or source revision policy is invalid'')
      else if (case lc_Parse p (run_SourceRevision run) of None \<Rightarrow> False | Some baseline \<Rightarrow> ls_UpdatedAt source < baseline)
      then (''invalid'', ''Linear completion source revision regressed'')
      else
        let kind = to_lower (trim_space (ls_StateType source)) in
        if kind = ''completed''
        then (if ls_UpdatedAt source \<le> mr_MergedAt merge
              then (''invalid'', ''Linear completed state predates the GitHub merge'')
              else (''completed'', ''Linear completion observed after GitHub merge''))
        else if kind = ''canceled'' \<or> kind = ''cancelled''
        then (''canceled'', ''Linear issue was canceled after GitHub merge'')
        else if kind = ''backlog'' \<or> kind = ''unstarted'' \<or> kind = ''started''
        then (''pending'', ''Linear automation has not completed the issue yet'')
        else (''invalid'', ''Linear completion state is ambiguous''))"

text \<open>Where an observation takes the run: its status as stored, the state, the next action and the reason.\<close>

definition completion_target :: "string \<Rightarrow> nat \<Rightarrow> string \<Rightarrow> (string \<times> state \<times> production_action \<times> string) result" where
  "completion_target status number reason =
     (if status = ''completed'' then Inr (status, StateCleaning, ProductionStop, reason)
      else if status = ''pending''
      then (if number \<ge> MaxLinearCompletionObservations
            then Inr (''timeout'', StateManualIntervention, ProductionStop, ''Linear completion observation limit reached'')
            else Inr (status, StateAwaitingLinearCompletion, ProductionReconcileLinear, reason))
      else if status \<in> {''canceled'', ''invalid'', ''error'', ''timeout''}
      then Inr (status, StateManualIntervention, ProductionStop, reason)
      else Inl (ServiceErr ErrorInternal ''unknown Linear completion observation status'' (Some (New status))))"

definition finishLinearCompletion ::
  "run_row \<Rightarrow> completion_observation \<Rightarrow> nat \<Rightarrow> string \<Rightarrow> time \<Rightarrow>
     ('w linear_tables world, completion_outcome, completion_outcome) act" where
  "finishLinearCompletion run ob number reason now =
     seq (the_value stopped (completion_target (lo_Status ob) number reason)) (\<lambda>(status, dst, action, why).
     seq (check_error stopped_service (SaveLinearCompletionObservation (ob\<lparr>lo_Status := status\<rparr>))) (\<lambda>_.
     seq (if dst = run_State run then give ()
          else check_error stopped_service (on_store (Transition (run_ID run) (run_State run) dst why
                 (''linear_completion:'' @ status) (run_CandidateHead run) now))) (\<lambda>_.
     seq (seq (look (GetRun (run_ID run))) (the_value stopped_service)) (\<lambda>next_run.
     give (Some \<lparr>lr_Action = action, lr_Run = next_run, lr_Status = status, lr_Observations = number\<rparr>, None)))))"

definition linearCompletionErrorClass :: "string list \<Rightarrow> string" where
  "linearCompletionErrorClass classes =
     (case find (\<lambda>c. c \<noteq> []) (rev classes) of Some c \<Rightarrow> c | None \<Rightarrow> ''read_issue'')"

definition observation_for :: "run_row \<Rightarrow> merge_record \<Rightarrow> time \<Rightarrow> completion_observation" where
  "observation_for run merge now =
     \<lparr>lo_RunID = run_ID run, lo_MergeSHA = mr_MergeSHA merge, lo_IssueID = [], lo_Identifier = run_IssueID run,
      lo_SourceRevision = [], lo_StateID = [], lo_StateName = [], lo_StateType = [], lo_Status = [], lo_ErrorClass = [],
      lo_ObservedAt = now\<rparr>"

definition observed_source :: "completion_observation \<Rightarrow> linear_source \<Rightarrow> string \<Rightarrow> completion_observation" where
  "observed_source ob source status =
     ob\<lparr>lo_IssueID := ls_IssueID source, lo_SourceRevision := ls_SourceRevision source, lo_StateID := ls_StateID source,
       lo_StateName := ls_StateName source, lo_StateType := ls_StateType source, lo_Status := status\<rparr>"

section \<open>One observation\<close>

definition observe_completion ::
  "'w completion_ports \<Rightarrow> run_row \<Rightarrow> merge_record \<Rightarrow> time \<Rightarrow>
     ('w linear_tables world, completion_outcome, completion_outcome) act" where
  "observe_completion p run merge now =
     seq (look (observations_of (run_ID run))) (\<lambda>before.
     let number = length before; ob = observation_for run merge now in
     case lc_SealedIssue p run of
       Inl _ \<Rightarrow> finishLinearCompletion run (ob\<lparr>lo_Status := ''invalid'', lo_ErrorClass := ''persisted_identity''\<rparr>) (number + 1)
                  ''persisted Linear issue identity is invalid'' now
     | Inr expected \<Rightarrow>
     (if number \<ge> MaxLinearCompletionObservations
      then finishLinearCompletion run (ob\<lparr>lo_Status := ''timeout''\<rparr>) (number + 1)
             ''Linear completion observation limit reached'' now
      else
        seq (perform (outside (beside (lc_Read p (run_IssueID run))))) (\<lambda>(answer, classes).
        seq (check_error stopped_service (outside (beside (lc_SaveRequests p (run_ID run) classes)))) (\<lambda>_.
        case answer of
          Inl _ \<Rightarrow> finishLinearCompletion run
                     (ob\<lparr>lo_Status := ''error'', lo_ErrorClass := linearCompletionErrorClass classes\<rparr>) (number + 1)
                     ''Linear completion read failed; operator intervention is required'' now
        | Inr source \<Rightarrow>
            (case classifyLinearCompletion p run merge expected source of (status, reason) \<Rightarrow>
               finishLinearCompletion run (observed_source ob source status) (number + 1) reason now)))))"

definition merge_evidenced :: "run_row \<Rightarrow> merge_record \<Rightarrow> bool" where
  "merge_evidenced run merge \<longleftrightarrow>
     mr_RunID merge = run_ID run \<and> \<not> blank (mr_MergeSHA merge) \<and> \<not> is_zero_time (mr_MergedAt merge)"

definition reconcile_linear ::
  "'w completion_ports \<Rightarrow> production_command \<Rightarrow> time \<Rightarrow>
     ('w linear_tables world, completion_outcome, completion_outcome) act" where
  "reconcile_linear p c now =
     seq (unless (pc_RunID c \<noteq> [] \<and> pc_Repository c \<noteq> [] \<and> pc_ExpectedState c \<noteq> StateOther [] \<and> pc_IdempotencyKey c \<noteq> [])
            (stopped (ServiceErr ErrorInvalidInput
               ''run, expected state, repository, and idempotency key are required'' None))) (\<lambda>_.
     seq (seq (look (GetRun (pc_RunID c))) (the_value stopped_service)) (\<lambda>run.
     seq (unless (run_Repository run = pc_Repository c \<and> run_State run = pc_ExpectedState c \<and>
              run_IdempotencyKey run = pc_IdempotencyKey c)
            (stopped (ServiceErr ErrorConflict
               ''run authority or state changed before Linear completion reconciliation'' None))) (\<lambda>_.
     seq (no_error stopped (authorizePersistedRequester (lc_Encode p) (lc_Decode p) run (pc_Requester c))) (\<lambda>_.
     let (action, reason) = productionNextAction (run_State run) in
     seq (unless (action = ProductionReconcileLinear)
            (Some \<lparr>lr_Action = action, lr_Run = run, lr_Status = [], lr_Observations = 0\<rparr>,
             Some (ServiceErr ErrorConflict reason None))) (\<lambda>_.
     seq (seq (look (lc_Inspect p (run_ID run))) (the_value stopped_service)) (\<lambda>i.
     case in_Merge i of
       None \<Rightarrow> return_with (stopped (ServiceErr ErrorConflict ''exact persisted GitHub merge evidence is required'' None))
     | Some merge \<Rightarrow>
         (if merge_evidenced run merge then observe_completion p run merge now
          else return_with (stopped (ServiceErr ErrorConflict
                 ''exact persisted GitHub merge evidence is required'' None)))))))))"

definition ReconcileLinearCompletion ::
  "'w completion_ports \<Rightarrow> production_command \<Rightarrow> time \<Rightarrow> 'w linear_tables world \<Rightarrow>
     completion_outcome \<times> 'w linear_tables world" where
  "ReconcileLinearCompletion p c now x =
     (case run_method (reconcile_linear p c now) x of
        (out, y) \<Rightarrow> publish_manual (lc_Inspect p) (lc_manual_event p) (\<lambda>ae. beside (lc_Append p ae)) (pc_RunID c) out y)"

section \<open>What one call does\<close>

text \<open>Linear completed exactly the issue of the run, after the merge.\<close>

definition completed_after_merge :: "'w completion_ports \<Rightarrow> run_row \<Rightarrow> merge_record \<Rightarrow> linear_source \<Rightarrow> bool" where
  "completed_after_merge p run merge source \<longleftrightarrow>
     ls_Provider source = ''linear'' \<and> ls_Identifier source = run_IssueID run \<and> lc_SealedIssue p run = Inr (ls_IssueID source) \<and>
     ls_TeamKey source = ''IFAN'' \<and> to_lower (trim_space (ls_StateType source)) = ''completed'' \<and>
     ls_UpdatedAt source > mr_MergedAt merge \<and>
     (case lc_Parse p (run_SourceRevision run) of None \<Rightarrow> True | Some baseline \<Rightarrow> baseline \<le> ls_UpdatedAt source)"

lemma classified_completed:
  "lc_SealedIssue p run = Inr expected \<Longrightarrow> fst (classifyLinearCompletion p run merge expected source) = ''completed'' \<Longrightarrow>
     completed_after_merge p run merge source"
  by (auto simp: classifyLinearCompletion_def completed_after_merge_def Let_def split: if_splits option.splits)

abbreviation observations :: "'w linear_tables world \<Rightarrow> completion_observation list" where
  "observations x \<equiv> lt_Observations (wd_outside x)"

text \<open>The effects of recording an observation: the run waits on, the call fails, or the run is stopped or cleaned up.\<close>

definition finished ::
  "run_row \<Rightarrow> completion_observation \<Rightarrow> nat \<Rightarrow> 'w linear_tables world \<Rightarrow> completion_outcome \<Rightarrow> 'w linear_tables world \<Rightarrow>
     bool" where
  "finished run ob number x out y \<longleftrightarrow>
     runs_of (wd_store y) = runs_of (wd_store x) \<and> observations y = observations x \<or>
     (\<exists>status. observations y = observations x @ [ob\<lparr>lo_Status := status\<rparr>] \<and>
        (runs_of (wd_store y) = runs_of (wd_store x) \<and>
           (status = ''pending'' \<and> number < MaxLinearCompletionObservations \<or> (\<exists>e. snd out = Some e)) \<or>
         runs_of (wd_store y) = (runs_of (wd_store x))(run_ID run \<mapsto> StateManualIntervention) \<or>
         runs_of (wd_store y) = (runs_of (wd_store x))(run_ID run \<mapsto> StateCleaning) \<and>
           status = ''completed'' \<and> lo_Status ob = ''completed''))"

lemma finishedI:
  assumes "observations y = observations x @ [ob\<lparr>lo_Status := status\<rparr>]"
    and "runs_of (wd_store y) = runs_of (wd_store x) \<and>
           (status = ''pending'' \<and> number < MaxLinearCompletionObservations \<or> (\<exists>e. snd out = Some e)) \<or>
         runs_of (wd_store y) = (runs_of (wd_store x))(run_ID run \<mapsto> StateManualIntervention) \<or>
         runs_of (wd_store y) = (runs_of (wd_store x))(run_ID run \<mapsto> StateCleaning) \<and>
           status = ''completed'' \<and> lo_Status ob = ''completed''"
  shows "finished run ob number x out y"
  unfolding finished_def using assms by blast

lemma leave_wait:
  assumes "runs_of s i = Some a" and "a \<noteq> b"
  shows "(\<exists>e. fst (Transition i a b reason ev head now s) = Some e) \<and> snd (Transition i a b reason ev head now s) = s \<or>
    fst (Transition i a b reason ev head now s) = None \<and>
    runs_of (snd (Transition i a b reason ev head now s)) = (runs_of s)(i \<mapsto> b)"
proof -
  obtain res t where t: "Transition i a b reason ev head now s = (res, t)" by fastforce
  then show ?thesis by (cases rule: Transition_result) (use assms t in auto)
qed

lemma save_observation:
  "wd_store (snd (SaveLinearCompletionObservation ob x)) = wd_store x"
  "fst (SaveLinearCompletionObservation ob x) = None \<Longrightarrow>
     observations (snd (SaveLinearCompletionObservation ob x)) = observations x @ [ob]"
  "fst (SaveLinearCompletionObservation ob x) = Some e \<Longrightarrow> snd (SaveLinearCompletionObservation ob x) = x"
  by (auto simp: SaveLinearCompletionObservation_def split: if_splits)

lemma finish_wp:
  assumes run: "run_State run = StateAwaitingLinearCompletion" "runs_of (wd_store x) (run_ID run) = Some StateAwaitingLinearCompletion"
  shows "wp (finishLinearCompletion run ob number reason now) (finished run ob number x) (finished run ob number x) x"
proof (cases "completion_target (lo_Status ob) number reason")
  case (Inl e)
  then show ?thesis by (simp add: finishLinearCompletion_def wp_simps finished_def)
next
  case (Inr target)
  obtain status dst action why where t: "target = (status, dst, action, why)" by (cases target) auto
  let ?x1 = "snd (SaveLinearCompletionObservation (ob\<lparr>lo_Status := status\<rparr>) x)"
  let ?step = "Transition (run_ID run) StateAwaitingLinearCompletion dst why (''linear_completion:'' @ status)
      (run_CandidateHead run) now (wd_store x)"
  have kinds: "status = ''pending'' \<and> number < MaxLinearCompletionObservations \<and> dst = StateAwaitingLinearCompletion \<or>
      dst = StateManualIntervention \<or> dst = StateCleaning \<and> status = ''completed'' \<and> lo_Status ob = ''completed''"
    using Inr t by (auto simp: completion_target_def split: if_splits)
  have failed: "finished run ob number x (stopped_service e) x" for e by (simp add: finished_def)
  show ?thesis
  proof (cases "fst (SaveLinearCompletionObservation (ob\<lparr>lo_Status := status\<rparr>) x)")
    case (Some e)
    then show ?thesis
      using failed save_observation(3) [OF Some] by (simp add: finishLinearCompletion_def wp_simps Inr t)
  next
    case None
    have saved: "wd_store ?x1 = wd_store x" "observations ?x1 = observations x @ [ob\<lparr>lo_Status := status\<rparr>]"
      by (rule save_observation(1), rule save_observation(2) [OF None])
    show ?thesis
    proof (cases "dst = StateAwaitingLinearCompletion")
      case True
      with kinds have "finished run ob number x out ?x1" for out
        by (intro finishedI [where status = status]) (use saved in auto)
      with True show ?thesis
        by (simp add: finishLinearCompletion_def wp_simps Inr t None run split: sum.split)
    next
      case False
      with kinds have dst: "dst = StateManualIntervention \<or> dst = StateCleaning \<and> status = ''completed'' \<and> lo_Status ob = ''completed''"
        by blast
      note step = leave_wait [OF run(2) False [symmetric], of why "''linear_completion:'' @ status" "run_CandidateHead run" now]
      have lost: "finished run ob number x (stopped_service e) (snd (on_store (\<lambda>s. ?step) ?x1))" if "fst ?step = Some e" for e
        by (intro finishedI [where status = status]) (use step that saved in \<open>auto simp: stopped_service_def stopped_def\<close>)
      have moved: "finished run ob number x out (snd (on_store (\<lambda>s. ?step) ?x1))" if "fst ?step = None" for out
        by (intro finishedI [where status = status]) (use step that saved dst in auto)
      have here: "snd (on_store f ?x1) = snd (on_store (\<lambda>s. f (wd_store x)) ?x1)" for f :: "store \<Rightarrow> go_error option \<times> store"
        by (simp add: on_store_def saved)
      show ?thesis
        unfolding finishLinearCompletion_def
        using False run lost moved
        by (auto simp: wp_simps Inr t None saved here [where f = "Transition i a b r e h n" for i a b r e h n]
            split: sum.split option.split)
    qed
  qed
qed

text \<open>What a call recorded: an observation of its run and merge, and for a completion the source that shows it.\<close>

definition completion_step ::
  "'w completion_ports \<Rightarrow> run_row \<Rightarrow> merge_record \<Rightarrow> 'w linear_tables world \<Rightarrow> completion_outcome \<Rightarrow>
     'w linear_tables world \<Rightarrow> bool" where
  "completion_step p run merge x out y \<longleftrightarrow>
     (\<exists>ob. finished run ob (length (observations_of (run_ID run) x) + 1) x out y \<and>
        lo_RunID ob = run_ID run \<and> lo_MergeSHA ob = mr_MergeSHA merge \<and>
        (lo_Status ob = ''completed'' \<longrightarrow>
           (\<exists>source w. fst (fst (lc_Read p (run_IssueID run) w)) = Inr source \<and> completed_after_merge p run merge source)))"

lemma completion_step_same:
  assumes "runs_of (wd_store y) = runs_of (wd_store x)" and "observations y = observations x"
  shows "completion_step p run merge x out y"
proof -
  have "finished run (observation_for run merge 0) n x out y" for n using assms by (simp add: finished_def)
  then show ?thesis unfolding completion_step_def by (intro exI [of _ "observation_for run merge 0"]) (simp add: observation_for_def)
qed

lemma beside_observations [simp]: "lt_Observations (snd (beside f t)) = lt_Observations t"
  by (simp add: beside_def split: prod.split)

lemma finish_after:
  assumes run: "run_State run = StateAwaitingLinearCompletion" "runs_of (wd_store x) (run_ID run) = Some StateAwaitingLinearCompletion"
    and same: "wd_store x' = wd_store x" "observations x' = observations x"
    and ob: "lo_RunID ob = run_ID run" "lo_MergeSHA ob = mr_MergeSHA merge"
      "lo_Status ob = ''completed'' \<Longrightarrow>
         \<exists>source w. fst (fst (lc_Read p (run_IssueID run) w)) = Inr source \<and> completed_after_merge p run merge source"
  shows "wp (finishLinearCompletion run ob (Suc (length (observations_of (run_ID run) x))) reason now)
    (completion_step p run merge x) (completion_step p run merge x) x'"
proof -
  have "runs_of (wd_store x') (run_ID run) = Some StateAwaitingLinearCompletion" by (simp add: same run)
  note finish = finish_wp [OF run(1) this, of ob "Suc (length (observations_of (run_ID run) x))" reason now]
  have step: "completion_step p run merge x out y"
    if "finished run ob (Suc (length (observations_of (run_ID run) x))) x' out y" for out y
    using that same ob unfolding completion_step_def finished_def by (intro exI [of _ ob]) simp
  show ?thesis by (rule wp_mono [OF finish]) (erule step)+
qed

lemma observe_completion_wp:
  assumes run: "run_State run = StateAwaitingLinearCompletion" "runs_of (wd_store x) (run_ID run) = Some StateAwaitingLinearCompletion"
  shows "wp (observe_completion p run merge now) (completion_step p run merge x) (completion_step p run merge x) x"
proof -
  note finish = finish_after [OF run, where p = p and merge = merge and now = now]
  let ?answer = "fst (beside (lc_Read p (run_IssueID run)) (wd_outside x))"
  have answer: "?answer = fst (lc_Read p (run_IssueID run) (lt_Rest (wd_outside x)))"
    by (simp add: beside_def split: prod.split)
  show ?thesis
  proof (cases "lc_SealedIssue p run")
    case (Inl e)
    then show ?thesis
      unfolding observe_completion_def Let_def
      by (simp add: wp_simps) (intro finish refl; simp add: observation_for_def)
  next
    case (Inr expected)
    obtain ans classes w where rd: "beside (lc_Read p (run_IssueID run)) (wd_outside x) = ((ans, classes), w)"
      by (metis surj_pair)
    have ans: "ans = fst (fst (lc_Read p (run_IssueID run) (lt_Rest (wd_outside x))))"
      using answer rd by (metis fst_conv)
    let ?y = "snd (outside (beside (lc_Read p (run_IssueID run))) x)"
    let ?z = "snd (outside (beside (lc_SaveRequests p (run_ID run) classes)) ?y)"
    have failed: "completion_step p run merge x out ?z" for out
      by (rule completion_step_same) simp_all
    have same: "wd_store ?z = wd_store x" "observations ?z = observations x" by simp_all
    have unread: "wp (finishLinearCompletion run (observation_for run merge now\<lparr>lo_Status := ''error'', lo_ErrorClass := cls\<rparr>)
        (Suc (length (observations_of (run_ID run) x))) reason now) (completion_step p run merge x) (completion_step p run merge x) ?z"
      for cls reason by (rule finish [OF same]) (simp_all add: observation_for_def)
    have classified: "wp (finishLinearCompletion run (observed_source (observation_for run merge now) source status)
        (Suc (length (observations_of (run_ID run) x))) reason now) (completion_step p run merge x) (completion_step p run merge x) ?z"
      if "ans = Inr source" "classifyLinearCompletion p run merge expected source = (status, reason)" for source status reason
    proof (rule finish [OF same])
      assume "lo_Status (observed_source (observation_for run merge now) source status) = ''completed''"
      with that(2) have "completed_after_merge p run merge source"
        by (intro classified_completed [OF Inr]) (simp add: observed_source_def)
      with that(1) ans show "\<exists>source w. fst (fst (lc_Read p (run_IssueID run) w)) = Inr source \<and> completed_after_merge p run merge source"
        by metis
    qed (simp_all add: observation_for_def observed_source_def)
    have limit: "wp (finishLinearCompletion run (observation_for run merge now\<lparr>lo_Status := ''timeout''\<rparr>)
        (Suc (length (observations_of (run_ID run) x))) reason now) (completion_step p run merge x) (completion_step p run merge x) x"
      for reason by (rule finish [OF refl refl]) (simp_all add: observation_for_def)
    show ?thesis
      unfolding observe_completion_def Let_def
      by (simp add: wp_simps Inr rd failed unread classified limit split: prod.split sum.split option.split)
  qed
qed

lemma publish_manual_error:
  "snd out = Some e \<Longrightarrow> \<exists>e'. snd (fst (publish_manual inspect event publish i out x)) = Some e'"
  by (auto simp: publish_manual_def Let_def join_error_def split: sum.split option.split prod.split)

lemma completion_step_published:
  assumes "completion_step p run merge x out y" and "publish_manual inspect event publish i out y = (out', y')"
    and "observations y' = observations y"
  shows "completion_step p run merge x out' y'"
proof -
  have store: "wd_store y' = wd_store y" using publish_manual_store [of inspect event publish i out y] assms(2) by simp
  have err: "\<exists>e'. snd out' = Some e'" if "snd out = Some e" for e
    using publish_manual_error [OF that, of inspect event publish i y] assms(2) by simp
  have "finished run ob n x out' y'" if "finished run ob n x out y" for ob n
    using that err unfolding finished_def store assms(3) by blast
  with assms(1) show ?thesis unfolding completion_step_def by blast
qed

lemma publish_manual_observations:
  "observations (snd (publish_manual inspect event (\<lambda>ae. beside (publish ae)) i out x)) = observations x"
  by (auto simp: publish_manual_def Let_def outside_def split: sum.split option.split prod.split)
    (metis beside_observations snd_conv)+


end
