(* ===== verification/Spec2Isabelle.thy ===== *)
theory Spec2Isabelle
  imports Contracts Driver_Trace Merge Github_Evidence Trusted_Feedback Database Repair Reconcile Mergeability Pull_Request Linear_Completion
begin

text \<open>
  A verification of the Agent Loop Controller, the Go program under \<open>src/\<close>. The controller takes
  an issue through coding, verification, review, a pull request, a merge and cleanup, with everything
  it relies on stored in SQLite. The development models the rules it decides by, the store they are
  kept in, and the driver that moves a run from state to state.

  \<^bold>\<open>The parts and how they meet.\<close> The driver (\<open>internal/application/driver.go\<close>) reads a run from the
  store, picks the one action of the run's state and calls a coordinator, which moves the run along
  the state machine of \<open>internal/domain/state.go\<close> by operations of the store
  (\<open>internal/adapters/sqlite/store.go\<close>). Before the actions that reach outside, pure rules of
  \<open>internal/domain\<close> and \<open>internal/application\<close> judge evidence read from GitHub. The scheduler of
  \<open>sqlite/scheduling.go\<close> limits how many runs do heavy work.

  \<^bold>\<open>Theories.\<close>
  \<^item> Prelude: errors, results, the store monad's shape, strings, Go time and the lemmas on lists and
    tables the other theories share; the locales \<open>invariant_system\<close> and its kin for tables and machines.
  \<^item> Run_State: \<open>domain/state.go\<close>. The transition table as code has it, the predicates on states, and
    what every history of allowed transitions has behind a merge, a publication or a completion.
  \<^item> Contracts, Sha256: \<open>domain/contracts.go\<close>. Validation of the documents agents exchange; SHA-256 for
    the digests.
  \<^item> Github_Evidence: \<open>domain/delivery.go\<close>, \<open>domain/github_read.go\<close>. Required checks, delivery,
    review classification, and the human approval that authorizes a merge.
  \<^item> Trusted_Feedback: \<open>domain/trusted_changes_requested.go\<close>, \<open>domain/trusted_review_feedback.go\<close>,
    \<open>domain/review_reply.go\<close>. Which review comments may direct a repair, their drift and lifecycle.
  \<^item> Store_Base, Run_Store, Run_Trail, Database: the tables, one definition per store operation on runs,
    the trail of transitions every reachable store keeps, and the machine of all operations, with its
    refinement of a map from runs to states.
  \<^item> Scheduling: \<open>application/scheduling.go\<close>, \<open>sqlite/scheduling.go\<close>. Slots, permits, capacity, restart.
  \<^item> Side_Effects: intents of external effects and how often each may be started.
  \<^item> Retry: automatic retries, their delays, budget and stored schedules.
  \<^item> Authorization: \<open>domain/authorization.go\<close>, \<open>application/authorization.go\<close>. Who may see and act on
    a run, from the authority frozen when the run was created.
  \<^item> Attention: \<open>application/operator_attention.go\<close>. Events that ask an operator to act.
  \<^item> CI_Wait: \<open>sqlite/ci_wait.go\<close> and its reconciliation in the driver.
  \<^item> Driver: \<open>application/driver.go\<close>. \<open>Drive\<close> as a loop over one iteration, with the store, the clock,
    the coordinator and the publisher behind a record of ports.
  \<^item> Driver_Trace: the same driver with its ports logged, and what every log shows.

  \<^item> Merge_Gate: the pure rules of a squash merge in \<open>application/merge.go\<close>: authority, the gates of a fresh
    reading, and the comparison of the conversation a rejected merge waits for.
  \<^item> Coordinator: methods with early returns over a world (store, merges, outside), their weakest
    preconditions, and what the store operations they use do to states and intents.
  \<^item> Merge: \<open>MergePullRequest\<close>, from admission to the recorded merge, and what every call guarantees.
  \<^item> Repair: \<open>application/repair.go\<close>. Which findings a repair is given, and its deadline.
  \<^item> Reconcile: \<open>ReconcileFromGitHub\<close> of \<open>application/services.go\<close>: the lease, the reading, the decision
    and what is saved with it; where a run may move, and that the lease is given back.
  \<^item> Mergeability: the wait of \<open>merge.go\<close> after a merge GitHub rejected, and \<open>ReconcileGitHub\<close> of
    \<open>application/production.go\<close>, which joins it with Reconcile; the two readings that open the way to a merge.
  \<^item> Publish, Pull_Request: \<open>Push\<close> and \<open>OpenPullRequest\<close> of \<open>push.go\<close> and \<open>pull_request.go\<close>. At most one
    write per call, under a stored intent, and when the run counts as published.
  \<^item> Linear_Completion: \<open>ReconcileLinearCompletion\<close> of \<open>linear_completion.go\<close>, its table of observations
    and what cleaning up a run requires.

  \<^bold>\<open>How code is rendered.\<close> A Go error that is nil is \<open>None\<close>; a pair of value and error is a sum; a store
  operation maps a store to a result and a store, and one that fails leaves the store it was given, as
  its transaction does. Structs are records, string enums are datatypes with a case for any other
  string. \<open>time.Now\<close> is an argument; times are integers in nanoseconds with 0 for the zero time. Where
  Go ranges over a map or SQL leaves an order open, the order is a parameter. Integers that can leave
  64 bits in the code (retry delays, the action counter of the driver) wrap in the model.
  Strings are lists of characters; case is folded for ASCII only. JSON encoders and decoders and
  everything outside the repository are parameters, with the laws the code relies on as hypotheses.

  \<^bold>\<open>Loops.\<close> \<open>Drive\<close> may run for ever, so it is \<open>while_option\<close>, and that it returns once its context ends is
  a theorem (\<open>drive_returns\<close>). The other loops recurse on their data or have a measure.

  \<^bold>\<open>Not modelled.\<close> The command line, the adapters to git, GitHub, Linear, Codex and processes, SQL
  migrations and integrity checks, read-only views, the configuration, onboarding and removal of
  repositories, and the local upgrade. The driver takes its coordinators as parameters; of these
  the push, the pull request, the reconciliation with GitHub, the merge and the Linear completion are
  modelled, and cleanup, review replies, Linear start and the local controller are not.
\<close>

end
